(* ===== verification/Prelude.thy ===== *)
theory Prelude
  imports Complex_Main
begin

text \<open>
  Shared vocabulary of the development: decimal rounding as the JavaScript code does it
  (\<open>Math.round\<close>, \<open>toFixed\<close>, \<open>Prisma.Decimal\<close> columns), results with errors as sums, and
  list-backed tables with their lookup and update laws.

  Finite JavaScript numbers are exact rationals here: binary rounding of IEEE doubles is not
  modelled, the rounding the program asks for (\<open>toFixed\<close>, \<open>Math.round\<close>, decimal columns) is.
\<close>

named_theorems decimal_simps \<open>rounding facts for decimal columns\<close>
named_theorems table_simps \<open>lookup after update on list-backed tables\<close>

section \<open>Money\<close>

type_synonym money = rat
type_synonym timestamp = int
type_synonym ident = string

text \<open>\<open>Math.round\<close>: the nearest integer, ties towards plus infinity.\<close>

definition js_round :: "rat \<Rightarrow> int" where
  "js_round x = \<lfloor>x + 1 / 2\<rfloor>"

text \<open>
  \<open>Number(x.toFixed(d))\<close>: the nearest multiple of \<open>10\<^sup>-\<^sup>d\<close>, ties away from zero (ECMAScript
  rounds the absolute value and puts the sign back).
\<close>

definition to_fixed :: "nat \<Rightarrow> rat \<Rightarrow> rat" where
  "to_fixed d x =
     (if x < 0 then - (of_int \<lfloor>- x * 10 ^ d + 1 / 2\<rfloor> / 10 ^ d)
      else of_int \<lfloor>x * 10 ^ d + 1 / 2\<rfloor> / 10 ^ d)"

text \<open>\<open>toDecimal\<close> of \<open>lib/utils.ts\<close> and \<open>money.ts\<close>: two decimals, the scale of the money columns.\<close>

definition toDecimal :: "rat \<Rightarrow> money" where
  "toDecimal x = to_fixed 2 x"

text \<open>\<open>decimalToNumber\<close>: a missing value reads as zero.\<close>

definition decimalToNumber :: "money option \<Rightarrow> rat" where
  "decimalToNumber v = (case v of None \<Rightarrow> 0 | Some x \<Rightarrow> x)"

text \<open>A value that a column of scale \<open>d\<close> holds exactly.\<close>

definition on_grid :: "nat \<Rightarrow> rat \<Rightarrow> bool" where
  "on_grid d x \<longleftrightarrow> of_int \<lfloor>x * 10 ^ d\<rfloor> = x * 10 ^ d"

abbreviation cents :: "rat \<Rightarrow> bool" where
  "cents \<equiv> on_grid 2"

lemma on_gridI: "x * 10 ^ d = of_int k \<Longrightarrow> on_grid d x"
  by (simp add: on_grid_def)

lemma on_gridE:
  assumes "on_grid d x"
  obtains k where "x * 10 ^ d = of_int k"
  using assms unfolding on_grid_def by metis

lemma on_grid_0 [simp, intro]: "on_grid d 0"
  by (simp add: on_grid_def)

lemma on_grid_add [intro]:
  assumes "on_grid d x" and "on_grid d y" shows "on_grid d (x + y)"
proof -
  from assms obtain k l where "x * 10 ^ d = of_int k" and "y * 10 ^ d = of_int l"
    by (elim on_gridE) blast
  then have "(x + y) * 10 ^ d = of_int (k + l)" by (simp add: algebra_simps)
  then show ?thesis by (rule on_gridI)
qed

lemma on_grid_minus [intro]:
  assumes "on_grid d x" shows "on_grid d (- x)"
proof -
  from assms obtain k where "x * 10 ^ d = of_int k" by (elim on_gridE)
  then have "- x * 10 ^ d = of_int (- k)" by simp
  then show ?thesis by (rule on_gridI)
qed

lemma on_grid_diff [intro]: "on_grid d x \<Longrightarrow> on_grid d y \<Longrightarrow> on_grid d (x - y)"
  using on_grid_add [of d x "- y"] by (simp add: on_grid_minus)

lemma on_grid_of_int [simp, intro]: "on_grid d (of_int k)"
proof (rule on_gridI)
  show "of_int k * 10 ^ d = (of_int (k * 10 ^ d) :: rat)" by simp
qed

lemma on_grid_numeral [simp, intro]: "on_grid d (numeral n)"
  using on_grid_of_int [of d "numeral n"] by simp

lemma on_grid_max [intro]: "on_grid d x \<Longrightarrow> on_grid d y \<Longrightarrow> on_grid d (max x y)"
  by (simp add: max_def)

lemma on_grid_min [intro]: "on_grid d x \<Longrightarrow> on_grid d y \<Longrightarrow> on_grid d (min x y)"
  by (simp add: min_def)

lemma on_grid_mono:
  assumes "on_grid d x" and "d \<le> e" shows "on_grid e x"
proof -
  from assms(1) obtain k where k: "x * 10 ^ d = of_int k" by (elim on_gridE)
  have "x * 10 ^ e = x * 10 ^ d * 10 ^ (e - d)"
    using assms(2) by (simp add: power_add [symmetric])
  also have "\<dots> = of_int (k * 10 ^ (e - d))" by (simp add: k)
  finally show ?thesis by (rule on_gridI)
qed

lemma floor_half_of_int: "\<lfloor>of_int k + 1 / 2 :: rat\<rfloor> = k"
  by (simp add: floor_eq_iff)

lemma to_fixed_grid [decimal_simps]:
  assumes "on_grid d x" shows "to_fixed d x = x"
proof -
  from assms obtain k where k: "x * 10 ^ d = of_int k" by (elim on_gridE)
  have "- x * 10 ^ d = of_int (- k)" using k by simp
  then have "\<lfloor>- x * 10 ^ d + 1 / 2\<rfloor> = - k" by (simp only: floor_half_of_int)
  moreover have "\<lfloor>x * 10 ^ d + 1 / 2\<rfloor> = k" by (simp only: k floor_half_of_int)
  moreover have "x = of_int k / 10 ^ d" using k by (simp add: eq_divide_eq)
  ultimately show ?thesis by (simp add: to_fixed_def)
qed

lemma toDecimal_cents [decimal_simps]: "cents x \<Longrightarrow> toDecimal x = x"
  by (simp add: toDecimal_def to_fixed_grid)

lemma on_grid_divide_power: "on_grid d (of_int k / 10 ^ d)"
  by (rule on_gridI [where k = k]) simp

lemma on_grid_to_fixed [simp, intro]: "on_grid d (to_fixed d x)"
  unfolding to_fixed_def by (auto intro: on_grid_divide_power)

lemma cents_toDecimal [simp, intro]: "cents (toDecimal x)"
  by (simp add: toDecimal_def)

lemma to_fixed_nonneg: "0 \<le> x \<Longrightarrow> 0 \<le> to_fixed d x"
  by (simp add: to_fixed_def)

lemma toDecimal_nonneg: "0 \<le> x \<Longrightarrow> 0 \<le> toDecimal x"
  by (simp add: toDecimal_def to_fixed_nonneg)

lemma round_half_error: "\<bar>of_int \<lfloor>y + 1 / 2\<rfloor> - y\<bar> \<le> (1 / 2 :: rat)"
proof -
  have "of_int \<lfloor>y + 1 / 2\<rfloor> \<le> y + 1 / 2" by (rule of_int_floor_le)
  moreover have "y + 1 / 2 < of_int \<lfloor>y + 1 / 2\<rfloor> + 1" by linarith
  ultimately show ?thesis by linarith
qed

lemma js_round_error: "\<bar>of_int (js_round x) - x\<bar> \<le> 1 / 2"
  unfolding js_round_def by (rule round_half_error)

lemma js_round_of_int [simp]: "js_round (of_int k) = k"
  by (simp add: js_round_def floor_half_of_int)

lemma js_round_0 [simp]: "js_round 0 = 0"
  using js_round_of_int [of 0] by simp

lemma js_round_numeral [simp]: "js_round (numeral n) = numeral n"
  using js_round_of_int [of "numeral n"] by simp

text \<open>Floors of concrete fractions, so that witnesses evaluate by simplification.\<close>

lemma floor_fraction [simp]:
  "\<lfloor>numeral a / numeral b :: rat\<rfloor> = numeral a div numeral b"
  "\<lfloor>1 / numeral b :: rat\<rfloor> = 1 div numeral b"
  "\<lfloor>- (numeral a / numeral b) :: rat\<rfloor> = - numeral a div numeral b"
  "\<lfloor>- (1 / numeral b) :: rat\<rfloor> = - 1 div numeral b"
  using floor_divide_of_int_eq [of "numeral a" "numeral b", where 'a = rat]
    floor_divide_of_int_eq [of 1 "numeral b", where 'a = rat]
    floor_divide_of_int_eq [of "- numeral a" "numeral b", where 'a = rat]
    floor_divide_of_int_eq [of "- 1" "numeral b", where 'a = rat]
  by simp_all

lemma js_round_mono: "x \<le> y \<Longrightarrow> js_round x \<le> js_round y"
  unfolding js_round_def by (rule floor_mono) simp

lemma js_round_nonneg: "0 \<le> x \<Longrightarrow> 0 \<le> js_round x"
  using js_round_mono [of 0 x] by simp

lemma to_fixed_error: "\<bar>to_fixed d x - x\<bar> \<le> 1 / (2 * 10 ^ d)"
proof -
  have scale: "\<bar>of_int \<lfloor>y * 10 ^ d + 1 / 2\<rfloor> / 10 ^ d - y\<bar> \<le> 1 / (2 * 10 ^ d)" for y :: rat
  proof -
    have "\<bar>of_int \<lfloor>y * 10 ^ d + 1 / 2\<rfloor> / 10 ^ d - y\<bar>
        = \<bar>of_int \<lfloor>y * 10 ^ d + 1 / 2\<rfloor> - y * 10 ^ d\<bar> / 10 ^ d"
      by (simp add: diff_divide_distrib [symmetric] divide_simps)
    also have "\<dots> \<le> (1 / 2) / 10 ^ d"
      by (rule divide_right_mono [OF round_half_error]) simp
    finally show ?thesis by simp
  qed
  show ?thesis
    using scale [of x] scale [of "- x"] by (auto simp: to_fixed_def abs_minus_commute)
qed

section \<open>Results\<close>

text \<open>
  NestJS exceptions and the worker's own error class. The text of a message is carried as a
  short ASCII string; Vietnamese messages are given in English.
\<close>

datatype api_error =
    NotFound string
  | BadRequest string
  | Forbidden string
  | Conflict string
  | ServiceUnavailable string
  | ConnectionBalanceError string

type_synonym 'a result = "api_error + 'a"

definition is_ok :: "'a result \<Rightarrow> bool" where
  "is_ok r = (case r of Inl _ \<Rightarrow> False | Inr _ \<Rightarrow> True)"

lemma is_ok_simps [simp]: "is_ok (Inr x)" "\<not> is_ok (Inl e)"
  by (simp_all add: is_ok_def)

lemma is_okE: "is_ok r \<Longrightarrow> (\<And>x. r = Inr x \<Longrightarrow> P) \<Longrightarrow> P"
  by (cases r) (auto simp: is_ok_def)

text \<open>
  \<open>prisma.$transaction(body)\<close>: a body that throws leaves the database as it was, one that
  returns commits its changes.
\<close>

definition transaction :: "('s \<Rightarrow> ('a \<times> 's) result) \<Rightarrow> 's \<Rightarrow> 'a result \<times> 's" where
  "transaction body s = (case body s of Inl e \<Rightarrow> (Inl e, s) | Inr (a, s') \<Rightarrow> (Inr a, s'))"

lemma transaction_simps [simp]:
  "body s = Inl e \<Longrightarrow> transaction body s = (Inl e, s)"
  "body s = Inr (a, t) \<Longrightarrow> transaction body s = (Inr a, t)"
  by (simp_all add: transaction_def)

lemma transaction_changed:
  assumes "snd (transaction body s) \<noteq> s"
  shows "\<exists>a. body s = Inr (a, snd (transaction body s))"
proof (cases "body s")
  case (Inr p)
  then show ?thesis by (cases p) simp
qed (use assms in simp)

lemma transaction_preserves:
  assumes "I s" and "\<And>a t. body s = Inr (a, t) \<Longrightarrow> I t"
  shows "I (snd (transaction body s))"
  using assms by (auto simp: transaction_def split: sum.split)

section \<open>List-backed tables\<close>

text \<open>
  A table is the list of its rows in insertion order. \<open>findUnique\<close> and \<open>findFirst\<close> are
  \<open>List.find\<close>, \<open>updateMany\<close> maps over the rows that match, \<open>create\<close> appends.
\<close>

definition modify_rows :: "('r \<Rightarrow> bool) \<Rightarrow> ('r \<Rightarrow> 'r) \<Rightarrow> 'r list \<Rightarrow> 'r list" where
  "modify_rows p f rs = map (\<lambda>r. if p r then f r else r) rs"

definition count_rows :: "('r \<Rightarrow> bool) \<Rightarrow> 'r list \<Rightarrow> nat" where
  "count_rows p rs = length (filter p rs)"

definition sum_rows :: "('r \<Rightarrow> bool) \<Rightarrow> ('r \<Rightarrow> rat) \<Rightarrow> 'r list \<Rightarrow> rat" where
  "sum_rows p f rs = sum_list (map f (filter p rs))"

lemma modify_rows_simps [simp]:
  "modify_rows p f [] = []"
  "modify_rows p f (r # rs) = (if p r then f r else r) # modify_rows p f rs"
  by (simp_all add: modify_rows_def)

lemma length_modify_rows [simp]: "length (modify_rows p f rs) = length rs"
  by (simp add: modify_rows_def)

lemma modify_rows_append [simp]:
  "modify_rows p f (rs @ ts) = modify_rows p f rs @ modify_rows p f ts"
  by (simp add: modify_rows_def)

lemma count_rows_simps [simp]:
  "count_rows p [] = 0"
  "count_rows p (r # rs) = (if p r then Suc (count_rows p rs) else count_rows p rs)"
  "count_rows p (rs @ ts) = count_rows p rs + count_rows p ts"
  by (simp_all add: count_rows_def)

lemma sum_rows_simps [simp]:
  "sum_rows p f [] = 0"
  "sum_rows p f (r # rs) = (if p r then f r + sum_rows p f rs else sum_rows p f rs)"
  "sum_rows p f (rs @ ts) = sum_rows p f rs + sum_rows p f ts"
  by (simp_all add: sum_rows_def)

lemma count_rows_0_iff: "count_rows p rs = 0 \<longleftrightarrow> (\<forall>r \<in> set rs. \<not> p r)"
  by (simp add: count_rows_def filter_empty_conv)

lemma sum_rows_none: "(\<And>r. r \<in> set rs \<Longrightarrow> \<not> p r) \<Longrightarrow> sum_rows p f rs = 0"
  by (induction rs) auto

lemma sum_rows_cong:
  "(\<And>r. r \<in> set rs \<Longrightarrow> p r = q r) \<Longrightarrow> sum_rows p f rs = sum_rows q f rs"
  by (induction rs) auto

lemma sum_rows_grid:
  "(\<And>r. r \<in> set rs \<Longrightarrow> on_grid d (f r)) \<Longrightarrow> on_grid d (sum_rows p f rs)"
  by (induction rs) auto

lemma find_append: "List.find p (rs @ ts) = (case List.find p rs of None \<Rightarrow> List.find p ts | Some r \<Rightarrow> Some r)"
  by (induction rs) auto

lemma find_SomeD: "List.find p rs = Some r \<Longrightarrow> r \<in> set rs \<and> p r"
  by (induction rs) (auto split: if_splits)

lemma find_None_iff': "List.find p rs = None \<longleftrightarrow> (\<forall>r \<in> set rs. \<not> p r)"
  by (induction rs) auto

lemma find_modify_rows [table_simps]:
  assumes "\<And>r. q (f r) = q r"
  shows "List.find q (modify_rows p f rs)
       = map_option (\<lambda>r. if p r then f r else r) (List.find q rs)"
  using assms by (induction rs) auto

lemma find_modify_key [table_simps]:
  assumes "\<And>r. key (f r) = key r"
  shows "List.find (\<lambda>r. key r = k) (modify_rows (\<lambda>r. key r = k') f rs)
       = map_option (\<lambda>r. if k = k' then f r else r) (List.find (\<lambda>r. key r = k) rs)"
  using assms by (induction rs) auto

lemma modify_rows_none: "(\<And>r. r \<in> set rs \<Longrightarrow> \<not> p r) \<Longrightarrow> modify_rows p f rs = rs"
  by (induction rs) auto

lemma set_modify_rows: "r \<in> set (modify_rows p f rs) \<Longrightarrow> r \<in> set rs \<or> (\<exists>r' \<in> set rs. p r' \<and> r = f r')"
  by (auto simp: modify_rows_def)

lemma list_all_modify_rows:
  "(\<And>r. r \<in> set rs \<Longrightarrow> p r \<Longrightarrow> P (f r)) \<Longrightarrow> (\<And>r. r \<in> set rs \<Longrightarrow> \<not> p r \<Longrightarrow> P r)
   \<Longrightarrow> list_all P (modify_rows p f rs)"
  by (induction rs) auto

lemma list_all_modify_keep:
  "list_all P rs \<Longrightarrow> (\<And>r. P r \<Longrightarrow> P (f r)) \<Longrightarrow> list_all P (modify_rows p f rs)"
  by (induction rs) auto

lemma map_modify_rows:
  "(\<And>r. key (f r) = key r) \<Longrightarrow> map key (modify_rows p f rs) = map key rs"
  by (induction rs) auto

lemma distinct_key_find:
  "distinct (map key rs) \<Longrightarrow> r \<in> set rs \<Longrightarrow> List.find (\<lambda>r'. key r' = key r) rs = Some r"
  by (induction rs) auto

end
