(* ===== verification/JsNum.thy ===== *)
theory JsNum
  imports Prelude
begin

text \<open>
  JavaScript numbers as the code meets them at its boundaries: a finite value, an infinity or
  NaN. Only what the modelled functions use: \<open>Number.isFinite\<close>, \<open>Number.isInteger\<close>, comparison
  (false whenever NaN takes part), the four operations, \<open>Math.min\<close>, \<open>Math.max\<close> and the
  \<open>Number(x) || 0\<close> idiom. Negative zero is not told apart from zero.
\<close>

datatype jsnum = NaN | PosInf | NegInf | Fin rat

fun is_finite :: "jsnum \<Rightarrow> bool" where
  "is_finite (Fin _) = True"
| "is_finite _ = False"

fun is_integer :: "jsnum \<Rightarrow> bool" where
  "is_integer (Fin x) = (of_int \<lfloor>x\<rfloor> = x)"
| "is_integer _ = False"

text \<open>The value of a finite number; only used below a finiteness check.\<close>

fun num_val :: "jsnum \<Rightarrow> rat" where
  "num_val (Fin x) = x"
| "num_val _ = 0"

fun js_neg :: "jsnum \<Rightarrow> jsnum" where
  "js_neg (Fin x) = Fin (- x)"
| "js_neg PosInf = NegInf"
| "js_neg NegInf = PosInf"
| "js_neg NaN = NaN"

fun js_add :: "jsnum \<Rightarrow> jsnum \<Rightarrow> jsnum" where
  "js_add (Fin x) (Fin y) = Fin (x + y)"
| "js_add NaN _ = NaN"
| "js_add _ NaN = NaN"
| "js_add PosInf NegInf = NaN"
| "js_add NegInf PosInf = NaN"
| "js_add PosInf _ = PosInf"
| "js_add NegInf _ = NegInf"
| "js_add _ PosInf = PosInf"
| "js_add _ NegInf = NegInf"

definition js_sub :: "jsnum \<Rightarrow> jsnum \<Rightarrow> jsnum" where
  "js_sub a b = js_add a (js_neg b)"

text \<open>Comparison. A comparison with NaN is false, so \<open>!(a < b)\<close> is not \<open>b <= a\<close>.\<close>

fun js_less :: "jsnum \<Rightarrow> jsnum \<Rightarrow> bool" where
  "js_less (Fin x) (Fin y) = (x < y)"
| "js_less NegInf (Fin _) = True"
| "js_less NegInf PosInf = True"
| "js_less (Fin _) PosInf = True"
| "js_less _ _ = False"

fun js_le :: "jsnum \<Rightarrow> jsnum \<Rightarrow> bool" where
  "js_le NaN _ = False"
| "js_le _ NaN = False"
| "js_le (Fin x) (Fin y) = (x \<le> y)"
| "js_le NegInf _ = True"
| "js_le _ PosInf = True"
| "js_le _ _ = False"

fun js_min :: "jsnum \<Rightarrow> jsnum \<Rightarrow> jsnum" where
  "js_min NaN _ = NaN"
| "js_min _ NaN = NaN"
| "js_min a b = (if js_less b a then b else a)"

fun js_max :: "jsnum \<Rightarrow> jsnum \<Rightarrow> jsnum" where
  "js_max NaN _ = NaN"
| "js_max _ NaN = NaN"
| "js_max a b = (if js_less a b then b else a)"

text \<open>\<open>Number(x) || 0\<close>: NaN is falsy.\<close>

fun js_or0 :: "jsnum \<Rightarrow> jsnum" where
  "js_or0 NaN = Fin 0"
| "js_or0 x = x"

lemma is_finiteE:
  assumes "is_finite a" obtains x where "a = Fin x"
  using assms by (cases a) auto

lemma is_integer_finite: "is_integer a \<Longrightarrow> is_finite a"
  by (cases a) auto

lemma is_integerE:
  assumes "is_integer a" obtains k where "a = Fin (of_int k)"
proof (cases a)
  case (Fin x)
  with assms obtain k where "x = of_int k" by auto
  with Fin show ?thesis using that by simp
qed (use assms in auto)

lemma js_less_irrefl [simp]: "\<not> js_less a a"
  by (cases a) auto

lemma js_le_iff_less: "js_le a b \<longleftrightarrow> js_less a b \<or> (a = b \<and> a \<noteq> NaN)"
  by (cases a; cases b) auto

lemma js_less_trans: "js_less a b \<Longrightarrow> js_less b c \<Longrightarrow> js_less a c"
  by (cases a; cases b; cases c) auto

lemma js_min_Fin [simp]: "js_min (Fin x) (Fin y) = Fin (min x y)"
  by (simp add: min_def)

lemma js_max_Fin [simp]: "js_max (Fin x) (Fin y) = Fin (max x y)"
  by (simp add: max_def)

lemma js_or0_not_NaN: "js_or0 a \<noteq> NaN"
  by (cases a) auto

lemma js_clamp_finite:
  "a \<noteq> NaN \<Longrightarrow> is_finite (js_min (Fin hi) (js_max (Fin lo) a))"
  by (cases a) (auto simp: min_def)

text \<open>
  Clamping \<open>Math.min(hi, Math.max(lo, Number(x) || 0))\<close>, the idiom the pricing code uses on
  percentages: always a finite number in the range.
\<close>

definition clamp_or0 :: "rat \<Rightarrow> rat \<Rightarrow> jsnum \<Rightarrow> rat" where
  "clamp_or0 lo hi a = num_val (js_min (Fin hi) (js_max (Fin lo) (js_or0 a)))"

lemma clamp_or0_simps [simp]:
  "clamp_or0 lo hi NaN = min hi (max lo 0)"
  "clamp_or0 lo hi (Fin x) = min hi (max lo x)"
  "clamp_or0 lo hi PosInf = hi"
  "clamp_or0 lo hi NegInf = min hi lo"
  by (simp_all add: clamp_or0_def)

lemma clamp_or0_range: "lo \<le> hi \<Longrightarrow> lo \<le> clamp_or0 lo hi a \<and> clamp_or0 lo hi a \<le> hi"
  by (cases a) auto

end
