(* ===== verification/Pricing.thy ===== *)
theory Pricing
  imports JsNum
begin

text \<open>
  The pure money rules shared by checkout, fulfilment and catalog sync:
  \<^item> \<open>packages/shared/src/server/order-pricing.ts\<close>: the order price guard, the seller-safe
    affiliate commission, the internal stock settlement and the commission refund;
  \<^item> \<open>packages/shared/src/server/catalog-pricing.ts\<close>: catalog source price, markup rounding and
    the synced sale and wholesale prices;
  \<^item> \<open>apps/api/src/lib/preorder.ts\<close>, \<open>binance-payment-match.ts\<close> and \<open>splitWalletDebit\<close> of
    \<open>utils.ts\<close>.
  Inputs the code passes through \<open>Number(\<dots>)\<close> and tests with \<open>Number.isFinite\<close> are
  \<^typ>\<open>jsnum\<close>; values the code takes as they are (decimal columns) are exact rationals.
\<close>

section \<open>Order prices\<close>

definition isOrderPriceSafe :: "jsnum \<Rightarrow> jsnum \<Rightarrow> bool" where
  "isOrderPriceSafe totalSaleAmount totalSourceAmount =
     (if \<not> is_finite totalSaleAmount \<or> \<not> is_finite totalSourceAmount
         \<or> js_less totalSaleAmount (Fin 0) \<or> js_less totalSourceAmount (Fin 0)
      then False
      else js_le totalSourceAmount totalSaleAmount)"

definition resolveSellerSafeAffiliateCommission :: "jsnum \<Rightarrow> jsnum \<Rightarrow> jsnum \<Rightarrow> rat" where
  "resolveSellerSafeAffiliateCommission totalSaleAmount totalSourceAmount commissionPercent =
     (if \<not> is_finite totalSaleAmount \<or> \<not> is_finite totalSourceAmount
         \<or> \<not> is_finite commissionPercent
         \<or> js_less totalSaleAmount (Fin 0) \<or> js_less totalSourceAmount (Fin 0)
         \<or> js_le commissionPercent (Fin 0)
      then 0
      else
        (let sale = num_val totalSaleAmount; source = num_val totalSourceAmount;
             percent = num_val commissionPercent;
             availableMargin = max 0 (sale - source);
             configuredCommission = sale * min 100 percent / 100
         in min configuredCommission availableMargin))"

record settlement =
  safe :: bool
  chargeAmount :: rat
  sourceCostSnapshot :: rat

definition resolveInternalStockSettlement :: "jsnum \<Rightarrow> jsnum \<Rightarrow> jsnum \<Rightarrow> settlement" where
  "resolveInternalStockSettlement downstreamSaleAmount advertisedWholesaleAmount actualStockCost =
     (let valid = (is_finite downstreamSaleAmount \<and> is_finite advertisedWholesaleAmount
                   \<and> is_finite actualStockCost
                   \<and> js_le (Fin 0) downstreamSaleAmount
                   \<and> js_less (Fin 0) advertisedWholesaleAmount
                   \<and> js_le (Fin 0) actualStockCost)
      in \<lparr>safe = (valid \<and> js_le advertisedWholesaleAmount downstreamSaleAmount
                  \<and> js_le actualStockCost advertisedWholesaleAmount),
          chargeAmount = (if valid then num_val advertisedWholesaleAmount else 0),
          sourceCostSnapshot = (if valid then num_val actualStockCost else 0)\<rparr>)"

definition resolveAffiliateCommissionRefund :: "jsnum \<Rightarrow> jsnum \<Rightarrow> jsnum \<Rightarrow> jsnum \<Rightarrow> rat" where
  "resolveAffiliateCommissionRefund originalCommission remainingCommission orderTotal refundAmount =
     (if \<not> is_finite originalCommission \<or> \<not> is_finite remainingCommission
         \<or> \<not> is_finite orderTotal \<or> \<not> is_finite refundAmount
         \<or> js_le originalCommission (Fin 0) \<or> js_le remainingCommission (Fin 0)
         \<or> js_le orderTotal (Fin 0) \<or> js_le refundAmount (Fin 0)
      then 0
      else min (num_val remainingCommission)
             (num_val originalCommission * min 1 (num_val refundAmount / num_val orderTotal)))"

lemma isOrderPriceSafe_iff:
  "isOrderPriceSafe a b \<longleftrightarrow> (\<exists>x y. a = Fin x \<and> b = Fin y \<and> 0 \<le> y \<and> y \<le> x)"
  by (cases a; cases b) (auto simp: isOrderPriceSafe_def)

lemma commission_cases:
  "resolveSellerSafeAffiliateCommission a b c =
     (case (a, b, c) of
        (Fin s, Fin t, Fin p) \<Rightarrow>
          if s < 0 \<or> t < 0 \<or> p \<le> 0 then 0 else min (s * min 100 p / 100) (max 0 (s - t))
      | _ \<Rightarrow> 0)"
  by (cases a; cases b; cases c) (auto simp: resolveSellerSafeAffiliateCommission_def Let_def)

lemma commission_bounds:
  "0 \<le> resolveSellerSafeAffiliateCommission a b c"
  "a = Fin s \<Longrightarrow> 0 \<le> s \<Longrightarrow> resolveSellerSafeAffiliateCommission a b c \<le> s"
proof -
  show "0 \<le> resolveSellerSafeAffiliateCommission a b c"
    by (auto simp: commission_cases split: jsnum.splits)
next
  assume "a = Fin s" and "0 \<le> s"
  moreover from \<open>0 \<le> s\<close> have "s * min 100 p / 100 \<le> s" for p
  proof -
    from \<open>0 \<le> s\<close> have "s * min 100 p \<le> s * 100" by (intro mult_left_mono) auto
    then show ?thesis by simp
  qed
  ultimately show "resolveSellerSafeAffiliateCommission a b c \<le> s"
    by (auto simp: commission_cases split: jsnum.splits intro: min.coboundedI1)
qed

lemma commission_margin:
  "isOrderPriceSafe a b \<Longrightarrow> num_val b \<le> num_val a - resolveSellerSafeAffiliateCommission a b c"
  by (auto simp: isOrderPriceSafe_iff commission_cases min_def max_def split: jsnum.split)

lemma commission_unsafe:
  assumes "\<not> isOrderPriceSafe a b" shows "resolveSellerSafeAffiliateCommission a b c = 0"
proof (cases a; cases b; cases c)
  fix s t p assume a: "a = Fin s" and b: "b = Fin t" and c: "c = Fin p"
  show ?thesis
  proof (cases "s < 0 \<or> t < 0 \<or> p \<le> 0")
    case False
    with assms a b have "s < t" by (auto simp: isOrderPriceSafe_iff)
    moreover from False have "0 \<le> s * min 100 p / 100" by auto
    ultimately show ?thesis by (simp add: a b c commission_cases)
  qed (auto simp: a b c commission_cases)
qed (auto simp: commission_cases)

lemma commission_value:
  "isOrderPriceSafe a b \<Longrightarrow> is_finite c \<Longrightarrow> 0 < num_val c \<Longrightarrow>
     resolveSellerSafeAffiliateCommission a b c
       = min (num_val a * min 100 (num_val c) / 100) (num_val a - num_val b)"
  by (cases c) (auto simp: isOrderPriceSafe_iff commission_cases max_def)

lemma commission_no_percent:
  "\<not> (is_finite c \<and> 0 < num_val c) \<Longrightarrow> resolveSellerSafeAffiliateCommission a b c = 0"
  by (cases a; cases b; cases c) (auto simp: commission_cases)

text \<open>
  C29. The affiliate commission never eats into the seller's source cost, never exceeds the
  configured percentage and fails closed. For every input, NaN and infinities included, the
  commission is not negative. When the order is price-safe (the guard run at checkout and again
  before the upstream purchase accepts it) and the percentage is a finite positive number, the
  commission is exactly the smaller of the configured percentage of the sale amount, the
  percentage capped at 100, and the margin over the source amount: so it is at most the
  configured percentage, and sale amount minus commission still covers the source amount. When
  the guard rejects the order, or the percentage is not finite or not positive, the commission
  is zero.
\<close>

theorem commission_never_below_cost:
  "0 \<le> resolveSellerSafeAffiliateCommission sale source percent
   \<and> (if isOrderPriceSafe sale source \<and> is_finite percent \<and> 0 < num_val percent
      then resolveSellerSafeAffiliateCommission sale source percent
             = min (num_val sale * min 100 (num_val percent) / 100)
                 (num_val sale - num_val source)
         \<and> resolveSellerSafeAffiliateCommission sale source percent
             \<le> num_val sale * num_val percent / 100
      else resolveSellerSafeAffiliateCommission sale source percent = 0)
   \<and> (if isOrderPriceSafe sale source
      then num_val source
             \<le> num_val sale - resolveSellerSafeAffiliateCommission sale source percent
      else resolveSellerSafeAffiliateCommission sale source percent = 0)"
proof -
  have cap: "min (s * min 100 p / 100) r \<le> s * p / 100" if "0 \<le> s" for s p r :: rat
  proof -
    from that have "s * min 100 p \<le> s * p" by (intro mult_left_mono) auto
    then show ?thesis by (simp add: min.coboundedI1)
  qed
  have nonneg: "isOrderPriceSafe sale source \<Longrightarrow> 0 \<le> num_val sale"
    by (auto simp: isOrderPriceSafe_iff)
  show ?thesis
    using commission_bounds(1) [of sale source percent] commission_margin [of sale source percent]
      commission_unsafe [of sale source percent] commission_value [of sale source percent]
      commission_no_percent [of percent sale source] cap [OF nonneg]
    by (cases "isOrderPriceSafe sale source"; cases "is_finite percent \<and> 0 < num_val percent") auto
qed

lemma settlement_safe_iff:
  "safe (resolveInternalStockSettlement sale wholesale cost)
   \<longleftrightarrow> (\<exists>s w c. sale = Fin s \<and> wholesale = Fin w \<and> cost = Fin c
          \<and> 0 \<le> c \<and> c \<le> w \<and> w \<le> s \<and> 0 < w)"
  by (cases sale; cases wholesale; cases cost)
     (auto simp: resolveInternalStockSettlement_def Let_def)

lemma settlement_charge:
  "safe (resolveInternalStockSettlement sale wholesale cost) \<Longrightarrow>
     chargeAmount (resolveInternalStockSettlement sale wholesale cost) = num_val wholesale
     \<and> sourceCostSnapshot (resolveInternalStockSettlement sale wholesale cost) = num_val cost"
  by (cases sale; cases wholesale; cases cost)
     (auto simp: resolveInternalStockSettlement_def Let_def)

lemma commission_refund_bounds:
  "0 \<le> resolveAffiliateCommissionRefund oc rc ot r"
  "is_finite rc \<Longrightarrow> js_less (Fin 0) rc \<Longrightarrow> resolveAffiliateCommissionRefund oc rc ot r \<le> num_val rc"
  by (cases oc; cases rc; cases ot; cases r;
      auto simp: resolveAffiliateCommissionRefund_def)+

section \<open>Catalog prices\<close>

definition resolveInternalCatalogSourcePrice ::
  "rat option \<Rightarrow> rat option \<Rightarrow> jsnum option \<Rightarrow> rat" where
  "resolveInternalCatalogSourcePrice internalSourcePrice fallbackSalePrice discount =
     (let basePrice = (case internalSourcePrice of Some p \<Rightarrow> p
                       | None \<Rightarrow> (case fallbackSalePrice of Some p \<Rightarrow> p | None \<Rightarrow> 0));
          discountPercent = clamp_or0 0 100 (case discount of None \<Rightarrow> Fin 0 | Some d \<Rightarrow> d)
      in if 0 < discountPercent
         then of_int (js_round (basePrice * (1 - discountPercent / 100)))
         else basePrice)"

definition roundMarkupSalePrice :: "rat \<Rightarrow> rat" where
  "roundMarkupSalePrice rawPrice =
     (if rawPrice \<le> 0 then 0
      else
        (let integerPrice = of_int (js_round rawPrice) :: rat
         in max 1000 (of_int (js_round (integerPrice / 1000)) * 1000)))"

text \<open>\<open>null\<close> means that the stored sale price stays as it is.\<close>

definition resolveSyncedSalePrice ::
  "rat \<Rightarrow> rat option \<Rightarrow> rat option \<Rightarrow> bool \<Rightarrow> rat option \<Rightarrow> rat option \<Rightarrow> rat option" where
  "resolveSyncedSalePrice sourcePrice previousSourcePrice existingSalePrice salePriceLocked
     markupPercent defaultMarkup =
     (let defaultMarkupAmount = (case defaultMarkup of Some m \<Rightarrow> m | None \<Rightarrow> 10000)
      in if salePriceLocked
         then (case (previousSourcePrice, existingSalePrice) of
                 (Some prev, Some old) \<Rightarrow>
                   (let sourceDelta = sourcePrice - prev
                    in if sourceDelta = 0 then None else Some (max sourcePrice (old + sourceDelta)))
               | _ \<Rightarrow> None)
         else
           (case markupPercent of
              Some m \<Rightarrow>
                if 0 \<le> m then Some (roundMarkupSalePrice (sourcePrice * (1 + m / 100)))
                else (case (previousSourcePrice, existingSalePrice) of
                        (Some prev, Some old) \<Rightarrow>
                          Some (max (sourcePrice + defaultMarkupAmount) (old + (sourcePrice - prev)))
                      | _ \<Rightarrow> Some (sourcePrice + defaultMarkupAmount))
            | None \<Rightarrow>
                (case (previousSourcePrice, existingSalePrice) of
                   (Some prev, Some old) \<Rightarrow>
                     Some (max (sourcePrice + defaultMarkupAmount) (old + (sourcePrice - prev)))
                 | _ \<Rightarrow> Some (sourcePrice + defaultMarkupAmount))))"

definition resolveSyncedWholesalePrice :: "jsnum \<Rightarrow> jsnum option \<Rightarrow> jsnum option \<Rightarrow> rat option" where
  "resolveSyncedWholesalePrice sourcePrice previousSourcePrice existingWholesalePrice =
     (case (previousSourcePrice, existingWholesalePrice) of
        (Some prev, Some old) \<Rightarrow>
          if \<not> is_finite sourcePrice \<or> \<not> is_finite prev \<or> \<not> is_finite old then None
          else
            (let sourceDelta = num_val sourcePrice - num_val prev
             in if sourceDelta = 0 then None
                else Some (max (num_val sourcePrice) (num_val old + sourceDelta)))
      | _ \<Rightarrow> None)"

lemma roundMarkup_step:
  assumes "0 < raw"
  shows "\<exists>k. roundMarkupSalePrice raw = of_int k * 1000 \<and> 1 \<le> k"
proof -
  let ?k = "max 1 (js_round (of_int (js_round raw) / 1000 :: rat))"
  have "roundMarkupSalePrice raw = of_int ?k * 1000"
    using assms by (simp add: roundMarkupSalePrice_def Let_def max_def)
  then show ?thesis by (intro exI [of _ ?k]) simp
qed

lemma roundMarkup_error:
  assumes "500 \<le> raw"
  shows "\<bar>roundMarkupSalePrice raw - raw\<bar> \<le> 1001 / 2"
proof -
  let ?i = "of_int (js_round raw) :: rat"
  have "500 \<le> js_round raw" using js_round_mono [OF assms] by simp
  then have "1 / 2 \<le> ?i / 1000" by simp
  then have "1 \<le> js_round (?i / 1000)" using js_round_mono [of "1 / 2" "?i / 1000"] by (simp add: js_round_def)
  then have eq: "roundMarkupSalePrice raw = of_int (js_round (?i / 1000)) * 1000"
    using assms by (simp add: roundMarkupSalePrice_def Let_def max_def)
  have "\<bar>of_int (js_round (?i / 1000)) - ?i / 1000\<bar> \<le> 1 / 2" by (rule js_round_error)
  then have "\<bar>roundMarkupSalePrice raw - ?i\<bar> \<le> 500" unfolding eq by linarith
  moreover have "\<bar>?i - raw\<bar> \<le> 1 / 2" by (rule js_round_error)
  ultimately show ?thesis by linarith
qed

text \<open>
  Catalog sync keeps a manually locked margin. When the sale price is locked, both snapshots
  are known and the source price really changes, the new sale price is never below the new
  source price, and when the old margin was not negative the margin over the source price is
  exactly what it was; a sync that leaves the source price alone writes nothing.
\<close>

theorem synced_sale_price_locked:
  "(if sourcePrice = prev
    then resolveSyncedSalePrice sourcePrice (Some prev) (Some old) True markup dflt = None
    else
      (\<exists>new. resolveSyncedSalePrice sourcePrice (Some prev) (Some old) True markup dflt = Some new
         \<and> sourcePrice \<le> new
         \<and> new - sourcePrice = max 0 (old - prev)))"
  by (simp add: resolveSyncedSalePrice_def Let_def max_def)

lemma roundMarkup_multiple:
  assumes "0 < raw"
  shows "\<exists>k\<ge>1. roundMarkupSalePrice raw = 1000 * of_int k"
  using roundMarkup_step [OF assms] by (auto simp: mult.commute)

lemma roundMarkup_lower: "raw - roundMarkupSalePrice raw \<le> 1001 / 2"
proof (cases "500 \<le> raw")
  case True
  from roundMarkup_error [OF this] show ?thesis unfolding abs_le_iff by linarith
next
  case False
  have "0 \<le> roundMarkupSalePrice raw"
    by (simp add: roundMarkupSalePrice_def Let_def max_def)
  with False show ?thesis by linarith
qed

lemma roundMarkup_down:
  assumes "1 \<le> k" and "1000 * of_int k \<le> raw" and "raw < 1000 * of_int k + 999 / 2"
  shows "roundMarkupSalePrice raw = 1000 * of_int k"
proof -
  have lo: "1000 * k \<le> js_round raw" and hi: "js_round raw < 1000 * k + 500"
    using assms(2,3) by (simp_all add: js_round_def le_floor_iff floor_less_iff)
  have "js_round (of_int (js_round raw) / 1000 :: rat) = k"
  proof (unfold js_round_def [of "of_int (js_round raw) / 1000"], rule floor_unique)
    from lo have "of_int (1000 * k) \<le> (of_int (js_round raw) :: rat)" by (simp only: of_int_le_iff)
    then show "of_int k \<le> (of_int (js_round raw) / 1000 + 1 / 2 :: rat)" by simp
    from hi have "of_int (js_round raw) < (of_int (1000 * k + 500) :: rat)"
      by (simp only: of_int_less_iff)
    then show "of_int (js_round raw) / 1000 + 1 / 2 < (of_int k + 1 :: rat)" by simp
  qed
  moreover have "0 < raw"
    using assms(1,2) by (meson less_le_trans mult_pos_pos of_int_0_less_iff zero_less_numeral zero_less_one)
  ultimately show ?thesis using assms(1) by (simp add: roundMarkupSalePrice_def Let_def)
qed



lemma synced_default_price_covers_cost:
  assumes "resolveSyncedSalePrice src prev old False None (Some d) = Some new"
  shows "src + d \<le> new"
  using assms by (auto simp: resolveSyncedSalePrice_def split: option.splits)

lemma synced_wholesale_margin:
  "src \<noteq> prev \<Longrightarrow>
   resolveSyncedWholesalePrice (Fin src) (Some (Fin prev)) (Some (Fin old))
     = Some (src + max 0 (old - prev))"
  by (simp add: resolveSyncedWholesalePrice_def Let_def max_def)

lemma catalog_source_price_nonneg:
  assumes "\<And>p. internal = Some p \<Longrightarrow> 0 \<le> p" and "\<And>p. fallback = Some p \<Longrightarrow> 0 \<le> p"
  shows "0 \<le> resolveInternalCatalogSourcePrice internal fallback disc"
proof -
  have "0 \<le> 1 - clamp_or0 0 100 d / 100" for d
    using clamp_or0_range [of 0 100 d] by simp
  with assms show ?thesis
    by (auto simp: resolveInternalCatalogSourcePrice_def Let_def js_round_nonneg
        split: option.splits)
qed

section \<open>Preorders, wallet splits and payment matching\<close>

text \<open>\<open>preorder.ts\<close>. \<open>null\<close> availability means unlimited stock.\<close>

definition getAvailableForNewOrders :: "int option \<Rightarrow> int \<Rightarrow> int option" where
  "getAvailableForNewOrders available reservedOrderQuantity =
     (case available of None \<Rightarrow> None
      | Some a \<Rightarrow> Some (max 0 (a - max 0 reservedOrderQuantity)))"

definition needsPreorder :: "int option \<Rightarrow> int \<Rightarrow> bool" where
  "needsPreorder availableForNewOrders requestedQuantity =
     (case availableForNewOrders of None \<Rightarrow> False | Some a \<Rightarrow> a < requestedQuantity)"

definition shouldHoldStockForCheckout :: "int option \<Rightarrow> int \<Rightarrow> bool \<Rightarrow> bool" where
  "shouldHoldStockForCheckout available requestedQuantity preorderEnabled =
     (if available = None then False
      else if preorderEnabled \<and> needsPreorder available requestedQuantity then False
      else True)"

record preorder_charge =
  feePercent :: rat
  feeAmount :: rat
  totalAmount :: rat

definition calculatePreorderCharge :: "rat \<Rightarrow> rat \<Rightarrow> preorder_charge" where
  "calculatePreorderCharge merchandiseAmount configuredFeePercent =
     (let pct = min 100 (max 0 configuredFeePercent);
          fee = of_int (js_round (max 0 merchandiseAmount * pct / 100))
      in \<lparr>feePercent = pct, feeAmount = fee, totalAmount = max 0 merchandiseAmount + fee\<rparr>)"

record cancellation_refund =
  refundAmount :: rat
  feeRefundAmount :: rat
  nonRefundedFeeAmount :: rat

definition calculatePreorderCancellationRefund :: "rat \<Rightarrow> rat \<Rightarrow> bool \<Rightarrow> cancellation_refund" where
  "calculatePreorderCancellationRefund totalAmt preorderFeeAmount canceledBySeller =
     (let safeTotal = max 0 totalAmt;
          safeFee = min safeTotal (max 0 preorderFeeAmount)
      in \<lparr>refundAmount = (if canceledBySeller then safeTotal else safeTotal - safeFee),
          feeRefundAmount = (if canceledBySeller then safeFee else 0),
          nonRefundedFeeAmount = (if canceledBySeller then 0 else safeFee)\<rparr>)"

record debit_split =
  fromCommission :: rat
  fromMain :: rat
  commissionAfter :: rat
  splitBalanceAfter :: rat

definition splitWalletDebit :: "rat \<Rightarrow> rat \<Rightarrow> rat \<Rightarrow> debit_split" where
  "splitWalletDebit commissionBefore balanceBefore amount =
     (let fc = min commissionBefore amount; fm = amount - fc
      in \<lparr>fromCommission = fc, fromMain = fm,
          commissionAfter = commissionBefore - fc, splitBalanceAfter = balanceBefore - fm\<rparr>)"

definition isBinanceAmountWithinTolerance :: "jsnum \<Rightarrow> jsnum \<Rightarrow> int \<Rightarrow> bool" where
  "isBinanceAmountWithinTolerance receivedUsdt expectedUsdt toleranceCents =
     (if \<not> is_finite receivedUsdt \<or> \<not> is_finite expectedUsdt
         \<or> js_le receivedUsdt (Fin 0) \<or> js_le expectedUsdt (Fin 0)
      then False
      else \<bar>js_round (num_val receivedUsdt * 100) - js_round (num_val expectedUsdt * 100)\<bar>
             \<le> toleranceCents)"

lemma hold_exclusive_with_preorder:
  "preorderEnabled \<Longrightarrow> needsPreorder available q \<Longrightarrow> \<not> shouldHoldStockForCheckout available q preorderEnabled"
  by (simp add: shouldHoldStockForCheckout_def needsPreorder_def split: option.splits)

lemma available_for_new_orders_le:
  "getAvailableForNewOrders (Some a) r = Some n \<Longrightarrow> 0 \<le> n \<and> n \<le> max 0 a"
  by (auto simp: getAvailableForNewOrders_def)

lemma preorder_charge_bounds:
  "0 \<le> feeAmount (calculatePreorderCharge m p)"
  "totalAmount (calculatePreorderCharge m p) = max 0 m + feeAmount (calculatePreorderCharge m p)"
  by (simp_all add: calculatePreorderCharge_def Let_def js_round_nonneg)

text \<open>
  Cancelling a preorder never invents or loses money. For any amounts, what is paid back and
  what the shop keeps of the fee add up to what was paid; both are non-negative; a cancellation
  by the seller gives everything back, one by the customer gives back everything but the fee.
  In particular, for the amounts \<open>calculatePreorderCharge\<close> produced at checkout, the customer's
  refund is the merchandise amount.
\<close>

theorem preorder_cancellation_conserves:
  "(let r = calculatePreorderCancellationRefund t f bySeller
    in refundAmount r + nonRefundedFeeAmount r = max 0 t
       \<and> 0 \<le> refundAmount r \<and> 0 \<le> nonRefundedFeeAmount r
       \<and> feeRefundAmount r + nonRefundedFeeAmount r = min (max 0 t) (max 0 f))
   \<and> (let c = calculatePreorderCharge m p
      in refundAmount (calculatePreorderCancellationRefund (totalAmount c) (feeAmount c) False)
           = max 0 m)"
  using preorder_charge_bounds [of m p]
  by (auto simp: calculatePreorderCancellationRefund_def Let_def max_def min_def)

text \<open>
  A wallet debit is split between the commission balance and the main balance without
  rounding loss: the two parts add up to the amount and each balance falls by its part; if the
  amount is not negative and the two balances together cover it, neither balance goes below
  zero, and the main balance is touched only once the commission balance is used up.
\<close>

theorem wallet_debit_split:
  assumes "0 \<le> amount" and "0 \<le> c" and "0 \<le> b" and "amount \<le> c + b"
  shows "let d = splitWalletDebit c b amount
         in fromCommission d + fromMain d = amount
            \<and> commissionAfter d + splitBalanceAfter d = c + b - amount
            \<and> 0 \<le> commissionAfter d \<and> 0 \<le> splitBalanceAfter d
            \<and> (fromMain d = 0 \<or> commissionAfter d = 0)"
  using assms by (auto simp: splitWalletDebit_def Let_def min_def)

theorem wallet_debit_split_witness:
  "let d = splitWalletDebit 30 100 50
   in fromCommission d + fromMain d = 50 \<and> commissionAfter d + splitBalanceAfter d = 30 + 100 - 50
      \<and> 0 \<le> commissionAfter d \<and> 0 \<le> splitBalanceAfter d \<and> (fromMain d = 0 \<or> commissionAfter d = 0)"
  by (rule wallet_debit_split) simp_all

lemma split_main_only_after_commission:
  "0 < fromMain (splitWalletDebit c b amount) \<Longrightarrow> commissionAfter (splitWalletDebit c b amount) = 0"
  by (auto simp: splitWalletDebit_def Let_def min_def split: if_splits)

lemma binance_tolerance_sym:
  "isBinanceAmountWithinTolerance a b t = isBinanceAmountWithinTolerance b a t"
  by (auto simp: isBinanceAmountWithinTolerance_def abs_minus_commute)

lemma binance_tolerance_error:
  assumes "isBinanceAmountWithinTolerance (Fin r) (Fin e) t"
  shows "\<bar>r - e\<bar> \<le> (of_int t + 1) / 100"
proof -
  have "\<bar>js_round (r * 100) - js_round (e * 100)\<bar> \<le> t"
    using assms by (simp add: isBinanceAmountWithinTolerance_def split: if_splits)
  then have "\<bar>of_int (js_round (r * 100)) - of_int (js_round (e * 100))\<bar> \<le> (of_int t :: rat)"
    by (metis of_int_abs of_int_diff of_int_le_iff)
  then show ?thesis
    using js_round_error [of "r * 100"] js_round_error [of "e * 100"]
    unfolding abs_le_iff by (simp add: field_simps)
qed

end
