(* ===== verification/TierPricing.thy ===== *)
theory TierPricing
  imports Prelude
begin

text \<open>
  Seller tiers: capabilities (\<open>apps/api/src/business/seller-tier.ts\<close>), plan prices and the
  affiliate rate ladder (\<open>apps/api/src/tiers/tier-pricing.ts\<close>).
\<close>

section \<open>Tiers and capabilities\<close>

datatype seller_tier = FREE | PRO | ULTRA

instantiation seller_tier :: linorder
begin

fun tier_rank :: "seller_tier \<Rightarrow> nat" where
  "tier_rank FREE = 0" | "tier_rank PRO = 1" | "tier_rank ULTRA = 2"

definition less_eq_seller_tier :: "seller_tier \<Rightarrow> seller_tier \<Rightarrow> bool" where
  "less_eq_seller_tier a b \<longleftrightarrow> tier_rank a \<le> tier_rank b"

definition less_seller_tier :: "seller_tier \<Rightarrow> seller_tier \<Rightarrow> bool" where
  "less_seller_tier a b \<longleftrightarrow> tier_rank a < tier_rank b"

instance
proof
  fix a b c :: seller_tier
  show "a < b \<longleftrightarrow> a \<le> b \<and> \<not> b \<le> a"
    by (auto simp: less_eq_seller_tier_def less_seller_tier_def)
  show "a \<le> a" by (simp add: less_eq_seller_tier_def)
  show "a \<le> c" if "a \<le> b" "b \<le> c" using that by (simp add: less_eq_seller_tier_def)
  show "a = b" if "a \<le> b" "b \<le> a"
    using that by (cases a; cases b) (simp_all add: less_eq_seller_tier_def)
  show "a \<le> b \<or> b \<le> a" by (auto simp: less_eq_seller_tier_def)
qed

end

datatype capability =
    ShopManage | BotManage | ProductsManage | OrdersManage | WalletManage | BroadcastManage
  | SourceExternalUse | SourceInternalUse | SourceInternalManage | SourceKeyManage
  | WarrantyManage | UserbotCampaignManage

definition proCapabilities :: "capability list" where
  "proCapabilities =
     [ShopManage, BotManage, ProductsManage, OrdersManage, WalletManage, BroadcastManage,
      SourceExternalUse, SourceInternalUse, SourceInternalManage, SourceKeyManage,
      WarrantyManage, UserbotCampaignManage]"

fun tierCapabilityMap :: "seller_tier \<Rightarrow> capability list" where
  "tierCapabilityMap FREE = []"
| "tierCapabilityMap PRO = proCapabilities"
| "tierCapabilityMap ULTRA = proCapabilities"

definition getSellerCapabilities :: "seller_tier option \<Rightarrow> capability list" where
  "getSellerCapabilities tier = (case tier of None \<Rightarrow> [] | Some t \<Rightarrow> tierCapabilityMap t)"

definition hasSellerCapability :: "seller_tier option \<Rightarrow> capability \<Rightarrow> bool" where
  "hasSellerCapability tier c \<longleftrightarrow> c \<in> set (getSellerCapabilities tier)"

definition isSellerReadOnly :: "seller_tier option \<Rightarrow> bool" where
  "isSellerReadOnly tier \<longleftrightarrow> tier = Some FREE"

lemma capabilities_mono:
  "a \<le> b \<Longrightarrow> hasSellerCapability (Some a) c \<Longrightarrow> hasSellerCapability (Some b) c"
  by (cases a; cases b)
     (simp_all add: hasSellerCapability_def getSellerCapabilities_def less_eq_seller_tier_def)

text \<open>
  Capability gating. Every capability is held by a PRO and by an ULTRA seller and by nobody
  else, so the ladder is monotone but PRO and ULTRA are the same set: the architecture document
  gives the two internal-source management capabilities to ULTRA only, the code gives them to PRO
  as well.
\<close>

theorem capability_gating:
  "hasSellerCapability tier c \<longleftrightarrow> tier = Some PRO \<or> tier = Some ULTRA"
  by (cases tier; cases "the tier"; cases c)
     (simp_all add: hasSellerCapability_def getSellerCapabilities_def proCapabilities_def)

section \<open>Plans and prices\<close>

datatype plan = Monthly | Quarterly | SemiAnnual | Annual
datatype tier_key = ProKey | UltraKey
datatype tier_plan = MONTHLY | QUARTERLY | SEMI_ANNUAL | ANNUAL

fun tierPrice :: "tier_key \<Rightarrow> plan \<Rightarrow> int" where
  "tierPrice ProKey Monthly = 199000"
| "tierPrice ProKey Quarterly = 579000"
| "tierPrice ProKey SemiAnnual = 1110000"
| "tierPrice ProKey Annual = 2006000"
| "tierPrice UltraKey Monthly = 279000"
| "tierPrice UltraKey Quarterly = 812000"
| "tierPrice UltraKey SemiAnnual = 1557000"
| "tierPrice UltraKey Annual = 2812000"

fun planDurationDays :: "plan \<Rightarrow> int" where
  "planDurationDays Monthly = 30"
| "planDurationDays Quarterly = 90"
| "planDurationDays SemiAnnual = 180"
| "planDurationDays Annual = 365"

fun planMonthsCount :: "plan \<Rightarrow> int" where
  "planMonthsCount Monthly = 1"
| "planMonthsCount Quarterly = 3"
| "planMonthsCount SemiAnnual = 6"
| "planMonthsCount Annual = 12"

fun planKeyToEnum :: "plan \<Rightarrow> tier_plan" where
  "planKeyToEnum Monthly = MONTHLY"
| "planKeyToEnum Quarterly = QUARTERLY"
| "planKeyToEnum SemiAnnual = SEMI_ANNUAL"
| "planKeyToEnum Annual = ANNUAL"

fun planEnumToKey :: "tier_plan \<Rightarrow> plan" where
  "planEnumToKey MONTHLY = Monthly"
| "planEnumToKey QUARTERLY = Quarterly"
| "planEnumToKey SEMI_ANNUAL = SemiAnnual"
| "planEnumToKey ANNUAL = Annual"

fun tierKeyToEnum :: "tier_key \<Rightarrow> seller_tier" where
  "tierKeyToEnum ProKey = PRO"
| "tierKeyToEnum UltraKey = ULTRA"

fun tierEnumToKey :: "seller_tier \<Rightarrow> tier_key option" where
  "tierEnumToKey PRO = Some ProKey"
| "tierEnumToKey ULTRA = Some UltraKey"
| "tierEnumToKey FREE = None"

definition getPrice :: "tier_key \<Rightarrow> plan \<Rightarrow> int" where
  "getPrice tier p = tierPrice tier p"

definition getListPrice :: "tier_key \<Rightarrow> plan \<Rightarrow> int" where
  "getListPrice tier p = tierPrice tier Monthly * planMonthsCount p"

definition getDiscountedPrice :: "tier_key \<Rightarrow> plan \<Rightarrow> rat \<Rightarrow> int" where
  "getDiscountedPrice tier p discountPercent =
     (let listPrice = tierPrice tier Monthly * planMonthsCount p
      in js_round (of_int listPrice * (1 - discountPercent / 100)))"

definition getDurationMs :: "plan \<Rightarrow> int" where
  "getDurationMs p = planDurationDays p * 24 * 60 * 60 * 1000"

lemma plan_enum_roundtrip [simp]:
  "planEnumToKey (planKeyToEnum p) = p" "planKeyToEnum (planEnumToKey q) = q"
  by (cases p; simp) (cases q; simp)

lemma tier_enum_roundtrip [simp]: "tierEnumToKey (tierKeyToEnum t) = Some t"
  by (cases t) simp_all

lemma getDurationMs_pos: "0 < getDurationMs p"
  by (cases p) (simp_all add: getDurationMs_def)

lemma getListPrice_pos: "0 < getListPrice t p"
  by (cases t; cases p) (simp_all add: getListPrice_def)

lemma discounted_price_range:
  assumes "0 \<le> d" and "d \<le> 100"
  shows "0 \<le> getDiscountedPrice t p d" and "getDiscountedPrice t p d \<le> getListPrice t p"
proof -
  let ?l = "of_int (getListPrice t p) :: rat"
  have eq: "getDiscountedPrice t p d = js_round (?l * (1 - d / 100))"
    by (simp add: getDiscountedPrice_def getListPrice_def Let_def)
  have pos: "0 \<le> ?l" using getListPrice_pos [of t p] by simp
  with assms show "0 \<le> getDiscountedPrice t p d" unfolding eq by (intro js_round_nonneg) simp
  have "?l * (1 - d / 100) \<le> ?l * 1" using pos assms by (intro mult_left_mono) auto
  then show "getDiscountedPrice t p d \<le> getListPrice t p"
    unfolding eq using js_round_mono [of "?l * (1 - d / 100)" ?l] by simp
qed

lemma discounted_price_mono:
  assumes "d \<le> e" shows "getDiscountedPrice t p e \<le> getDiscountedPrice t p d"
proof -
  let ?l = "of_int (getListPrice t p) :: rat"
  have "?l * (1 - e / 100) \<le> ?l * (1 - d / 100)"
    using assms getListPrice_pos [of t p] by (intro mult_left_mono) (auto simp: divide_right_mono)
  then show ?thesis
    using js_round_mono by (simp add: getDiscountedPrice_def getListPrice_def Let_def)
qed

text \<open>The volume discount of each plan, as the comment above the price table states it.\<close>

fun volume_factor :: "plan \<Rightarrow> rat" where
  "volume_factor Monthly = 1"
| "volume_factor Quarterly = 97 / 100"
| "volume_factor SemiAnnual = 93 / 100"
| "volume_factor Annual = 84 / 100"

text \<open>
  The eight hard-coded plan prices are the documented formula: monthly price times number of
  months times the volume factor, rounded to the nearest thousand; and a discount code of a
  percentage in the range the admin form accepts always yields a price between zero and the
  list price, antitone in the percentage.
\<close>

theorem plan_prices_follow_formula:
  "getPrice t p = js_round (of_int (getListPrice t p) * volume_factor p / 1000) * 1000
   \<and> (let d = min 100 (max 0 (x::rat)); e = min 100 (max 0 y)
      in 0 \<le> getDiscountedPrice t p d \<and> getDiscountedPrice t p d \<le> getListPrice t p
         \<and> getDiscountedPrice t p (max d e) \<le> getDiscountedPrice t p d)"
proof -
  have "getPrice t p = js_round (of_int (getListPrice t p) * volume_factor p / 1000) * 1000"
    by (cases t; cases p) (simp_all add: getPrice_def getListPrice_def js_round_def)
  then show ?thesis
    using discounted_price_range [of "min 100 (max 0 x)" t p]
      discounted_price_mono [of "min 100 (max 0 x)" "max (min 100 (max 0 x)) (min 100 (max 0 y))" t p]
    by (simp add: Let_def)
qed

section \<open>The affiliate ladder\<close>

definition calcLevel1Rate :: "int \<Rightarrow> rat \<Rightarrow> rat" where
  "calcLevel1Rate unlockedTier activity90dVnd =
     (if unlockedTier \<ge> 3 \<and> activity90dVnd \<ge> 3000000 then 20 / 100
      else if unlockedTier \<ge> 2 \<and> activity90dVnd \<ge> 1000000 then 15 / 100
      else 10 / 100)"

definition level2Rate :: rat where "level2Rate = 2 / 100"

definition tierFromCumulative :: "rat \<Rightarrow> int" where
  "tierFromCumulative allTimeCumulativeVnd =
     (if allTimeCumulativeVnd \<ge> 30000000 then 3
      else if allTimeCumulativeVnd \<ge> 10000000 then 2
      else 1)"

lemma calcLevel1Rate_range: "10 / 100 \<le> calcLevel1Rate u a \<and> calcLevel1Rate u a \<le> 20 / 100"
  by (simp add: calcLevel1Rate_def)

lemma calcLevel1Rate_mono: "u \<le> v \<Longrightarrow> a \<le> b \<Longrightarrow> calcLevel1Rate u a \<le> calcLevel1Rate v b"
  by (simp add: calcLevel1Rate_def)

lemma tierFromCumulative_range: "1 \<le> tierFromCumulative c \<and> tierFromCumulative c \<le> 3"
  by (simp add: tierFromCumulative_def)

lemma tierFromCumulative_mono: "a \<le> b \<Longrightarrow> tierFromCumulative a \<le> tierFromCumulative b"
  by (simp add: tierFromCumulative_def)

end
