(* ===== verification/Ledger.thy ===== *)
theory Ledger
  imports Prelude
begin

text \<open>
  The interface every wallet of the program shares: a current balance per account and an
  append-only ledger, changed together. A provider says how a commit changes the two; the client
  derives that balances stay reconciled with the ledger, which is the first of the architecture
  document's key invariants.
\<close>

locale ledger_store =
  fixes balance :: "'s \<Rightarrow> 'k \<Rightarrow> rat option"
    and entries :: "'s \<Rightarrow> 'e list"
    and owner :: "'e \<Rightarrow> 'k"
    and delta :: "'e \<Rightarrow> rat"
    and commit :: "'k \<Rightarrow> rat \<Rightarrow> 'e list \<Rightarrow> 's \<Rightarrow> 's"
  assumes balance_commit: "balance (commit k b es s) = (balance s)(k \<mapsto> b)"
    and entries_commit: "entries (commit k b es s) = entries s @ es"
begin

definition ledger_sum :: "'s \<Rightarrow> 'k \<Rightarrow> rat" where
  "ledger_sum s k = sum_rows (\<lambda>e. owner e = k) delta (entries s)"

text \<open>Reconciled: each balance is the sum of its account's entries; an account without a wallet has none.\<close>

definition reconciled :: "'s \<Rightarrow> bool" where
  "reconciled s \<longleftrightarrow> (\<forall>k. ledger_sum s k = (case balance s k of None \<Rightarrow> 0 | Some b \<Rightarrow> b))"

lemma ledger_sum_commit:
  "ledger_sum (commit k b es s) j = ledger_sum s j + sum_rows (\<lambda>e. owner e = j) delta es"
  by (simp add: ledger_sum_def entries_commit)

lemma sum_own:
  "(\<And>e. e \<in> set es \<Longrightarrow> owner e = k) \<Longrightarrow>
     sum_rows (\<lambda>e. owner e = j) delta es = (if j = k then sum_list (map delta es) else 0)"
  by (induction es) auto

lemma reconciled_balance: "reconciled s \<Longrightarrow> balance s k = Some b \<Longrightarrow> b = ledger_sum s k"
  by (metis option.simps(5) reconciled_def)

lemma reconciled_commit:
  assumes "reconciled s"
    and "\<And>e. e \<in> set es \<Longrightarrow> owner e = k"
    and "b = (case balance s k of None \<Rightarrow> 0 | Some b0 \<Rightarrow> b0) + sum_list (map delta es)"
  shows "reconciled (commit k b es s)"
  unfolding reconciled_def
proof
  fix j
  have "ledger_sum s j = (case balance s j of None \<Rightarrow> 0 | Some b \<Rightarrow> b)"
    using assms(1) by (simp add: reconciled_def)
  then show "ledger_sum (commit k b es s) j
      = (case balance (commit k b es s) j of None \<Rightarrow> 0 | Some b \<Rightarrow> b)"
    using assms(3) by (simp add: ledger_sum_commit sum_own [OF assms(2)] balance_commit)
qed

text \<open>Opening an account with balance zero and no entry.\<close>

lemma reconciled_open:
  assumes "reconciled s" and "balance s k = None"
  shows "reconciled (commit k 0 [] s)"
  using assms by (intro reconciled_commit) auto

lemma reconciled_frame:
  assumes "reconciled s" and "balance t = balance s" and "entries t = entries s"
  shows "reconciled t"
  using assms by (simp add: reconciled_def ledger_sum_def)

text \<open>An operation that changes the two like a commit, whatever else of the state it touches.\<close>

lemma reconciled_step:
  assumes "reconciled s" and "balance t = (balance s)(k \<mapsto> b)" and "entries t = entries s @ es"
    and "\<And>e. e \<in> set es \<Longrightarrow> owner e = k"
    and "b = (case balance s k of None \<Rightarrow> 0 | Some b0 \<Rightarrow> b0) + sum_list (map delta es)"
  shows "reconciled t"
  using reconciled_commit [OF assms(1,4,5)]
  by (rule reconciled_frame) (simp_all add: assms(2,3) balance_commit entries_commit)

text \<open>Balances of other accounts do not move.\<close>

lemma commit_frame: "j \<noteq> k \<Longrightarrow> balance (commit k b es s) j = balance s j"
  by (simp add: balance_commit)

end

text \<open>
  Operations that may run again with the same key: webhooks, retries, double clicks. \<open>run\<close> is
  the operation, \<open>settled\<close> the mark it leaves; the provider shows that a settled state is left
  alone and that a successful run settles.
\<close>

locale settle_once =
  fixes run :: "'s \<Rightarrow> 's" and settled :: "'s \<Rightarrow> bool"
  assumes run_settled: "settled s \<Longrightarrow> run s = s"
    and run_settles: "run s \<noteq> s \<Longrightarrow> settled (run s)"
begin

lemma run_twice: "run (run s) = run s"
  by (metis run_settled run_settles)

lemma run_many: "(run ^^ Suc n) s = run s"
  by (induction n) (simp_all add: run_twice)

lemma settled_stays: "settled s \<Longrightarrow> (run ^^ n) s = s"
  by (induction n) (simp_all add: run_settled)

end

end
