(* ===== verification/FeatureFlags.thy ===== *)
theory FeatureFlags
  imports JsString
begin

text \<open>
  Feature switches (\<open>apps/api/src/lib/feature-flag.service.ts\<close>): rows of the system
  configuration table, read on every guarded operation. A flag is on unless its row says
  \<open>"false"\<close>.
\<close>

datatype feature =
    Orders | WalletTopups | TierPurchases | Withdrawals | AffiliateCommissions
  | PaymentBank | PaymentTrc20 | PaymentBep20 | PaymentSolana | PaymentTon

fun feature_key :: "feature \<Rightarrow> string" where
  "feature_key Orders = ''orders''"
| "feature_key WalletTopups = ''wallet_topups''"
| "feature_key TierPurchases = ''tier_purchases''"
| "feature_key Withdrawals = ''withdrawals''"
| "feature_key AffiliateCommissions = ''affiliate_commissions''"
| "feature_key PaymentBank = ''payment_bank''"
| "feature_key PaymentTrc20 = ''payment_trc20''"
| "feature_key PaymentBep20 = ''payment_bep20''"
| "feature_key PaymentSolana = ''payment_solana''"
| "feature_key PaymentTon = ''payment_ton''"

type_synonym system_config = "string \<rightharpoonup> string"

definition config_key :: "feature \<Rightarrow> string \<Rightarrow> string" where
  "config_key f what = ''feature.'' @ feature_key f @ ''.'' @ what"

definition assertEnabled :: "system_config \<Rightarrow> feature \<Rightarrow> string option \<Rightarrow> unit result" where
  "assertEnabled cfg f fallbackMessage =
     (if cfg (config_key f ''enabled'') = Some ''false''
      then Inl (ServiceUnavailable
        (case cfg (config_key f ''message'') of
           Some m \<Rightarrow>
             if js_trim m \<noteq> [] then js_trim m
             else (case fallbackMessage of Some fb \<Rightarrow> if fb \<noteq> [] then fb else ''maintenance''
                   | None \<Rightarrow> ''maintenance'')
         | None \<Rightarrow>
             (case fallbackMessage of Some fb \<Rightarrow> if fb \<noteq> [] then fb else ''maintenance''
              | None \<Rightarrow> ''maintenance'')))
      else Inr ())"

definition feature_on :: "system_config \<Rightarrow> feature \<Rightarrow> bool" where
  "feature_on cfg f \<longleftrightarrow> cfg (config_key f ''enabled'') \<noteq> Some ''false''"

lemma assertEnabled_ok [simp]: "is_ok (assertEnabled cfg f m) \<longleftrightarrow> feature_on cfg f"
  by (simp add: assertEnabled_def feature_on_def)

lemma assertEnabled_InrD: "assertEnabled cfg f m = Inr u \<Longrightarrow> feature_on cfg f"
  using assertEnabled_ok [of cfg f m] by (metis is_ok_simps(1))

lemma assertEnabled_cases:
  "(feature_on cfg f \<and> assertEnabled cfg f m = Inr ())
   \<or> (\<not> feature_on cfg f \<and> (\<exists>msg. assertEnabled cfg f m = Inl (ServiceUnavailable msg)))"
  by (simp add: assertEnabled_def feature_on_def)

lemma feature_key_inj: "feature_key f = feature_key g \<Longrightarrow> f = g"
  by (cases f; cases g) simp_all

lemma config_key_inj: "config_key f w = config_key g w \<Longrightarrow> f = g"
  by (simp add: config_key_def feature_key_inj)

lemma feature_off_other:
  "f \<noteq> g \<Longrightarrow> feature_on (cfg(config_key g ''enabled'' \<mapsto> v)) f = feature_on cfg f"
  by (auto simp: feature_on_def dest: config_key_inj)

end
