(* ===== verification/Receipts.thy ===== *)
theory Receipts
  imports FeatureFlags JsNum
begin

text \<open>
  Blockchain receipts and invoice amounts (\<open>apps/api/src/lib/payment.service.ts\<close>): claiming a
  verified transfer for exactly one invoice, the check every settlement makes before it credits
  money, and the reservation of a distinct amount per open crypto invoice.

  Address normalisation per chain (\<open>normalizeOnchainDestination\<close>) is an argument
  \<open>nrm\<close>; the invoice a code belongs to (\<open>resolvePaymentStatusTarget\<close>) is an argument as well.
\<close>

datatype provider =
    PAYOS | PAY2S | WEB2M | PAYPAL | MOCK | BINANCE | OKX | USDT_TRC20 | USDT_SOL | USDT_TON
  | USDT_BEP20 | BINANCE_PAY

record receipt =
  rc_provider :: provider
  rc_txHash :: string
  rc_txHashNormalized :: string
  rc_code :: string
  rc_amountUsdt :: rat
  rc_destination :: string
  rc_transactionAt :: timestamp

record reservation =
  rs_provider :: provider
  rs_destination :: string
  rs_amountKey :: rat
  rs_code :: string
  rs_expiresAt :: timestamp

record payment_store =
  receipts :: "receipt list"
  reservations :: "reservation list"

text \<open>The parts of a payment target the receipt check reads.\<close>

record target =
  tg_provider :: provider
  tg_createdAt :: timestamp
  tg_expiresAt :: "timestamp option"
  tg_usdtAmount :: jsnum
  tg_destination :: string

definition isDirectOnchainProvider :: "provider \<Rightarrow> bool" where
  "isDirectOnchainProvider p \<longleftrightarrow> p \<in> {USDT_TRC20, USDT_BEP20, USDT_SOL, USDT_TON}"

definition isReceiptBackedCryptoProvider :: "provider \<Rightarrow> bool" where
  "isReceiptBackedCryptoProvider p \<longleftrightarrow> p = BINANCE \<or> p = OKX \<or> isDirectOnchainProvider p"

text \<open>\<open>trim\<close>, drop one \<open>0x\<close>, lower-case a 64-digit hexadecimal hash, keep anything else.\<close>

definition strip_0x :: "string \<Rightarrow> string" where
  "strip_0x s = (case s of a # b # r \<Rightarrow> if a = CHR ''0'' \<and> lower_char b = CHR ''x'' then r else s
                 | _ \<Rightarrow> s)"

definition normalizeOnchainTxHash :: "string \<Rightarrow> string result" where
  "normalizeOnchainTxHash v =
     (let trimmed = js_trim v
      in if trimmed = [] then Inl (BadRequest ''Blockchain transaction hash is required.'')
         else
           (let withoutPrefix = strip_0x trimmed
            in if length withoutPrefix = 64 \<and> list_all is_hex withoutPrefix
               then Inr (to_lower withoutPrefix) else Inr trimmed))"

definition extractOnchainExpectation ::
  "(provider \<Rightarrow> string \<Rightarrow> string) \<Rightarrow> target \<Rightarrow> (rat \<times> string) result" where
  "extractOnchainExpectation nrm t =
     (let amountUsdt = tg_usdtAmount t; destination = nrm (tg_provider t) (tg_destination t)
      in if \<not> is_finite amountUsdt \<or> js_le amountUsdt (Fin 0)
         then Inl (BadRequest ''On-chain invoice amount is missing.'')
         else if destination = []
         then Inl (BadRequest ''On-chain invoice destination is missing or invalid.'')
         else Inr (num_val amountUsdt, destination))"

definition provider_feature :: "provider \<Rightarrow> feature option" where
  "provider_feature p = (case p of USDT_TRC20 \<Rightarrow> Some PaymentTrc20 | USDT_BEP20 \<Rightarrow> Some PaymentBep20
     | USDT_SOL \<Rightarrow> Some PaymentSolana | USDT_TON \<Rightarrow> Some PaymentTon | _ \<Rightarrow> None)"

record claim_input =
  in_provider :: provider
  in_txHash :: string
  in_code :: string
  in_amountUsdt :: jsnum
  in_destination :: string
  in_transactionAt :: "timestamp option"

text \<open>The validation of \<open>claimOnchainPaymentReceipt\<close>, up to the lookups; it yields the normalised hash.\<close>

definition validate_claim ::
  "system_config \<Rightarrow> (provider \<Rightarrow> string \<Rightarrow> string) \<Rightarrow> rat \<Rightarrow> timestamp \<Rightarrow> target option
   \<Rightarrow> claim_input \<Rightarrow> string result" where
  "validate_claim cfg nrm tolerance now tgt i =
     (case (case provider_feature (in_provider i) of None \<Rightarrow> Inr ()
            | Some f \<Rightarrow> assertEnabled cfg f None) of
        Inl e \<Rightarrow> Inl e
      | Inr _ \<Rightarrow>
     (if \<not> isReceiptBackedCryptoProvider (in_provider i)
      then Inl (BadRequest ''Unsupported USDT payment provider.'')
      else if in_txHash i = [] \<or> in_code i = [] \<or> in_destination i = []
      then Inl (BadRequest ''USDT receipt data is incomplete.'')
      else if \<not> is_finite (in_amountUsdt i) \<or> js_le (in_amountUsdt i) (Fin 0)
      then Inl (BadRequest ''USDT receipt amount is invalid.'')
      else
        (case normalizeOnchainTxHash (in_txHash i) of Inl e \<Rightarrow> Inl e | Inr h \<Rightarrow>
        (case tgt of None \<Rightarrow> Inl (NotFound ''Payment target not found.'') | Some t \<Rightarrow>
        (if tg_provider t \<noteq> in_provider i
         then Inl (BadRequest ''On-chain receipt provider does not match the payment target.'')
         else
           (case in_transactionAt i of
              None \<Rightarrow> Inl (BadRequest ''Blockchain transaction predates this payment request.'')
            | Some ta \<Rightarrow>
              if ta < tg_createdAt t - 180 * 1000
              then Inl (BadRequest ''Blockchain transaction predates this payment request.'')
              else if ta > now + 5 * 60 * 1000
              then Inl (BadRequest ''Blockchain transaction timestamp is invalid.'')
              else
                (case extractOnchainExpectation nrm t of Inl e \<Rightarrow> Inl e
                 | Inr (amount, destination) \<Rightarrow>
                   (let actual = nrm (in_provider i) (in_destination i)
                    in if \<bar>num_val (in_amountUsdt i) - amount\<bar> > tolerance + 1 / 10 ^ 9
                       then Inl (BadRequest ''On-chain transfer amount does not match the invoice.'')
                       else if actual = [] \<or> actual \<noteq> destination
                       then Inl (BadRequest ''On-chain transfer destination does not match the invoice.'')
                       else if (case tg_expiresAt t of None \<Rightarrow> False | Some x \<Rightarrow> ta > x + 60000)
                       then Inl (BadRequest ''Blockchain transaction was made after this payment request expired.'')
                       else Inr h))))))))"

text \<open>
  The claim itself: the existing receipt of this hash or of this invoice is returned when it is
  the same pair and refused when it is not; otherwise a receipt is created.
\<close>

definition claimOnchainPaymentReceipt ::
  "system_config \<Rightarrow> (provider \<Rightarrow> string \<Rightarrow> string) \<Rightarrow> rat \<Rightarrow> timestamp \<Rightarrow> target option
   \<Rightarrow> claim_input \<Rightarrow> 'a payment_store_scheme \<Rightarrow> (receipt \<times> 'a payment_store_scheme) result" where
  "claimOnchainPaymentReceipt cfg nrm tolerance now tgt i s =
     (case validate_claim cfg nrm tolerance now tgt i of
        Inl e \<Rightarrow> Inl e
      | Inr h \<Rightarrow>
        (let byTransaction = List.find (\<lambda>r. rc_txHashNormalized r = h) (receipts s);
             byCode = List.find (\<lambda>r. rc_code r = in_code i) (receipts s);
             existing = (case byTransaction of Some r \<Rightarrow> Some r | None \<Rightarrow> byCode)
         in case existing of
              Some r \<Rightarrow>
                if rc_code r \<noteq> in_code i \<or> rc_txHashNormalized r \<noteq> h
                then Inl (BadRequest ''This blockchain transaction or invoice has already been claimed.'')
                else Inr (r, s)
            | None \<Rightarrow>
                (let r = \<lparr>rc_provider = in_provider i, rc_txHash = in_txHash i,
                          rc_txHashNormalized = h, rc_code = in_code i,
                          rc_amountUsdt = to_fixed 8 (num_val (in_amountUsdt i)),
                          rc_destination = in_destination i,
                          rc_transactionAt = (case in_transactionAt i of Some ta \<Rightarrow> ta | None \<Rightarrow> 0)\<rparr>
                 in Inr (r, s\<lparr>receipts := receipts s @ [r]\<rparr>))))"

definition assertCryptoReceiptClaimed ::
  "string \<Rightarrow> provider \<Rightarrow> string option \<Rightarrow> 'a payment_store_scheme \<Rightarrow> receipt option result" where
  "assertCryptoReceiptClaimed code p txHash s =
     (if \<not> isReceiptBackedCryptoProvider p then Inr None
      else
        (case List.find (\<lambda>r. rc_code r = code) (receipts s) of
           None \<Rightarrow> Inl (BadRequest ''Crypto payment cannot be settled before its provider receipt is verified.'')
         | Some r \<Rightarrow>
           if rc_provider r \<noteq> p
           then Inl (BadRequest ''Crypto payment cannot be settled before its provider receipt is verified.'')
           else
             (case txHash of
                None \<Rightarrow> Inr (Some r)
              | Some tx \<Rightarrow>
                if tx = [] then Inr (Some r)
                else
                  (case normalizeOnchainTxHash tx of Inl e \<Rightarrow> Inl e
                   | Inr h \<Rightarrow>
                     if rc_txHashNormalized r \<noteq> h
                     then Inl (BadRequest ''Crypto transaction hash does not match the verified receipt.'')
                     else Inr (Some r)))))"

section \<open>Receipts: one transfer, one invoice\<close>

definition receipts_unique :: "'a payment_store_scheme \<Rightarrow> bool" where
  "receipts_unique s \<longleftrightarrow> distinct (map rc_txHashNormalized (receipts s)) \<and> distinct (map rc_code (receipts s))"

lemma claim_cases:
  assumes "claimOnchainPaymentReceipt cfg nrm tol now tgt i s = Inr (r, t)"
  obtains (found) h where "validate_claim cfg nrm tol now tgt i = Inr h" and "t = s"
      and "r \<in> set (receipts s)" and "rc_code r = in_code i" and "rc_txHashNormalized r = h"
  | (created) h where "validate_claim cfg nrm tol now tgt i = Inr h"
      and "t = s\<lparr>receipts := receipts s @ [r]\<rparr>"
      and "rc_code r = in_code i" and "rc_txHashNormalized r = h" and "rc_provider r = in_provider i"
      and "h \<notin> rc_txHashNormalized ` set (receipts s)" and "in_code i \<notin> rc_code ` set (receipts s)"
proof -
  from assms obtain h where v: "validate_claim cfg nrm tol now tgt i = Inr h"
    by (auto simp: claimOnchainPaymentReceipt_def split: sum.splits)
  let ?ex = "case List.find (\<lambda>r. rc_txHashNormalized r = h) (receipts s) of
      Some r \<Rightarrow> Some r | None \<Rightarrow> List.find (\<lambda>r. rc_code r = in_code i) (receipts s)"
  show ?thesis
  proof (cases ?ex)
    case (Some r')
    then have "r' \<in> set (receipts s)" by (auto split: option.splits dest: find_SomeD)
    with Some v assms show ?thesis
      by (intro found [of h]) (auto simp: claimOnchainPaymentReceipt_def Let_def split: if_splits)
  next
    case None
    with v assms show ?thesis
      by (intro created [of h])
         (auto simp: claimOnchainPaymentReceipt_def Let_def find_None_iff' split: option.splits)
  qed
qed

lemma claim_preserves_unique:
  assumes "receipts_unique s" and "claimOnchainPaymentReceipt cfg nrm tol now tgt i s = Inr (r, t)"
  shows "receipts_unique t"
  using assms(2)
proof (cases rule: claim_cases)
  case found
  with assms(1) show ?thesis by simp
next
  case created
  with assms(1) show ?thesis by (auto simp: receipts_unique_def)
qed

lemma claim_member:
  assumes "claimOnchainPaymentReceipt cfg nrm tol now tgt i s = Inr (r, t)"
  shows "r \<in> set (receipts t)" and "rc_code r = in_code i"
    and "validate_claim cfg nrm tol now tgt i = Inr (rc_txHashNormalized r)"
  by (rule claim_cases [OF assms]; auto)+

lemma unique_same_hash:
  "receipts_unique s \<Longrightarrow> r \<in> set (receipts s) \<Longrightarrow> r' \<in> set (receipts s)
   \<Longrightarrow> rc_txHashNormalized r = rc_txHashNormalized r' \<Longrightarrow> r = r'"
  by (auto simp: receipts_unique_def distinct_map dest: inj_onD)

lemma unique_same_code:
  "receipts_unique s \<Longrightarrow> r \<in> set (receipts s) \<Longrightarrow> r' \<in> set (receipts s)
   \<Longrightarrow> rc_code r = rc_code r' \<Longrightarrow> r = r'"
  by (auto simp: receipts_unique_def distinct_map dest: inj_onD)

text \<open>A run of claims, each with its own clock, configuration and target; refused ones change nothing.\<close>

type_synonym claim_call =
  "system_config \<times> (provider \<Rightarrow> string \<Rightarrow> string) \<times> rat \<times> timestamp \<times> target option \<times> claim_input"

fun run_claims :: "claim_call list \<Rightarrow> payment_store \<Rightarrow> payment_store" where
  "run_claims [] s = s"
| "run_claims ((cfg, nrm, tol, now, tgt, i) # cs) s =
     (case claimOnchainPaymentReceipt cfg nrm tol now tgt i s of
        Inl _ \<Rightarrow> run_claims cs s | Inr (_, t) \<Rightarrow> run_claims cs t)"

lemma run_claims_unique: "receipts_unique s \<Longrightarrow> receipts_unique (run_claims cs s)"
  by (induction cs s rule: run_claims.induct)
     (auto split: sum.split dest: claim_preserves_unique)

lemma claim_keeps_receipts:
  "claimOnchainPaymentReceipt cfg nrm tol now tgt i s = Inr (r, t) \<Longrightarrow> set (receipts s) \<subseteq> set (receipts t)"
  by (erule claim_cases) auto

lemma run_claims_keeps: "set (receipts s) \<subseteq> set (receipts (run_claims cs s))"
proof (induction cs arbitrary: s)
  case (Cons c cs)
  obtain cfg nrm tol now tgt i where c: "c = (cfg, nrm, tol, now, tgt, i)" by (cases c)
  show ?case
  proof (cases "claimOnchainPaymentReceipt cfg nrm tol now tgt i s")
    case (Inr rt)
    obtain r t where "rt = (r, t)" by (cases rt)
    with Inr have "claimOnchainPaymentReceipt cfg nrm tol now tgt i s = Inr (r, t)" by simp
    then have "set (receipts s) \<subseteq> set (receipts t)" by (rule claim_keeps_receipts)
    also have "\<dots> \<subseteq> set (receipts (run_claims cs t))" by (rule Cons.IH)
    finally show ?thesis using Inr \<open>rt = (r, t)\<close> by (simp add: c)
  qed (use Cons.IH in \<open>simp add: c\<close>)
qed simp

text \<open>
  C3. A blockchain transfer settles at most one invoice. Starting from an empty store, after
  any run of claims, if a claim for an invoice is accepted then no other invoice code can be
  accepted with a hash of the same normal form, and the invoice itself is bound to that hash for
  good: any later accepted claim for the same code has the same normalised hash.
\<close>

theorem receipt_binds_hash_and_invoice:
  assumes "claimOnchainPaymentReceipt cfg nrm tol now tgt i
             (run_claims cs \<lparr>receipts = [], reservations = []\<rparr>) = Inr (r, t)"
    and "claimOnchainPaymentReceipt cfg' nrm' tol' now' tgt' j (run_claims cs' t) = Inr (r', t')"
  shows "in_code i = in_code j \<longleftrightarrow> rc_txHashNormalized r = rc_txHashNormalized r'"
proof -
  have "receipts_unique (run_claims cs \<lparr>receipts = [], reservations = []\<rparr>)"
    by (rule run_claims_unique) (simp add: receipts_unique_def)
  then have "receipts_unique t" using assms(1) by (rule claim_preserves_unique)
  then have u: "receipts_unique t'"
    using assms(2) by (blast intro: claim_preserves_unique run_claims_unique)
  have "r \<in> set (receipts t')"
    using claim_member(1) [OF assms(1)] run_claims_keeps claim_keeps_receipts [OF assms(2)] by blast
  moreover have "r' \<in> set (receipts t')" by (rule claim_member(1) [OF assms(2)])
  ultimately show ?thesis
    using u claim_member(2) [OF assms(1)] claim_member(2) [OF assms(2)]
    by (metis unique_same_hash unique_same_code)
qed

text \<open>A concrete store and invoice for the witnesses.\<close>

definition demo_cfg :: system_config where "demo_cfg = (\<lambda>_. None)"
definition demo_norm :: "provider \<Rightarrow> string \<Rightarrow> string" where "demo_norm p d = js_trim d"
definition demo_target :: target where
  "demo_target = \<lparr>tg_provider = USDT_TRC20, tg_createdAt = 0, tg_expiresAt = Some 1800000,
                  tg_usdtAmount = Fin 10, tg_destination = ''T1''\<rparr>"
definition demo_claim :: "string \<Rightarrow> string \<Rightarrow> claim_input" where
  "demo_claim tx code = \<lparr>in_provider = USDT_TRC20, in_txHash = tx, in_code = code,
                        in_amountUsdt = Fin 10, in_destination = ''T1'', in_transactionAt = Some 5\<rparr>"

lemma demo_validate:
  "tx = ''h1'' \<Longrightarrow> code \<noteq> [] \<Longrightarrow>
     validate_claim demo_cfg demo_norm (1 / 50) 10 (Some demo_target) (demo_claim tx code) = Inr tx"
  by (simp add: validate_claim_def demo_cfg_def demo_norm_def demo_target_def demo_claim_def
      provider_feature_def assertEnabled_def isReceiptBackedCryptoProvider_def
      isDirectOnchainProvider_def normalizeOnchainTxHash_def js_trim_def is_ws_def strip_0x_def
      Let_def extractOnchainExpectation_def)

definition demo_receipt :: "string \<Rightarrow> string \<Rightarrow> receipt" where
  "demo_receipt tx code = \<lparr>rc_provider = USDT_TRC20, rc_txHash = tx, rc_txHashNormalized = tx,
     rc_code = code, rc_amountUsdt = 10, rc_destination = ''T1'', rc_transactionAt = 5\<rparr>"

theorem receipt_binds_hash_and_invoice_witness:
  "in_code (demo_claim ''h1'' ''A'') = in_code (demo_claim ''h1'' ''A'')
   \<longleftrightarrow> rc_txHashNormalized (demo_receipt ''h1'' ''A'') = rc_txHashNormalized (demo_receipt ''h1'' ''A'')"
proof (rule receipt_binds_hash_and_invoice [where cs = "[]" and cs' = "[]"
      and cfg = demo_cfg and nrm = demo_norm and tol = "1 / 50" and now = 10 and tgt = "Some demo_target"
      and cfg' = demo_cfg and nrm' = demo_norm and tol' = "1 / 50" and now' = 10 and tgt' = "Some demo_target"])
  show "claimOnchainPaymentReceipt demo_cfg demo_norm (1 / 50) 10 (Some demo_target)
          (demo_claim ''h1'' ''A'') (run_claims [] \<lparr>receipts = [], reservations = []\<rparr>)
      = Inr (demo_receipt ''h1'' ''A'', \<lparr>receipts = [demo_receipt ''h1'' ''A''], reservations = []\<rparr>)"
    using demo_validate [of "''h1''" "''A''"]
    by (simp add: claimOnchainPaymentReceipt_def demo_receipt_def demo_claim_def to_fixed_grid Let_def)
  show "claimOnchainPaymentReceipt demo_cfg demo_norm (1 / 50) 10 (Some demo_target)
          (demo_claim ''h1'' ''A'')
          (run_claims [] \<lparr>receipts = [demo_receipt ''h1'' ''A''], reservations = []\<rparr>)
      = Inr (demo_receipt ''h1'' ''A'', \<lparr>receipts = [demo_receipt ''h1'' ''A''], reservations = []\<rparr>)"
    using demo_validate [of "''h1''" "''A''"]
    by (simp add: claimOnchainPaymentReceipt_def demo_receipt_def demo_claim_def)
qed

section \<open>Distinct amounts for open crypto invoices\<close>

definition ceilToDecimals :: "rat \<Rightarrow> nat \<Rightarrow> rat" where
  "ceilToDecimals v decimals = (let factor = 10 ^ decimals in of_int \<lceil>v * factor\<rceil> / factor)"

definition reservation_step :: "rat \<Rightarrow> rat" where
  "reservation_step tolerance = max (1 / 100) (tolerance * 2 + 1 / 100)"

definition candidate :: "rat \<Rightarrow> rat \<Rightarrow> nat \<Rightarrow> rat" where
  "candidate tolerance amountUsdt attempt =
     ceilToDecimals (amountUsdt + of_nat attempt * reservation_step tolerance) 2"

definition key_taken :: "provider \<Rightarrow> string \<Rightarrow> rat \<Rightarrow> reservation list \<Rightarrow> bool" where
  "key_taken p d k rs \<longleftrightarrow> (\<exists>r \<in> set rs. rs_provider r = p \<and> rs_destination r = d \<and> rs_amountKey r = k)"

text \<open>
  The loop over the attempts: the first candidate whose key is free is reserved; a candidate whose
  key is taken fails the unique index and the next one is tried.
\<close>

fun reserve_loop :: "nat \<Rightarrow> nat \<Rightarrow> provider \<Rightarrow> string \<Rightarrow> rat \<Rightarrow> rat \<Rightarrow> reservation list \<Rightarrow> rat option" where
  "reserve_loop 0 attempt p d tolerance amount rs = None"
| "reserve_loop (Suc n) attempt p d tolerance amount rs =
     (let c = candidate tolerance amount attempt
      in if key_taken p d (to_fixed 8 c) rs
         then reserve_loop n (Suc attempt) p d tolerance amount rs
         else Some c)"

definition reserveOnchainInvoiceAmount ::
  "(provider \<Rightarrow> string \<Rightarrow> string) \<Rightarrow> rat \<Rightarrow> timestamp \<Rightarrow> provider \<Rightarrow> string \<Rightarrow> rat \<Rightarrow> string
   \<Rightarrow> 'a payment_store_scheme \<Rightarrow> rat result \<times> 'a payment_store_scheme" where
  "reserveOnchainInvoiceAmount nrm tolerance now p dest amount code s =
     (let d = nrm p dest
      in if d = [] then (Inl (BadRequest ''On-chain receiving address is invalid.''), s)
         else
           (case List.find (\<lambda>r. rs_code r = code) (reservations s) of
              Some r \<Rightarrow> (Inr (rs_amountKey r), s)
            | None \<Rightarrow>
              (let live = filter (\<lambda>r. \<not> rs_expiresAt r < now) (reservations s)
               in case reserve_loop 200 0 p d tolerance amount live of
                    None \<Rightarrow>
                      (Inl (ServiceUnavailable ''Could not reserve a unique on-chain payment amount.''),
                       s\<lparr>reservations := live\<rparr>)
                  | Some c \<Rightarrow>
                      (Inr c,
                       s\<lparr>reservations := live @
                          [\<lparr>rs_provider = p, rs_destination = d, rs_amountKey = to_fixed 8 c,
                            rs_code = code, rs_expiresAt = now + 60 * 60 * 1000\<rparr>]\<rparr>))))"

lemma candidate_cents: "cents (candidate tol x k)"
  unfolding candidate_def ceilToDecimals_def Let_def by (rule on_grid_divide_power)

lemma candidate_key [simp]: "to_fixed 8 (candidate tol x k) = candidate tol x k"
  by (intro to_fixed_grid on_grid_mono [OF candidate_cents]) simp

lemma candidate_step: "candidate tol x k < candidate tol x (Suc k)"
proof -
  let ?s = "reservation_step tol"
  let ?a = "(x + of_nat k * ?s) * 100"
  have "?a + 1 \<le> (x + of_nat (Suc k) * ?s) * 100"
    by (simp add: reservation_step_def algebra_simps max_def)
  then have "\<lceil>?a + 1\<rceil> \<le> \<lceil>(x + of_nat (Suc k) * ?s) * 100\<rceil>" by (rule ceiling_mono)
  then have "\<lceil>?a\<rceil> < \<lceil>(x + of_nat (Suc k) * ?s) * 100\<rceil>" by simp
  then have "(of_int \<lceil>?a\<rceil> :: rat) < of_int \<lceil>(x + of_nat (Suc k) * ?s) * 100\<rceil>"
    by (simp only: of_int_less_iff)
  then show ?thesis
    by (simp add: candidate_def ceilToDecimals_def Let_def divide_strict_right_mono del: of_nat_Suc)
qed

lemma candidate_inj: "inj (candidate tol x)"
  by (rule strict_mono_imp_inj_on) (simp add: strict_mono_Suc_iff candidate_step)

lemma reserve_loop_Some:
  "reserve_loop n k p d tol x rs = Some c \<Longrightarrow>
     \<exists>j<n. c = candidate tol x (k + j) \<and> \<not> key_taken p d c rs"
proof (induction n arbitrary: k)
  case (Suc n)
  show ?case
  proof (cases "key_taken p d (candidate tol x k) rs")
    case True
    with Suc.prems have "reserve_loop n (Suc k) p d tol x rs = Some c" by (simp add: Let_def)
    from Suc.IH [OF this] obtain j where "j < n" "c = candidate tol x (Suc k + j)" "\<not> key_taken p d c rs"
      by blast
    then show ?thesis by (intro exI [of _ "Suc j"]) simp
  next
    case False
    with Suc.prems show ?thesis by (intro exI [of _ 0]) (auto simp: Let_def)
  qed
qed simp

lemma reserve_loop_None:
  "reserve_loop n k p d tol x rs = None \<Longrightarrow> j < n \<Longrightarrow> key_taken p d (candidate tol x (k + j)) rs"
proof (induction n arbitrary: k j)
  case (Suc n)
  from Suc.prems(1) have now: "key_taken p d (candidate tol x k) rs"
    and rest: "reserve_loop n (Suc k) p d tol x rs = None"
    by (auto simp: Let_def split: if_splits)
  show ?case
  proof (cases j)
    case 0
    with now show ?thesis by simp
  next
    case (Suc i)
    with Suc.prems(2) have "key_taken p d (candidate tol x (Suc k + i)) rs"
      by (intro Suc.IH [OF rest]) simp
    with Suc show ?thesis by simp
  qed
qed simp

text \<open>Pigeonhole: two hundred distinct candidates cannot all be taken by fewer reservations.\<close>

lemma reserve_loop_total:
  assumes "length (filter (\<lambda>r. rs_provider r = p \<and> rs_destination r = d) rs) < n"
  shows "\<exists>c. reserve_loop n 0 p d tol x rs = Some c"
proof (rule ccontr)
  assume "\<not> ?thesis"
  then have none: "reserve_loop n 0 p d tol x rs = None" by auto
  let ?mine = "filter (\<lambda>r. rs_provider r = p \<and> rs_destination r = d) rs"
  have "candidate tol x ` {..<n} \<subseteq> rs_amountKey ` set ?mine"
    using reserve_loop_None [OF none] by (force simp: key_taken_def)
  then have "card (candidate tol x ` {..<n}) \<le> card (set (map rs_amountKey ?mine))"
    by (intro card_mono) auto
  also have "\<dots> \<le> length ?mine" using card_length [of "map rs_amountKey ?mine"] by simp
  finally have "n \<le> length ?mine"
    by (simp add: card_image inj_on_subset [OF candidate_inj])
  with assms show False by simp
qed

definition keys_unique :: "'a payment_store_scheme \<Rightarrow> bool" where
  "keys_unique s \<longleftrightarrow>
     distinct (map (\<lambda>r. (rs_provider r, rs_destination r, rs_amountKey r)) (reservations s))
     \<and> distinct (map rs_code (reservations s))"

lemma distinct_map_filter: "distinct (map f xs) \<Longrightarrow> distinct (map f (filter q xs))"
  by (induction xs) auto

lemma reserve_loop_least: "reserve_loop n k p d tol x rs = Some c \<Longrightarrow> x \<le> c"
proof -
  assume "reserve_loop n k p d tol x rs = Some c"
  then obtain j where j: "c = candidate tol x (k + j)" using reserve_loop_Some by blast
  have "0 \<le> reservation_step tol" by (simp add: reservation_step_def)
  then have "x \<le> x + of_nat (k + j) * reservation_step tol" by simp
  also have "\<dots> \<le> c"
    unfolding j candidate_def ceilToDecimals_def Let_def
    by (simp add: pos_le_divide_eq le_of_int_ceiling)
  finally show ?thesis .
qed

lemma reserve_invalid:
  "nrm p dest = [] \<Longrightarrow> reserveOnchainInvoiceAmount nrm tol now p dest x code s
     = (Inl (BadRequest ''On-chain receiving address is invalid.''), s)"
  by (simp add: reserveOnchainInvoiceAmount_def)

lemma reserve_known:
  assumes "nrm p dest \<noteq> []" and "keys_unique s" and "r \<in> set (reservations s)" and "rs_code r = code"
  shows "reserveOnchainInvoiceAmount nrm tol now p dest x code s = (Inr (rs_amountKey r), s)"
proof -
  obtain r' where r': "List.find (\<lambda>r. rs_code r = code) (reservations s) = Some r'"
    using assms(3,4) by (metis (mono_tags, lifting) find_None_iff not_None_eq)
  then have "r' \<in> set (reservations s)" and "rs_code r' = code" by (auto simp: find_Some_iff)
  with assms(2,3,4) have "r' = r" by (auto simp: keys_unique_def distinct_map dest: inj_onD)
  with r' assms(1) show ?thesis by (simp add: reserveOnchainInvoiceAmount_def)
qed

lemma reserve_fresh:
  assumes "nrm p dest \<noteq> []" and "code \<notin> rs_code ` set (reservations s)"
  shows "reserveOnchainInvoiceAmount nrm tol now p dest x code s =
     (let live = filter (\<lambda>r. \<not> rs_expiresAt r < now) (reservations s)
      in case reserve_loop 200 0 p (nrm p dest) tol x live of
           None \<Rightarrow> (Inl (ServiceUnavailable ''Could not reserve a unique on-chain payment amount.''),
                    s\<lparr>reservations := live\<rparr>)
         | Some c \<Rightarrow> (Inr c, s\<lparr>reservations := live @
               [\<lparr>rs_provider = p, rs_destination = nrm p dest, rs_amountKey = c, rs_code = code,
                 rs_expiresAt = now + 60 * 60 * 1000\<rparr>]\<rparr>))"
proof -
  have "List.find (\<lambda>r. rs_code r = code) (reservations s) = None"
    using assms(2) by (auto simp: find_None_iff')
  moreover have "to_fixed 8 c = c" if "reserve_loop 200 0 p (nrm p dest) tol x rs = Some c" for c rs
    using reserve_loop_Some [OF that] by auto
  ultimately show ?thesis
    using assms(1) by (simp add: reserveOnchainInvoiceAmount_def Let_def split: option.split)
qed

lemma keys_unique_live: "keys_unique s \<Longrightarrow> keys_unique (s\<lparr>reservations := filter q (reservations s)\<rparr>)"
  by (simp add: keys_unique_def distinct_map_filter)

lemma keys_unique_reserved:
  assumes "keys_unique s" and "\<not> key_taken p d c (filter q (reservations s))"
    and "code \<notin> rs_code ` set (reservations s)"
  shows "keys_unique (s\<lparr>reservations := filter q (reservations s) @
     [\<lparr>rs_provider = p, rs_destination = d, rs_amountKey = c, rs_code = code, rs_expiresAt = e\<rparr>]\<rparr>)"
  using assms by (auto simp: keys_unique_def key_taken_def intro: distinct_map_filter)

definition reservation_of :: "'a payment_store_scheme \<Rightarrow> string \<Rightarrow> rat \<Rightarrow> bool" where
  "reservation_of s code c \<longleftrightarrow> (\<exists>r \<in> set (reservations s). rs_code r = code \<and> rs_amountKey r = c)"

definition all_attempts_taken ::
  "provider \<Rightarrow> string \<Rightarrow> rat \<Rightarrow> rat \<Rightarrow> reservation list \<Rightarrow> bool" where
  "all_attempts_taken p d tol x live \<longleftrightarrow>
     (\<forall>j<200. key_taken p d (candidate tol x j) live)
     \<and> 200 \<le> length (filter (\<lambda>r. rs_provider r = p \<and> rs_destination r = d) live)"

text \<open>
  C28. Every outcome of reserving an invoice amount, from any store whose keys are unique. Keys
  are unique afterwards. An address that does not normalise is refused and nothing changes. An
  invoice code that already has a reservation gets its amount again and nothing changes. A new
  code drops the expired reservations and then either gets an amount that is at least the
  requested one and is the key of no live reservation of that address, recorded so that asking
  again returns the same amount; or the loop of two hundred attempts fails, exactly when each of
  its two hundred candidates is the key of a live reservation of the address, which takes at
  least two hundred live reservations of that address, and then no reservation is added.
\<close>

theorem reservation_total_and_unique:
  assumes "keys_unique s"
  shows "let d = nrm p dest;
             live = filter (\<lambda>r. \<not> rs_expiresAt r < now) (reservations s);
             known = (code \<in> rs_code ` set (reservations s));
             (outcome, t) = reserveOnchainInvoiceAmount nrm tol now p dest x code s
         in keys_unique t
            \<and> (case outcome of
                 Inr c \<Rightarrow> d \<noteq> [] \<and> reservation_of t code c
                   \<and> reserveOnchainInvoiceAmount nrm tol now p dest x code t = (Inr c, t)
                   \<and> (if known then t = s
                      else x \<le> c \<and> \<not> key_taken p d c live
                           \<and> reservations t = live @
                               [\<lparr>rs_provider = p, rs_destination = d, rs_amountKey = c,
                                 rs_code = code, rs_expiresAt = now + 60 * 60 * 1000\<rparr>])
               | Inl e \<Rightarrow>
                   if d = [] then t = s
                   else \<not> known \<and> all_attempts_taken p d tol x live
                        \<and> t = s\<lparr>reservations := live\<rparr>)
            \<and> ((\<exists>e. outcome = Inl e) \<longleftrightarrow> d = [] \<or> \<not> known \<and> all_attempts_taken p d tol x live)"
proof -
  let ?d = "nrm p dest"
  let ?live = "filter (\<lambda>r. \<not> rs_expiresAt r < now) (reservations s)"
  let ?row = "\<lambda>c. \<lparr>rs_provider = p, rs_destination = ?d, rs_amountKey = c, rs_code = code,
               rs_expiresAt = now + 60 * 60 * 1000\<rparr>"
  consider (invalid) "?d = []"
    | (known) r where "?d \<noteq> []" "r \<in> set (reservations s)" "rs_code r = code"
    | (fresh) "?d \<noteq> []" "code \<notin> rs_code ` set (reservations s)" by blast
  then show ?thesis
  proof cases
    case invalid
    then show ?thesis using assms by (simp add: reserve_invalid)
  next
    case known
    then have "code \<in> rs_code ` set (reservations s)" by blast
    moreover have "reservation_of s code (rs_amountKey r)"
      using known by (auto simp: reservation_of_def)
    moreover have "reserveOnchainInvoiceAmount nrm tol now p dest x code s = (Inr (rs_amountKey r), s)"
      using known assms by (blast intro: reserve_known)
    ultimately show ?thesis using assms known(1) by (simp add: Let_def)
  next
    case fresh
    show ?thesis
    proof (cases "reserve_loop 200 0 p ?d tol x ?live")
      case None
      then have taken: "all_attempts_taken p ?d tol x ?live"
        using reserve_loop_None [OF None] reserve_loop_total [of p ?d ?live 200 tol x]
        by (auto simp: all_attempts_taken_def not_le [symmetric])
      from fresh None have "reserveOnchainInvoiceAmount nrm tol now p dest x code s
          = (Inl (ServiceUnavailable ''Could not reserve a unique on-chain payment amount.''),
             s\<lparr>reservations := ?live\<rparr>)"
        by (simp add: reserve_fresh Let_def)
      with taken fresh keys_unique_live [OF assms] show ?thesis by (simp add: Let_def)
    next
      case (Some c)
      let ?t = "s\<lparr>reservations := ?live @ [?row c]\<rparr>"
      obtain j where "j < 200" "c = candidate tol x j" and free: "\<not> key_taken p ?d c ?live"
        using reserve_loop_Some [OF Some] by auto
      then have not_all: "\<not> all_attempts_taken p ?d tol x ?live" by (auto simp: all_attempts_taken_def)
      have first: "reserveOnchainInvoiceAmount nrm tol now p dest x code s = (Inr c, ?t)"
        using fresh Some by (simp add: reserve_fresh Let_def)
      have uniq: "keys_unique ?t" by (rule keys_unique_reserved [OF assms free fresh(2)])
      have "?row c \<in> set (reservations ?t)" and "rs_code (?row c) = code" by simp_all
      with fresh(1) uniq have "reserveOnchainInvoiceAmount nrm tol now p dest x code ?t
          = (Inr (rs_amountKey (?row c)), ?t)"
        by (blast intro: reserve_known)
      then have again: "reserveOnchainInvoiceAmount nrm tol now p dest x code ?t = (Inr c, ?t)" by simp
      have "reservation_of ?t code c" by (simp add: reservation_of_def)
      with first uniq again free fresh not_all reserve_loop_least [OF Some] show ?thesis
        by (simp add: Let_def)
    qed
  qed
qed

definition empty_store :: payment_store where
  "empty_store = \<lparr>receipts = [], reservations = []\<rparr>"

lemma empty_store_unique: "keys_unique empty_store"
  by (simp add: empty_store_def keys_unique_def)

lemma demo_norm_T1: "demo_norm p ''T1'' = ''T1''"
  by (simp add: demo_norm_def js_trim_def is_ws_def)

lemma candidate_first: "cents x \<Longrightarrow> candidate tol x 0 = x"
  by (elim on_gridE) (simp add: candidate_def ceilToDecimals_def Let_def eq_divide_eq)

text \<open>On the empty store a first invoice of 10 USDT gets its amount.\<close>

theorem reservation_total_and_unique_witness:
  "\<exists>c t. reserveOnchainInvoiceAmount demo_norm (1 / 50) 0 USDT_TRC20 ''T1'' 10 ''A'' empty_store = (Inr c, t)
     \<and> 10 \<le> c \<and> keys_unique t \<and> reservation_of t ''A'' c
     \<and> reserveOnchainInvoiceAmount demo_norm (1 / 50) 0 USDT_TRC20 ''T1'' 10 ''A'' t = (Inr c, t)"
  using reservation_total_and_unique [OF empty_store_unique, of demo_norm USDT_TRC20 "''T1''" 0 "''A''" "1 / 50" 10]
  by (auto simp: Let_def demo_norm_T1 empty_store_def all_attempts_taken_def
      split: prod.splits sum.splits)

text \<open>
  Distinct reserved amounts do not identify the invoice. The step between attempts exceeds
  twice the tolerance, but only separates invoices with the same starting amount: two open
  invoices of 10.00 and 10.01 USDT to the same address are both reserved unchanged, and one
  transfer of 10.00 passes the receipt check against either of them.
\<close>

theorem reserved_amounts_confusable:
  "let (a, s1) = reserveOnchainInvoiceAmount demo_norm (1 / 50) 0 USDT_TRC20 ''T1'' 10 ''A'' empty_store;
       (b, s2) = reserveOnchainInvoiceAmount demo_norm (1 / 50) 0 USDT_TRC20 ''T1'' (1001 / 100) ''B'' s1
   in a = Inr 10 \<and> b = Inr (1001 / 100)
      \<and> validate_claim demo_cfg demo_norm (1 / 50) 10 (Some demo_target) (demo_claim ''h1'' ''A'')
          = Inr ''h1''
      \<and> validate_claim demo_cfg demo_norm (1 / 50) 10
          (Some (demo_target\<lparr>tg_usdtAmount := Fin (1001 / 100)\<rparr>)) (demo_claim ''h1'' ''B'') = Inr ''h1''"
proof -
  have c1: "candidate (1 / 50) 10 0 = 10" by (rule candidate_first) simp
  have c2: "candidate (1 / 50) (1001 / 100) 0 = 1001 / 100"
    by (rule candidate_first) (simp add: on_gridI [where k = 1001])
  have loop1: "reserve_loop 200 0 USDT_TRC20 ''T1'' (1 / 50) 10 [] = Some 10"
    by (simp add: eval_nat_numeral key_taken_def c1)
  let ?row = "\<lparr>rs_provider = USDT_TRC20, rs_destination = ''T1'', rs_amountKey = 10, rs_code = ''A'',
               rs_expiresAt = 3600000\<rparr>"
  have "to_fixed 8 (1001 / 100) = 1001 / 100"
    using candidate_key [of "1 / 50" "1001 / 100" 0] by (simp only: c2)
  then have loop2: "reserve_loop 200 0 USDT_TRC20 ''T1'' (1 / 50) (1001 / 100) [?row] = Some (1001 / 100)"
    by (simp add: eval_nat_numeral key_taken_def c2)
  have r1: "reserveOnchainInvoiceAmount demo_norm (1 / 50) 0 USDT_TRC20 ''T1'' 10 ''A'' empty_store
      = (Inr 10, \<lparr>receipts = [], reservations = [?row]\<rparr>)"
    by (simp add: reserveOnchainInvoiceAmount_def demo_norm_T1 Let_def empty_store_def loop1 to_fixed_grid)
  have r2: "fst (reserveOnchainInvoiceAmount demo_norm (1 / 50) 0 USDT_TRC20 ''T1'' (1001 / 100) ''B''
      \<lparr>receipts = [], reservations = [?row]\<rparr>) = Inr (1001 / 100)"
    by (simp add: reserveOnchainInvoiceAmount_def demo_norm_T1 Let_def loop2)
  have "validate_claim demo_cfg demo_norm (1 / 50) 10
          (Some (demo_target\<lparr>tg_usdtAmount := Fin (1001 / 100)\<rparr>)) (demo_claim ''h1'' ''B'') = Inr ''h1''"
    by (simp add: validate_claim_def demo_cfg_def demo_norm_def demo_target_def demo_claim_def
        provider_feature_def assertEnabled_def isReceiptBackedCryptoProvider_def
        isDirectOnchainProvider_def normalizeOnchainTxHash_def js_trim_def is_ws_def strip_0x_def
        Let_def extractOnchainExpectation_def)
  then show ?thesis
    using r1 r2 demo_validate [of "''h1''" "''A''"] by (simp add: case_prod_beta Let_def)
qed

end
