(* ===== verification/SellerData.thy ===== *)
theory SellerData
  imports Ledger Receipts TierPricing
begin

text \<open>
  The seller side of the database (\<open>prisma/schema.prisma\<close>): sellers, their wallets and wallet
  ledger, deposit and withdraw requests, tier subscriptions, discount codes and their usages.
  A wallet is keyed by its seller (\<open>sellerId\<close> is unique and a wallet row is never reassigned),
  so the wallet id the code passes around is its seller's id here. Free-text notes that no code
  reads back are left out.
\<close>

datatype ledger_type =
    TOPUP | DEBIT_PURCHASE | REFUND_PURCHASE | WITHDRAW | ADJUST | WITHDRAW_REJECT_REFUND
  | SALE_REVENUE | AFFILIATE_LEVEL_1 | AFFILIATE_LEVEL_2 | AFFILIATE_CLAWBACK
  | SUBSCRIPTION_PAYMENT

record wallet_entry =
  we_seller :: ident
  we_type :: ledger_type
  we_amount :: money
  we_before :: money
  we_after :: money
  we_refType :: string
  we_refId :: string
  we_createdAt :: timestamp

datatype deposit_status = DepPending | DepConfirmed | DepRejected
datatype withdraw_status = WdPending | WdApproved | WdRejected
datatype subscription_status = SubActive | SubExpired | SubRefunded | SubCanceled

record deposit =
  dep_id :: ident
  dep_seller :: ident
  dep_amount :: money
  dep_status :: deposit_status
  dep_provider :: provider
  dep_code :: "string option"
  dep_expiresAt :: "timestamp option"
  dep_paidAt :: "timestamp option"
  dep_note :: "string option"

record withdraw =
  wd_id :: ident
  wd_seller :: ident
  wd_amount :: money
  wd_status :: withdraw_status
  wd_reviewedBy :: "ident option"
  wd_reviewedAt :: "timestamp option"
  wd_rejectReason :: "string option"

record auto_renew =
  ar_enabled :: bool
  ar_plan :: plan
  ar_useWallet :: bool

record seller =
  sl_id :: ident
  sl_userId :: ident
  sl_email :: "string option"
  sl_phone :: "string option"
  sl_tier :: seller_tier
  sl_tierStartedAt :: "timestamp option"
  sl_tierExpiresAt :: "timestamp option"
  sl_referredBy :: "ident option"
  sl_referralCode :: "string option"
  sl_unlockedTier :: int
  sl_commissionPercent :: "rat option"
  sl_unlockedTier2At :: "timestamp option"
  sl_unlockedTier3At :: "timestamp option"
  sl_autoRenew :: "auto_renew option"

record subscription =
  sub_id :: ident
  sub_seller :: ident
  sub_tier :: seller_tier
  sub_plan :: tier_plan
  sub_price :: money
  sub_startsAt :: timestamp
  sub_endsAt :: timestamp
  sub_status :: subscription_status
  sub_paymentMethod :: string
  sub_paymentTransaction :: "ident option"
  sub_paidFromWallet :: bool
  sub_referrer :: "ident option"
  sub_grandReferrer :: "ident option"
  sub_level1Rate :: "rat option"
  sub_level2Rate :: "rat option"
  sub_level1Commission :: "money option"
  sub_level2Commission :: "money option"
  sub_refundedAt :: "timestamp option"
  sub_isAdminGrant :: bool
  sub_createdAt :: timestamp

record discount_code =
  dc_id :: ident
  dc_code :: string
  dc_percent :: rat
  dc_referrer :: ident
  dc_active :: bool

record discount_usage =
  du_code :: ident
  du_seller :: ident
  du_subscription :: ident
  du_amount :: money

record platform_db = payment_store +
  sellers :: "seller list"
  seller_wallets :: "ident \<rightharpoonup> money"
  wallet_ledgers :: "wallet_entry list"
  deposits :: "deposit list"
  withdraws :: "withdraw list"
  subscriptions :: "subscription list"
  discount_codes :: "discount_code list"
  discount_usages :: "discount_usage list"

definition empty_platform :: platform_db where
  "empty_platform = \<lparr>receipts = [], reservations = [], sellers = [], seller_wallets = Map.empty,
     wallet_ledgers = [], deposits = [], withdraws = [], subscriptions = [],
     discount_codes = [], discount_usages = []\<rparr>"

abbreviation seller_at :: "ident \<Rightarrow> platform_db \<Rightarrow> seller option" where
  "seller_at i s \<equiv> List.find (\<lambda>r. sl_id r = i) (sellers s)"

abbreviation deposit_at :: "ident \<Rightarrow> platform_db \<Rightarrow> deposit option" where
  "deposit_at i s \<equiv> List.find (\<lambda>r. dep_id r = i) (deposits s)"

abbreviation withdraw_at :: "ident \<Rightarrow> platform_db \<Rightarrow> withdraw option" where
  "withdraw_at i s \<equiv> List.find (\<lambda>r. wd_id r = i) (withdraws s)"

abbreviation subscription_at :: "ident \<Rightarrow> platform_db \<Rightarrow> subscription option" where
  "subscription_at i s \<equiv> List.find (\<lambda>r. sub_id r = i) (subscriptions s)"

definition update_seller :: "ident \<Rightarrow> (seller \<Rightarrow> seller) \<Rightarrow> platform_db \<Rightarrow> platform_db" where
  "update_seller i f s = s\<lparr>sellers := modify_rows (\<lambda>r. sl_id r = i) f (sellers s)\<rparr>"

definition update_deposit :: "ident \<Rightarrow> (deposit \<Rightarrow> deposit) \<Rightarrow> platform_db \<Rightarrow> platform_db" where
  "update_deposit i f s = s\<lparr>deposits := modify_rows (\<lambda>r. dep_id r = i) f (deposits s)\<rparr>"

definition update_withdraw :: "ident \<Rightarrow> (withdraw \<Rightarrow> withdraw) \<Rightarrow> platform_db \<Rightarrow> platform_db" where
  "update_withdraw i f s = s\<lparr>withdraws := modify_rows (\<lambda>r. wd_id r = i) f (withdraws s)\<rparr>"

definition update_subscription ::
  "ident \<Rightarrow> (subscription \<Rightarrow> subscription) \<Rightarrow> platform_db \<Rightarrow> platform_db" where
  "update_subscription i f s =
     s\<lparr>subscriptions := modify_rows (\<lambda>r. sub_id r = i) f (subscriptions s)\<rparr>"

lemmas platform_update_defs =
  update_seller_def update_deposit_def update_withdraw_def update_subscription_def

section \<open>The seller wallet and its ledger\<close>

text \<open>
  The pair of writes every balance change of the code makes: \<open>sellerWallet.update\<close> with the new
  balance and \<open>walletLedger.create\<close> with the amount and both balances, each rounded to the
  column's two decimals.
\<close>

definition commit_wallet :: "ident \<Rightarrow> money \<Rightarrow> wallet_entry list \<Rightarrow> platform_db \<Rightarrow> platform_db" where
  "commit_wallet i b es s =
     s\<lparr>seller_wallets := (seller_wallets s)(i \<mapsto> b), wallet_ledgers := wallet_ledgers s @ es\<rparr>"

definition mk_entry ::
  "ident \<Rightarrow> ledger_type \<Rightarrow> rat \<Rightarrow> rat \<Rightarrow> rat \<Rightarrow> string \<Rightarrow> string \<Rightarrow> timestamp \<Rightarrow> wallet_entry" where
  "mk_entry i ty amount before after refType refId now =
     \<lparr>we_seller = i, we_type = ty, we_amount = toDecimal amount, we_before = toDecimal before,
      we_after = toDecimal after, we_refType = refType, we_refId = refId, we_createdAt = now\<rparr>"

definition post_wallet ::
  "ident \<Rightarrow> ledger_type \<Rightarrow> rat \<Rightarrow> rat \<Rightarrow> rat \<Rightarrow> string \<Rightarrow> string \<Rightarrow> timestamp \<Rightarrow> platform_db \<Rightarrow> platform_db" where
  "post_wallet i ty amount before after refType refId now s =
     commit_wallet i (toDecimal after) [mk_entry i ty amount before after refType refId now] s"

lemma mk_entry_simps [simp]:
  "we_seller (mk_entry i ty a b c rt ri now) = i"
  "we_type (mk_entry i ty a b c rt ri now) = ty"
  "we_amount (mk_entry i ty a b c rt ri now) = toDecimal a"
  "we_before (mk_entry i ty a b c rt ri now) = toDecimal b"
  "we_after (mk_entry i ty a b c rt ri now) = toDecimal c"
  "we_refType (mk_entry i ty a b c rt ri now) = rt"
  "we_refId (mk_entry i ty a b c rt ri now) = ri"
  "we_createdAt (mk_entry i ty a b c rt ri now) = now"
  by (simp_all add: mk_entry_def)

lemma commit_wallet_simps [simp]:
  "seller_wallets (commit_wallet i b es s) = (seller_wallets s)(i \<mapsto> b)"
  "wallet_ledgers (commit_wallet i b es s) = wallet_ledgers s @ es"
  "sellers (commit_wallet i b es s) = sellers s"
  "deposits (commit_wallet i b es s) = deposits s"
  "withdraws (commit_wallet i b es s) = withdraws s"
  "subscriptions (commit_wallet i b es s) = subscriptions s"
  "discount_codes (commit_wallet i b es s) = discount_codes s"
  "discount_usages (commit_wallet i b es s) = discount_usages s"
  "receipts (commit_wallet i b es s) = receipts s"
  by (simp_all add: commit_wallet_def)

lemma post_wallet_simps [simp]:
  "seller_wallets (post_wallet i ty a b c rt ri now s) = (seller_wallets s)(i \<mapsto> toDecimal c)"
  "wallet_ledgers (post_wallet i ty a b c rt ri now s)
     = wallet_ledgers s @ [mk_entry i ty a b c rt ri now]"
  "sellers (post_wallet i ty a b c rt ri now s) = sellers s"
  "deposits (post_wallet i ty a b c rt ri now s) = deposits s"
  "withdraws (post_wallet i ty a b c rt ri now s) = withdraws s"
  "subscriptions (post_wallet i ty a b c rt ri now s) = subscriptions s"
  "discount_codes (post_wallet i ty a b c rt ri now s) = discount_codes s"
  "discount_usages (post_wallet i ty a b c rt ri now s) = discount_usages s"
  "receipts (post_wallet i ty a b c rt ri now s) = receipts s"
  by (simp_all add: post_wallet_def)

interpretation sw: ledger_store seller_wallets wallet_ledgers we_seller we_amount commit_wallet
  by unfold_locales simp_all

text \<open>Every wallet balance and every ledger amount is a value of its decimal column.\<close>

definition wallet_cents :: "platform_db \<Rightarrow> bool" where
  "wallet_cents s \<longleftrightarrow> (\<forall>i b. seller_wallets s i = Some b \<longrightarrow> cents b)"

definition entry_balanced :: "wallet_entry \<Rightarrow> bool" where
  "entry_balanced e \<longleftrightarrow> we_after e = we_before e + we_amount e"

text \<open>The money invariant of the seller side.\<close>

definition money_ok :: "platform_db \<Rightarrow> bool" where
  "money_ok s \<longleftrightarrow> sw.reconciled s \<and> wallet_cents s \<and> list_all entry_balanced (wallet_ledgers s)"

lemma money_okD:
  assumes "money_ok s"
  shows "sw.reconciled s" and "wallet_cents s" and "list_all entry_balanced (wallet_ledgers s)"
    and "seller_wallets s i = Some b \<Longrightarrow> cents b"
  using assms by (auto simp: money_ok_def wallet_cents_def)

lemma money_ok_frame:
  assumes "money_ok s" and "seller_wallets t = seller_wallets s" and "wallet_ledgers t = wallet_ledgers s"
  shows "money_ok t"
  using assms sw.reconciled_frame [of s t] by (simp add: money_ok_def wallet_cents_def)

lemma money_ok_cong:
  "seller_wallets t = seller_wallets s \<Longrightarrow> wallet_ledgers t = wallet_ledgers s \<Longrightarrow> money_ok t = money_ok s"
  by (rule iffI; erule money_ok_frame; simp)

lemma money_ok_updates [simp]:
  "money_ok (update_seller i f s) = money_ok s"
  "money_ok (update_deposit i g s) = money_ok s"
  "money_ok (update_withdraw i h s) = money_ok s"
  "money_ok (update_subscription i k s) = money_ok s"
  "money_ok (s\<lparr>subscriptions := subs\<rparr>) = money_ok s"
  "money_ok (s\<lparr>discount_usages := us\<rparr>) = money_ok s"
  "money_ok (s\<lparr>deposits := ds\<rparr>) = money_ok s"
  "money_ok (s\<lparr>withdraws := ws\<rparr>) = money_ok s"
  by (auto intro: money_ok_frame simp: platform_update_defs)

lemma money_ok_post:
  assumes "money_ok s" and "seller_wallets s i = Some b" and "cents d"
  shows "money_ok (post_wallet i ty d b (b + d) rt ri now s)"
proof -
  have b: "cents b" using assms by (auto dest: money_okD)
  have c: "toDecimal d = d" "toDecimal b = b" "toDecimal (b + d) = b + d"
    using b assms(3) on_grid_add [OF b assms(3)] by (simp_all add: toDecimal_cents)
  have "sw.reconciled (commit_wallet i (toDecimal (b + d)) [mk_entry i ty d b (b + d) rt ri now] s)"
    using assms(1,2) by (intro sw.reconciled_commit) (auto simp: c dest: money_okD)
  moreover have "wallet_cents (commit_wallet i (toDecimal (b + d)) [mk_entry i ty d b (b + d) rt ri now] s)"
    using assms(1) b assms(3) by (auto simp: wallet_cents_def c dest: money_okD)
  ultimately show ?thesis
    using assms(1) by (simp add: money_ok_def post_wallet_def entry_balanced_def c)
qed

lemma money_ok_open:
  assumes "money_ok s" and "seller_wallets s i = None"
  shows "money_ok (s\<lparr>seller_wallets := (seller_wallets s)(i \<mapsto> 0)\<rparr>)"
proof -
  have "s\<lparr>seller_wallets := (seller_wallets s)(i \<mapsto> 0)\<rparr> = commit_wallet i 0 [] s"
    by (simp add: commit_wallet_def)
  moreover have "sw.reconciled (commit_wallet i 0 [] s)"
    using assms by (intro sw.reconciled_open) (auto dest: money_okD)
  ultimately show ?thesis
    using assms(1) by (simp add: money_ok_def wallet_cents_def)
qed

lemma money_ok_empty: "money_ok empty_platform"
  by (simp add: money_ok_def empty_platform_def sw.reconciled_def sw.ledger_sum_def wallet_cents_def)

end
