(* ===== verification/SellerWallet.thy ===== *)
theory SellerWallet
  imports SellerData
begin

text \<open>
  The seller wallet (\<open>apps/api/src/wallet/wallet.service.ts\<close>): deposits, withdrawals, order
  debits and refunds, and the administrator's corrections.

  An operation that runs in one transaction behind row locks is one function. An operation whose
  check and write are separate database calls (cancelling a deposit, cancelling a withdrawal) or
  that reads the balance before it takes the lock (asking for a withdrawal) is two functions: the
  check, whose result the request keeps, and the write that uses it. The step relation at the end
  interleaves them. The caller's seller (\<open>getSellerShop\<close>), fresh row ids, payment codes and
  the provider of a payment link are arguments.
\<close>

section \<open>Reading the wallet\<close>

definition getPendingWithdrawAmount :: "ident \<Rightarrow> platform_db \<Rightarrow> money" where
  "getPendingWithdrawAmount sid s =
     sum_rows (\<lambda>w. wd_seller w = sid \<and> wd_status w = WdPending) wd_amount (withdraws s)"

record wallet_view =
  wv_balance :: money
  wv_pending :: money
  wv_withdrawable :: money

definition getWallet :: "ident \<Rightarrow> platform_db \<Rightarrow> wallet_view result" where
  "getWallet sid s =
     (case seller_wallets s sid of
        None \<Rightarrow> Inl (NotFound ''Wallet not found.'')
      | Some balance \<Rightarrow>
          (let pendingWithdrawAmount = getPendingWithdrawAmount sid s
           in Inr \<lparr>wv_balance = balance, wv_pending = pendingWithdrawAmount,
                   wv_withdrawable = max 0 (balance - pendingWithdrawAmount)\<rparr>))"

section \<open>Deposits\<close>

datatype deposit_method = PayBinance | PayUsdtSol | PayUsdtTon | PayOther

text \<open>The provider asked for; the link service answers with the provider it really used.\<close>

definition depositProviderOverride :: "deposit_method \<Rightarrow> provider" where
  "depositProviderOverride m = (case m of PayUsdtSol \<Rightarrow> USDT_SOL | PayUsdtTon \<Rightarrow> USDT_TON
     | PayBinance \<Rightarrow> BINANCE | PayOther \<Rightarrow> PAYOS)"

definition deposit_topup_note :: "ident \<Rightarrow> string option \<Rightarrow> string" where
  "deposit_topup_note sid note = ''WALLET_TOPUP:'' @ sid @
     (case note of None \<Rightarrow> [] | Some n \<Rightarrow> if n = [] then [] else '':'' @ n)"

definition createDepositRequest ::
  "bool \<Rightarrow> (provider \<Rightarrow> provider) \<Rightarrow> ident \<Rightarrow> string \<Rightarrow> timestamp \<Rightarrow> ident \<Rightarrow> jsnum \<Rightarrow> deposit_method
   \<Rightarrow> string option \<Rightarrow> platform_db \<Rightarrow> (deposit \<times> platform_db) result" where
  "createDepositRequest platformShopConfigured linkProvider newId externalOrderCode now sid amount m note s =
     (if \<not> is_integer amount \<or> js_less amount (Fin 100000)
      then Inl (BadRequest ''Minimum deposit is 100.000d.'')
      else if \<not> platformShopConfigured
      then Inl (BadRequest ''Wallet deposits are not configured.'')
      else
        (let d = \<lparr>dep_id = newId, dep_seller = sid, dep_amount = toDecimal (num_val amount),
                  dep_status = DepPending, dep_provider = linkProvider (depositProviderOverride m),
                  dep_code = Some externalOrderCode, dep_expiresAt = Some (now + 30 * 60 * 1000),
                  dep_paidAt = None, dep_note = Some (deposit_topup_note sid note)\<rparr>
         in Inr (d, s\<lparr>deposits := deposits s @ [d]\<rparr>)))"

text \<open>The transaction of the confirmation, under the lock of the deposit row and of the wallet row.\<close>

definition confirm_deposit_tx :: "ident \<Rightarrow> timestamp \<Rightarrow> platform_db \<Rightarrow> (unit \<times> platform_db) result" where
  "confirm_deposit_tx did now s =
     (case deposit_at did s of
        None \<Rightarrow> Inl (NotFound ''Deposit request not found.'')
      | Some currentDeposit \<Rightarrow>
        if dep_status currentDeposit = DepConfirmed then Inr ((), s)
        else
          (case seller_wallets s (dep_seller currentDeposit) of
             None \<Rightarrow> Inl (NotFound ''Wallet not found.'')
           | Some balanceBefore \<Rightarrow>
               (let amount = dep_amount currentDeposit;
                    balanceAfter = balanceBefore + amount
                in Inr ((), update_deposit did
                     (\<lambda>d. d\<lparr>dep_status := DepConfirmed, dep_paidAt := Some now,
                            dep_note := Some (case dep_note currentDeposit of Some n \<Rightarrow> n
                              | None \<Rightarrow> ''Top up seller wallet from dashboard'')\<rparr>)
                     (post_wallet (dep_seller currentDeposit) TOPUP amount balanceBefore balanceAfter
                        ''deposit_request'' did now s)))))"

definition confirmDepositRequestByExternalOrderCode ::
  "string \<Rightarrow> timestamp \<Rightarrow> platform_db \<Rightarrow> unit result \<times> platform_db" where
  "confirmDepositRequestByExternalOrderCode externalOrderCode now s =
     (case List.find (\<lambda>d. dep_code d = Some externalOrderCode) (deposits s) of
        None \<Rightarrow> (Inl (NotFound ''Deposit request not found.''), s)
      | Some deposit \<Rightarrow>
        (case assertCryptoReceiptClaimed externalOrderCode (dep_provider deposit) None s of
           Inl e \<Rightarrow> (Inl e, s)
         | Inr _ \<Rightarrow>
           if (case dep_note deposit of None \<Rightarrow> False
               | Some n \<Rightarrow> starts_with ''UPGRADE_TIER:'' n \<or> starts_with ''TIER_SUB:'' n)
           then (Inl (NotFound ''Deposit request not found.''), s)
           else transaction (confirm_deposit_tx (dep_id deposit) now) s))"

text \<open>The check of \<open>cancelDepositRequest\<close> returns the note it read; the write comes later.\<close>

definition cancelDepositRequest_check ::
  "ident \<Rightarrow> ident \<Rightarrow> platform_db \<Rightarrow> string option result" where
  "cancelDepositRequest_check sid did s =
     (case deposit_at did s of
        None \<Rightarrow> Inl (NotFound ''Deposit request not found.'')
      | Some d \<Rightarrow>
        if dep_seller d \<noteq> sid then Inl (NotFound ''Deposit request not found.'')
        else if dep_status d \<noteq> DepPending then Inl (BadRequest ''Only a pending request can be cancelled.'')
        else Inr (dep_note d))"

definition cancelDepositRequest_write :: "ident \<Rightarrow> string option \<Rightarrow> platform_db \<Rightarrow> platform_db" where
  "cancelDepositRequest_write did note s =
     update_deposit did (\<lambda>d. d\<lparr>dep_status := DepRejected,
       dep_note := Some (case note of None \<Rightarrow> ''Cancelled by user''
         | Some n \<Rightarrow> if n = [] then ''Cancelled by user'' else n @ '' | Cancelled by user'')\<rparr>) s"

definition cancelDepositRequest :: "ident \<Rightarrow> ident \<Rightarrow> platform_db \<Rightarrow> unit result \<times> platform_db" where
  "cancelDepositRequest sid did s =
     (case cancelDepositRequest_check sid did s of Inl e \<Rightarrow> (Inl e, s)
      | Inr note \<Rightarrow> (Inr (), cancelDepositRequest_write did note s))"

text \<open>
  \<open>expirePendingDepositRequests\<close>: the expired pending requests with a payment code, oldest
  expiry first, at most \<open>limit\<close>; each is rejected if it is still pending.
\<close>

definition expired_deposits :: "timestamp \<Rightarrow> nat \<Rightarrow> platform_db \<Rightarrow> deposit list" where
  "expired_deposits now limit s =
     take limit (sort_key (\<lambda>d. case dep_expiresAt d of Some x \<Rightarrow> x | None \<Rightarrow> 0)
       (filter (\<lambda>d. dep_status d = DepPending \<and> dep_code d \<noteq> None
          \<and> (case dep_expiresAt d of Some x \<Rightarrow> x \<le> now | None \<Rightarrow> False)) (deposits s)))"

definition expire_one_deposit :: "deposit \<Rightarrow> platform_db \<Rightarrow> platform_db" where
  "expire_one_deposit req s = s\<lparr>deposits := modify_rows
     (\<lambda>d. dep_id d = dep_id req \<and> dep_status d = DepPending)
     (\<lambda>d. d\<lparr>dep_status := DepRejected,
            dep_note := Some (case dep_note req of None \<Rightarrow> ''Expired payment link''
              | Some n \<Rightarrow> if n = [] then ''Expired payment link'' else n)\<rparr>) (deposits s)\<rparr>"

definition expirePendingDepositRequests :: "timestamp \<Rightarrow> nat \<Rightarrow> platform_db \<Rightarrow> nat \<times> platform_db" where
  "expirePendingDepositRequests now limit s =
     (let rs = expired_deposits now limit s in (length rs, fold expire_one_deposit rs s))"

section \<open>Withdrawals\<close>

text \<open>
  \<open>createWithdrawRequest\<close>: \<open>seen\<close> is the wallet row as it was read before the lock was
  taken; the pending sum and the insert happen under the lock, in \<open>s\<close>.
\<close>

definition createWithdrawRequest_locked ::
  "ident \<Rightarrow> ident \<Rightarrow> rat \<Rightarrow> money \<Rightarrow> platform_db \<Rightarrow> (withdraw \<times> platform_db) result" where
  "createWithdrawRequest_locked newId sid amount seen s =
     (let pendingWithdrawAmount = getPendingWithdrawAmount sid s;
          withdrawableBalance = max 0 (seen - pendingWithdrawAmount)
      in if withdrawableBalance < amount
         then Inl (BadRequest ''Insufficient withdrawable wallet balance.'')
         else
           (let w = \<lparr>wd_id = newId, wd_seller = sid, wd_amount = toDecimal amount,
                     wd_status = WdPending, wd_reviewedBy = None, wd_reviewedAt = None,
                     wd_rejectReason = None\<rparr>
            in Inr (w, s\<lparr>withdraws := withdraws s @ [w]\<rparr>)))"

definition createWithdrawRequest_read ::
  "system_config \<Rightarrow> ident \<Rightarrow> jsnum \<Rightarrow> platform_db \<Rightarrow> (rat \<times> money) result" where
  "createWithdrawRequest_read cfg sid amount s =
     (case assertEnabled cfg Withdrawals None of Inl e \<Rightarrow> Inl e | Inr _ \<Rightarrow>
      (if \<not> is_integer amount \<or> js_less amount (Fin 100000)
       then Inl (BadRequest ''Minimum withdrawal is 100.000d.'')
       else (case seller_wallets s sid of None \<Rightarrow> Inl (NotFound ''Wallet not found.'')
             | Some b \<Rightarrow> Inr (num_val amount, b))))"

definition createWithdrawRequest ::
  "system_config \<Rightarrow> ident \<Rightarrow> ident \<Rightarrow> jsnum \<Rightarrow> platform_db \<Rightarrow> (withdraw \<times> platform_db) result" where
  "createWithdrawRequest cfg newId sid amount s =
     (case createWithdrawRequest_read cfg sid amount s of Inl e \<Rightarrow> Inl e
      | Inr (a, seen) \<Rightarrow> createWithdrawRequest_locked newId sid a seen s)"

definition cancelWithdrawRequest_check :: "ident \<Rightarrow> ident \<Rightarrow> platform_db \<Rightarrow> unit result" where
  "cancelWithdrawRequest_check sid wid s =
     (case withdraw_at wid s of
        None \<Rightarrow> Inl (NotFound ''Withdraw request not found.'')
      | Some w \<Rightarrow>
        if wd_seller w \<noteq> sid then Inl (NotFound ''Withdraw request not found.'')
        else if wd_status w \<noteq> WdPending then Inl (BadRequest ''Only a pending request can be cancelled.'')
        else Inr ())"

definition cancelWithdrawRequest_write :: "ident \<Rightarrow> timestamp \<Rightarrow> platform_db \<Rightarrow> platform_db" where
  "cancelWithdrawRequest_write wid now s =
     update_withdraw wid (\<lambda>w. w\<lparr>wd_status := WdRejected, wd_rejectReason := Some ''Cancelled by user'',
                                wd_reviewedAt := Some now\<rparr>) s"

definition cancelWithdrawRequest ::
  "ident \<Rightarrow> ident \<Rightarrow> timestamp \<Rightarrow> platform_db \<Rightarrow> unit result \<times> platform_db" where
  "cancelWithdrawRequest sid wid now s =
     (case cancelWithdrawRequest_check sid wid s of Inl e \<Rightarrow> (Inl e, s)
      | Inr _ \<Rightarrow> (Inr (), cancelWithdrawRequest_write wid now s))"

definition approve_withdraw_tx ::
  "ident \<Rightarrow> ident \<Rightarrow> timestamp \<Rightarrow> platform_db \<Rightarrow> (unit \<times> platform_db) result" where
  "approve_withdraw_tx adminId wid now s =
     (case withdraw_at wid s of
        None \<Rightarrow> Inl (NotFound ''Withdraw request not found.'')
      | Some w \<Rightarrow>
        if wd_status w \<noteq> WdPending then Inl (BadRequest ''Withdraw request is not pending.'')
        else
          (case seller_wallets s (wd_seller w) of
             None \<Rightarrow> Inl (NotFound ''Wallet not found.'')
           | Some balanceBefore \<Rightarrow>
               (let amount = wd_amount w; balanceAfter = balanceBefore - amount
                in if balanceAfter < 0
                   then Inl (BadRequest ''Wallet balance is too low for this withdrawal.'')
                   else Inr ((), update_withdraw wid
                     (\<lambda>r. r\<lparr>wd_status := WdApproved, wd_reviewedBy := Some adminId,
                            wd_reviewedAt := Some now\<rparr>)
                     (post_wallet (wd_seller w) WITHDRAW (- amount) balanceBefore balanceAfter
                        ''withdraw_request'' wid now s)))))"

definition adminApproveWithdrawRequest ::
  "bool \<Rightarrow> ident \<Rightarrow> ident \<Rightarrow> timestamp \<Rightarrow> platform_db \<Rightarrow> unit result \<times> platform_db" where
  "adminApproveWithdrawRequest isSuperAdmin adminId wid now s =
     (if \<not> isSuperAdmin then (Inl (Forbidden ''Only super admin can approve withdraw requests.''), s)
      else transaction (approve_withdraw_tx adminId wid now) s)"

definition adminRejectWithdrawRequest ::
  "bool \<Rightarrow> ident \<Rightarrow> ident \<Rightarrow> string \<Rightarrow> timestamp \<Rightarrow> platform_db \<Rightarrow> unit result \<times> platform_db" where
  "adminRejectWithdrawRequest isSuperAdmin adminId wid reason now s =
     (if \<not> isSuperAdmin then (Inl (Forbidden ''Only super admin can reject withdraw requests.''), s)
      else if js_trim reason = [] then (Inl (BadRequest ''A reason is required.''), s)
      else
        (let updated = count_rows (\<lambda>w. wd_id w = wid \<and> wd_status w = WdPending) (withdraws s);
             t = s\<lparr>withdraws := modify_rows (\<lambda>w. wd_id w = wid \<and> wd_status w = WdPending)
                     (\<lambda>w. w\<lparr>wd_status := WdRejected, wd_rejectReason := Some (js_trim reason),
                            wd_reviewedBy := Some adminId, wd_reviewedAt := Some now\<rparr>) (withdraws s)\<rparr>
         in if updated = 0
            then (case withdraw_at wid t of
                    None \<Rightarrow> (Inl (NotFound ''Withdraw request not found.''), t)
                  | Some _ \<Rightarrow> (Inl (BadRequest ''Withdraw request is not pending.''), t))
            else (Inr (), t)))"

section \<open>Order debits and refunds, and the administrator's corrections\<close>

definition apply_wallet_tx ::
  "ident \<Rightarrow> rat \<Rightarrow> ledger_type \<Rightarrow> string \<Rightarrow> string \<Rightarrow> timestamp \<Rightarrow> platform_db \<Rightarrow> (unit \<times> platform_db) result" where
  "apply_wallet_tx sid d ty referenceType referenceId now s =
     (case seller_wallets s sid of
        None \<Rightarrow> Inl (NotFound ''Wallet not found.'')
      | Some balanceBefore \<Rightarrow>
          (let balanceAfter = balanceBefore + d
           in if balanceAfter < 0 then Inl (BadRequest ''Insufficient wallet balance.'')
              else Inr ((), post_wallet sid ty d balanceBefore balanceAfter referenceType referenceId now s)))"

definition applyWalletMutation ::
  "ident \<Rightarrow> rat \<Rightarrow> ledger_type \<Rightarrow> string \<Rightarrow> string \<Rightarrow> timestamp \<Rightarrow> platform_db \<Rightarrow> unit result \<times> platform_db" where
  "applyWalletMutation sid d ty referenceType referenceId now =
     transaction (apply_wallet_tx sid d ty referenceType referenceId now)"

definition debitForOrder :: "ident \<Rightarrow> rat \<Rightarrow> string \<Rightarrow> timestamp \<Rightarrow> platform_db \<Rightarrow> unit result \<times> platform_db" where
  "debitForOrder sid amount referenceId now =
     applyWalletMutation sid (amount * - 1) DEBIT_PURCHASE ''order'' referenceId now"

definition refundForOrder :: "ident \<Rightarrow> rat \<Rightarrow> string \<Rightarrow> timestamp \<Rightarrow> platform_db \<Rightarrow> unit result \<times> platform_db" where
  "refundForOrder sid amount referenceId now =
     applyWalletMutation sid amount REFUND_PURCHASE ''order'' referenceId now"

definition creditWallet ::
  "ident \<Rightarrow> rat \<Rightarrow> ledger_type \<Rightarrow> string \<Rightarrow> string \<Rightarrow> timestamp \<Rightarrow> platform_db \<Rightarrow> unit result \<times> platform_db" where
  "creditWallet sid amount ty referenceType referenceId now =
     applyWalletMutation sid amount ty referenceType referenceId now"

datatype adjust_action = Topup | Deduct | Set_to | Unknown_action

definition admin_adjust_tx ::
  "ident \<Rightarrow> ident \<Rightarrow> adjust_action \<Rightarrow> rat \<Rightarrow> timestamp \<Rightarrow> platform_db \<Rightarrow> (unit \<times> platform_db) result" where
  "admin_adjust_tx adminId sid action amount now s0 =
     (let s = (case seller_wallets s0 sid of
                 None \<Rightarrow> s0\<lparr>seller_wallets := (seller_wallets s0)(sid \<mapsto> 0)\<rparr> | Some _ \<Rightarrow> s0);
          balanceBefore = (case seller_wallets s sid of None \<Rightarrow> 0 | Some b \<Rightarrow> b);
          commit_adjust = (\<lambda>d after. Inr ((), post_wallet sid ADJUST d balanceBefore after
                                 ''admin_adjustment'' adminId now s))
      in case action of
           Topup \<Rightarrow> commit_adjust amount (balanceBefore + amount)
         | Deduct \<Rightarrow>
             if balanceBefore - amount < 0 then Inl (BadRequest ''Balance is too low to deduct.'')
             else commit_adjust (- amount) (balanceBefore - amount)
         | Set_to \<Rightarrow> commit_adjust (amount - balanceBefore) amount
         | Unknown_action \<Rightarrow> Inl (BadRequest ''Unknown action.''))"

definition adminAdjustSellerBalance ::
  "bool \<Rightarrow> ident \<Rightarrow> string \<Rightarrow> adjust_action \<Rightarrow> rat \<Rightarrow> timestamp \<Rightarrow> platform_db \<Rightarrow> unit result \<times> platform_db" where
  "adminAdjustSellerBalance isSuperAdmin adminId identifier action amount now s =
     (if \<not> isSuperAdmin then (Inl (Forbidden ''Super admin only.''), s)
      else
        (case List.find (\<lambda>r. sl_userId r = identifier \<or> sl_id r = identifier) (sellers s) of
           None \<Rightarrow> (Inl (NotFound ''Seller not found.''), s)
         | Some r \<Rightarrow> transaction (admin_adjust_tx adminId (sl_id r) action amount now) s))"

section \<open>The wallet as a system of concurrent requests\<close>

text \<open>A call that runs in one piece; each result is dropped, the database is what remains.\<close>

datatype wallet_call =
    OpenWallet ident
  | CreateDeposit bool "provider \<Rightarrow> provider" ident string timestamp ident jsnum deposit_method "string option"
  | ConfirmDeposit string timestamp
  | ExpireDeposits timestamp nat
  | ApproveWithdraw bool ident ident timestamp
  | RejectWithdraw bool ident ident string timestamp
  | DebitOrder ident rat string timestamp
  | RefundOrder ident rat string timestamp
  | AdminAdjust bool ident string adjust_action rat timestamp
  | ClaimReceipt receipt
  | CancelDeposit ident ident
  | CancelWithdraw ident ident timestamp
  | CreateWithdraw system_config ident ident jsnum

fun exec_call :: "wallet_call \<Rightarrow> platform_db \<Rightarrow> platform_db" where
  "exec_call (OpenWallet sid) s = (case seller_wallets s sid of
     None \<Rightarrow> s\<lparr>seller_wallets := (seller_wallets s)(sid \<mapsto> 0)\<rparr> | Some _ \<Rightarrow> s)"
| "exec_call (CreateDeposit cfg lp newId code now sid amount m note) s =
     (case createDepositRequest cfg lp newId code now sid amount m note s of
        Inl _ \<Rightarrow> s | Inr (_, t) \<Rightarrow> t)"
| "exec_call (ConfirmDeposit code now) s = snd (confirmDepositRequestByExternalOrderCode code now s)"
| "exec_call (ExpireDeposits now limit) s = snd (expirePendingDepositRequests now limit s)"
| "exec_call (ApproveWithdraw sa adminId wid now) s = snd (adminApproveWithdrawRequest sa adminId wid now s)"
| "exec_call (RejectWithdraw sa adminId wid reason now) s =
     snd (adminRejectWithdrawRequest sa adminId wid reason now s)"
| "exec_call (DebitOrder sid amount ref now) s = snd (debitForOrder sid amount ref now s)"
| "exec_call (RefundOrder sid amount ref now) s = snd (refundForOrder sid amount ref now s)"
| "exec_call (AdminAdjust sa adminId who act amount now) s =
     snd (adminAdjustSellerBalance sa adminId who act amount now s)"
| "exec_call (ClaimReceipt r) s = s\<lparr>receipts := receipts s @ [r]\<rparr>"
| "exec_call (CancelDeposit sid did) s = snd (cancelDepositRequest sid did s)"
| "exec_call (CancelWithdraw sid wid now) s = snd (cancelWithdrawRequest sid wid now s)"
| "exec_call (CreateWithdraw cfg newId sid amount) s =
     (case createWithdrawRequest cfg newId sid amount s of Inl _ \<Rightarrow> s | Inr (_, t) \<Rightarrow> t)"

text \<open>
  The amounts the callers may pass. A correction by an administrator is a number that is not
  negative (the DTO's \<open>IsNumber\<close> and \<open>Min(0)\<close>, nothing about decimals); order amounts come
  from the orders. \<open>fits\<close> is a further condition on the amounts of corrections and orders.
\<close>

fun call_fits :: "(rat \<Rightarrow> bool) \<Rightarrow> wallet_call \<Rightarrow> bool" where
  "call_fits fits (DebitOrder _ amount _ _) = fits amount"
| "call_fits fits (RefundOrder _ amount _ _) = fits amount"
| "call_fits fits (AdminAdjust _ _ _ _ amount _) = (fits amount \<and> 0 \<le> amount)"
| "call_fits fits _ = True"

text \<open>What the code accepts, and the calls whose amounts are whole hundredths.\<close>

abbreviation call_accepted :: "wallet_call \<Rightarrow> bool" where "call_accepted \<equiv> call_fits (\<lambda>_. True)"
abbreviation call_ok :: "wallet_call \<Rightarrow> bool" where "call_ok \<equiv> call_fits cents"

text \<open>The database with the requests that are between their check and their write.\<close>

record wallet_sys =
  ws_db :: platform_db
  ws_cancels :: "(ident \<times> string option) list"
  ws_wcancels :: "ident list"
  ws_asks :: "(ident \<times> rat \<times> money) list"

definition wallet_init :: wallet_sys where
  "wallet_init = \<lparr>ws_db = empty_platform, ws_cancels = [], ws_wcancels = [], ws_asks = []\<rparr>"

inductive wallet_step :: "(rat \<Rightarrow> bool) \<Rightarrow> wallet_sys \<Rightarrow> wallet_sys \<Rightarrow> bool" for fits where
  whole: "call_fits fits c \<Longrightarrow> wallet_step fits \<sigma> (\<sigma>\<lparr>ws_db := exec_call c (ws_db \<sigma>)\<rparr>)"
| cancel_check: "cancelDepositRequest_check sid did (ws_db \<sigma>) = Inr note
    \<Longrightarrow> wallet_step fits \<sigma> (\<sigma>\<lparr>ws_cancels := (did, note) # ws_cancels \<sigma>\<rparr>)"
| cancel_write: "(did, note) \<in> set (ws_cancels \<sigma>)
    \<Longrightarrow> wallet_step fits \<sigma> (\<sigma>\<lparr>ws_db := cancelDepositRequest_write did note (ws_db \<sigma>),
          ws_cancels := remove1 (did, note) (ws_cancels \<sigma>)\<rparr>)"
| wcancel_check: "cancelWithdrawRequest_check sid wid (ws_db \<sigma>) = Inr u
    \<Longrightarrow> wallet_step fits \<sigma> (\<sigma>\<lparr>ws_wcancels := wid # ws_wcancels \<sigma>\<rparr>)"
| wcancel_write: "wid \<in> set (ws_wcancels \<sigma>)
    \<Longrightarrow> wallet_step fits \<sigma> (\<sigma>\<lparr>ws_db := cancelWithdrawRequest_write wid now (ws_db \<sigma>),
          ws_wcancels := remove1 wid (ws_wcancels \<sigma>)\<rparr>)"
| ask_read: "createWithdrawRequest_read cfg sid amount (ws_db \<sigma>) = Inr (a, seen)
    \<Longrightarrow> wallet_step fits \<sigma> (\<sigma>\<lparr>ws_asks := (sid, a, seen) # ws_asks \<sigma>\<rparr>)"
| ask_write: "(sid, a, seen) \<in> set (ws_asks \<sigma>)
    \<Longrightarrow> createWithdrawRequest_locked newId sid a seen (ws_db \<sigma>) = Inr (w, t)
    \<Longrightarrow> wallet_step fits \<sigma> (\<sigma>\<lparr>ws_db := t, ws_asks := remove1 (sid, a, seen) (ws_asks \<sigma>)\<rparr>)"

text \<open>Reachable with every amount the code accepts, and with whole hundredths only.\<close>

abbreviation wallet_accepted :: "wallet_sys \<Rightarrow> bool" where
  "wallet_accepted \<sigma> \<equiv> (wallet_step (\<lambda>_. True))\<^sup>*\<^sup>* wallet_init \<sigma>"

abbreviation wallet_reachable :: "wallet_sys \<Rightarrow> bool" where
  "wallet_reachable \<sigma> \<equiv> (wallet_step cents)\<^sup>*\<^sup>* wallet_init \<sigma>"

inductive_cases wallet_stepE: "wallet_step fits \<sigma> \<tau>"

section \<open>Every operation keeps the money invariant\<close>

definition amounts_ok :: "platform_db \<Rightarrow> bool" where
  "amounts_ok s \<longleftrightarrow> (\<forall>d \<in> set (deposits s). cents (dep_amount d) \<and> 0 \<le> dep_amount d)
     \<and> (\<forall>w \<in> set (withdraws s). cents (wd_amount w) \<and> 0 \<le> wd_amount w)"

definition wallets_nonneg :: "platform_db \<Rightarrow> bool" where
  "wallets_nonneg s \<longleftrightarrow> (\<forall>i b. seller_wallets s i = Some b \<longrightarrow> 0 \<le> b)"

definition wallet_inv :: "platform_db \<Rightarrow> bool" where
  "wallet_inv s \<longleftrightarrow> money_ok s \<and> amounts_ok s \<and> wallets_nonneg s"

lemma wallet_inv_empty: "wallet_inv empty_platform"
  using money_ok_empty
  by (simp add: wallet_inv_def amounts_ok_def wallets_nonneg_def) (simp add: empty_platform_def)

lemma wallet_inv_frame:
  assumes "wallet_inv s" and "seller_wallets t = seller_wallets s"
    and "wallet_ledgers t = wallet_ledgers s" and "amounts_ok t"
  shows "wallet_inv t"
  using assms money_ok_frame [of s t] by (simp add: wallet_inv_def wallets_nonneg_def)

lemma wallet_inv_post:
  assumes "wallet_inv s" and "seller_wallets s i = Some b" and "cents d" and "0 \<le> b + d"
  shows "wallet_inv (post_wallet i ty d b (b + d) rt ri now s)"
proof -
  have "toDecimal (b + d) = b + d"
    using assms by (auto simp: wallet_inv_def intro!: toDecimal_cents dest: money_okD)
  then show ?thesis
    using assms money_ok_post [of s i b d]
    by (simp add: wallet_inv_def wallets_nonneg_def amounts_ok_def)
qed

lemma wallet_inv_open:
  "wallet_inv s \<Longrightarrow> seller_wallets s i = None
   \<Longrightarrow> wallet_inv (s\<lparr>seller_wallets := (seller_wallets s)(i \<mapsto> 0)\<rparr>)"
  by (simp add: wallet_inv_def money_ok_open amounts_ok_def wallets_nonneg_def)

lemma amounts_ok_deposits:
  assumes "amounts_ok s" and "\<And>d. d \<in> set (deposits s) \<Longrightarrow> dep_amount (f d) = dep_amount d"
  shows "amounts_ok (s\<lparr>deposits := modify_rows p f (deposits s)\<rparr>)"
  using assms by (auto simp: amounts_ok_def dest!: set_modify_rows)

lemma amounts_ok_withdraws:
  assumes "amounts_ok s" and "\<And>w. w \<in> set (withdraws s) \<Longrightarrow> wd_amount (f w) = wd_amount w"
  shows "amounts_ok (s\<lparr>withdraws := modify_rows p f (withdraws s)\<rparr>)"
  using assms by (auto simp: amounts_ok_def dest!: set_modify_rows)

lemma ask_read_amount:
  "createWithdrawRequest_read cfg sid amount s = Inr (a, seen) \<Longrightarrow> 100000 \<le> a \<and> is_integer (Fin a)"
  by (cases amount) (auto simp: createWithdrawRequest_read_def split: sum.splits if_splits option.splits)

definition asks_ok :: "wallet_sys \<Rightarrow> bool" where
  "asks_ok \<sigma> \<longleftrightarrow> (\<forall>(sid, a, seen) \<in> set (ws_asks \<sigma>). 100000 \<le> a \<and> is_integer (Fin a))"

text \<open>
  A books invariant: what it takes for a property of the money to survive every operation. Posting
  an amount that \<open>fits\<close> keeps it, opening a wallet keeps it, and so does everything that touches
  neither balances nor ledger.
\<close>

locale wallet_books =
  fixes I :: "platform_db \<Rightarrow> bool" and fits :: "rat \<Rightarrow> bool"
  assumes post: "I s \<Longrightarrow> seller_wallets s i = Some b \<Longrightarrow> fits d \<Longrightarrow> 0 \<le> b + d
      \<Longrightarrow> I (post_wallet i ty d b (b + d) rt ri now s)"
    and opened: "I s \<Longrightarrow> seller_wallets s i = None \<Longrightarrow> I (s\<lparr>seller_wallets := (seller_wallets s)(i \<mapsto> 0)\<rparr>)"
    and frame: "I s \<Longrightarrow> seller_wallets t = seller_wallets s \<Longrightarrow> wallet_ledgers t = wallet_ledgers s
      \<Longrightarrow> amounts_ok t \<Longrightarrow> I t"
    and amounts: "I s \<Longrightarrow> amounts_ok s"
    and nonneg: "I s \<Longrightarrow> seller_wallets s i = Some b \<Longrightarrow> 0 \<le> b"
    and fits_cents: "cents d \<Longrightarrow> fits d"
    and fits_minus: "fits d \<Longrightarrow> fits (- d)"
    and fits_difference: "I s \<Longrightarrow> seller_wallets s i = Some b \<Longrightarrow> fits a \<Longrightarrow> fits (a - b)"
begin

lemmas books_transaction = transaction_preserves [where I = I]

lemma books_update_deposit:
  "I s \<Longrightarrow> (\<And>d. dep_amount (f d) = dep_amount d) \<Longrightarrow> I (update_deposit i f s)"
  by (rule frame) (auto simp: update_deposit_def intro: amounts_ok_deposits amounts)

lemma books_update_withdraw:
  "I s \<Longrightarrow> (\<And>d. wd_amount (f d) = wd_amount d) \<Longrightarrow> I (update_withdraw i f s)"
  by (rule frame) (auto simp: update_withdraw_def intro: amounts_ok_withdraws amounts)

lemma amounts_at:
  "I s \<Longrightarrow> deposit_at i s = Some d \<Longrightarrow> cents (dep_amount d) \<and> 0 \<le> dep_amount d"
  "I s \<Longrightarrow> withdraw_at i s = Some w \<Longrightarrow> cents (wd_amount w) \<and> 0 \<le> wd_amount w"
  using amounts by (auto simp: amounts_ok_def dest: find_SomeD)

lemma books_confirm_tx:
  assumes "I s" and "confirm_deposit_tx did now s = Inr (u, t)"
  shows "I t"
  using assms amounts_at [OF assms(1)] nonneg [OF assms(1)]
  by (auto simp: confirm_deposit_tx_def Let_def split: option.splits if_splits
      intro!: books_update_deposit post intro: fits_cents)

lemma books_confirm: "I s \<Longrightarrow> I (snd (confirmDepositRequestByExternalOrderCode code now s))"
  by (auto simp: confirmDepositRequestByExternalOrderCode_def split: option.split sum.split
      intro: books_transaction books_confirm_tx)

lemma books_approve_tx:
  assumes "I s" and "approve_withdraw_tx adminId wid now s = Inr (u, t)"
  shows "I t"
proof -
  from assms(2) obtain w b where w: "withdraw_at wid s = Some w" "seller_wallets s (wd_seller w) = Some b"
      "0 \<le> b + - wd_amount w"
    and t: "t = update_withdraw wid
         (\<lambda>r. r\<lparr>wd_status := WdApproved, wd_reviewedBy := Some adminId, wd_reviewedAt := Some now\<rparr>)
         (post_wallet (wd_seller w) WITHDRAW (- wd_amount w) b (b + - wd_amount w)
            ''withdraw_request'' wid now s)"
    by (auto simp: approve_withdraw_tx_def Let_def split: option.splits if_splits)
  have "fits (- wd_amount w)" using amounts_at(2) [OF assms(1) w(1)] by (blast intro: fits_cents on_grid_minus)
  then show ?thesis
    unfolding t by (intro books_update_withdraw post [OF assms(1) w(2) _ w(3)]) simp_all
qed

lemma books_apply_tx:
  assumes "I s" and "fits d" and "apply_wallet_tx sid d ty rt ri now s = Inr (u, t)"
  shows "I t"
  using assms by (auto simp: apply_wallet_tx_def Let_def split: option.splits if_splits intro: post)

lemma books_adjust_tx:
  assumes "I s" and "fits a" and "0 \<le> a" and "admin_adjust_tx adminId sid act a now s = Inr (u, t)"
  shows "I t"
proof -
  define s1 where "s1 = (case seller_wallets s sid of
      None \<Rightarrow> s\<lparr>seller_wallets := (seller_wallets s)(sid \<mapsto> 0)\<rparr> | Some _ \<Rightarrow> s)"
  have inv: "I s1" using assms(1) by (auto simp: s1_def opened split: option.split)
  have "\<exists>b. seller_wallets s1 sid = Some b"
    by (cases "seller_wallets s sid") (simp_all add: s1_def)
  then obtain b where b: "seller_wallets s1 sid = Some b" ..
  have nb: "0 \<le> b" by (rule nonneg [OF inv b])
  have posted: "fits d \<Longrightarrow> 0 \<le> b + d
      \<Longrightarrow> I (post_wallet sid ADJUST d b (b + d) ''admin_adjustment'' adminId now s1)" for d
    by (rule post [OF inv b])
  show ?thesis
    using assms(2-4) nb posted [of a] posted [of "- a"] posted [of "a - b"]
      fits_minus [OF assms(2)] fits_difference [OF inv b assms(2)]
    by (auto simp: admin_adjust_tx_def Let_def s1_def [symmetric] b
        split: adjust_action.splits if_splits)
qed

lemma books_expire_one: "I s \<Longrightarrow> I (expire_one_deposit r s)"
  by (rule frame [of s]) (auto simp: expire_one_deposit_def intro: amounts_ok_deposits amounts)

lemma books_expire: "I s \<Longrightarrow> I (fold expire_one_deposit rs s)"
  by (induction rs arbitrary: s) (auto intro: books_expire_one)

lemma books_create_deposit:
  assumes "I s" and "createDepositRequest cfg lp newId code now sid amount m note s = Inr (d, t)"
  shows "I t"
proof -
  have "0 \<le> num_val amount" and t: "t = s\<lparr>deposits := deposits s @ [d]\<rparr>"
    and d: "dep_amount d = toDecimal (num_val amount)"
    using assms(2) by (cases amount; auto simp: createDepositRequest_def Let_def split: if_splits)+
  then show ?thesis
    using amounts [OF assms(1)] by (intro frame [OF assms(1)]) (auto simp: amounts_ok_def toDecimal_nonneg)
qed

lemma books_create_withdraw:
  assumes "I s" and "createWithdrawRequest_locked newId sid a seen s = Inr (w, t)" and "0 \<le> a"
  shows "I t"
proof -
  have t: "t = s\<lparr>withdraws := withdraws s @ [w]\<rparr>" and w: "wd_amount w = toDecimal a"
    using assms(2) by (auto simp: createWithdrawRequest_locked_def Let_def split: if_splits)
  then show ?thesis
    using amounts [OF assms(1)] assms(3)
    by (intro frame [OF assms(1)]) (auto simp: amounts_ok_def toDecimal_nonneg)
qed

lemma books_modify_withdraws:
  "I s \<Longrightarrow> (\<And>w. wd_amount (f w) = wd_amount w) \<Longrightarrow> I (s\<lparr>withdraws := modify_rows p f (withdraws s)\<rparr>)"
  by (rule frame [of s]) (auto intro: amounts_ok_withdraws amounts)

lemma books_reject: "I s \<Longrightarrow> I (snd (adminRejectWithdrawRequest sa adminId wid reason now s))"
  by (auto simp: adminRejectWithdrawRequest_def Let_def intro: books_modify_withdraws split: option.split)

lemma books_approve: "I s \<Longrightarrow> I (snd (adminApproveWithdrawRequest sa adminId wid now s))"
  by (simp add: adminApproveWithdrawRequest_def) (blast intro: books_transaction dest: books_approve_tx)

lemma books_mutation: "I s \<Longrightarrow> fits d \<Longrightarrow> I (snd (applyWalletMutation sid d ty rt ri now s))"
  unfolding applyWalletMutation_def by (rule books_transaction) (auto intro: books_apply_tx)

lemma books_adjust:
  "I s \<Longrightarrow> fits a \<Longrightarrow> 0 \<le> a \<Longrightarrow> I (snd (adminAdjustSellerBalance sa adminId who act a now s))"
  by (auto simp: adminAdjustSellerBalance_def split: option.split
      intro!: books_transaction elim!: books_adjust_tx)

lemma books_cancels:
  "I s \<Longrightarrow> I (cancelDepositRequest_write did m s)"
  "I s \<Longrightarrow> I (cancelWithdrawRequest_write wid now s)"
  by (auto simp: cancelDepositRequest_write_def cancelWithdrawRequest_write_def
      intro: books_update_deposit books_update_withdraw)

lemma books_create:
  assumes "I s" and "createWithdrawRequest cfg newId sid amount s = Inr (w, t)"
  shows "I t"
proof -
  from assms(2) obtain a seen where r: "createWithdrawRequest_read cfg sid amount s = Inr (a, seen)"
    and l: "createWithdrawRequest_locked newId sid a seen s = Inr (w, t)"
    by (auto simp: createWithdrawRequest_def split: sum.splits)
  from ask_read_amount [OF r] have "0 \<le> a" by simp
  with assms(1) l show ?thesis by (rule books_create_withdraw)
qed

lemma books_receipts: "I s \<Longrightarrow> I (s\<lparr>receipts := rs\<rparr>)"
  by (rule frame [of s]) (use amounts in \<open>auto simp: amounts_ok_def\<close>)

lemma books_exec_call:
  assumes "I s" and "call_fits fits c" shows "I (exec_call c s)"
proof (cases c)
  case (CreateDeposit cfg lp newId code now sid amount m memo)
  with assms show ?thesis by (auto split: sum.split intro: books_create_deposit)
next
  case (DebitOrder sid amount r now)
  with assms have "fits (amount * - 1)" using fits_minus [of amount] by simp
  then show ?thesis
    using assms(1) by (simp add: DebitOrder debitForOrder_def books_mutation del: mult_minus1_right)
next
  case (CreateWithdraw cfg newId sid amount)
  with assms show ?thesis by (auto split: sum.split intro: books_create)
next
  case (OpenWallet i)
  with assms(1) show ?thesis by (cases "seller_wallets s i") (simp_all add: opened)
next
  case (CancelDeposit sid did)
  with assms(1) show ?thesis by (simp add: cancelDepositRequest_def books_cancels split: sum.split)
next
  case (CancelWithdraw sid wid now)
  with assms(1) show ?thesis by (simp add: cancelWithdrawRequest_def books_cancels split: sum.split)
qed (use assms in \<open>simp_all add: books_confirm books_expire books_reject
      books_approve books_mutation books_adjust books_receipts
      expirePendingDepositRequests_def refundForOrder_def Let_def\<close>)

lemma books_step:
  assumes "wallet_step fits \<sigma> \<tau>" and "I (ws_db \<sigma>) \<and> asks_ok \<sigma>"
  shows "I (ws_db \<tau>) \<and> asks_ok \<tau>"
  using assms
proof (induction rule: wallet_step.induct)
  case (ask_write sid a seen \<sigma> newId w t)
  then have "0 \<le> a" by (auto simp: asks_ok_def)
  with ask_write show ?case
    by (auto simp: asks_ok_def dest: set_remove1_subset [THEN subsetD] intro: books_create_withdraw)
next
  case (ask_read cfg sid amount \<sigma> a seen)
  then show ?case using ask_read_amount [of cfg sid amount "ws_db \<sigma>" a seen] by (auto simp: asks_ok_def)
qed (simp_all add: asks_ok_def books_exec_call books_cancels)

lemma books_reachable:
  assumes "(wallet_step fits)\<^sup>*\<^sup>* wallet_init \<sigma>" and "I empty_platform"
  shows "I (ws_db \<sigma>)"
proof -
  from assms(1) have "I (ws_db \<sigma>) \<and> asks_ok \<sigma>"
  proof (induction rule: rtranclp_induct)
    case base
    then show ?case using assms(2) by (simp add: wallet_init_def asks_ok_def)
  next
    case (step \<sigma> \<tau>)
    from books_step [OF step(2,3)] show ?case .
  qed
  then show ?thesis ..
qed

end

text \<open>With amounts of whole hundredths, the exact invariant: every balance is the sum of its entries.\<close>

interpretation cent_books: wallet_books wallet_inv cents
proof unfold_locales
  fix s i b and a :: rat
  assume "wallet_inv s" and "seller_wallets s i = Some b"
  then have b: "cents b" "0 \<le> b" by (auto simp: wallet_inv_def wallets_nonneg_def dest: money_okD)
  show "0 \<le> b" by (fact b)
  show "cents a \<Longrightarrow> cents (a - b)" using b(1) by (rule on_grid_diff [rotated])
qed (blast intro: wallet_inv_post wallet_inv_open wallet_inv_frame on_grid_minus | simp add: wallet_inv_def)+

text \<open>
  With any amount at all: the entries of a seller are a chain that starts at zero and ends in the
  balance, and an entry's amount is off from the step it records by at most a hundredth, because
  the balance and the amount are rounded separately.
\<close>

fun chain_end :: "money \<Rightarrow> wallet_entry list \<Rightarrow> money option" where
  "chain_end b [] = Some b"
| "chain_end b (e # es) = (if we_before e = b then chain_end (we_after e) es else None)"

definition wallet_value :: "platform_db \<Rightarrow> ident \<Rightarrow> money" where
  "wallet_value s i = (case seller_wallets s i of None \<Rightarrow> 0 | Some b \<Rightarrow> b)"

definition ledger_chained :: "platform_db \<Rightarrow> bool" where
  "ledger_chained s \<longleftrightarrow>
     (\<forall>i. chain_end 0 (filter (\<lambda>e. we_seller e = i) (wallet_ledgers s)) = Some (wallet_value s i))"

definition entry_near :: "wallet_entry \<Rightarrow> bool" where
  "entry_near e \<longleftrightarrow> \<bar>we_after e - (we_before e + we_amount e)\<bar> \<le> 1 / 100"

definition books_inv :: "platform_db \<Rightarrow> bool" where
  "books_inv s \<longleftrightarrow> ledger_chained s \<and> wallet_cents s \<and> list_all entry_near (wallet_ledgers s)
     \<and> amounts_ok s \<and> wallets_nonneg s"

lemma chain_end_snoc:
  "chain_end b es = Some c \<Longrightarrow> we_before e = c \<Longrightarrow> chain_end b (es @ [e]) = Some (we_after e)"
  by (induction es arbitrary: b) (auto split: if_splits)

lemma chain_end_sum:
  "chain_end b es = Some c \<Longrightarrow> list_all entry_balanced es \<Longrightarrow> c = b + sum_list (map we_amount es)"
proof (induction es arbitrary: b)
  case (Cons e es)
  from Cons.prems have "chain_end (we_after e) es = Some c" and "list_all entry_balanced es"
    and "we_before e = b" and e: "entry_balanced e"
    by (simp_all split: if_splits)
  moreover from e have "we_after e = we_before e + we_amount e" by (simp only: entry_balanced_def)
  ultimately show ?case using Cons.IH [of "we_after e"] by simp
qed simp

lemma chained_reconciled:
  assumes "ledger_chained s" and "list_all entry_balanced (wallet_ledgers s)"
  shows "sw.reconciled s"
  unfolding sw.reconciled_def
proof
  fix k
  let ?es = "filter (\<lambda>e. we_seller e = k) (wallet_ledgers s)"
  have "list_all entry_balanced ?es" using assms(2) by (auto simp: list_all_iff)
  moreover have "chain_end 0 ?es = Some (wallet_value s k)" using assms(1) by (simp add: ledger_chained_def)
  ultimately show "sw.ledger_sum s k = (case seller_wallets s k of None \<Rightarrow> 0 | Some b \<Rightarrow> b)"
    using chain_end_sum [of 0 ?es] by (simp add: sw.ledger_sum_def sum_rows_def wallet_value_def)
qed

lemma posted_near:
  assumes "cents b" shows "entry_near (mk_entry i ty d b (b + d) rt ri now)"
proof -
  have "toDecimal b = b" using assms by (rule toDecimal_cents)
  then show ?thesis
    using to_fixed_error [of 2 "b + d"] to_fixed_error [of 2 d]
    unfolding entry_near_def mk_entry_simps toDecimal_def abs_le_iff by simp
qed

lemma books_inv_post:
  assumes "books_inv s" and "seller_wallets s i = Some b" and "0 \<le> b + d"
  shows "books_inv (post_wallet i ty d b (b + d) rt ri now s)"
proof -
  let ?e = "mk_entry i ty d b (b + d) rt ri now" and ?t = "post_wallet i ty d b (b + d) rt ri now s"
  have b: "cents b" using assms(1,2) by (simp add: books_inv_def wallet_cents_def)
  have "chain_end 0 (filter (\<lambda>e. we_seller e = j) (wallet_ledgers ?t)) = Some (wallet_value ?t j)" for j
  proof (cases "j = i")
    case True
    have "chain_end 0 (filter (\<lambda>e. we_seller e = i) (wallet_ledgers s)) = Some b"
      using assms(1,2) by (simp add: books_inv_def ledger_chained_def wallet_value_def)
    from chain_end_snoc [OF this, of ?e] b True show ?thesis
      by (simp add: toDecimal_cents wallet_value_def)
  next
    case False
    then show ?thesis
      using assms(1) by (simp add: books_inv_def ledger_chained_def wallet_value_def)
  qed
  then have "ledger_chained ?t" by (simp add: ledger_chained_def)
  moreover have "wallet_cents ?t" using assms(1) by (simp add: books_inv_def wallet_cents_def)
  ultimately show ?thesis
    using assms(1,3) posted_near [OF b]
    by (simp add: books_inv_def wallets_nonneg_def amounts_ok_def toDecimal_nonneg)
qed

lemma books_inv_frame:
  assumes "books_inv s" and "seller_wallets t = seller_wallets s"
    and "wallet_ledgers t = wallet_ledgers s" and "amounts_ok t"
  shows "books_inv t"
  using assms by (simp add: books_inv_def ledger_chained_def wallet_value_def wallet_cents_def wallets_nonneg_def)

lemma books_inv_open:
  assumes "books_inv s" and "seller_wallets s i = None"
  shows "books_inv (s\<lparr>seller_wallets := (seller_wallets s)(i \<mapsto> 0)\<rparr>)"
proof -
  have "wallet_value (s\<lparr>seller_wallets := (seller_wallets s)(i \<mapsto> 0)\<rparr>) = wallet_value s"
    using assms(2) by (simp add: wallet_value_def fun_eq_iff)
  with assms(1) show ?thesis
    by (simp add: books_inv_def ledger_chained_def wallet_cents_def wallets_nonneg_def amounts_ok_def)
qed

lemma books_inv_empty: "books_inv empty_platform"
  by (simp add: books_inv_def ledger_chained_def wallet_value_def wallet_cents_def amounts_ok_def
      wallets_nonneg_def empty_platform_def)

interpretation any_books: wallet_books books_inv "\<lambda>_. True"
proof unfold_locales
  fix s i b
  show "books_inv s \<Longrightarrow> seller_wallets s i = Some b \<Longrightarrow> 0 \<le> b"
    by (simp add: books_inv_def wallets_nonneg_def)
qed (blast intro: books_inv_post books_inv_open books_inv_frame | simp add: books_inv_def)+


definition demo_deposit_calls :: "wallet_call list" where
  "demo_deposit_calls =
     [OpenWallet ''s1'', CreateDeposit True (\<lambda>p. p) ''d1'' ''c1'' 0 ''s1'' (Fin 150000) PayOther None]"

lemma wallet_runs:
  "(wallet_step fits)\<^sup>*\<^sup>* wallet_init \<sigma> \<Longrightarrow> list_all (call_fits fits) cs
   \<Longrightarrow> (wallet_step fits)\<^sup>*\<^sup>* wallet_init (\<sigma>\<lparr>ws_db := fold exec_call cs (ws_db \<sigma>)\<rparr>)"
proof (induction cs arbitrary: \<sigma>)
  case (Cons c cs)
  from Cons.prems have "(wallet_step fits)\<^sup>*\<^sup>* wallet_init (\<sigma>\<lparr>ws_db := exec_call c (ws_db \<sigma>)\<rparr>)"
    by (auto intro: rtranclp.rtrancl_into_rtrancl wallet_step.whole)
  from Cons.IH [OF this] Cons.prems show ?case by simp
qed simp

text \<open>
  A deposit of 150,000 is confirmed and 20,000 are paid for an order: two entries, and what is
  left is their sum.
\<close>

definition demo_paid_calls :: "wallet_call list" where
  "demo_paid_calls = demo_deposit_calls @ [ConfirmDeposit ''c1'' 20, DebitOrder ''s1'' 20000 ''o1'' 30]"

definition demo_paid_db :: platform_db where
  "demo_paid_db = fold exec_call demo_paid_calls empty_platform"

lemma demo_paid_run: "call_fits fits (DebitOrder ''s1'' 20000 ''o1'' 30) \<Longrightarrow>
    (wallet_step fits)\<^sup>*\<^sup>* wallet_init (wallet_init\<lparr>ws_db := demo_paid_db\<rparr>)"
  using wallet_runs [of fits wallet_init demo_paid_calls]
  by (simp add: demo_paid_db_def wallet_init_def demo_paid_calls_def demo_deposit_calls_def)

lemmas demo_wallet_defs = demo_deposit_calls_def empty_platform_def
  createDepositRequest_def deposit_topup_note_def depositProviderOverride_def
  confirmDepositRequestByExternalOrderCode_def confirm_deposit_tx_def transaction_def
  assertCryptoReceiptClaimed_def isReceiptBackedCryptoProvider_def isDirectOnchainProvider_def
  cancelDepositRequest_check_def cancelDepositRequest_write_def update_deposit_def
  post_wallet_def commit_wallet_def mk_entry_def toDecimal_cents Let_def

lemma demo_paid_entries:
  "map (\<lambda>e. (we_type e, we_amount e)) (wallet_ledgers demo_paid_db) = [(TOPUP, 150000), (DEBIT_PURCHASE, - 20000)]"
  "seller_wallets demo_paid_db ''s1'' = Some 130000"
  by (simp_all add: demo_paid_db_def demo_paid_calls_def debitForOrder_def applyWalletMutation_def apply_wallet_tx_def
      demo_wallet_defs on_grid_minus)


text \<open>
  A deduction of half a hundredth: the balance stays at 150,000, the ledger says that a hundredth
  was taken, and the sum of the entries is no longer the balance.
\<close>

lemma correction_breaks_sum:
  assumes "sellers s = [r]" and "sl_id r = ''s1''" and "seller_wallets s ''s1'' = Some 150000"
    and "sw.ledger_sum s ''s1'' = 150000"
  shows "call_accepted (AdminAdjust True ''adm'' ''s1'' Deduct (1 / 200) 40)"
    and "seller_wallets (exec_call (AdminAdjust True ''adm'' ''s1'' Deduct (1 / 200) 40) s) ''s1'' = Some 150000"
    and "sw.ledger_sum (exec_call (AdminAdjust True ''adm'' ''s1'' Deduct (1 / 200) 40) s) ''s1'' = 150000 - 1 / 100"
    and "\<not> sw.reconciled (exec_call (AdminAdjust True ''adm'' ''s1'' Deduct (1 / 200) 40) s)"
proof -
  let ?t = "exec_call (AdminAdjust True ''adm'' ''s1'' Deduct (1 / 200) 40) s"
  show "call_accepted (AdminAdjust True ''adm'' ''s1'' Deduct (1 / 200) 40)" by simp
  have t: "?t = post_wallet ''s1'' ADJUST (- (1 / 200)) 150000 (150000 - 1 / 200) ''admin_adjustment'' ''adm'' 40 s"
    using assms(1-3) by (simp add: adminAdjustSellerBalance_def admin_adjust_tx_def transaction_def Let_def)
  have r: "toDecimal (- (1 / 200)) = - (1 / 100)" "toDecimal (29999999 / 200) = 150000"
    by (simp_all add: toDecimal_def to_fixed_def)
  show b: "seller_wallets ?t ''s1'' = Some 150000" unfolding t by (simp add: r(2))
  show l: "sw.ledger_sum ?t ''s1'' = 150000 - 1 / 100"
    using assms(4) r(1) unfolding t by (simp add: sw.ledger_sum_def sum_rows_def)
  show "\<not> sw.reconciled ?t"
  proof
    assume "sw.reconciled ?t"
    from sw.reconciled_balance [OF this b] l show False by simp
  qed
qed

section \<open>Each deposit is credited once\<close>

definition deposit_credits :: "ident \<Rightarrow> platform_db \<Rightarrow> nat" where
  "deposit_credits did s = count_rows
     (\<lambda>e. we_type e = TOPUP \<and> we_refType e = ''deposit_request'' \<and> we_refId e = did) (wallet_ledgers s)"

definition deposit_confirmed :: "ident \<Rightarrow> platform_db \<Rightarrow> bool" where
  "deposit_confirmed did s \<longleftrightarrow> (case deposit_at did s of None \<Rightarrow> False | Some d \<Rightarrow> dep_status d = DepConfirmed)"

definition credit_ok :: "ident \<Rightarrow> platform_db \<Rightarrow> bool" where
  "credit_ok did s \<longleftrightarrow> deposit_credits did s = 0 \<or> deposit_credits did s = 1 \<and> deposit_confirmed did s"

lemma deposit_credits_post [simp]:
  "deposit_credits did (post_wallet i ty d b a rt ri now s)
     = deposit_credits did s + (if ty = TOPUP \<and> rt = ''deposit_request'' \<and> ri = did then 1 else 0)"
  by (simp add: deposit_credits_def)

lemma deposit_credits_updates [simp]:
  "deposit_credits did (update_deposit i f s) = deposit_credits did s"
  "deposit_credits did (update_withdraw i g s) = deposit_credits did s"
  by (simp_all add: deposit_credits_def platform_update_defs)

lemma deposit_at_update [simp]:
  "(\<And>d. dep_id (f d) = dep_id d) \<Longrightarrow> List.find (\<lambda>r. dep_id r = j) (deposits (update_deposit i f s))
     = map_option (\<lambda>d. if j = i then f d else d) (deposit_at j s)"
  unfolding update_deposit_def by (simp add: find_modify_key)

lemma credit_ok_frame:
  assumes "credit_ok did s" and "deposit_credits did t = deposit_credits did s"
    and "deposit_confirmed did s \<Longrightarrow> deposit_confirmed did t"
  shows "credit_ok did t"
  using assms by (auto simp: credit_ok_def)

lemma credit_ok_same:
  assumes "credit_ok did s" and "deposits t = deposits s" and "deposit_credits did t = deposit_credits did s"
  shows "credit_ok did t"
  using assms by (simp add: credit_ok_def deposit_confirmed_def)

lemma credit_ok_confirm_tx:
  assumes "credit_ok did s" and "confirm_deposit_tx j now s = Inr (u, t)"
  shows "credit_ok did t"
  using assms
  by (auto simp: confirm_deposit_tx_def credit_ok_def deposit_confirmed_def Let_def
      split: option.splits if_splits)

lemma credit_ok_cancel:
  assumes "credit_ok did s" and "cancelDepositRequest_check sid j s = Inr m"
  shows "credit_ok did (cancelDepositRequest_write j m s)"
  using assms by (auto simp: cancelDepositRequest_check_def cancelDepositRequest_write_def credit_ok_def
      deposit_confirmed_def split: option.splits if_splits)

lemma find_expire_one:
  "deposit_at j (expire_one_deposit r s) =
     map_option (\<lambda>d. if dep_id d = dep_id r \<and> dep_status d = DepPending
       then d\<lparr>dep_status := DepRejected, dep_note := Some (case dep_note r of None \<Rightarrow> ''Expired payment link''
              | Some n \<Rightarrow> if n = [] then ''Expired payment link'' else n)\<rparr> else d) (deposit_at j s)"
  unfolding expire_one_deposit_def by (simp add: find_modify_rows)

lemma credit_ok_expire: "credit_ok did s \<Longrightarrow> credit_ok did (fold expire_one_deposit rs s)"
proof (induction rs arbitrary: s)
  case (Cons r rs)
  have "deposit_confirmed did s \<Longrightarrow> deposit_confirmed did (expire_one_deposit r s)"
    by (auto simp: deposit_confirmed_def find_expire_one split: option.splits)
  then have "credit_ok did (expire_one_deposit r s)"
    by (rule credit_ok_frame [OF Cons.prems, rotated]) (simp_all add: deposit_credits_def expire_one_deposit_def)
  then show ?case using Cons.IH by simp
qed simp

lemma transaction_credit_ok:
  "credit_ok did s \<Longrightarrow> (\<And>a t. body s = Inr (a, t) \<Longrightarrow> credit_ok did t)
   \<Longrightarrow> credit_ok did (snd (transaction body s))"
  by (rule transaction_preserves)

lemma credit_ok_other_tx:
  "credit_ok did s \<Longrightarrow> approve_withdraw_tx adminId wid now s = Inr (u, t) \<Longrightarrow> credit_ok did t"
  "credit_ok did s \<Longrightarrow> ty \<noteq> TOPUP \<Longrightarrow> apply_wallet_tx sid d ty rt ri now s = Inr (u, t) \<Longrightarrow> credit_ok did t"
  "credit_ok did s \<Longrightarrow> admin_adjust_tx adminId sid act a now s = Inr (u, t) \<Longrightarrow> credit_ok did t"
  by (erule credit_ok_same;
      auto simp: approve_withdraw_tx_def apply_wallet_tx_def admin_adjust_tx_def Let_def update_withdraw_def
        deposit_credits_def split: option.splits if_splits adjust_action.splits)+

lemma credit_ok_transactions:
  assumes "credit_ok did s"
  shows "credit_ok did (snd (transaction (confirm_deposit_tx j now) s))"
    and "credit_ok did (snd (transaction (approve_withdraw_tx adminId wid now) s))"
    and "ty \<noteq> TOPUP \<Longrightarrow> credit_ok did (snd (transaction (apply_wallet_tx sid d ty rt ri now) s))"
    and "credit_ok did (snd (transaction (admin_adjust_tx adminId sid act a now) s))"
  using assms by (blast intro: transaction_credit_ok credit_ok_confirm_tx credit_ok_other_tx)+

lemma credit_ok_exec:
  assumes "credit_ok did s" shows "credit_ok did (exec_call c s)"
proof (cases c)
  case (OpenWallet i)
  with assms show ?thesis by (auto simp: deposit_credits_def split: option.split intro: credit_ok_same)
next
  case (CreateDeposit cfg lp newId code now sid amount m memo)
  have "deposit_confirmed did s \<Longrightarrow> deposit_confirmed did (s\<lparr>deposits := deposits s @ [d]\<rparr>)" for d
    by (auto simp: deposit_confirmed_def find_append split: option.splits)
  then have "credit_ok did (s\<lparr>deposits := deposits s @ [d]\<rparr>)" for d
    by (rule credit_ok_frame [OF assms, rotated]) (simp_all add: deposit_credits_def)
  then show ?thesis
    using assms by (auto simp: CreateDeposit createDepositRequest_def Let_def)
next
  case (ConfirmDeposit code now)
  then show ?thesis
    using assms by (auto simp: confirmDepositRequestByExternalOrderCode_def split: option.split sum.split
        intro: credit_ok_transactions)
next
  case (RejectWithdraw sa adminId wid reason now)
  then show ?thesis
    using assms by (auto simp: adminRejectWithdrawRequest_def Let_def deposit_credits_def
        split: option.split intro: credit_ok_same)
next
  case (CreateWithdraw cfg newId sid amount)
  then show ?thesis
    using assms by (auto simp: createWithdrawRequest_def createWithdrawRequest_locked_def Let_def
        deposit_credits_def split: sum.split intro: credit_ok_same)
next
  case (AdminAdjust sa adminId who act amount now)
  then show ?thesis
    using assms by (auto simp: adminAdjustSellerBalance_def split: option.split
        intro: credit_ok_transactions)
next
  case (DebitOrder sid amount ref now)
  then show ?thesis
    using assms by (auto simp: debitForOrder_def applyWalletMutation_def
        intro: credit_ok_transactions)
next
  case (RefundOrder sid amount ref now)
  then show ?thesis
    using assms by (auto simp: refundForOrder_def applyWalletMutation_def
        intro: credit_ok_transactions)
next
  case (ApproveWithdraw sa adminId wid now)
  then show ?thesis
    using assms by (auto simp: adminApproveWithdrawRequest_def
        intro: credit_ok_transactions)
next
  case (CancelDeposit sid did')
  then show ?thesis using assms by (auto simp: cancelDepositRequest_def split: sum.split intro: credit_ok_cancel)
next
  case (CancelWithdraw sid wid now)
  then show ?thesis using assms by (auto simp: cancelWithdrawRequest_def cancelWithdrawRequest_write_def
        update_withdraw_def deposit_credits_def split: sum.split intro: credit_ok_same)
next
  case (ExpireDeposits now limit)
  then show ?thesis using assms by (simp add: expirePendingDepositRequests_def Let_def credit_ok_expire)
next
  case (ClaimReceipt r)
  then show ?thesis using assms by (auto simp: deposit_credits_def intro: credit_ok_same)
qed

lemma credit_ok_run: "credit_ok did s \<Longrightarrow> credit_ok did (fold exec_call cs s)"
  by (induction cs arbitrary: s) (auto intro: credit_ok_exec)

text \<open>
  C8. When every request runs in one piece (the checks and the write of a cancellation
  together), a deposit is credited at most once over any run, however often its confirmation is
  delivered, and a deposit that was credited stays confirmed: it can be neither cancelled nor
  expired afterwards.
\<close>

theorem deposit_credited_once:
  "deposit_credits did (fold exec_call cs empty_platform) = 0
   \<or> deposit_credits did (fold exec_call cs empty_platform) = 1
     \<and> deposit_confirmed did (fold exec_call cs empty_platform)"
proof -
  have "credit_ok did empty_platform" by (simp add: credit_ok_def deposit_credits_def empty_platform_def)
  from credit_ok_run [OF this] show ?thesis by (simp add: credit_ok_def)
qed

section \<open>What the gap between check and write allows\<close>

definition demo_opened :: platform_db where
  "demo_opened = fold exec_call demo_deposit_calls empty_platform"

definition demo_cancel_race :: platform_db where
  "demo_cancel_race =
     exec_call (ConfirmDeposit ''c1'' 30)
       (cancelDepositRequest_write ''d1'' (Some (deposit_topup_note ''s1'' None))
         (exec_call (ConfirmDeposit ''c1'' 20) demo_opened))"

lemmas demo_race_defs = demo_opened_def demo_wallet_defs

lemma demo_cancel_race_reachable:
  "wallet_reachable \<lparr>ws_db = demo_cancel_race, ws_cancels = [], ws_wcancels = [], ws_asks = []\<rparr>"
proof -
  let ?m = "Some (deposit_topup_note ''s1'' None)"
  let ?sys = "\<lambda>db cs. \<lparr>ws_db = db, ws_cancels = cs, ws_wcancels = [], ws_asks = []\<rparr>"
  have check: "cancelDepositRequest_check ''s1'' ''d1'' demo_opened = Inr ?m"
    by (simp add: demo_race_defs)
  have "wallet_reachable (?sys demo_opened [])"
    using wallet_runs [of cents wallet_init demo_deposit_calls]
    by (simp add: demo_opened_def wallet_init_def demo_deposit_calls_def)
  also have "wallet_step cents (?sys demo_opened []) (?sys demo_opened [(''d1'', ?m)])"
    using wallet_step.cancel_check [of "''s1''" "''d1''" "?sys demo_opened []"] check by simp
  also have "wallet_step cents (?sys demo_opened [(''d1'', ?m)])
      (?sys (exec_call (ConfirmDeposit ''c1'' 20) demo_opened) [(''d1'', ?m)])"
    using wallet_step.whole [of cents "ConfirmDeposit ''c1'' 20" "?sys demo_opened [(''d1'', ?m)]"] by simp
  also have "wallet_step cents (?sys (exec_call (ConfirmDeposit ''c1'' 20) demo_opened) [(''d1'', ?m)])
      (?sys (cancelDepositRequest_write ''d1'' ?m (exec_call (ConfirmDeposit ''c1'' 20) demo_opened)) [])"
    using wallet_step.cancel_write [of "''d1''" ?m
        "?sys (exec_call (ConfirmDeposit ''c1'' 20) demo_opened) [(''d1'', ?m)]"] by simp
  also have "wallet_step cents (?sys (cancelDepositRequest_write ''d1'' ?m
        (exec_call (ConfirmDeposit ''c1'' 20) demo_opened)) []) (?sys demo_cancel_race [])"
    using wallet_step.whole [of cents "ConfirmDeposit ''c1'' 30" "?sys (cancelDepositRequest_write ''d1'' ?m
        (exec_call (ConfirmDeposit ''c1'' 20) demo_opened)) []"] by (simp add: demo_cancel_race_def)
  finally show ?thesis .
qed

text \<open>
  C37. Cancelling a deposit checks the status and writes it in two separate calls. If the payment
  is confirmed in between, the write puts the credited deposit back to rejected, and the next
  delivery of the same confirmation credits it again: a reachable state has two credits for one
  deposit of 150000, and a balance of 300000.
\<close>

theorem cancel_race_credits_twice:
  "\<exists>\<sigma>. wallet_reachable \<sigma> \<and> deposit_credits ''d1'' (ws_db \<sigma>) = 2
      \<and> map dep_amount (deposits (ws_db \<sigma>)) = [150000]
      \<and> seller_wallets (ws_db \<sigma>) ''s1'' = Some 300000"
  by (rule exI [where x = "\<lparr>ws_db = demo_cancel_race, ws_cancels = [], ws_wcancels = [], ws_asks = []\<rparr>"])
     (simp add: demo_cancel_race_reachable, simp add: demo_cancel_race_def deposit_credits_def demo_race_defs)

section \<open>Settling once\<close>

definition withdraw_reviewed :: "ident \<Rightarrow> platform_db \<Rightarrow> bool" where
  "withdraw_reviewed wid s \<longleftrightarrow> (case withdraw_at wid s of None \<Rightarrow> False | Some w \<Rightarrow> wd_status w \<noteq> WdPending)"

lemma withdraw_at_update [simp]:
  "(\<And>w. wd_id (f w) = wd_id w) \<Longrightarrow> List.find (\<lambda>r. wd_id r = j) (withdraws (update_withdraw i f s))
     = map_option (\<lambda>w. if j = i then f w else w) (withdraw_at j s)"
  unfolding update_withdraw_def by (simp add: find_modify_key)

interpretation confirm_once: settle_once
  "\<lambda>s. snd (transaction (confirm_deposit_tx did now) s)" "deposit_confirmed did" for did now
  by unfold_locales
     (auto simp: transaction_def confirm_deposit_tx_def deposit_confirmed_def Let_def
       split: option.splits sum.splits if_splits)

interpretation approve_once: settle_once
  "\<lambda>s. snd (transaction (approve_withdraw_tx adminId wid now) s)" "withdraw_reviewed wid" for adminId wid now
  by unfold_locales
     (auto simp: transaction_def approve_withdraw_tx_def withdraw_reviewed_def Let_def
       split: option.splits sum.splits if_splits)

text \<open>
  C24. An approved withdrawal moves the seller's balance down by exactly its amount, never below
  zero, with one ledger entry and the request marked approved; approving it any number of times
  more changes nothing.
\<close>

theorem approve_withdraw_effect:
  assumes "wallet_inv s"
    and "adminApproveWithdrawRequest sa adminId wid now s = (Inr (), t)"
  shows "\<exists>w b. withdraw_at wid s = Some w \<and> wd_status w = WdPending
      \<and> seller_wallets s (wd_seller w) = Some b \<and> wd_amount w \<le> b
      \<and> seller_wallets t = (seller_wallets s)(wd_seller w \<mapsto> b - wd_amount w)
      \<and> (\<exists>e. wallet_ledgers t = wallet_ledgers s @ [e] \<and> we_amount e = - wd_amount w \<and> we_refId e = wid)
      \<and> map_option wd_status (withdraw_at wid t) = Some WdApproved
      \<and> (\<forall>n. ((\<lambda>s. snd (transaction (approve_withdraw_tx adminId wid now) s)) ^^ n) t = t)"
proof -
  have body: "approve_withdraw_tx adminId wid now s = Inr ((), t)"
    using assms(2) by (auto simp: adminApproveWithdrawRequest_def transaction_def split: if_splits sum.splits)
  then obtain w b where w: "withdraw_at wid s = Some w" "wd_status w = WdPending"
      "seller_wallets s (wd_seller w) = Some b" "wd_amount w \<le> b"
    and t: "t = update_withdraw wid
         (\<lambda>r. r\<lparr>wd_status := WdApproved, wd_reviewedBy := Some adminId, wd_reviewedAt := Some now\<rparr>)
         (post_wallet (wd_seller w) WITHDRAW (- wd_amount w) b (b - wd_amount w)
            ''withdraw_request'' wid now s)"
    by (auto simp: approve_withdraw_tx_def Let_def split: option.splits if_splits)
  have c: "cents (wd_amount w)" "cents b"
    using assms(1) cent_books.amounts_at(2) [OF assms(1) w(1)] w(3)
    by (auto simp: wallet_inv_def dest: money_okD)
  have d: "toDecimal (- wd_amount w) = - wd_amount w" "toDecimal (b - wd_amount w) = b - wd_amount w"
    using c by (blast intro: toDecimal_cents on_grid_minus on_grid_diff)+
  have "withdraw_reviewed wid t" by (simp add: withdraw_reviewed_def t w)
  then have "((\<lambda>s. snd (transaction (approve_withdraw_tx adminId wid now) s)) ^^ n) t = t" for n
    by (rule approve_once.settled_stays)
  moreover have "map_option wd_status (withdraw_at wid t) = Some WdApproved" by (simp add: t w)
  moreover have "seller_wallets t = (seller_wallets s)(wd_seller w \<mapsto> b - wd_amount w)"
    by (simp add: t update_withdraw_def d)
  moreover have "wallet_ledgers t = wallet_ledgers s @
      [mk_entry (wd_seller w) WITHDRAW (- wd_amount w) b (b - wd_amount w) ''withdraw_request'' wid now]"
    by (simp add: t update_withdraw_def)
  ultimately show ?thesis using w d(1) by fastforce
qed

definition demo_withdraw_calls :: "wallet_call list" where
  "demo_withdraw_calls = demo_deposit_calls @
     [ConfirmDeposit ''c1'' 20, CreateWithdraw (\<lambda>_. None) ''w1'' ''s1'' (Fin 100000)]"

definition demo_withdraw_db :: platform_db where
  "demo_withdraw_db = fold exec_call demo_withdraw_calls empty_platform"

lemmas demo_withdraw_defs = demo_withdraw_db_def demo_withdraw_calls_def demo_wallet_defs
  createWithdrawRequest_def createWithdrawRequest_read_def createWithdrawRequest_locked_def
  assertEnabled_def getPendingWithdrawAmount_def adminApproveWithdrawRequest_def
  approve_withdraw_tx_def cancelWithdrawRequest_check_def cancelWithdrawRequest_write_def
  update_withdraw_def

lemma demo_withdraw_inv: "wallet_inv demo_withdraw_db"
proof -
  have "wallet_reachable (wallet_init\<lparr>ws_db := fold exec_call demo_withdraw_calls (ws_db wallet_init)\<rparr>)"
    by (rule wallet_runs) (simp_all add: demo_withdraw_calls_def demo_deposit_calls_def)
  from cent_books.books_reachable [OF this wallet_inv_empty] show ?thesis by (simp add: demo_withdraw_db_def wallet_init_def)
qed

lemma demo_withdraw_approve:
  "adminApproveWithdrawRequest True ''adm'' ''w1'' 40 demo_withdraw_db
     = (Inr (), snd (adminApproveWithdrawRequest True ''adm'' ''w1'' 40 demo_withdraw_db))"
  by (simp add: demo_withdraw_defs)

theorem approve_withdraw_effect_witness:
  "\<exists>w b. withdraw_at ''w1'' demo_withdraw_db = Some w \<and> seller_wallets demo_withdraw_db (wd_seller w) = Some b
     \<and> wd_amount w \<le> b"
  using approve_withdraw_effect [OF demo_withdraw_inv demo_withdraw_approve] by blast

text \<open>
  C25. What an accepted withdrawal request guarantees. The balance is read before the lock is taken
  and other requests may run in between: after an accepted request all the pending withdrawals of
  the seller together are within the balance that was read, they grew by exactly the requested
  amount, at least 100,000, and no balance moved. So they are within the balance the wallet holds
  whenever that is still the one that was read, in particular when the request runs in one piece;
  otherwise they need not be (\<open>stale_withdraw_read\<close>).
\<close>

theorem withdraw_request_covered:
  assumes "createWithdrawRequest_read cfg sid amount s = Inr (a, seen)"
    and "createWithdrawRequest_locked newId sid a seen s' = Inr (w, t)"
  shows "seller_wallets s sid = Some seen \<and> feature_on cfg Withdrawals
      \<and> amount = Fin (wd_amount w) \<and> 100000 \<le> wd_amount w \<and> wd_seller w = sid \<and> wd_status w = WdPending
      \<and> withdraws t = withdraws s' @ [w] \<and> seller_wallets t = seller_wallets s'
      \<and> getPendingWithdrawAmount sid t = getPendingWithdrawAmount sid s' + wd_amount w
      \<and> getPendingWithdrawAmount sid t \<le> seen
      \<and> (seller_wallets s' sid = Some seen \<longrightarrow>
           (\<exists>b. seller_wallets t sid = Some b \<and> getPendingWithdrawAmount sid t \<le> b))
      \<and> (s' = s \<longrightarrow> createWithdrawRequest cfg newId sid amount s = Inr (w, t))"
proof -
  have b: "seller_wallets s sid = Some seen" and on: "feature_on cfg Withdrawals" and am: "amount = Fin a"
    using assms(1) by (cases amount; auto simp: createWithdrawRequest_read_def dest: assertEnabled_InrD
        split: sum.splits if_splits option.splits)+
  have a: "100000 \<le> a" "toDecimal a = a"
    using ask_read_amount [OF assms(1)] by (auto intro: toDecimal_cents)
  have w: "wd_amount w = a" "wd_seller w = sid" "wd_status w = WdPending" and t: "t = s'\<lparr>withdraws := withdraws s' @ [w]\<rparr>"
    and le: "a \<le> max 0 (seen - getPendingWithdrawAmount sid s')"
    using assms(2) a(2) by (auto simp: createWithdrawRequest_locked_def Let_def split: if_splits)
  have pending: "getPendingWithdrawAmount sid t = getPendingWithdrawAmount sid s' + a"
    by (simp add: t getPendingWithdrawAmount_def w)
  moreover have "getPendingWithdrawAmount sid s' + a \<le> seen" using le a(1) by (simp add: max_def split: if_splits)
  ultimately show ?thesis
    using b on am a w assms by (auto simp: t createWithdrawRequest_def)
qed

lemma demo_ask_read: "createWithdrawRequest_read (\<lambda>_. None) ''s1'' (Fin 100000)
     (fold exec_call (demo_deposit_calls @ [ConfirmDeposit ''c1'' 20]) empty_platform) = Inr (100000, 150000)"
  by (simp add: demo_withdraw_defs)

lemma demo_ask_write: "createWithdrawRequest_locked ''w1'' ''s1'' 100000 150000
     (fold exec_call (demo_deposit_calls @ [ConfirmDeposit ''c1'' 20]) empty_platform)
   = Inr (\<lparr>wd_id = ''w1'', wd_seller = ''s1'', wd_amount = 100000, wd_status = WdPending,
           wd_reviewedBy = None, wd_reviewedAt = None, wd_rejectReason = None\<rparr>, demo_withdraw_db)"
  by (simp add: demo_withdraw_defs)

theorem withdraw_request_covered_witness:
  "\<exists>b. seller_wallets demo_withdraw_db ''s1'' = Some b \<and> 100000 \<le> getPendingWithdrawAmount ''s1'' demo_withdraw_db
     \<and> getPendingWithdrawAmount ''s1'' demo_withdraw_db \<le> b"
proof -
  let ?s = "fold exec_call (demo_deposit_calls @ [ConfirmDeposit ''c1'' 20]) empty_platform"
  have "0 \<le> getPendingWithdrawAmount ''s1'' ?s" by (simp add: demo_withdraw_defs)
  moreover have "seller_wallets ?s ''s1'' = Some 150000" by (simp add: demo_withdraw_defs)
  ultimately show ?thesis
    using withdraw_request_covered [OF demo_ask_read demo_ask_write] by simp
qed

text \<open>The seller asks for 100,000 of 150,000; an order of 100,000 is debited before the lock is taken.\<close>

definition demo_funded :: platform_db where
  "demo_funded = fold exec_call (demo_deposit_calls @ [ConfirmDeposit ''c1'' 20]) empty_platform"

definition demo_stale_db :: platform_db where
  "demo_stale_db = (let s = exec_call (DebitOrder ''s1'' 100000 ''o1'' 30) demo_funded in s\<lparr>withdraws := withdraws s @
     [\<lparr>wd_id = ''w1'', wd_seller = ''s1'', wd_amount = 100000, wd_status = WdPending,
       wd_reviewedBy = None, wd_reviewedAt = None, wd_rejectReason = None\<rparr>]\<rparr>)"

lemmas demo_stale_defs = demo_stale_db_def demo_funded_def debitForOrder_def applyWalletMutation_def apply_wallet_tx_def
  demo_withdraw_defs

lemma demo_stale_reachable:
  "wallet_reachable \<lparr>ws_db = demo_stale_db, ws_cancels = [], ws_wcancels = [], ws_asks = []\<rparr>"
proof -
  let ?sys = "\<lambda>db qs. \<lparr>ws_db = db, ws_cancels = [], ws_wcancels = [], ws_asks = qs\<rparr>"
  let ?ask = "(''s1'', 100000, 150000)" and ?mid = "exec_call (DebitOrder ''s1'' 100000 ''o1'' 30) demo_funded"
  let ?w = "\<lparr>wd_id = ''w1'', wd_seller = ''s1'', wd_amount = 100000, wd_status = WdPending,
       wd_reviewedBy = None, wd_reviewedAt = None, wd_rejectReason = None\<rparr>"
  have locked: "createWithdrawRequest_locked ''w1'' ''s1'' 100000 150000 ?mid = Inr (?w, demo_stale_db)"
    by (simp add: demo_stale_defs on_grid_minus)
  have "wallet_reachable (?sys demo_funded [])"
    using wallet_runs [of cents wallet_init "demo_deposit_calls @ [ConfirmDeposit ''c1'' 20]"]
    by (simp add: demo_funded_def wallet_init_def demo_deposit_calls_def)
  also have "wallet_step cents (?sys demo_funded []) (?sys demo_funded [?ask])"
    using wallet_step.ask_read [of "\<lambda>_. None" "''s1''" "Fin 100000" "?sys demo_funded []"] demo_ask_read
    by (simp add: demo_funded_def)
  also have "wallet_step cents (?sys demo_funded [?ask]) (?sys ?mid [?ask])"
    using wallet_step.whole [of cents "DebitOrder ''s1'' 100000 ''o1'' 30" "?sys demo_funded [?ask]"] by simp
  also have "wallet_step cents (?sys ?mid [?ask]) (?sys demo_stale_db [])"
    using wallet_step.ask_write [of "''s1''" 100000 150000 "?sys ?mid [?ask]" "''w1''" ?w demo_stale_db cents] locked by simp
  finally show ?thesis .
qed


definition demo_wcancel_race :: platform_db where
  "demo_wcancel_race = cancelWithdrawRequest_write ''w1'' 50
     (exec_call (ApproveWithdraw True ''adm'' ''w1'' 40) demo_withdraw_db)"

lemma demo_wcancel_race_reachable:
  "wallet_reachable \<lparr>ws_db = demo_wcancel_race, ws_cancels = [], ws_wcancels = [], ws_asks = []\<rparr>"
proof -
  let ?sys = "\<lambda>db ws. \<lparr>ws_db = db, ws_cancels = [], ws_wcancels = ws, ws_asks = []\<rparr>"
  let ?mid = "exec_call (ApproveWithdraw True ''adm'' ''w1'' 40) demo_withdraw_db"
  have check: "cancelWithdrawRequest_check ''s1'' ''w1'' demo_withdraw_db = Inr ()"
    by (simp add: demo_withdraw_defs)
  have "wallet_reachable (?sys demo_withdraw_db [])"
    using wallet_runs [of cents wallet_init demo_withdraw_calls]
    by (simp add: demo_withdraw_db_def wallet_init_def demo_withdraw_calls_def demo_deposit_calls_def)
  also have "wallet_step cents (?sys demo_withdraw_db []) (?sys demo_withdraw_db [''w1''])"
    using wallet_step.wcancel_check [of "''s1''" "''w1''" "?sys demo_withdraw_db []"] check by simp
  also have "wallet_step cents (?sys demo_withdraw_db [''w1'']) (?sys ?mid [''w1''])"
    using wallet_step.whole [of cents "ApproveWithdraw True ''adm'' ''w1'' 40" "?sys demo_withdraw_db [''w1'']"]
    by simp
  also have "wallet_step cents (?sys ?mid [''w1'']) (?sys demo_wcancel_race [])"
    using wallet_step.wcancel_write [of "''w1''" "?sys ?mid [''w1'']" cents 50] by (simp add: demo_wcancel_race_def)
  finally show ?thesis .
qed

text \<open>
  C38. Cancelling a withdrawal has the same gap. If the administrator approves between the check
  and the write, the balance and the ledger keep the debit while the request reads rejected.
\<close>

theorem cancel_race_debits_rejected_withdrawal:
  "\<exists>\<sigma>. wallet_reachable \<sigma> \<and> map wd_status (withdraws (ws_db \<sigma>)) = [WdRejected]
      \<and> map we_type (wallet_ledgers (ws_db \<sigma>)) = [TOPUP, WITHDRAW]
      \<and> seller_wallets (ws_db \<sigma>) ''s1'' = Some 50000"
  by (rule exI [where x = "\<lparr>ws_db = demo_wcancel_race, ws_cancels = [], ws_wcancels = [], ws_asks = []\<rparr>"])
     (simp add: demo_wcancel_race_reachable, simp add: demo_wcancel_race_def demo_withdraw_defs)

end
