(* ===== verification/TierAffiliate.thy ===== *)
theory TierAffiliate
  imports SellerData
begin

text \<open>
  Two-level referral commissions on tier subscriptions
  (\<open>apps/api/src/tiers/tier-affiliate.service.ts\<close>): who counts as a referrer, crediting both
  levels, unlocking a higher rate, and taking commissions back when a subscription is refunded.
  All of it runs inside the caller's transaction, so each operation is one function on the
  database. The random part of \<open>generateReferralCode\<close>, the logging of suspicious sign-up
  addresses and the notes on ledger rows are left out.
\<close>

definition is_affiliate_entry :: "wallet_entry \<Rightarrow> bool" where
  "is_affiliate_entry e \<longleftrightarrow> we_type e = AFFILIATE_LEVEL_1 \<or> we_type e = AFFILIATE_LEVEL_2"

definition same_known :: "string option \<Rightarrow> string option \<Rightarrow> bool" where
  "same_known a b \<longleftrightarrow> (case (a, b) of (Some x, Some y) \<Rightarrow> x \<noteq> [] \<and> y \<noteq> [] \<and> x = y | _ \<Rightarrow> False)"

definition resolveReferrer :: "string option \<Rightarrow> ident \<Rightarrow> platform_db \<Rightarrow> ident option" where
  "resolveReferrer referralCode candidateSellerId s =
     (case referralCode of None \<Rightarrow> None | Some c \<Rightarrow>
      if js_trim c = [] then None
      else
        (let normalizedCode = to_upper (js_trim c);
             bySeller = List.find (\<lambda>r. sl_referralCode r = Some normalizedCode) (sellers s);
             referrer = (case bySeller of Some r \<Rightarrow> Some r | None \<Rightarrow>
               (case List.find (\<lambda>d. dc_code d = normalizedCode) (discount_codes s) of
                  None \<Rightarrow> None
                | Some d \<Rightarrow> if dc_active d then seller_at (dc_referrer d) s else None))
         in case referrer of None \<Rightarrow> None | Some r \<Rightarrow>
            if sl_id r = candidateSellerId then None
            else (case seller_at candidateSellerId s of None \<Rightarrow> None
                  | Some cand \<Rightarrow>
                    if same_known (sl_email r) (sl_email cand)
                       \<or> same_known (sl_phone r) (sl_phone cand) then None
                    else Some (sl_id r))))"

definition getActivityCommission :: "ident \<Rightarrow> int \<Rightarrow> timestamp \<Rightarrow> platform_db \<Rightarrow> money" where
  "getActivityCommission sid lastDays now s =
     (let since = now - lastDays * 24 * 60 * 60 * 1000
      in sum_rows (\<lambda>e. we_seller e = sid \<and> is_affiliate_entry e \<and> we_createdAt e \<ge> since)
           we_amount (wallet_ledgers s))"

definition getAllTimeCommission :: "ident \<Rightarrow> platform_db \<Rightarrow> money" where
  "getAllTimeCommission sid s =
     sum_rows (\<lambda>e. we_seller e = sid \<and> is_affiliate_entry e) we_amount (wallet_ledgers s)"

text \<open>\<open>sellerWallet.upsert\<close> with an empty update: the wallet exists afterwards.\<close>

definition upsert_wallet :: "ident \<Rightarrow> platform_db \<Rightarrow> platform_db" where
  "upsert_wallet sid s = (case seller_wallets s sid of
     None \<Rightarrow> s\<lparr>seller_wallets := (seller_wallets s)(sid \<mapsto> 0)\<rparr> | Some _ \<Rightarrow> s)"

definition wallet_or_0 :: "platform_db \<Rightarrow> ident \<Rightarrow> money" where
  "wallet_or_0 s sid = (case seller_wallets s sid of None \<Rightarrow> 0 | Some b \<Rightarrow> b)"

definition creditToWallet ::
  "ident \<Rightarrow> rat \<Rightarrow> ledger_type \<Rightarrow> string \<Rightarrow> string \<Rightarrow> timestamp \<Rightarrow> platform_db \<Rightarrow> platform_db" where
  "creditToWallet sid amount ty referenceType referenceId now s0 =
     (let s = upsert_wallet sid s0;
          balanceBefore = wallet_or_0 s sid;
          balanceAfter = balanceBefore + amount
      in post_wallet sid ty amount balanceBefore balanceAfter referenceType referenceId now s)"

definition maybeUnlockTier :: "ident \<Rightarrow> timestamp \<Rightarrow> platform_db \<Rightarrow> platform_db" where
  "maybeUnlockTier sid now s =
     (let totalVnd = getAllTimeCommission sid s; newTier = tierFromCumulative totalVnd
      in case seller_at sid s of
           None \<Rightarrow> s
         | Some r \<Rightarrow>
             if newTier \<le> sl_unlockedTier r then s
             else update_seller sid (\<lambda>q. q\<lparr>sl_unlockedTier := newTier,
                    sl_unlockedTier2At := (if newTier \<ge> 2 \<and> sl_unlockedTier2At r = None then Some now
                                           else sl_unlockedTier2At q),
                    sl_unlockedTier3At := (if newTier \<ge> 3 \<and> sl_unlockedTier3At r = None then Some now
                                           else sl_unlockedTier3At q)\<rparr>) s)"

definition already_credited :: "ident \<Rightarrow> platform_db \<Rightarrow> bool" where
  "already_credited subId s \<longleftrightarrow> list_ex (\<lambda>e. we_refType e = ''tier_subscription'' \<and> we_refId e = subId
     \<and> is_affiliate_entry e) (wallet_ledgers s)"

definition level1_rate :: "seller \<Rightarrow> timestamp \<Rightarrow> platform_db \<Rightarrow> rat" where
  "level1_rate r now s =
     (case sl_commissionPercent r of
        None \<Rightarrow> calcLevel1Rate (sl_unlockedTier r) (getActivityCommission (sl_id r) 90 now s)
      | Some p \<Rightarrow> p / 100)"

text \<open>The first level: the referrer is paid if it is a seller of the database.\<close>

definition credit_level1 ::
  "ident \<Rightarrow> rat \<Rightarrow> ident option \<Rightarrow> timestamp \<Rightarrow> platform_db \<Rightarrow> (rat \<times> int) \<times> platform_db" where
  "credit_level1 subId priceVnd referrer now s =
     (case referrer of None \<Rightarrow> ((0, 0), s)
      | Some rid \<Rightarrow>
        (case seller_at rid s of None \<Rightarrow> ((0, 0), s)
         | Some r \<Rightarrow>
             (let rate = level1_rate r now s; amount = js_round (priceVnd * rate)
              in ((rate, amount),
                  maybeUnlockTier rid now (creditToWallet rid (of_int amount) AFFILIATE_LEVEL_1
                    ''tier_subscription'' subId now s)))))"

definition credit_level2 ::
  "ident \<Rightarrow> rat \<Rightarrow> ident option \<Rightarrow> ident option \<Rightarrow> timestamp \<Rightarrow> platform_db \<Rightarrow> (rat \<times> int) \<times> platform_db" where
  "credit_level2 subId priceVnd referrer grandReferrer now s =
     (case grandReferrer of None \<Rightarrow> ((0, 0), s)
      | Some gid \<Rightarrow>
        if Some gid = referrer then ((0, 0), s)
        else
          (let amount = js_round (priceVnd * level2Rate)
           in ((level2Rate, amount),
               maybeUnlockTier gid now (creditToWallet gid (of_int amount) AFFILIATE_LEVEL_2
                 ''tier_subscription'' subId now s))))"

definition positive_decimal :: "rat \<Rightarrow> money option" where
  "positive_decimal x = (if x > 0 then Some (toDecimal x) else None)"

text \<open>
  The last write of the source, \<open>tierSubscription.update\<close>, throws when the row does not exist; here
  it leaves the subscriptions alone. Both callers create the row in the same transaction just
  before (\<open>purchase_row_present\<close> and \<open>confirm_row_present\<close> below their definitions).
\<close>

definition creditCommissionsForSubscription ::
  "ident \<Rightarrow> rat \<Rightarrow> ident option \<Rightarrow> ident option \<Rightarrow> timestamp \<Rightarrow> platform_db \<Rightarrow> (int \<times> int) \<times> platform_db" where
  "creditCommissionsForSubscription subId priceVnd referrer grandReferrer now s =
     (if already_credited subId s then ((0, 0), s)
      else
        (let ((rate1, level1Commission), s1) = credit_level1 subId priceVnd referrer now s;
             ((rate2, level2Commission), s2) = credit_level2 subId priceVnd referrer grandReferrer now s1;
             s3 = update_subscription subId (\<lambda>r. r\<lparr>
                    sub_level1Rate := positive_decimal rate1,
                    sub_level2Rate := positive_decimal rate2,
                    sub_level1Commission := positive_decimal (of_int level1Commission),
                    sub_level2Commission := positive_decimal (of_int level2Commission)\<rparr>) s2
         in ((level1Commission, level2Commission), s3)))"

definition debitFromWallet ::
  "ident \<Rightarrow> rat \<Rightarrow> ledger_type \<Rightarrow> string \<Rightarrow> string \<Rightarrow> timestamp \<Rightarrow> platform_db \<Rightarrow> platform_db" where
  "debitFromWallet sid amount ty referenceType referenceId now s =
     (case seller_wallets s sid of
        None \<Rightarrow> s
      | Some balanceBefore \<Rightarrow>
          (let balanceAfter = balanceBefore - amount
           in post_wallet sid ty (- amount) balanceBefore balanceAfter referenceType referenceId now s))"

definition debit_commission ::
  "ident \<Rightarrow> ident option \<Rightarrow> money option \<Rightarrow> timestamp \<Rightarrow> platform_db \<Rightarrow> platform_db" where
  "debit_commission subId party commission now s =
     (case (party, commission) of
        (Some sid, Some amount) \<Rightarrow>
          debitFromWallet sid amount AFFILIATE_CLAWBACK ''tier_subscription_refund'' subId now s
      | _ \<Rightarrow> s)"

definition clawBackCommissions :: "ident \<Rightarrow> timestamp \<Rightarrow> platform_db \<Rightarrow> platform_db" where
  "clawBackCommissions subId now s =
     (case subscription_at subId s of
        None \<Rightarrow> s
      | Some sub \<Rightarrow>
          (let ageMs = now - sub_createdAt sub
           in if \<not> ageMs \<le> 7 * 24 * 60 * 60 * 1000 then s
              else debit_commission subId (sub_grandReferrer sub) (sub_level2Commission sub) now
                     (debit_commission subId (sub_referrer sub) (sub_level1Commission sub) now s)))"

section \<open>Money stays reconciled\<close>

lemma wallet_after_upsert: "seller_wallets (upsert_wallet sid s) sid = Some (wallet_or_0 s sid)"
  by (simp add: upsert_wallet_def wallet_or_0_def split: option.split)

lemma upsert_wallet_simps [simp]:
  "wallet_ledgers (upsert_wallet sid s) = wallet_ledgers s"
  "sellers (upsert_wallet sid s) = sellers s"
  "subscriptions (upsert_wallet sid s) = subscriptions s"
  "deposits (upsert_wallet sid s) = deposits s"
  "withdraws (upsert_wallet sid s) = withdraws s"
  "discount_codes (upsert_wallet sid s) = discount_codes s"
  "discount_usages (upsert_wallet sid s) = discount_usages s"
  "wallet_or_0 (upsert_wallet sid s) = wallet_or_0 s"
  by (auto simp: upsert_wallet_def wallet_or_0_def fun_eq_iff split: option.split)

lemma money_ok_upsert: "money_ok s \<Longrightarrow> money_ok (upsert_wallet sid s)"
  by (auto simp: upsert_wallet_def intro: money_ok_open split: option.split)

lemma money_ok_wallet_or_0: "money_ok s \<Longrightarrow> cents (wallet_or_0 s sid)"
  by (auto simp: wallet_or_0_def dest: money_okD split: option.split)

lemma money_ok_creditToWallet:
  assumes "money_ok s" and "cents a"
  shows "money_ok (creditToWallet sid a ty rt ri now s)"
  using assms money_ok_post [OF money_ok_upsert [OF assms(1)] wallet_after_upsert assms(2)]
  by (simp add: creditToWallet_def Let_def)

lemma wallet_or_0_credit:
  assumes "money_ok s" and "cents a"
  shows "wallet_or_0 (creditToWallet sid a ty rt ri now s) j
       = wallet_or_0 s j + (if j = sid then a else 0)"
proof -
  have "cents (wallet_or_0 s sid + a)" using assms by (auto intro: money_ok_wallet_or_0)
  then have "toDecimal (wallet_or_0 s sid + a) = wallet_or_0 s sid + a" by (rule toDecimal_cents)
  then show ?thesis
    by (cases "seller_wallets s sid")
       (simp_all add: creditToWallet_def Let_def wallet_or_0_def upsert_wallet_def)
qed

lemma money_ok_maybeUnlock [simp]: "money_ok (maybeUnlockTier sid now s) = money_ok s"
  by (simp add: maybeUnlockTier_def Let_def split: option.split)

lemma maybeUnlock_simps [simp]:
  "seller_wallets (maybeUnlockTier sid now s) = seller_wallets s"
  "wallet_ledgers (maybeUnlockTier sid now s) = wallet_ledgers s"
  "subscriptions (maybeUnlockTier sid now s) = subscriptions s"
  "wallet_or_0 (maybeUnlockTier sid now s) = wallet_or_0 s"
  by (auto simp: maybeUnlockTier_def Let_def update_seller_def wallet_or_0_def fun_eq_iff split: option.split)

lemma money_ok_debit:
  assumes "money_ok s" and "cents a"
  shows "money_ok (debitFromWallet sid a ty rt ri now s)"
  using assms money_ok_post [OF assms(1) _ on_grid_minus [OF assms(2)]]
  by (auto simp: debitFromWallet_def Let_def split: option.split)

lemma wallet_or_0_debit:
  assumes "money_ok s" and "cents a" and "seller_wallets s sid \<noteq> None"
  shows "wallet_or_0 (debitFromWallet sid a ty rt ri now s) j
       = wallet_or_0 s j - (if j = sid then a else 0)"
proof -
  obtain b where b: "seller_wallets s sid = Some b" using assms(3) by blast
  then have "cents (b - a)" using assms(1,2) by (auto dest: money_okD)
  then show ?thesis
    by (simp add: debitFromWallet_def b Let_def wallet_or_0_def toDecimal_cents)
qed

lemma money_ok_level1: "money_ok s \<Longrightarrow> money_ok (snd (credit_level1 subId p r now s))"
  by (auto simp: credit_level1_def Let_def money_ok_creditToWallet split: option.split)

lemma money_ok_level2: "money_ok s \<Longrightarrow> money_ok (snd (credit_level2 subId p r g now s))"
  by (auto simp: credit_level2_def Let_def money_ok_creditToWallet split: option.split)

lemma money_ok_commissions:
  assumes "money_ok s"
  shows "money_ok (snd (creditCommissionsForSubscription subId p r g now s))"
  using money_ok_level2 [OF money_ok_level1 [OF assms], of subId p r g now subId p r now] assms
  by (auto simp: creditCommissionsForSubscription_def Let_def split: prod.split)

definition commissions_cents :: "platform_db \<Rightarrow> bool" where
  "commissions_cents s \<longleftrightarrow> (\<forall>r \<in> set (subscriptions s). pred_option cents (sub_level1Commission r)
     \<and> pred_option cents (sub_level2Commission r) \<and> cents (sub_price r))"

lemma money_ok_debit_commission:
  "money_ok s \<Longrightarrow> pred_option cents c \<Longrightarrow> money_ok (debit_commission subId party c now s)"
  by (auto simp: debit_commission_def money_ok_debit split: option.split)

lemma money_ok_clawBack:
  assumes "money_ok s" and "commissions_cents s"
  shows "money_ok (clawBackCommissions subId now s)"
proof (cases "subscription_at subId s")
  case (Some sub)
  then have "pred_option cents (sub_level1Commission sub)" "pred_option cents (sub_level2Commission sub)"
    using assms(2) by (auto simp: commissions_cents_def dest: find_SomeD)
  with assms(1) Some show ?thesis
    by (simp add: clawBackCommissions_def Let_def money_ok_debit_commission)
qed (simp add: clawBackCommissions_def assms(1))

section \<open>What a credit does\<close>

definition level1_party :: "ident option \<Rightarrow> platform_db \<Rightarrow> ident option" where
  "level1_party r s = (case r of None \<Rightarrow> None
     | Some rid \<Rightarrow> if seller_at rid s = None then None else Some rid)"

definition level2_party :: "ident option \<Rightarrow> ident option \<Rightarrow> ident option" where
  "level2_party r g = (if g = r then None else g)"

lemma level1_none: "level1_party r s = None \<Longrightarrow> credit_level1 subId p r now s = ((0, 0), s)"
  by (auto simp: level1_party_def credit_level1_def split: option.splits if_splits)

lemma level1_some:
  "level1_party r s = Some rid \<Longrightarrow> \<exists>q. seller_at rid s = Some q \<and> r = Some rid
     \<and> credit_level1 subId p r now s = ((level1_rate q now s, js_round (p * level1_rate q now s)),
         maybeUnlockTier rid now (creditToWallet rid (of_int (js_round (p * level1_rate q now s)))
           AFFILIATE_LEVEL_1 ''tier_subscription'' subId now s))"
  by (auto simp: level1_party_def credit_level1_def Let_def split: option.splits if_splits)

lemma level2_none: "level2_party r g = None \<Longrightarrow> credit_level2 subId p r g now s = ((0, 0), s)"
  by (auto simp: level2_party_def credit_level2_def split: option.splits if_splits)

lemma level2_some:
  "level2_party r g = Some gid \<Longrightarrow> credit_level2 subId p r g now s = ((level2Rate, js_round (p * level2Rate)),
     maybeUnlockTier gid now (creditToWallet gid (of_int (js_round (p * level2Rate)))
       AFFILIATE_LEVEL_2 ''tier_subscription'' subId now s))"
  by (auto simp: level2_party_def credit_level2_def Let_def split: option.splits if_splits)

lemma creditToWallet_simps [simp]:
  "wallet_ledgers (creditToWallet sid a ty rt ri now s)
     = wallet_ledgers s @ [mk_entry sid ty a (wallet_or_0 s sid) (wallet_or_0 s sid + a) rt ri now]"
  "sellers (creditToWallet sid a ty rt ri now s) = sellers s"
  "subscriptions (creditToWallet sid a ty rt ri now s) = subscriptions s"
  "seller_wallets (creditToWallet sid a ty rt ri now s)
     = (seller_wallets s)(sid \<mapsto> toDecimal (wallet_or_0 s sid + a))"
  by (simp_all add: creditToWallet_def Let_def)
     (simp add: upsert_wallet_def split: option.split)

lemma wallet_or_0_subscription [simp]: "wallet_or_0 (update_subscription i f s) = wallet_or_0 s"
  by (simp add: update_subscription_def wallet_or_0_def fun_eq_iff)

lemma level1_wallets:
  assumes "money_ok s"
  shows "wallet_or_0 (snd (credit_level1 subId p r now s)) j = wallet_or_0 s j
     + (if level1_party r s = Some j then of_int (snd (fst (credit_level1 subId p r now s))) else 0)"
proof (cases "level1_party r s")
  case (Some rid)
  from level1_some [OF this, of subId p now] show ?thesis
    using Some by (auto simp: wallet_or_0_credit [OF assms])
qed (simp add: level1_none)

lemma level2_wallets:
  assumes "money_ok s"
  shows "wallet_or_0 (snd (credit_level2 subId p r g now s)) j = wallet_or_0 s j
     + (if level2_party r g = Some j then of_int (snd (fst (credit_level2 subId p r g now s))) else 0)"
proof (cases "level2_party r g")
  case (Some gid)
  then show ?thesis by (simp add: level2_some wallet_or_0_credit [OF assms])
qed (simp add: level2_none)

lemma level_subscriptions [simp]:
  "subscriptions (snd (credit_level1 subId p r now s)) = subscriptions s"
  "subscriptions (snd (credit_level2 subId p r g now s)) = subscriptions s"
  by (simp_all add: credit_level1_def credit_level2_def Let_def split: option.split)

text \<open>The credit of a subscription not credited before, in one equation.\<close>

lemma commissions_step:
  assumes "\<not> already_credited subId s"
    and "credit_level1 subId p r now s = ((rate1, l1), s1)"
    and "credit_level2 subId p r g now s1 = ((rate2, l2), s2)"
  shows "creditCommissionsForSubscription subId p r g now s = ((l1, l2),
     update_subscription subId (\<lambda>q. q\<lparr>sub_level1Rate := positive_decimal rate1,
        sub_level2Rate := positive_decimal rate2,
        sub_level1Commission := positive_decimal (of_int l1),
        sub_level2Commission := positive_decimal (of_int l2)\<rparr>) s2)"
  using assms by (simp add: creditCommissionsForSubscription_def)

lemma commissions_wallets:
  assumes "money_ok s" and "\<not> already_credited subId s"
    and "creditCommissionsForSubscription subId p r g now s = ((l1, l2), t)"
  shows "wallet_or_0 t j = wallet_or_0 s j + (if level1_party r s = Some j then of_int l1 else 0)
     + (if level2_party r g = Some j then of_int l2 else 0)"
proof -
  obtain rate1 k1 s1 where 1: "credit_level1 subId p r now s = ((rate1, k1), s1)"
    by (metis surj_pair)
  obtain rate2 k2 s2 where 2: "credit_level2 subId p r g now s1 = ((rate2, k2), s2)"
    by (metis surj_pair)
  have "money_ok s1" using money_ok_level1 [OF assms(1), of subId p r now] 1 by simp
  from level2_wallets [OF this, of subId p r g now j] level1_wallets [OF assms(1), of subId p r now j]
  show ?thesis using commissions_step [OF assms(2) 1 2] assms(3) 1 2 by auto
qed

definition percents_nonneg :: "platform_db \<Rightarrow> bool" where
  "percents_nonneg s \<longleftrightarrow> list_all (\<lambda>r. pred_option (\<lambda>p. 0 \<le> p) (sl_commissionPercent r)) (sellers s)"

lemma level1_rate_nonneg:
  assumes "percents_nonneg s" and "seller_at rid s = Some q" shows "0 \<le> level1_rate q now s"
proof -
  have "q \<in> set (sellers s)" using assms(2) by (auto dest: find_SomeD)
  with assms(1) have "pred_option (\<lambda>p. 0 \<le> p) (sl_commissionPercent q)"
    by (auto simp: percents_nonneg_def list_all_iff)
  moreover have "0 \<le> calcLevel1Rate u a" for u a using calcLevel1Rate_range [of u a] by linarith
  ultimately show ?thesis by (cases "sl_commissionPercent q") (simp_all add: level1_rate_def)
qed

lemma commissions_nonneg:
  assumes "percents_nonneg s" and "0 \<le> p"
    and "creditCommissionsForSubscription subId p r g now s = ((l1, l2), t)"
  shows "0 \<le> l1 \<and> 0 \<le> l2"
proof (cases "already_credited subId s")
  case False
  obtain rate1 k1 s1 where 1: "credit_level1 subId p r now s = ((rate1, k1), s1)" by (metis surj_pair)
  obtain rate2 k2 s2 where 2: "credit_level2 subId p r g now s1 = ((rate2, k2), s2)" by (metis surj_pair)
  have "0 \<le> k1"
  proof (cases "level1_party r s")
    case None
    with 1 show ?thesis by (simp add: level1_none)
  next
    case (Some rid)
    from level1_some [OF this, of subId p now] obtain q where "seller_at rid s = Some q"
      and "k1 = js_round (p * level1_rate q now s)" using 1 by auto
    then show ?thesis
      using level1_rate_nonneg [OF assms(1)] assms(2) by (simp add: js_round_nonneg)
  qed
  moreover have "0 \<le> k2"
    using 2 assms(2) by (cases "level2_party r g")
      (auto simp: level2_none level2_some level2Rate_def intro: js_round_nonneg)
  ultimately show ?thesis using commissions_step [OF False 1 2] assms(3) by simp
qed (use assms(3) in \<open>simp add: creditCommissionsForSubscription_def\<close>)

section \<open>Credited once, bounded, and taken back\<close>

text \<open>Settled: some commission was paid for the subscription, or nobody is to be paid and its row says so.\<close>

definition no_rates :: "subscription \<Rightarrow> bool" where
  "no_rates q \<longleftrightarrow> sub_level1Rate q = None \<and> sub_level2Rate q = None
     \<and> sub_level1Commission q = None \<and> sub_level2Commission q = None"

definition commission_settled :: "ident \<Rightarrow> ident option \<Rightarrow> ident option \<Rightarrow> platform_db \<Rightarrow> bool" where
  "commission_settled subId r g s \<longleftrightarrow> already_credited subId s
     \<or> level1_party r s = None \<and> level2_party r g = None
       \<and> list_all (\<lambda>q. sub_id q = subId \<longrightarrow> no_rates q) (subscriptions s)"

lemma clear_rates_id:
  "no_rates q \<Longrightarrow> q\<lparr>sub_level1Rate := None, sub_level2Rate := None, sub_level1Commission := None,
     sub_level2Commission := None\<rparr> = q"
  by (cases q) (simp add: no_rates_def)

lemma clear_rates_settled:
  assumes "list_all (\<lambda>q. sub_id q = subId \<longrightarrow> no_rates q) (subscriptions s)"
  shows "update_subscription subId (\<lambda>q. q\<lparr>sub_level1Rate := None, sub_level2Rate := None,
     sub_level1Commission := None, sub_level2Commission := None\<rparr>) s = s"
proof -
  have "map (\<lambda>q. if sub_id q = subId then q\<lparr>sub_level1Rate := None, sub_level2Rate := None,
     sub_level1Commission := None, sub_level2Commission := None\<rparr> else q) (subscriptions s) = subscriptions s"
    using assms by (intro map_idI) (auto simp: list_all_iff clear_rates_id)
  then show ?thesis by (simp add: update_subscription_def modify_rows_def)
qed

lemma no_party_step:
  assumes "\<not> already_credited subId s" and "level1_party r s = None" and "level2_party r g = None"
  shows "creditCommissionsForSubscription subId p r g now s = ((0, 0),
     update_subscription subId (\<lambda>q. q\<lparr>sub_level1Rate := None, sub_level2Rate := None,
        sub_level1Commission := None, sub_level2Commission := None\<rparr>) s)"
  using commissions_step [OF assms(1) level1_none [OF assms(2)] level2_none [OF assms(3)]]
  by (simp add: positive_decimal_def)

lemma already_credited_append:
  "wallet_ledgers t = wallet_ledgers s @ es \<Longrightarrow> already_credited i s \<Longrightarrow> already_credited i t"
  by (simp add: already_credited_def)

lemma already_credited_subscription [simp]: "already_credited i (update_subscription j f s) = already_credited i s"
  by (simp add: already_credited_def update_subscription_def)

lemma party_credited:
  assumes "level1_party r s \<noteq> None \<or> level2_party r g \<noteq> None"
  shows "already_credited subId (snd (creditCommissionsForSubscription subId p r g now s))"
proof (cases "already_credited subId s")
  case False
  obtain rate1 k1 s1 where 1: "credit_level1 subId p r now s = ((rate1, k1), s1)" by (metis surj_pair)
  obtain rate2 k2 s2 where 2: "credit_level2 subId p r g now s1 = ((rate2, k2), s2)" by (metis surj_pair)
  have "already_credited subId s2"
  proof (cases "level2_party r g")
    case None
    with assms obtain rid where "level1_party r s = Some rid" by auto
    from level1_some [OF this, of subId p now] 1 have "already_credited subId s1"
      by (auto simp: already_credited_def is_affiliate_entry_def)
    with None 2 show ?thesis by (simp add: level2_none)
  next
    case (Some gid)
    with 2 show ?thesis by (auto simp: level2_some already_credited_def is_affiliate_entry_def)
  qed
  then show ?thesis using commissions_step [OF False 1 2] by simp
qed (simp add: creditCommissionsForSubscription_def)

lemma no_party_rates:
  "list_all (\<lambda>q. sub_id q = subId \<longrightarrow> no_rates q) (subscriptions (update_subscription subId
     (\<lambda>q. q\<lparr>sub_level1Rate := None, sub_level2Rate := None,
        sub_level1Commission := None, sub_level2Commission := None\<rparr>) s))"
  by (simp add: update_subscription_def) (rule list_all_modify_rows; simp add: no_rates_def)

lemma level1_party_subscription [simp]: "level1_party r (update_subscription i f s) = level1_party r s"
  by (simp add: level1_party_def update_subscription_def split: option.split)

interpretation credit_once: settle_once
  "\<lambda>s. snd (creditCommissionsForSubscription subId p r g now s)" "commission_settled subId r g"
  for subId p r g now
proof unfold_locales
  fix s assume set: "commission_settled subId r g s"
  show "snd (creditCommissionsForSubscription subId p r g now s) = s"
  proof (cases "already_credited subId s")
    case False
    with set have none: "level1_party r s = None" "level2_party r g = None"
      and rates: "list_all (\<lambda>q. sub_id q = subId \<longrightarrow> no_rates q) (subscriptions s)"
      by (simp_all add: commission_settled_def)
    show ?thesis unfolding no_party_step [OF False none] snd_conv by (rule clear_rates_settled [OF rates])
  qed (simp add: creditCommissionsForSubscription_def)
next
  fix s assume "snd (creditCommissionsForSubscription subId p r g now s) \<noteq> s"
  then have new: "\<not> already_credited subId s" by (auto simp: creditCommissionsForSubscription_def)
  show "commission_settled subId r g (snd (creditCommissionsForSubscription subId p r g now s))"
  proof (cases "level1_party r s = None \<and> level2_party r g = None")
    case True
    then have none: "level1_party r s = None" "level2_party r g = None" by simp_all
    show ?thesis unfolding no_party_step [OF new none] snd_conv commission_settled_def
      using none no_party_rates by simp
  next
    case False
    with party_credited [of r s g subId p now] show ?thesis by (simp add: commission_settled_def)
  qed
qed

text \<open>
  C21. Crediting the commissions of a subscription is idempotent: running it any number of times
  more, at any later time and with any price, leaves wallets, ledger, unlocked tiers and the
  subscription row as the first run left them, whenever somebody was to be paid.
\<close>

theorem commission_credited_once:
  assumes "level1_party r s \<noteq> None \<or> level2_party r g \<noteq> None"
  shows "((\<lambda>t. snd (creditCommissionsForSubscription subId p' r' g' now' t)) ^^ n)
           (snd (creditCommissionsForSubscription subId p r g now s))
       = snd (creditCommissionsForSubscription subId p r g now s)"
  using party_credited [OF assms] by (intro credit_once.settled_stays) (simp add: commission_settled_def)

text \<open>
  C22. What a subscription pays out. On a reconciled database the two commissions go to exactly the
  two parties and the database stays reconciled. The first level is the price times the rate
  of the referrer, which is its individual percentage or, without one, the rate of its unlocked
  level and its commissions of the last 90 days; the second level is two percent of the price;
  each is rounded to a whole dong, and zero where there is no party. Without an individual percentage the first level is at most twenty
  percent of the price rounded to a whole dong, so that the sum exceeds twenty-two percent of the
  price by at most the two roundings, one dong together.
\<close>

theorem commissions_paid_and_bounded:
  assumes "money_ok s" and "percents_nonneg s" and "0 \<le> p" and "\<not> already_credited subId s"
    and "creditCommissionsForSubscription subId p r g now s = ((l1, l2), t)"
  shows "money_ok t
    \<and> (\<forall>j. wallet_or_0 t j = wallet_or_0 s j + (if level1_party r s = Some j then of_int l1 else 0)
         + (if level2_party r g = Some j then of_int l2 else 0))
    \<and> 0 \<le> l1 \<and> 0 \<le> l2
    \<and> (case level1_party r s of None \<Rightarrow> l1 = 0
       | Some rid \<Rightarrow> \<exists>q. seller_at rid s = Some q \<and> l1 = js_round (p * (case sl_commissionPercent q of
           None \<Rightarrow> calcLevel1Rate (sl_unlockedTier q) (getActivityCommission (sl_id q) 90 now s)
         | Some c \<Rightarrow> c / 100)))
    \<and> l2 = (if level2_party r g = None then 0 else js_round (p * 2 / 100))
    \<and> (list_all (\<lambda>q. sl_commissionPercent q = None) (sellers s) \<longrightarrow>
         l1 \<le> js_round (p * 20 / 100) \<and> of_int (l1 + l2) \<le> p * 22 / 100 + 1)"
proof -
  obtain rate1 k1 s1 where 1: "credit_level1 subId p r now s = ((rate1, k1), s1)" by (metis surj_pair)
  obtain rate2 k2 s2 where 2: "credit_level2 subId p r g now s1 = ((rate2, k2), s2)" by (metis surj_pair)
  have k: "l1 = k1" "l2 = k2" using commissions_step [OF assms(4) 1 2] assms(5) by simp_all
  have round: "of_int (js_round x) \<le> x + 1 / 2" for x :: rat
    using js_round_error [of x] by linarith
  have l2: "l2 = (if level2_party r g = None then 0 else js_round (p * 2 / 100))"
    using 2 by (cases "level2_party r g") (auto simp: k level2_none level2_some level2Rate_def)
  have l1: "case level1_party r s of None \<Rightarrow> l1 = 0
       | Some rid \<Rightarrow> \<exists>q. seller_at rid s = Some q \<and> l1 = js_round (p * level1_rate q now s)"
  proof (cases "level1_party r s")
    case None
    with 1 show ?thesis by (simp add: k level1_none)
  next
    case (Some rid)
    from level1_some [OF this, of subId p now] 1 Some show ?thesis by (auto simp: k)
  qed
  have b2: "of_int l2 \<le> p * 2 / 100 + 1 / 2"
    using round [of "p * 2 / 100"] assms(3) by (simp add: l2)
  have b1: "l1 \<le> js_round (p * 20 / 100)"
    if none: "list_all (\<lambda>q. sl_commissionPercent q = None) (sellers s)"
  proof (cases "level1_party r s")
    case None
    with l1 assms(3) show ?thesis by (simp add: js_round_nonneg)
  next
    case (Some rid)
    with l1 obtain q where q: "seller_at rid s = Some q" and l1: "l1 = js_round (p * level1_rate q now s)"
      by auto
    from q none have "sl_commissionPercent q = None" by (auto simp: list_all_iff dest: find_SomeD)
    then have "level1_rate q now s \<le> 20 / 100"
      using calcLevel1Rate_range by (simp add: level1_rate_def)
    then have "p * level1_rate q now s \<le> p * (20 / 100)" using assms(3) by (rule mult_left_mono)
    then show ?thesis unfolding l1 by (intro js_round_mono) simp
  qed
  have "money_ok t" using money_ok_commissions [OF assms(1), of subId p r g now] assms(5) by simp
  moreover have "0 \<le> l1 \<and> 0 \<le> l2" by (rule commissions_nonneg [OF assms(2,3,5)])
  moreover have "of_int (l1 + l2) \<le> p * 22 / 100 + 1"
    if "list_all (\<lambda>q. sl_commissionPercent q = None) (sellers s)"
  proof -
    from b1 [OF that] have "of_int l1 \<le> (of_int (js_round (p * 20 / 100)) :: rat)" by simp
    with round [of "p * 20 / 100"] b2 show ?thesis by simp
  qed
  ultimately show ?thesis using commissions_wallets [OF assms(1,4,5)] l1 [unfolded level1_rate_def] l2 b1 by simp
qed

text \<open>The two roundings are real: a price of 133,330 pays one dong more than twenty-two percent rounded down.\<close>

lemma commissions_rounding: "js_round (133330 * 20 / 100) + js_round (133330 * 2 / 100) = 29333"
  by (simp add: js_round_def)

lemma subscription_at_update [simp]:
  "(\<And>q. sub_id (f q) = sub_id q) \<Longrightarrow> List.find (\<lambda>r. sub_id r = j) (subscriptions (update_subscription i f s))
     = map_option (\<lambda>q. if j = i then f q else q) (subscription_at j s)"
  unfolding update_subscription_def by (simp add: find_modify_key)

lemma positive_decimal_int [simp]:
  "positive_decimal (of_int k) = (if 0 < k then Some (of_int k) else None)"
  by (simp add: positive_decimal_def toDecimal_cents)

lemma wallets_exist:
  assumes "creditCommissionsForSubscription subId p r g now s = ((l1, l2), t)"
    and "\<not> already_credited subId s" and "level1_party r s = Some i \<or> level2_party r g = Some i"
  shows "seller_wallets t i \<noteq> None"
proof -
  obtain rate1 k1 s1 where 1: "credit_level1 subId p r now s = ((rate1, k1), s1)" by (metis surj_pair)
  obtain rate2 k2 s2 where 2: "credit_level2 subId p r g now s1 = ((rate2, k2), s2)" by (metis surj_pair)
  have first: "seller_wallets s1 i \<noteq> None" if "level1_party r s = Some i"
  proof -
    from level1_some [OF that, of subId p now] obtain a where
      "s1 = maybeUnlockTier i now (creditToWallet i a AFFILIATE_LEVEL_1 ''tier_subscription'' subId now s)"
      using 1 by auto
    then show ?thesis by simp
  qed
  have "seller_wallets s2 i \<noteq> None"
  proof (cases "level2_party r g")
    case None
    with assms(3) first 2 show ?thesis by (simp add: level2_none)
  next
    case (Some gid)
    then have s2: "s2 = maybeUnlockTier gid now (creditToWallet gid (of_int k2)
        AFFILIATE_LEVEL_2 ''tier_subscription'' subId now s1)" using 2 by (auto simp: level2_some)
    show ?thesis
      using assms(3) first Some unfolding s2 by auto
  qed
  then show ?thesis
    using commissions_step [OF assms(2) 1 2] assms(1) by (auto simp: update_subscription_def)
qed

definition taken_from :: "ident option \<Rightarrow> money option \<Rightarrow> ident \<Rightarrow> money" where
  "taken_from party c j = (case (party, c) of (Some i, Some a) \<Rightarrow> if j = i then a else 0 | _ \<Rightarrow> 0)"

lemma debit_commission_wallets:
  assumes "money_ok s" and "pred_option cents c"
    and "\<And>i a. party = Some i \<Longrightarrow> c = Some a \<Longrightarrow> seller_wallets s i \<noteq> None"
  shows "wallet_or_0 (debit_commission subId party c now s) j = wallet_or_0 s j - taken_from party c j"
  using assms wallet_or_0_debit [OF assms(1)]
  by (auto simp: debit_commission_def taken_from_def split: option.split)

lemma debit_commission_exists:
  "seller_wallets s i \<noteq> None \<Longrightarrow> seller_wallets (debit_commission subId party c now s) i \<noteq> None"
  by (auto simp: debit_commission_def debitFromWallet_def Let_def split: option.split)

text \<open>
  C20. Refunding within seven days undoes the commissions: crediting a subscription and then
  clawing back leaves every seller's balance where it was, whoever the two parties are (a missing
  referrer, one person on both levels, a wallet opened by the credit), and stays reconciled.
\<close>

theorem clawback_undoes_commissions:
  assumes "money_ok s" and "percents_nonneg s" and "0 \<le> p" and "\<not> already_credited subId s"
    and "subscription_at subId s = Some sub"
    and "now' \<le> sub_createdAt sub + 7 * 24 * 60 * 60 * 1000"
  shows "wallet_or_0 (clawBackCommissions subId now'
           (snd (creditCommissionsForSubscription subId p (sub_referrer sub) (sub_grandReferrer sub) now s))) j
       = wallet_or_0 s j"
proof -
  let ?r = "sub_referrer sub" and ?g = "sub_grandReferrer sub"
  obtain rate1 l1 s1 where 1: "credit_level1 subId p ?r now s = ((rate1, l1), s1)" by (metis surj_pair)
  obtain rate2 l2 s2 where 2: "credit_level2 subId p ?r ?g now s1 = ((rate2, l2), s2)" by (metis surj_pair)
  define t where "t = snd (creditCommissionsForSubscription subId p ?r ?g now s)"
  have run: "creditCommissionsForSubscription subId p ?r ?g now s = ((l1, l2), t)"
    using commissions_step [OF assms(4) 1 2] by (simp add: t_def)
  have nn: "0 \<le> l1 \<and> 0 \<le> l2" by (rule commissions_nonneg [OF assms(2,3) run])
  have ok: "money_ok t" using money_ok_commissions [OF assms(1), of subId p ?r ?g now] run by simp
  have w: "wallet_or_0 t j = wallet_or_0 s j + (if level1_party ?r s = Some j then of_int l1 else 0)
      + (if level2_party ?r ?g = Some j then of_int l2 else 0)" for j
    by (rule commissions_wallets [OF assms(1,4) run])
  have row: "subscription_at subId t = Some (sub\<lparr>sub_level1Rate := positive_decimal rate1,
      sub_level2Rate := positive_decimal rate2, sub_level1Commission := positive_decimal (of_int l1),
      sub_level2Commission := positive_decimal (of_int l2)\<rparr>)"
    using commissions_step [OF assms(4) 1 2] run assms(5) 1 2
      level_subscriptions(1) [of subId p ?r now s] level_subscriptions(2) [of subId p ?r ?g now s1]
    by simp
  have p1: "0 < l1 \<Longrightarrow> level1_party ?r s = ?r" and z1: "level1_party ?r s = None \<Longrightarrow> l1 = 0"
    using 1 by (auto simp: level1_none) (auto simp: level1_party_def credit_level1_def split: option.splits if_splits)
  have p2: "0 < l2 \<Longrightarrow> level2_party ?r ?g = ?g"
    using 2 by (auto simp: level2_party_def credit_level2_def split: if_splits option.splits)
  let ?c1 = "positive_decimal (of_int l1)" and ?c2 = "positive_decimal (of_int l2)"
  let ?t1 = "debit_commission subId ?r ?c1 now' t"
  have ex1: "?r = Some i \<Longrightarrow> ?c1 = Some a \<Longrightarrow> seller_wallets t i \<noteq> None" for i a
    using wallets_exist [OF run assms(4), of i] p1 by (auto split: if_splits)
  have ex2: "?g = Some i \<Longrightarrow> ?c2 = Some a \<Longrightarrow> seller_wallets ?t1 i \<noteq> None" for i a
    using wallets_exist [OF run assms(4), of i] p2 by (intro debit_commission_exists) (auto split: if_splits)
  have c: "pred_option cents ?c1" "pred_option cents ?c2" by simp_all
  have "wallet_or_0 (clawBackCommissions subId now' t) j
      = wallet_or_0 t j - taken_from ?r ?c1 j - taken_from ?g ?c2 j"
    using assms(6) debit_commission_wallets [OF money_ok_debit_commission [OF ok c(1)] c(2) ex2]
      debit_commission_wallets [OF ok c(1) ex1]
    by (simp add: clawBackCommissions_def row Let_def)
  also have "\<dots> = wallet_or_0 s j"
    using nn p1 p2 by (auto simp: w taken_from_def split: option.split)
  finally show ?thesis by (simp add: t_def)
qed

section \<open>A concrete referral chain\<close>

definition demo_seller :: "ident \<Rightarrow> ident option \<Rightarrow> seller" where
  "demo_seller i ref = \<lparr>sl_id = i, sl_userId = ''u'' @ i, sl_email = None, sl_phone = None, sl_tier = FREE,
     sl_tierStartedAt = None, sl_tierExpiresAt = None, sl_referredBy = ref, sl_referralCode = None,
     sl_unlockedTier = 1, sl_commissionPercent = None, sl_unlockedTier2At = None,
     sl_unlockedTier3At = None, sl_autoRenew = None\<rparr>"

definition demo_subscription :: subscription where
  "demo_subscription = \<lparr>sub_id = ''t1'', sub_seller = ''p'', sub_tier = PRO, sub_plan = MONTHLY,
     sub_price = 199000, sub_startsAt = 0, sub_endsAt = 2592000000, sub_status = SubActive,
     sub_paymentMethod = ''WALLET_BALANCE'', sub_paymentTransaction = None, sub_paidFromWallet = True,
     sub_referrer = Some ''r'', sub_grandReferrer = Some ''g'', sub_level1Rate = None,
     sub_level2Rate = None, sub_level1Commission = None, sub_level2Commission = None,
     sub_refundedAt = None, sub_isAdminGrant = False, sub_createdAt = 0\<rparr>"

definition demo_chain :: platform_db where
  "demo_chain = empty_platform\<lparr>sellers := [demo_seller ''p'' (Some ''r''), demo_seller ''r'' (Some ''g''),
     demo_seller ''g'' None], subscriptions := [demo_subscription]\<rparr>"

lemmas demo_chain_defs = demo_chain_def demo_seller_def demo_subscription_def empty_platform_def

lemma demo_chain_ok: "money_ok demo_chain"
  by (rule money_ok_frame [OF money_ok_empty]) (simp_all add: demo_chain_defs)

lemma demo_chain_facts:
  "percents_nonneg demo_chain" "\<not> already_credited ''t1'' demo_chain"
  "subscription_at ''t1'' demo_chain = Some demo_subscription"
  "level1_party (Some ''r'') demo_chain = Some ''r''"
  by (simp_all add: demo_chain_defs percents_nonneg_def already_credited_def level1_party_def)

theorem commission_credited_once_witness:
  "((\<lambda>t. snd (creditCommissionsForSubscription ''t1'' 1 None None 9 t)) ^^ 2)
     (snd (creditCommissionsForSubscription ''t1'' 199000 (Some ''r'') (Some ''g'') 5 demo_chain))
   = snd (creditCommissionsForSubscription ''t1'' 199000 (Some ''r'') (Some ''g'') 5 demo_chain)"
  by (rule commission_credited_once) (simp add: demo_chain_facts)

lemma demo_chain_run:
  "creditCommissionsForSubscription ''t1'' 199000 (Some ''r'') (Some ''g'') 5 demo_chain
   = ((19900, 3980), snd (creditCommissionsForSubscription ''t1'' 199000 (Some ''r'') (Some ''g'') 5 demo_chain))"
proof -
  have "fst (creditCommissionsForSubscription ''t1'' 199000 (Some ''r'') (Some ''g'') 5 demo_chain) = (19900, 3980)"
    by (simp add: creditCommissionsForSubscription_def already_credited_def credit_level1_def
        credit_level2_def demo_chain_defs Let_def level1_rate_def calcLevel1Rate_def level2Rate_def
        split: prod.split)
  then show ?thesis by (metis prod.collapse)
qed

theorem commissions_paid_and_bounded_witness:
  "let t = snd (creditCommissionsForSubscription ''t1'' 199000 (Some ''r'') (Some ''g'') 5 demo_chain)
   in money_ok t \<and> wallet_or_0 t ''r'' = wallet_or_0 demo_chain ''r'' + 19900
     \<and> of_int (19900 + 3980) \<le> (199000 :: rat) * 22 / 100 + 1"
  using commissions_paid_and_bounded [OF demo_chain_ok demo_chain_facts(1) _ demo_chain_facts(2) demo_chain_run]
    demo_chain_facts(4)
  by (simp add: Let_def level2_party_def)

theorem clawback_undoes_commissions_witness:
  "wallet_or_0 (clawBackCommissions ''t1'' 9
     (snd (creditCommissionsForSubscription ''t1'' 199000 (Some ''r'') (Some ''g'') 5 demo_chain))) ''r'' = 0"
proof -
  have "sub_referrer demo_subscription = Some ''r''" "sub_grandReferrer demo_subscription = Some ''g''"
    "wallet_or_0 demo_chain ''r'' = 0"
    by (simp_all add: demo_chain_defs wallet_or_0_def)
  with clawback_undoes_commissions [OF demo_chain_ok demo_chain_facts(1) _ demo_chain_facts(2,3),
      where p = 199000 and now' = 9 and now = 5 and j = "''r''"]
  show ?thesis by (simp add: demo_subscription_def)
qed

end
