(* ===== verification/DiscountCodes.thy ===== *)
theory DiscountCodes
  imports SellerData
begin

text \<open>
  Discount codes for tier purchases (\<open>apps/api/src/discount-codes/discount-codes.service.ts\<close>)
  and the usage table that makes a code usable once per seller (unique on code and seller).
  Descriptions and the listing for the administrator are left out.
\<close>

definition code_char :: "char \<Rightarrow> bool" where
  "code_char c \<longleftrightarrow> is_upper_alnum c \<or> c = CHR ''_'' \<or> c = CHR ''-''"

definition valid_code :: "string \<Rightarrow> bool" where
  "valid_code code \<longleftrightarrow> 3 \<le> length code \<and> length code \<le> 32 \<and> list_all code_char code"

definition canonical_code :: "string \<Rightarrow> string" where
  "canonical_code raw = to_upper (js_trim raw)"

definition createDiscountCode ::
  "bool \<Rightarrow> ident \<Rightarrow> string \<Rightarrow> jsnum \<Rightarrow> ident \<Rightarrow> platform_db \<Rightarrow> (discount_code \<times> platform_db) result" where
  "createDiscountCode isSuperAdmin newId rawCode pct referrerSellerId s =
     (if \<not> isSuperAdmin then Inl (Forbidden ''Only super admin can create discount codes.'')
      else
        (let code = canonical_code rawCode
         in if \<not> valid_code code then Inl (BadRequest ''Malformed code.'')
            else if \<not> is_finite pct \<or> js_le pct (Fin 0) \<or> js_less (Fin 100) pct
            then Inl (BadRequest ''Percentage out of range.'')
            else if seller_at referrerSellerId s = None
            then Inl (BadRequest ''Referrer seller does not exist.'')
            else if List.find (\<lambda>d. dc_code d = code) (discount_codes s) \<noteq> None
            then Inl (BadRequest ''Code already exists.'')
            else
              (let d = \<lparr>dc_id = newId, dc_code = code, dc_percent = toDecimal (num_val pct),
                        dc_referrer = referrerSellerId, dc_active = True\<rparr>
               in Inr (d, s\<lparr>discount_codes := discount_codes s @ [d]\<rparr>))))"

definition toggleActive :: "bool \<Rightarrow> ident \<Rightarrow> bool \<Rightarrow> platform_db \<Rightarrow> unit result \<times> platform_db" where
  "toggleActive isSuperAdmin codeId active s =
     (if \<not> isSuperAdmin then (Inl (Forbidden ''Only super admin can update discount codes.''), s)
      else if List.find (\<lambda>d. dc_id d = codeId) (discount_codes s) = None
      then (Inl (NotFound ''Discount code not found.''), s)
      else (Inr (), s\<lparr>discount_codes := modify_rows (\<lambda>d. dc_id d = codeId)
                        (\<lambda>d. d\<lparr>dc_active := active\<rparr>) (discount_codes s)\<rparr>))"

definition validateForSeller :: "string \<Rightarrow> ident \<Rightarrow> platform_db \<Rightarrow> discount_code result" where
  "validateForSeller rawCode sid s =
     (let code = canonical_code rawCode
      in case List.find (\<lambda>d. dc_code d = code) (discount_codes s) of
           None \<Rightarrow> Inl (BadRequest ''Discount code does not exist.'')
         | Some d \<Rightarrow>
           if \<not> dc_active d then Inl (BadRequest ''Discount code is disabled.'')
           else if dc_referrer d = sid then Inl (BadRequest ''A seller cannot use its own code.'')
           else if list_ex (\<lambda>u. du_code u = dc_id d \<and> du_seller u = sid) (discount_usages s)
           then Inl (BadRequest ''Discount code already used.'')
           else Inr d)"

text \<open>\<open>discountCodeUsage.create\<close> under the unique index on code and seller.\<close>

definition create_usage ::
  "ident \<Rightarrow> ident \<Rightarrow> ident \<Rightarrow> rat \<Rightarrow> platform_db \<Rightarrow> platform_db result" where
  "create_usage codeId sid subId amount s =
     (if list_ex (\<lambda>u. du_code u = codeId \<and> du_seller u = sid) (discount_usages s)
      then Inl (Conflict ''Unique constraint failed.'')
      else Inr (s\<lparr>discount_usages := discount_usages s @
        [\<lparr>du_code = codeId, du_seller = sid, du_subscription = subId, du_amount = toDecimal amount\<rparr>]\<rparr>))"

definition usages_unique :: "platform_db \<Rightarrow> bool" where
  "usages_unique s \<longleftrightarrow> distinct (map (\<lambda>u. (du_code u, du_seller u)) (discount_usages s))"

lemma create_usage_unique:
  "usages_unique s \<Longrightarrow> create_usage c i b a s = Inr t \<Longrightarrow> usages_unique t"
  by (auto simp: create_usage_def usages_unique_def list_ex_iff split: if_splits)

lemma create_usage_frame:
  assumes "create_usage c i b a s = Inr t"
  shows "seller_wallets t = seller_wallets s" and "wallet_ledgers t = wallet_ledgers s"
    and "sellers t = sellers s" and "subscriptions t = subscriptions s" and "deposits t = deposits s"
  using assms by (auto simp: create_usage_def split: if_splits)

lemma validate_found:
  assumes "validateForSeller raw sid s = Inr d"
  shows "d \<in> set (discount_codes s)" and "dc_active d" and "dc_referrer d \<noteq> sid"
    and "\<not> list_ex (\<lambda>u. du_code u = dc_id d \<and> du_seller u = sid) (discount_usages s)"
  using assms by (auto simp: validateForSeller_def Let_def split: option.splits if_splits dest: find_SomeD)

lemma validated_usable:
  "validateForSeller raw sid s = Inr d \<Longrightarrow> is_ok (create_usage (dc_id d) sid subId a s)"
  using validate_found(4) [of raw sid s d] by (simp add: create_usage_def)

end
