(* ===== verification/Tiers.thy ===== *)
theory Tiers
  imports SellerWallet TierAffiliate DiscountCodes
begin

text \<open>
  Tier subscriptions (\<open>apps/api/src/tiers/tiers.service.ts\<close>): the quote, the purchase from the
  wallet or through a payment link, the confirmation of a paid link, the administrator's grant and
  refund, and automatic renewal. Row ids, payment codes and the provider the link service answers
  with are arguments.
\<close>

section \<open>The structured note of a tier payment\<close>

fun tier_name :: "tier_key \<Rightarrow> string" where
  "tier_name ProKey = ''pro''"
| "tier_name UltraKey = ''ultra''"

fun plan_name :: "plan \<Rightarrow> string" where
  "plan_name Monthly = ''monthly''"
| "plan_name Quarterly = ''quarterly''"
| "plan_name SemiAnnual = ''semi_annual''"
| "plan_name Annual = ''annual''"

definition tier_of_name :: "string \<Rightarrow> tier_key option" where
  "tier_of_name s = (if s = ''pro'' then Some ProKey else if s = ''ultra'' then Some UltraKey else None)"

definition plan_of_name :: "string \<Rightarrow> plan option" where
  "plan_of_name s = (if s = ''monthly'' then Some Monthly else if s = ''quarterly'' then Some Quarterly
     else if s = ''semi_annual'' then Some SemiAnnual else if s = ''annual'' then Some Annual else None)"

record tier_note =
  tn_tier :: tier_key
  tn_plan :: plan
  tn_seller :: ident
  tn_referrer :: "ident option"
  tn_grandReferrer :: "ident option"
  tn_discountCode :: "ident option"
  tn_discountAmount :: nat

definition opt_field :: "ident option \<Rightarrow> string" where
  "opt_field x = (case x of None \<Rightarrow> [] | Some i \<Rightarrow> i)"

definition field_opt :: "string \<Rightarrow> ident option" where
  "field_opt x = (if x = [] then None else Some x)"

definition print_tier_note :: "tier_note \<Rightarrow> string" where
  "print_tier_note n = join_with CHR '':''
     [''TIER_SUB'', tier_name (tn_tier n), plan_name (tn_plan n), tn_seller n,
      opt_field (tn_referrer n), opt_field (tn_grandReferrer n), opt_field (tn_discountCode n),
      show_nat (tn_discountAmount n)]"

text \<open>
  The regular expression of \<open>confirmFromExternalOrderCode\<close>: fields separated by colons, the last
  two optional together, the seller not empty. \<open>Number(x) || 0\<close> on the amount: anything that is
  not a whole number reads as zero here, the writer only prints whole numbers.
\<close>

definition parse_tier_note :: "string \<Rightarrow> tier_note option" where
  "parse_tier_note note =
     (let build = (\<lambda>t p sid r g c a.
        case (tier_of_name t, plan_of_name p) of
          (Some tier, Some plan) \<Rightarrow>
            if sid = [] then None
            else Some \<lparr>tn_tier = tier, tn_plan = plan, tn_seller = sid, tn_referrer = field_opt r,
                       tn_grandReferrer = field_opt g, tn_discountCode = field_opt c,
                       tn_discountAmount = (case read_nat a of Some k \<Rightarrow> k | None \<Rightarrow> 0)\<rparr>
        | _ \<Rightarrow> None)
      in case split_on CHR '':'' note of
           [pre, t, p, sid, r, g] \<Rightarrow> if pre = ''TIER_SUB'' then build t p sid r g [] [] else None
         | [pre, t, p, sid, r, g, c, a] \<Rightarrow> if pre = ''TIER_SUB'' then build t p sid r g c a else None
         | _ \<Rightarrow> None)"

section \<open>Paid periods\<close>

definition is_renewal :: "seller_tier \<Rightarrow> seller \<Rightarrow> timestamp \<Rightarrow> bool" where
  "is_renewal tierEnum r now \<longleftrightarrow> sl_tier r = tierEnum
     \<and> (case sl_tierExpiresAt r of None \<Rightarrow> False | Some x \<Rightarrow> x > now)"

definition tier_period :: "seller_tier \<Rightarrow> seller \<Rightarrow> timestamp \<Rightarrow> int \<Rightarrow> timestamp \<times> timestamp" where
  "tier_period tierEnum r now durationMs =
     (if is_renewal tierEnum r now
      then (case sl_tierStartedAt r of Some t \<Rightarrow> t | None \<Rightarrow> now,
            (case sl_tierExpiresAt r of Some x \<Rightarrow> x | None \<Rightarrow> now) + durationMs)
      else (now, now + durationMs))"

definition set_tier :: "ident \<Rightarrow> seller_tier \<Rightarrow> timestamp \<Rightarrow> timestamp \<Rightarrow> platform_db \<Rightarrow> platform_db" where
  "set_tier sid tier startsAt endsAt s = update_seller sid
     (\<lambda>r. r\<lparr>sl_tier := tier, sl_tierStartedAt := Some startsAt, sl_tierExpiresAt := Some endsAt\<rparr>) s"

definition new_subscription ::
  "ident \<Rightarrow> ident \<Rightarrow> seller_tier \<Rightarrow> tier_plan \<Rightarrow> rat \<Rightarrow> timestamp \<Rightarrow> timestamp \<Rightarrow> string \<Rightarrow> ident option
   \<Rightarrow> bool \<Rightarrow> ident option \<Rightarrow> ident option \<Rightarrow> bool \<Rightarrow> timestamp \<Rightarrow> subscription" where
  "new_subscription newId sid tier p price startsAt endsAt pm pt fromWallet r g isGrant now =
     \<lparr>sub_id = newId, sub_seller = sid, sub_tier = tier, sub_plan = p, sub_price = toDecimal price,
      sub_startsAt = startsAt, sub_endsAt = endsAt, sub_status = SubActive, sub_paymentMethod = pm,
      sub_paymentTransaction = pt, sub_paidFromWallet = fromWallet, sub_referrer = r,
      sub_grandReferrer = g, sub_level1Rate = None, sub_level2Rate = None, sub_level1Commission = None,
      sub_level2Commission = None, sub_refundedAt = None, sub_isAdminGrant = isGrant, sub_createdAt = now\<rparr>"

definition add_subscription :: "subscription \<Rightarrow> platform_db \<Rightarrow> platform_db" where
  "add_subscription q s = s\<lparr>subscriptions := subscriptions s @ [q]\<rparr>"

section \<open>Paying from the wallet\<close>

record wallet_order =
  wo_tier :: tier_key
  wo_plan :: plan
  wo_price :: int
  wo_referrer :: "ident option"
  wo_grandReferrer :: "ident option"
  wo_discount :: "(ident \<times> int) option"

definition purchaseFromWalletBalance_tx ::
  "ident \<Rightarrow> ident \<Rightarrow> wallet_order \<Rightarrow> timestamp \<Rightarrow> platform_db \<Rightarrow> ((subscription \<times> int \<times> int) \<times> platform_db) result" where
  "purchaseFromWalletBalance_tx newId sid ord now s =
     (case seller_wallets s sid of
        None \<Rightarrow> Inl (BadRequest ''Seller wallet does not exist.'')
      | Some balanceBefore \<Rightarrow>
        if balanceBefore < of_int (wo_price ord) then Inl (BadRequest ''Wallet balance is too low.'')
        else
          (let balanceAfter = balanceBefore - of_int (wo_price ord)
           in case seller_at sid s of
                None \<Rightarrow> Inl (NotFound ''Seller not found'')
              | Some currentSeller \<Rightarrow>
                (let tierEnum = tierKeyToEnum (wo_tier ord);
                     (startsAt, endsAt) = tier_period tierEnum currentSeller now (getDurationMs (wo_plan ord));
                     subscription = new_subscription newId sid tierEnum (planKeyToEnum (wo_plan ord))
                       (of_int (wo_price ord)) startsAt endsAt ''WALLET_BALANCE'' None True
                       (wo_referrer ord) (wo_grandReferrer ord) False now;
                     s1 = add_subscription subscription s;
                     s2 = set_tier sid tierEnum startsAt endsAt s1;
                     s3 = post_wallet sid SUBSCRIPTION_PAYMENT (- of_int (wo_price ord)) balanceBefore
                            balanceAfter ''tier_subscription'' newId now s2;
                     ((l1, l2), s4) = creditCommissionsForSubscription newId (of_int (wo_price ord))
                            (wo_referrer ord) (wo_grandReferrer ord) now s3
                 in case wo_discount ord of
                      None \<Rightarrow> Inr ((subscription, l1, l2), s4)
                    | Some (codeId, amountDiscounted) \<Rightarrow>
                        (case create_usage codeId sid newId (of_int amountDiscounted) s4 of
                           Inl e \<Rightarrow> Inl e
                         | Inr s5 \<Rightarrow> Inr ((subscription, l1, l2), s5)))))"

section \<open>The purchase\<close>

datatype pay_method = Wallet_balance | Pay_trc20 | Pay_sol | Pay_ton | Pay_payos

definition tierProviderOverride :: "pay_method \<Rightarrow> provider" where
  "tierProviderOverride m = (case m of Pay_trc20 \<Rightarrow> USDT_TRC20 | Pay_sol \<Rightarrow> USDT_SOL
     | Pay_ton \<Rightarrow> USDT_TON | _ \<Rightarrow> PAYOS)"

record purchase_args =
  pa_tier :: tier_key
  pa_plan :: plan
  pa_referralCode :: "string option"
  pa_discountCode :: "string option"
  pa_method :: pay_method

record fresh_ids =
  fr_subscription :: ident
  fr_deposit :: ident
  fr_code :: string
  fr_provider :: "provider \<Rightarrow> provider"

datatype purchase_outcome = Paid_from_wallet subscription int int | Payment_requested deposit

definition given :: "string option \<Rightarrow> bool" where
  "given x \<longleftrightarrow> x \<noteq> None \<and> x \<noteq> Some []"

definition ever_ultra :: "ident \<Rightarrow> platform_db \<Rightarrow> bool" where
  "ever_ultra sid s \<longleftrightarrow> list_ex (\<lambda>q. sub_seller q = sid \<and> sub_tier q = ULTRA) (subscriptions s)"

text \<open>Everything the purchase refuses before it writes; it yields the validated discount code.\<close>

definition purchase_check ::
  "system_config \<Rightarrow> seller \<Rightarrow> purchase_args \<Rightarrow> platform_db \<Rightarrow> discount_code option result" where
  "purchase_check cfg seller args s =
     (case (if sl_referredBy seller \<noteq> None \<or> given (pa_referralCode args) \<or> given (pa_discountCode args)
            then assertEnabled cfg AffiliateCommissions None else Inr ()) of
        Inl e \<Rightarrow> Inl e
      | Inr _ \<Rightarrow>
        if pa_tier args = UltraKey \<and> sl_tier seller \<noteq> ULTRA \<and> \<not> ever_ultra (sl_id seller) s
        then Inl (Forbidden ''ULTRA can only be granted by an administrator the first time.'')
        else if given (pa_discountCode args)
        then (case validateForSeller (the (pa_discountCode args)) (sl_id seller) s of
                Inl e \<Rightarrow> Inl e | Inr d \<Rightarrow> Inr (Some d))
        else Inr None)"

definition purchase_price :: "tier_key \<Rightarrow> plan \<Rightarrow> discount_code option \<Rightarrow> int \<times> int" where
  "purchase_price tier p d =
     (let basePriceVnd = (if d \<noteq> None then getListPrice tier p else getPrice tier p);
          priceVnd = (case d of Some c \<Rightarrow> getDiscountedPrice tier p (dc_percent c) | None \<Rightarrow> basePriceVnd)
      in (basePriceVnd, priceVnd))"

text \<open>The referrer a purchase pays: the stored one, else the discount code's, else the referral code's.\<close>

definition purchase_referrer ::
  "seller \<Rightarrow> purchase_args \<Rightarrow> discount_code option \<Rightarrow> platform_db \<Rightarrow> ident option \<times> platform_db" where
  "purchase_referrer seller args d s =
     (let link = (\<lambda>i t. update_seller (sl_id seller) (\<lambda>r. r\<lparr>sl_referredBy := Some i\<rparr>) t)
      in case sl_referredBy seller of
           Some r \<Rightarrow> (Some r, s)
         | None \<Rightarrow>
           (case d of
              Some c \<Rightarrow> (Some (dc_referrer c), link (dc_referrer c) s)
            | None \<Rightarrow>
              if given (pa_referralCode args)
              then (case resolveReferrer (pa_referralCode args) (sl_id seller) s of
                      None \<Rightarrow> (None, s) | Some r \<Rightarrow> (Some r, link r s))
              else (None, s)))"

definition grand_referrer :: "ident \<Rightarrow> ident option \<Rightarrow> platform_db \<Rightarrow> ident option" where
  "grand_referrer sid referrer s =
     (case referrer of None \<Rightarrow> None | Some rid \<Rightarrow>
      (case seller_at rid s of None \<Rightarrow> None | Some r \<Rightarrow>
       (case sl_referredBy r of None \<Rightarrow> None | Some g \<Rightarrow> if g = sid then None else Some g)))"

definition purchase ::
  "system_config \<Rightarrow> fresh_ids \<Rightarrow> ident \<Rightarrow> purchase_args \<Rightarrow> timestamp \<Rightarrow> platform_db
   \<Rightarrow> purchase_outcome result \<times> platform_db" where
  "purchase cfg fr userId args now s0 =
     (case assertEnabled cfg TierPurchases None of Inl e \<Rightarrow> (Inl e, s0) | Inr _ \<Rightarrow>
      (case List.find (\<lambda>r. sl_userId r = userId) (sellers s0) of
         None \<Rightarrow> (Inl (NotFound ''Seller not found''), s0)
       | Some seller \<Rightarrow>
      (case purchase_check cfg seller args s0 of Inl e \<Rightarrow> (Inl e, s0) | Inr d \<Rightarrow>
       (let sid = sl_id seller;
            (basePriceVnd, priceVnd) = purchase_price (pa_tier args) (pa_plan args) d;
            (referrer, s) = purchase_referrer seller args d s0;
            grandReferrer = grand_referrer sid referrer s
        in if pa_method args = Wallet_balance
           then (case transaction (purchaseFromWalletBalance_tx (fr_subscription fr) sid
                   \<lparr>wo_tier = pa_tier args, wo_plan = pa_plan args, wo_price = priceVnd,
                    wo_referrer = referrer, wo_grandReferrer = grandReferrer,
                    wo_discount = map_option (\<lambda>c. (dc_id c, basePriceVnd - priceVnd)) d\<rparr> now) s of
                   (Inl e, t) \<Rightarrow> (Inl e, t)
                 | (Inr (q, l1, l2), t) \<Rightarrow> (Inr (Paid_from_wallet q l1 l2), t))
           else
             (let dep = \<lparr>dep_id = fr_deposit fr, dep_seller = sid, dep_amount = toDecimal (of_int priceVnd),
                         dep_status = DepPending,
                         dep_provider = fr_provider fr (tierProviderOverride (pa_method args)),
                         dep_code = Some (fr_code fr), dep_expiresAt = Some (now + 30 * 60 * 1000),
                         dep_paidAt = None,
                         dep_note = Some (print_tier_note
                           \<lparr>tn_tier = pa_tier args, tn_plan = pa_plan args, tn_seller = sid,
                            tn_referrer = referrer, tn_grandReferrer = grandReferrer,
                            tn_discountCode = map_option dc_id d,
                            tn_discountAmount = nat (basePriceVnd - priceVnd)\<rparr>)\<rparr>
              in (Inr (Payment_requested dep), s\<lparr>deposits := deposits s @ [dep]\<rparr>))))))"

section \<open>The quote\<close>

text \<open>
  The best active code of the seller's referrer that the seller has not used: highest percentage,
  then newest. The table keeps codes in the order they were created.
\<close>

definition better_code :: "discount_code option \<Rightarrow> discount_code \<Rightarrow> discount_code option" where
  "better_code best d = (case best of None \<Rightarrow> Some d
     | Some b \<Rightarrow> if dc_percent b \<le> dc_percent d then Some d else Some b)"

definition availableDiscount :: "seller \<Rightarrow> platform_db \<Rightarrow> discount_code option" where
  "availableDiscount seller s =
     (case sl_referredBy seller of None \<Rightarrow> None | Some rid \<Rightarrow>
      foldl better_code None (filter (\<lambda>d. dc_active d \<and> dc_referrer d = rid
        \<and> \<not> list_ex (\<lambda>u. du_code u = dc_id d \<and> du_seller u = sl_id seller) (discount_usages s))
        (discount_codes s)))"

record plan_quote =
  pq_plan :: plan
  pq_priceVnd :: int
  pq_originalPriceVnd :: "int option"

definition buildPlans :: "discount_code option \<Rightarrow> tier_key \<Rightarrow> plan_quote list" where
  "buildPlans d tier = map (\<lambda>p.
     case d of
       Some c \<Rightarrow> \<lparr>pq_plan = p, pq_priceVnd = getDiscountedPrice tier p (dc_percent c),
                  pq_originalPriceVnd = Some (getListPrice tier p)\<rparr>
     | None \<Rightarrow> \<lparr>pq_plan = p, pq_priceVnd = getPrice tier p, pq_originalPriceVnd = None\<rparr>)
     [Monthly, Quarterly, SemiAnnual, Annual]"

record quote =
  qt_walletBalance :: money
  qt_discount :: "discount_code option"
  qt_pro :: "plan_quote list"
  qt_ultra :: "plan_quote list option"

definition getQuote :: "ident \<Rightarrow> platform_db \<Rightarrow> quote result" where
  "getQuote userId s =
     (case List.find (\<lambda>r. sl_userId r = userId) (sellers s) of
        None \<Rightarrow> Inl (NotFound ''Seller not found'')
      | Some seller \<Rightarrow>
          (let showUltra = (sl_tier seller = ULTRA \<or> ever_ultra (sl_id seller) s);
               d = availableDiscount seller s
           in Inr \<lparr>qt_walletBalance = wallet_or_0 s (sl_id seller), qt_discount = d,
                   qt_pro = buildPlans d ProKey,
                   qt_ultra = (if showUltra then Some (buildPlans d UltraKey) else None)\<rparr>))"

section \<open>Confirming a paid link\<close>

text \<open>
  The reversal of a wallet credit the deposit handler may have made for this row: the balance is
  clamped at zero, the ledger amount is not.
\<close>

definition reverse_wallet_credit :: "ident \<Rightarrow> ident \<Rightarrow> timestamp \<Rightarrow> platform_db \<Rightarrow> platform_db" where
  "reverse_wallet_credit did sid now s =
     (case List.find (\<lambda>e. we_refType e = ''deposit_request'' \<and> we_refId e = did) (wallet_ledgers s) of
        None \<Rightarrow> s
      | Some errLedger \<Rightarrow>
        (case seller_wallets s sid of
           None \<Rightarrow> s
         | Some balanceBefore \<Rightarrow>
             (let creditAmount = we_amount errLedger; balanceAfter = max 0 (balanceBefore - creditAmount)
              in post_wallet sid ADJUST (- creditAmount) balanceBefore balanceAfter
                   ''tier_subscription_reversal'' did now s)))"

fun provider_name :: "provider \<Rightarrow> string" where
  "provider_name PAYOS = ''PAYOS''"
| "provider_name PAY2S = ''PAY2S''"
| "provider_name WEB2M = ''WEB2M''"
| "provider_name PAYPAL = ''PAYPAL''"
| "provider_name MOCK = ''MOCK''"
| "provider_name BINANCE = ''BINANCE''"
| "provider_name OKX = ''OKX''"
| "provider_name USDT_TRC20 = ''USDT_TRC20''"
| "provider_name USDT_SOL = ''USDT_SOL''"
| "provider_name USDT_TON = ''USDT_TON''"
| "provider_name USDT_BEP20 = ''USDT_BEP20''"
| "provider_name BINANCE_PAY = ''BINANCE_PAY''"

text \<open>
  The transaction. Recording the usage of a code may hit the unique index; the code catches that
  error and goes on. What the database does with the transaction after a failed statement is the
  argument \<open>aborts\<close>: PostgreSQL aborts it, and its commit is a rollback.
\<close>

definition confirm_tier_tx ::
  "bool \<Rightarrow> ident \<Rightarrow> deposit \<Rightarrow> tier_note \<Rightarrow> timestamp \<Rightarrow> platform_db \<Rightarrow> (bool \<times> platform_db) result" where
  "confirm_tier_tx aborts newId deposit n now s =
     (case deposit_at (dep_id deposit) s of
        None \<Rightarrow> Inr (False, s)
      | Some currentDeposit \<Rightarrow>
        if dep_status currentDeposit = DepConfirmed then Inr (False, s)
        else if dep_status currentDeposit \<noteq> DepPending
        then Inl (BadRequest ''Tier payment is no longer pending.'')
        else
          (let s1 = update_deposit (dep_id deposit)
                      (\<lambda>d. d\<lparr>dep_status := DepConfirmed, dep_paidAt := Some now\<rparr>) s;
               s2 = reverse_wallet_credit (dep_id deposit) (tn_seller n) now s1
           in case seller_at (tn_seller n) s2 of
                None \<Rightarrow> Inl (NotFound ''Seller not found'')
              | Some currentSeller \<Rightarrow>
                (let tierEnum = tierKeyToEnum (tn_tier n);
                     (startsAt, endsAt) = tier_period tierEnum currentSeller now (getDurationMs (tn_plan n));
                     subscription = new_subscription newId (tn_seller n) tierEnum (planKeyToEnum (tn_plan n))
                       (dep_amount deposit) startsAt endsAt (provider_name (dep_provider deposit))
                       (Some (dep_id deposit)) False (tn_referrer n) (tn_grandReferrer n) False now;
                     s3 = set_tier (tn_seller n) tierEnum startsAt endsAt (add_subscription subscription s2);
                     s4 = snd (creditCommissionsForSubscription newId (dep_amount deposit)
                            (tn_referrer n) (tn_grandReferrer n) now s3)
                 in case tn_discountCode n of
                      None \<Rightarrow> Inr (True, s4)
                    | Some codeId \<Rightarrow>
                        (case create_usage codeId (tn_seller n) newId (of_nat (tn_discountAmount n)) s4 of
                           Inl _ \<Rightarrow> Inr (True, if aborts then s else s4)
                         | Inr s5 \<Rightarrow> Inr (True, s5)))))"

datatype tier_confirmation = Not_a_tier_payment | Already_confirmed | Tier_activated tier_key plan

definition confirmFromExternalOrderCode ::
  "bool \<Rightarrow> ident \<Rightarrow> string \<Rightarrow> timestamp \<Rightarrow> platform_db \<Rightarrow> tier_confirmation result \<times> platform_db" where
  "confirmFromExternalOrderCode aborts newId externalOrderCode now s =
     (case List.find (\<lambda>d. dep_code d = Some externalOrderCode) (deposits s) of
        None \<Rightarrow> (Inr Not_a_tier_payment, s)
      | Some deposit \<Rightarrow>
        (case parse_tier_note (case dep_note deposit of None \<Rightarrow> [] | Some m \<Rightarrow> m) of
           None \<Rightarrow> (Inr Not_a_tier_payment, s)
         | Some n \<Rightarrow>
           if dep_status deposit = DepConfirmed then (Inr Already_confirmed, s)
           else
             (case assertCryptoReceiptClaimed externalOrderCode (dep_provider deposit) None s of
                Inl e \<Rightarrow> (Inl e, s)
              | Inr _ \<Rightarrow>
                (case transaction (confirm_tier_tx aborts newId deposit n now) s of
                   (Inl e, t) \<Rightarrow> (Inl e, t)
                 | (Inr confirmed, t) \<Rightarrow>
                     (Inr (if confirmed then Tier_activated (tn_tier n) (tn_plan n)
                           else Already_confirmed), t)))))"

section \<open>Grant, refund, automatic renewal\<close>

definition grant_plan :: "int \<Rightarrow> tier_plan" where
  "grant_plan durationMs = (if durationMs \<ge> 360 * 24 * 60 * 60 * 1000 then ANNUAL
     else if durationMs \<ge> 170 * 24 * 60 * 60 * 1000 then SEMI_ANNUAL else MONTHLY)"

definition adminGrantUltra ::
  "bool \<Rightarrow> ident \<Rightarrow> ident \<Rightarrow> int \<Rightarrow> timestamp \<Rightarrow> platform_db \<Rightarrow> timestamp result \<times> platform_db" where
  "adminGrantUltra isSuperAdmin newId sid days now s =
     (if \<not> isSuperAdmin then (Inl (Forbidden ''Only super admin can grant tier.''), s)
      else
        (case seller_at sid s of
           None \<Rightarrow> (Inl (NotFound ''Seller not found''), s)
         | Some seller \<Rightarrow>
             (let durationMs = days * 24 * 60 * 60 * 1000;
                  (startsAt, endsAt) = tier_period ULTRA seller now durationMs;
                  q = new_subscription newId sid ULTRA (grant_plan durationMs) 0 startsAt endsAt
                        ''ADMIN_GRANT'' None False None None True now
              in (Inr endsAt, set_tier sid ULTRA startsAt endsAt (add_subscription q s)))))"

text \<open>
  The refund: the checks and the decision whether this is the running subscription are made on
  rows read before the transaction starts; the transaction uses what was read.
\<close>

definition refund_check :: "bool \<Rightarrow> ident \<Rightarrow> platform_db \<Rightarrow> (subscription \<times> bool) result" where
  "refund_check isSuperAdmin subId s =
     (if \<not> isSuperAdmin then Inl (Forbidden ''Only super admin can refund tier subscriptions.'')
      else
        (case subscription_at subId s of
           None \<Rightarrow> Inl (NotFound ''Tier subscription not found.'')
         | Some sub \<Rightarrow>
           if sub_refundedAt sub \<noteq> None \<or> sub_status sub = SubRefunded
           then Inl (BadRequest ''Subscription was already refunded.'')
           else if sub_isAdminGrant sub
           then Inl (BadRequest ''An administrator grant cannot be refunded.'')
           else Inr (sub, case seller_at (sub_seller sub) s of None \<Rightarrow> False
                  | Some r \<Rightarrow> sl_tier r = sub_tier sub \<and> sl_tierExpiresAt r = Some (sub_endsAt sub))))"

definition refund_write :: "subscription \<times> bool \<Rightarrow> timestamp \<Rightarrow> platform_db \<Rightarrow> platform_db" where
  "refund_write ticket now s =
     (let (sub, isStillActive) = ticket; priceVnd = sub_price sub;
          s1 = update_subscription (sub_id sub)
                 (\<lambda>q. q\<lparr>sub_status := SubRefunded, sub_refundedAt := Some now\<rparr>) s;
          s2 = clawBackCommissions (sub_id sub) now s1;
          s3 = (if sub_paidFromWallet sub \<and> priceVnd > 0
                then creditToWallet (sub_seller sub) priceVnd ADJUST ''tier_subscription_refund''
                       (sub_id sub) now s2
                else s2)
      in if isStillActive
         then update_seller (sub_seller sub) (\<lambda>r. r\<lparr>sl_tier := FREE, sl_tierStartedAt := None,
                sl_tierExpiresAt := None\<rparr>) s3
         else s3)"

record refund_report =
  rr_walletRefunded :: bool
  rr_priceRefunded :: money
  rr_externalRefundRequired :: bool
  rr_tierDowngraded :: bool

definition refundTierSubscription ::
  "bool \<Rightarrow> ident \<Rightarrow> timestamp \<Rightarrow> platform_db \<Rightarrow> refund_report result \<times> platform_db" where
  "refundTierSubscription isSuperAdmin subId now s =
     (case refund_check isSuperAdmin subId s of
        Inl e \<Rightarrow> (Inl e, s)
      | Inr (sub, active) \<Rightarrow>
          (Inr \<lparr>rr_walletRefunded = sub_paidFromWallet sub, rr_priceRefunded = sub_price sub,
                rr_externalRefundRequired = (\<not> sub_paidFromWallet sub), rr_tierDowngraded = active\<rparr>,
           refund_write (sub, active) now s))"

definition renewal_candidates :: "timestamp \<Rightarrow> platform_db \<Rightarrow> seller list" where
  "renewal_candidates now s = filter (\<lambda>r. (case sl_tierExpiresAt r of None \<Rightarrow> False
       | Some x \<Rightarrow> x \<le> now + 3 * 24 * 60 * 60 * 1000 \<and> x > now)
     \<and> sl_autoRenew r \<noteq> None \<and> (sl_tier r = PRO \<or> sl_tier r = ULTRA)) (sellers s)"

text \<open>One seller of the scan: \<open>fr\<close> gives the fresh ids of its purchase.\<close>

definition renew_one ::
  "system_config \<Rightarrow> (ident \<Rightarrow> fresh_ids) \<Rightarrow> timestamp \<Rightarrow> seller \<Rightarrow> (nat \<times> nat) \<times> platform_db
   \<Rightarrow> (nat \<times> nat) \<times> platform_db" where
  "renew_one cfg fr now seller st =
     (let ((renewed, failed), s) = st
      in case sl_autoRenew seller of
           None \<Rightarrow> st
         | Some config \<Rightarrow>
           if \<not> ar_enabled config \<or> \<not> ar_useWallet config then st
           else
             (case tierEnumToKey (sl_tier seller) of
                None \<Rightarrow> st
              | Some tierKey \<Rightarrow>
                (case purchase cfg (fr (sl_id seller)) (sl_userId seller)
                   \<lparr>pa_tier = tierKey, pa_plan = ar_plan config, pa_referralCode = None,
                    pa_discountCode = None, pa_method = Wallet_balance\<rparr> now s of
                   (Inl _, t) \<Rightarrow> ((renewed, failed + 1), t)
                 | (Inr _, t) \<Rightarrow> ((renewed + 1, failed), t))))"

definition processAutoRenewals ::
  "system_config \<Rightarrow> (ident \<Rightarrow> fresh_ids) \<Rightarrow> timestamp \<Rightarrow> platform_db \<Rightarrow> (nat \<times> nat) \<times> platform_db" where
  "processAutoRenewals cfg fr now s = fold (renew_one cfg fr now) (renewal_candidates now s) ((0, 0), s)"

definition setAutoRenew ::
  "ident \<Rightarrow> bool \<Rightarrow> plan option \<Rightarrow> bool option \<Rightarrow> platform_db \<Rightarrow> unit result \<times> platform_db" where
  "setAutoRenew userId enabled p useWallet s =
     (case List.find (\<lambda>r. sl_userId r = userId) (sellers s) of
        None \<Rightarrow> (Inl (NotFound ''Seller not found''), s)
      | Some seller \<Rightarrow> (Inr (), update_seller (sl_id seller) (\<lambda>r. r\<lparr>sl_autoRenew := Some
          \<lparr>ar_enabled = enabled, ar_plan = (case p of Some q \<Rightarrow> q | None \<Rightarrow> Monthly),
           ar_useWallet = (case useWallet of Some u \<Rightarrow> u | None \<Rightarrow> False)\<rparr>\<rparr>) s))"

section \<open>The note survives the round trip\<close>

definition clean_id :: "ident \<Rightarrow> bool" where
  "clean_id i \<longleftrightarrow> i \<noteq> [] \<and> CHR '':'' \<notin> set i"

definition clean_note :: "tier_note \<Rightarrow> bool" where
  "clean_note n \<longleftrightarrow> clean_id (tn_seller n) \<and> pred_option clean_id (tn_referrer n)
     \<and> pred_option clean_id (tn_grandReferrer n) \<and> pred_option clean_id (tn_discountCode n)"

lemma tier_name_clean [simp]: "CHR '':'' \<notin> set (tier_name t)" "tier_of_name (tier_name t) = Some t"
  by (cases t; simp add: tier_of_name_def)+

lemma plan_name_clean [simp]: "CHR '':'' \<notin> set (plan_name p)" "plan_of_name (plan_name p) = Some p"
  by (cases p; simp add: plan_of_name_def)+

lemma opt_field_clean [simp]:
  "pred_option clean_id x \<Longrightarrow> CHR '':'' \<notin> set (opt_field x)"
  "pred_option clean_id x \<Longrightarrow> field_opt (opt_field x) = x"
  by (cases x; simp add: opt_field_def field_opt_def clean_id_def)+

text \<open>
  C31. The note a tier purchase writes on its payment is read back by the confirmation as exactly
  the tier, plan, seller, both referrers, discount code and discount that were bought, for ids
  that are not empty and contain no colon.
\<close>

theorem tier_note_roundtrip:
  assumes "clean_note n"
  shows "parse_tier_note (print_tier_note n) = Some n"
proof -
  have "split_on CHR '':'' (print_tier_note n) =
     [''TIER_SUB'', tier_name (tn_tier n), plan_name (tn_plan n), tn_seller n,
      opt_field (tn_referrer n), opt_field (tn_grandReferrer n), opt_field (tn_discountCode n),
      show_nat (tn_discountAmount n)]"
    unfolding print_tier_note_def using assms
    by (intro split_join) (auto simp: clean_note_def clean_id_def)
  moreover have "tn_seller n \<noteq> []" using assms by (simp add: clean_note_def clean_id_def)
  ultimately show ?thesis
    using assms by (simp add: parse_tier_note_def Let_def clean_note_def)
qed

definition demo_note :: tier_note where
  "demo_note = \<lparr>tn_tier = ProKey, tn_plan = Annual, tn_seller = ''p'', tn_referrer = Some ''r'',
     tn_grandReferrer = None, tn_discountCode = Some ''c'', tn_discountAmount = 120\<rparr>"

theorem tier_note_roundtrip_witness:
  "parse_tier_note (print_tier_note demo_note) = Some demo_note"
  by (rule tier_note_roundtrip) (simp add: demo_note_def clean_note_def clean_id_def)

section \<open>What a wallet purchase does\<close>

lemma tier_period_extends:
  assumes "tier_period tier r now d = (a, b)" and "0 \<le> d"
  shows "now + d \<le> b" and "a \<le> now \<or> is_renewal tier r now"
    and "is_renewal tier r now \<Longrightarrow> sl_tierExpiresAt r = Some (b - d)"
  using assms by (auto simp: tier_period_def is_renewal_def split: if_splits option.splits)

lemma tier_period_branches:
  assumes "tier_period tier r now d = (a, b)"
  shows "if is_renewal tier r now
    then \<exists>x. sl_tierExpiresAt r = Some x \<and> now < x \<and> b = x + d
           \<and> a = (case sl_tierStartedAt r of Some t \<Rightarrow> t | None \<Rightarrow> now)
    else a = now \<and> b = now + d"
  using assms by (auto simp: tier_period_def is_renewal_def split: if_splits option.splits)

lemma money_ok_set_tier [simp]: "money_ok (set_tier i t a b s) = money_ok s"
  by (simp add: set_tier_def)

lemma money_ok_add_subscription [simp]: "money_ok (add_subscription q s) = money_ok s"
  by (simp add: add_subscription_def)

lemma set_tier_simps [simp]:
  "seller_wallets (set_tier i t a b s) = seller_wallets s"
  "wallet_ledgers (set_tier i t a b s) = wallet_ledgers s"
  "subscriptions (set_tier i t a b s) = subscriptions s"
  "deposits (set_tier i t a b s) = deposits s"
  by (simp_all add: set_tier_def update_seller_def)

lemma add_subscription_simps [simp]:
  "seller_wallets (add_subscription q s) = seller_wallets s"
  "wallet_ledgers (add_subscription q s) = wallet_ledgers s"
  "sellers (add_subscription q s) = sellers s"
  "deposits (add_subscription q s) = deposits s"
  by (simp_all add: add_subscription_def)

lemma seller_at_update [simp]:
  "(\<And>r. sl_id (f r) = sl_id r) \<Longrightarrow> List.find (\<lambda>r. sl_id r = j) (sellers (update_seller i f s))
     = map_option (\<lambda>r. if j = i then f r else r) (seller_at j s)"
  unfolding update_seller_def by (simp add: find_modify_key)

lemma seller_at_set_tier [simp]:
  "List.find (\<lambda>r. sl_id r = j) (sellers (set_tier i t a b s)) = map_option (\<lambda>r. if j = i
     then r\<lparr>sl_tier := t, sl_tierStartedAt := Some a, sl_tierExpiresAt := Some b\<rparr> else r) (seller_at j s)"
  unfolding set_tier_def by simp

lemma wallet_or_0_cong: "seller_wallets t = seller_wallets s \<Longrightarrow> wallet_or_0 t = wallet_or_0 s"
  by (simp add: wallet_or_0_def fun_eq_iff)

lemma maybeUnlock_tier:
  "map_option (\<lambda>r. (sl_tier r, sl_tierStartedAt r, sl_tierExpiresAt r)) (seller_at j (maybeUnlockTier i now s))
   = map_option (\<lambda>r. (sl_tier r, sl_tierStartedAt r, sl_tierExpiresAt r)) (seller_at j s)"
proof (cases "seller_at i s")
  case (Some r)
  then show ?thesis
    by (cases "seller_at j s")
       (simp_all add: maybeUnlockTier_def Let_def update_seller_def find_modify_key)
qed (simp add: maybeUnlockTier_def)

definition tier_of_seller :: "ident \<Rightarrow> platform_db \<Rightarrow> (seller_tier \<times> timestamp option \<times> timestamp option) option" where
  "tier_of_seller j s = map_option (\<lambda>r. (sl_tier r, sl_tierStartedAt r, sl_tierExpiresAt r)) (seller_at j s)"

lemma tier_of_seller_same: "sellers t = sellers s \<Longrightarrow> tier_of_seller j t = tier_of_seller j s"
  by (simp add: tier_of_seller_def)

lemma tier_of_seller_commissions:
  "tier_of_seller j (snd (creditCommissionsForSubscription i p r g now s)) = tier_of_seller j s"
proof -
  have 1: "tier_of_seller j (snd (credit_level1 i p r now s)) = tier_of_seller j s" for s
    using maybeUnlock_tier [of j] by (simp add: credit_level1_def Let_def tier_of_seller_def split: option.split)
  have 2: "tier_of_seller j (snd (credit_level2 i p r g now s)) = tier_of_seller j s" for s
    using maybeUnlock_tier [of j] by (simp add: credit_level2_def Let_def tier_of_seller_def split: option.split)
  have 3: "tier_of_seller j (update_subscription i f s) = tier_of_seller j s" for f s
    by (simp add: tier_of_seller_def update_subscription_def)
  show ?thesis
    using 1 [of s] 2 [of "snd (credit_level1 i p r now s)"]
    by (auto simp: creditCommissionsForSubscription_def Let_def 3 split: prod.split)
qed

lemma level1_party_cong:
  "(\<And>j. (seller_at j t = None) = (seller_at j s = None)) \<Longrightarrow> level1_party r t = level1_party r s"
  by (simp add: level1_party_def split: option.split)

text \<open>A purchase that succeeds, taken apart.\<close>

lemma wallet_purchase_cases:
  assumes "purchaseFromWalletBalance_tx newId sid ord now s = Inr ((q, l1, l2), t)"
  obtains b r startsAt endsAt s3 s4 where "seller_wallets s sid = Some b" and "of_int (wo_price ord) \<le> b"
    and "seller_at sid s = Some r"
    and "tier_period (tierKeyToEnum (wo_tier ord)) r now (getDurationMs (wo_plan ord)) = (startsAt, endsAt)"
    and "q = new_subscription newId sid (tierKeyToEnum (wo_tier ord)) (planKeyToEnum (wo_plan ord))
           (of_int (wo_price ord)) startsAt endsAt ''WALLET_BALANCE'' None True
           (wo_referrer ord) (wo_grandReferrer ord) False now"
    and "s3 = post_wallet sid SUBSCRIPTION_PAYMENT (- of_int (wo_price ord)) b (b + - of_int (wo_price ord))
           ''tier_subscription'' newId now
           (set_tier sid (tierKeyToEnum (wo_tier ord)) startsAt endsAt (add_subscription q s))"
    and "creditCommissionsForSubscription newId (of_int (wo_price ord)) (wo_referrer ord)
           (wo_grandReferrer ord) now s3 = ((l1, l2), s4)"
    and "t = s4 \<or> (\<exists>c a. create_usage c sid newId a s4 = Inr t)"
proof -
  from assms obtain b r where w: "seller_wallets s sid = Some b" "of_int (wo_price ord) \<le> b"
      "seller_at sid s = Some r"
    by (auto simp: purchaseFromWalletBalance_tx_def Let_def not_less split: option.splits if_splits)
  obtain startsAt endsAt where p:
      "tier_period (tierKeyToEnum (wo_tier ord)) r now (getDurationMs (wo_plan ord)) = (startsAt, endsAt)"
    by (metis surj_pair)
  let ?q = "new_subscription newId sid (tierKeyToEnum (wo_tier ord)) (planKeyToEnum (wo_plan ord))
           (of_int (wo_price ord)) startsAt endsAt ''WALLET_BALANCE'' None True
           (wo_referrer ord) (wo_grandReferrer ord) False now"
  let ?s3 = "post_wallet sid SUBSCRIPTION_PAYMENT (- of_int (wo_price ord)) b (b + - of_int (wo_price ord))
           ''tier_subscription'' newId now
           (set_tier sid (tierKeyToEnum (wo_tier ord)) startsAt endsAt (add_subscription ?q s))"
  obtain k1 k2 s4 where c: "creditCommissionsForSubscription newId (of_int (wo_price ord)) (wo_referrer ord)
           (wo_grandReferrer ord) now ?s3 = ((k1, k2), s4)" by (metis surj_pair)
  have "?q = q \<and> k1 = l1 \<and> k2 = l2 \<and> (t = s4 \<or> (\<exists>c a. create_usage c sid newId a s4 = Inr t))"
    using assms w p c by (auto simp: purchaseFromWalletBalance_tx_def Let_def split: option.splits sum.splits)
  then show ?thesis using that [OF w p _ _ _] c by auto
qed

lemma create_usage_money:
  assumes "create_usage c i b a s = Inr t"
  shows "money_ok t = money_ok s" and "wallet_or_0 t = wallet_or_0 s" and "tier_of_seller j t = tier_of_seller j s"
  by (rule money_ok_cong wallet_or_0_cong tier_of_seller_same; simp add: create_usage_frame [OF assms])+

text \<open>
  C18. Buying a tier from the wallet. If it succeeds on a reconciled database, the price was covered,
  the buyer pays exactly the price, the two referral parties receive exactly the reported
  commissions and nobody else's balance moves; the database stays reconciled. The subscription and
  the seller carry the same dates, and both branches of the period are pinned: when the same tier
  is still running, the period keeps its start and ends one duration after the old end, so a
  renewal loses no time; otherwise, another tier that is still running included, it starts now and
  ends one duration from now, in place of whatever ran before.
\<close>

theorem wallet_purchase_effect:
  assumes "money_ok s" and "\<not> already_credited newId s"
    and "purchaseFromWalletBalance_tx newId sid ord now s = Inr ((q, l1, l2), t)"
  shows "money_ok t \<and> of_int (wo_price ord) \<le> wallet_or_0 s sid
    \<and> (\<forall>j. wallet_or_0 t j = wallet_or_0 s j - (if j = sid then of_int (wo_price ord) else 0)
         + (if level1_party (wo_referrer ord) s = Some j then of_int l1 else 0)
         + (if level2_party (wo_referrer ord) (wo_grandReferrer ord) = Some j then of_int l2 else 0))
    \<and> tier_of_seller sid t = Some (tierKeyToEnum (wo_tier ord), Some (sub_startsAt q), Some (sub_endsAt q))
    \<and> sub_id q = newId \<and> sub_seller q = sid \<and> sub_price q = of_int (wo_price ord)
    \<and> (\<exists>r. seller_at sid s = Some r
         \<and> (if is_renewal (tierKeyToEnum (wo_tier ord)) r now
            then \<exists>x. sl_tierExpiresAt r = Some x \<and> now < x
                   \<and> sub_endsAt q = x + getDurationMs (wo_plan ord)
                   \<and> sub_startsAt q = (case sl_tierStartedAt r of Some a \<Rightarrow> a | None \<Rightarrow> now)
            else sub_startsAt q = now \<and> sub_endsAt q = now + getDurationMs (wo_plan ord)))"
  using assms(3)
proof (cases rule: wallet_purchase_cases)
  case (1 b r startsAt endsAt s3 s4)
  let ?p = "of_int (wo_price ord) :: rat" and ?tier = "tierKeyToEnum (wo_tier ord)"
  let ?s2 = "set_tier sid ?tier startsAt endsAt (add_subscription q s)"
  have b: "cents b" using assms(1) 1(1) by (auto dest: money_okD)
  have ok3: "money_ok s3" unfolding 1(6) using assms(1) 1(1) by (intro money_ok_post) auto
  have new: "\<not> already_credited newId s3"
    using assms(2) by (simp add: 1(6) already_credited_def is_affiliate_entry_def)
  have ok4: "money_ok s4" using money_ok_commissions [OF ok3] 1(7) by (metis snd_conv)
  have party: "level1_party (wo_referrer ord) s3 = level1_party (wo_referrer ord) s"
    by (rule level1_party_cong) (simp add: 1(6))
  have "toDecimal (b + - ?p) = b + - ?p" using b by (intro toDecimal_cents) auto
  then have w3: "wallet_or_0 s3 j = wallet_or_0 s j - (if j = sid then ?p else 0)" for j
    using 1(1) by (simp add: 1(6) wallet_or_0_def)
  have w4: "wallet_or_0 s4 j = wallet_or_0 s j - (if j = sid then ?p else 0)
         + (if level1_party (wo_referrer ord) s = Some j then of_int l1 else 0)
         + (if level2_party (wo_referrer ord) (wo_grandReferrer ord) = Some j then of_int l2 else 0)" for j
    using commissions_wallets [OF ok3 new 1(7), of j] by (simp add: w3 party)
  have "tier_of_seller sid s4 = tier_of_seller sid s3"
    using tier_of_seller_commissions 1(7) by (metis snd_conv)
  also have "\<dots> = Some (?tier, Some startsAt, Some endsAt)"
    using 1(3) by (simp add: 1(6) tier_of_seller_def)
  finally have ts: "tier_of_seller sid s4 = Some (?tier, Some startsAt, Some endsAt)" .
  have t: "money_ok t \<and> wallet_or_0 t = wallet_or_0 s4 \<and> tier_of_seller sid t = tier_of_seller sid s4"
    using 1(8) ok4 create_usage_money by blast
  have q: "sub_startsAt q = startsAt" "sub_endsAt q = endsAt" "sub_id q = newId" "sub_seller q = sid"
    "sub_price q = of_int (wo_price ord)"
    by (simp_all add: 1(5) new_subscription_def toDecimal_cents)
  show ?thesis
    using t w4 ts q 1(1-3) tier_period_branches [OF 1(4)] by (simp add: wallet_or_0_def)
qed

definition demo_buyer :: platform_db where
  "demo_buyer = post_wallet ''p'' TOPUP 500000 0 (0 + 500000) ''deposit_request'' ''d0'' 0
     (demo_chain\<lparr>seller_wallets := (seller_wallets demo_chain)(''p'' \<mapsto> 0), subscriptions := []\<rparr>)"

definition demo_order :: wallet_order where
  "demo_order = \<lparr>wo_tier = ProKey, wo_plan = Monthly, wo_price = 199000, wo_referrer = Some ''r'',
     wo_grandReferrer = Some ''g'', wo_discount = None\<rparr>"

lemma demo_buyer_ok: "money_ok demo_buyer"
proof -
  have "money_ok (demo_chain\<lparr>seller_wallets := (seller_wallets demo_chain)(''p'' \<mapsto> 0)\<rparr>)"
    by (rule money_ok_open [OF demo_chain_ok]) (simp add: demo_chain_defs)
  then have "money_ok (demo_chain\<lparr>seller_wallets := (seller_wallets demo_chain)(''p'' \<mapsto> 0), subscriptions := []\<rparr>)"
    by simp
  then show ?thesis unfolding demo_buyer_def by (rule money_ok_post) simp_all
qed

definition demo_bought :: "((subscription \<times> int \<times> int) \<times> platform_db) result" where
  "demo_bought = purchaseFromWalletBalance_tx ''t9'' ''p'' demo_order 10 demo_buyer"

lemma demo_bought_ok: "is_ok demo_bought"
  by (simp add: demo_bought_def purchaseFromWalletBalance_tx_def demo_order_def demo_buyer_def
      demo_chain_defs Let_def toDecimal_cents split: prod.split)

lemma demo_buyer_new: "\<not> already_credited ''t9'' demo_buyer"
  by (simp add: demo_buyer_def demo_chain_defs already_credited_def)

theorem wallet_purchase_effect_witness:
  "\<exists>q l1 l2 t. demo_bought = Inr ((q, l1, l2), t) \<and> money_ok t
     \<and> 199000 \<le> wallet_or_0 demo_buyer ''p'' \<and> sub_price q = 199000
     \<and> sub_startsAt q = 10 \<and> sub_endsAt q = 10 + getDurationMs Monthly"
proof -
  obtain q l1 l2 t where b: "demo_bought = Inr ((q, l1, l2), t)"
    using demo_bought_ok by (metis is_okE surj_pair)
  have not_running: "\<not> is_renewal PRO r 10" if "seller_at ''p'' demo_buyer = Some r" for r
    using that by (auto simp: demo_buyer_def demo_chain_defs is_renewal_def)
  from wallet_purchase_effect [OF demo_buyer_ok demo_buyer_new b [unfolded demo_bought_def]]
  have "money_ok t" "199000 \<le> wallet_or_0 demo_buyer ''p''" "sub_price q = 199000"
    "sub_startsAt q = 10 \<and> sub_endsAt q = 10 + getDurationMs Monthly"
    using not_running by (auto simp: demo_order_def)
  with b show ?thesis by blast
qed

section \<open>What crediting the commissions leaves alone\<close>

lemma credit_frames [simp]:
  "deposits (snd (creditCommissionsForSubscription i p r g now s)) = deposits s"
  "discount_usages (snd (creditCommissionsForSubscription i p r g now s)) = discount_usages s"
  "map sub_id (subscriptions (snd (creditCommissionsForSubscription i p r g now s))) = map sub_id (subscriptions s)"
proof -
  have u: "deposits (maybeUnlockTier j now s) = deposits s" "discount_usages (maybeUnlockTier j now s) = discount_usages s"
    for j s by (simp_all add: maybeUnlockTier_def Let_def update_seller_def split: option.split)
  have w: "deposits (creditToWallet j a ty rt ri now s) = deposits s"
    "discount_usages (creditToWallet j a ty rt ri now s) = discount_usages s" for j a ty rt ri s
    by (simp_all add: creditToWallet_def Let_def)
  have 1: "deposits (snd (credit_level1 i p r now s)) = deposits s"
    "discount_usages (snd (credit_level1 i p r now s)) = discount_usages s" for s
    by (simp_all add: credit_level1_def Let_def u w split: option.split)
  have 2: "deposits (snd (credit_level2 i p r g now s)) = deposits s"
    "discount_usages (snd (credit_level2 i p r g now s)) = discount_usages s" for s
    by (simp_all add: credit_level2_def Let_def u w split: option.split)
  obtain rate1 k1 s1 where c1: "credit_level1 i p r now s = ((rate1, k1), s1)" by (metis surj_pair)
  obtain rate2 k2 s2 where c2: "credit_level2 i p r g now s1 = ((rate2, k2), s2)" by (metis surj_pair)
  have f: "deposits s2 = deposits s" "discount_usages s2 = discount_usages s" "subscriptions s2 = subscriptions s"
    using 1 [of s] 2 [of s1] level_subscriptions(1) [of i p r now s] level_subscriptions(2) [of i p r g now s1]
    by (simp_all add: c1 c2)
  show "deposits (snd (creditCommissionsForSubscription i p r g now s)) = deposits s"
    "discount_usages (snd (creditCommissionsForSubscription i p r g now s)) = discount_usages s"
    "map sub_id (subscriptions (snd (creditCommissionsForSubscription i p r g now s))) = map sub_id (subscriptions s)"
    by (auto simp: creditCommissionsForSubscription_def c1 c2 f update_subscription_def map_modify_rows)
qed

lemma tier_frames [simp]:
  "discount_usages (set_tier i t a b s) = discount_usages s"
  "discount_usages (add_subscription q s) = discount_usages s"
  "subscriptions (add_subscription q s) = subscriptions s @ [q]"
  by (simp_all add: set_tier_def update_seller_def add_subscription_def)

text \<open>
  Both callers of \<open>creditCommissionsForSubscription\<close> have just created the subscription it
  updates, whatever else they wrote in between.
\<close>

lemma add_subscription_present: "sub_id q = i \<Longrightarrow> subscription_at i (add_subscription q s) \<noteq> None"
  by (auto simp: find_None_iff')

lemma purchase_row_present:
  "subscription_at newId (post_wallet sid ty a b c rt ri now
     (set_tier sid tier x y (add_subscription (new_subscription newId sid tier p price x y pm pt w r g gr now) s)))
   \<noteq> None"
  using add_subscription_present [of "new_subscription newId sid tier p price x y pm pt w r g gr now" newId s]
  by (simp add: new_subscription_def)

lemma confirm_row_present:
  "subscription_at newId
     (set_tier sid tier x y (add_subscription (new_subscription newId sid tier p price x y pm pt w r g gr now) s))
   \<noteq> None"
  using add_subscription_present [of "new_subscription newId sid tier p price x y pm pt w r g gr now" newId s]
  by (simp add: new_subscription_def)

section \<open>The quote is what a purchase charges\<close>

lemma better_code_max:
  "foldl better_code best ds = Some d \<Longrightarrow> best = Some d \<or> d \<in> set ds"
proof (induction ds arbitrary: best)
  case (Cons x ds)
  then have "better_code best x = Some d \<or> d \<in> set ds" by simp
  then show ?case by (auto simp: better_code_def split: option.splits if_splits)
qed simp

lemma availableDiscount_member:
  assumes "availableDiscount seller s = Some d"
  shows "d \<in> set (discount_codes s)" and "dc_active d" and "sl_referredBy seller = Some (dc_referrer d)"
    and "\<not> list_ex (\<lambda>u. du_code u = dc_id d \<and> du_seller u = sl_id seller) (discount_usages s)"
  using assms by (auto simp: availableDiscount_def split: option.splits dest!: better_code_max)

text \<open>
  Stored codes as \<open>createDiscountCode\<close> leaves them: unique, in upper case without surrounding
  blanks, and not empty.
\<close>

definition codes_canonical :: "platform_db \<Rightarrow> bool" where
  "codes_canonical s \<longleftrightarrow> distinct (map dc_code (discount_codes s))
     \<and> list_all (\<lambda>d. canonical_code (dc_code d) = dc_code d \<and> dc_code d \<noteq> []) (discount_codes s)"

lemma quoted_code_valid:
  assumes "codes_canonical s" and "sl_referredBy seller \<noteq> Some (sl_id seller)"
    and "availableDiscount seller s = Some d"
  shows "validateForSeller (dc_code d) (sl_id seller) s = Inr d" and "given (Some (dc_code d))"
proof -
  note m = availableDiscount_member [OF assms(3)]
  have "canonical_code (dc_code d) = dc_code d \<and> dc_code d \<noteq> []"
    using assms(1) m(1) by (auto simp: codes_canonical_def list_all_iff)
  moreover have "List.find (\<lambda>r. dc_code r = dc_code d) (discount_codes s) = Some d"
    using assms(1) m(1) by (auto simp: codes_canonical_def intro: distinct_key_find)
  ultimately show "validateForSeller (dc_code d) (sl_id seller) s = Inr d" and "given (Some (dc_code d))"
    using m assms(2) by (auto simp: validateForSeller_def given_def Let_def)
qed

lemma purchase_referrer_frame:
  assumes "purchase_referrer seller args d s = (r, t)"
  shows "seller_wallets t = seller_wallets s" and "discount_usages t = discount_usages s"
    and "(seller_at j t = None) = (seller_at j s = None)"
  using assms
  by (auto simp: purchase_referrer_def Let_def update_seller_def find_modify_key
      split: option.splits if_splits)

definition wallet_short :: "ident \<Rightarrow> int \<Rightarrow> platform_db \<Rightarrow> bool" where
  "wallet_short sid price s \<longleftrightarrow>
     (case seller_wallets s sid of None \<Rightarrow> True | Some b \<Rightarrow> b < of_int price)"

text \<open>The wallet transaction fails only when the wallet is missing or too low.\<close>

lemma wallet_tx_outcome:
  assumes "seller_at sid s \<noteq> None"
    and "\<forall>c a. wo_discount ord = Some (c, a) \<longrightarrow>
           \<not> list_ex (\<lambda>u. du_code u = c \<and> du_seller u = sid) (discount_usages s)"
  shows "if wallet_short sid (wo_price ord) s
    then \<exists>e. purchaseFromWalletBalance_tx newId sid ord now s = Inl e
    else \<exists>q l1 l2 t. purchaseFromWalletBalance_tx newId sid ord now s = Inr ((q, l1, l2), t)
           \<and> sub_price q = toDecimal (of_int (wo_price ord))"
proof (cases "wallet_short sid (wo_price ord) s")
  case True
  then show ?thesis
    by (auto simp: wallet_short_def purchaseFromWalletBalance_tx_def split: option.splits)
next
  case False
  then obtain b where b: "seller_wallets s sid = Some b" "\<not> b < of_int (wo_price ord)"
    by (auto simp: wallet_short_def split: option.splits)
  obtain r where r: "seller_at sid s = Some r" using assms(1) by auto
  obtain startsAt endsAt where p:
      "tier_period (tierKeyToEnum (wo_tier ord)) r now (getDurationMs (wo_plan ord)) = (startsAt, endsAt)"
    by (metis surj_pair)
  let ?q = "new_subscription newId sid (tierKeyToEnum (wo_tier ord)) (planKeyToEnum (wo_plan ord))
           (of_int (wo_price ord)) startsAt endsAt ''WALLET_BALANCE'' None True
           (wo_referrer ord) (wo_grandReferrer ord) False now"
  let ?s3 = "post_wallet sid SUBSCRIPTION_PAYMENT (- of_int (wo_price ord)) b (b - of_int (wo_price ord))
           ''tier_subscription'' newId now
           (set_tier sid (tierKeyToEnum (wo_tier ord)) startsAt endsAt (add_subscription ?q s))"
  obtain k1 k2 s4 where c: "creditCommissionsForSubscription newId (of_int (wo_price ord)) (wo_referrer ord)
           (wo_grandReferrer ord) now ?s3 = ((k1, k2), s4)" by (metis surj_pair)
  have u: "discount_usages s4 = discount_usages s"
    using credit_frames(2) [of newId "of_int (wo_price ord)" "wo_referrer ord" "wo_grandReferrer ord" now ?s3]
    by (simp add: c)
  have price: "sub_price ?q = toDecimal (of_int (wo_price ord))" by (simp add: new_subscription_def)
  have "\<exists>t. purchaseFromWalletBalance_tx newId sid ord now s = Inr ((?q, k1, k2), t)"
  proof (cases "wo_discount ord")
    case None
    then show ?thesis by (simp add: purchaseFromWalletBalance_tx_def b r p c Let_def)
  next
    case (Some ca)
    obtain code a where "ca = (code, a)" by (cases ca)
    with Some assms(2) have ok: "\<exists>t. create_usage code sid newId (of_int a) s4 = Inr t"
      by (simp add: create_usage_def u)
    with Some \<open>ca = (code, a)\<close> show ?thesis
      by (auto simp: purchaseFromWalletBalance_tx_def b r p c Let_def)
  qed
  with price False show ?thesis by auto
qed

definition quoted_plans :: "quote \<Rightarrow> tier_key \<Rightarrow> plan_quote list option" where
  "quoted_plans q tier = (case tier of ProKey \<Rightarrow> Some (qt_pro q) | UltraKey \<Rightarrow> qt_ultra q)"

fun charged :: "purchase_outcome \<Rightarrow> money" where
  "charged (Paid_from_wallet q l1 l2) = sub_price q"
| "charged (Payment_requested d) = dep_amount d"

text \<open>A quoted plan: the price and the list price are those of the purchase with the code.\<close>

lemma quoted_price:
  "x \<in> set (buildPlans d tier) \<Longrightarrow>
     pq_priceVnd x = snd (purchase_price tier (pq_plan x) d)
     \<and> pq_originalPriceVnd x = map_option (\<lambda>_. fst (purchase_price tier (pq_plan x) d)) d"
  by (auto simp: buildPlans_def purchase_price_def Let_def split: option.splits)

lemma quoted_all_plans: "map pq_plan (buildPlans d tier) = [Monthly, Quarterly, SemiAnnual, Annual]"
  by (simp add: buildPlans_def split: option.split)

text \<open>A purchase whose checks pass charges the price of the checked code.\<close>

lemma purchase_charges:
  assumes "feature_on cfg TierPurchases" and "List.find (\<lambda>r. sl_userId r = userId) (sellers s) = Some seller"
    and "purchase_check cfg seller args s = Inr d"
    and "\<And>c. d = Some c \<Longrightarrow>
           \<not> list_ex (\<lambda>u. du_code u = dc_id c \<and> du_seller u = sl_id seller) (discount_usages s)"
  shows "case fst (purchase cfg fr userId args now s) of
      Inr out \<Rightarrow> charged out = toDecimal (of_int (snd (purchase_price (pa_tier args) (pa_plan args) d)))
        \<and> \<not> (pa_method args = Wallet_balance
             \<and> wallet_short (sl_id seller) (snd (purchase_price (pa_tier args) (pa_plan args) d)) s)
    | Inl e \<Rightarrow> pa_method args = Wallet_balance
        \<and> wallet_short (sl_id seller) (snd (purchase_price (pa_tier args) (pa_plan args) d)) s"
proof -
  obtain base price where pr: "purchase_price (pa_tier args) (pa_plan args) d = (base, price)"
    by (metis surj_pair)
  obtain referrer t where rt: "purchase_referrer seller args d s = (referrer, t)" by (metis surj_pair)
  note fr = purchase_referrer_frame [OF rt]
  have on: "assertEnabled cfg TierPurchases None = Inr ()"
    using assertEnabled_cases [of cfg TierPurchases None] assms(1) by auto
  have "seller_at (sl_id seller) s \<noteq> None"
    using find_SomeD [OF assms(2)] by (auto simp: find_None_iff')
  then have here: "seller_at (sl_id seller) t \<noteq> None" by (simp add: fr(3))
  have short: "wallet_short (sl_id seller) price t = wallet_short (sl_id seller) price s"
    by (simp add: wallet_short_def fr(1))
  show ?thesis
  proof (cases "pa_method args = Wallet_balance")
    case True
    let ?ord = "\<lparr>wo_tier = pa_tier args, wo_plan = pa_plan args, wo_price = price,
       wo_referrer = referrer, wo_grandReferrer = grand_referrer (sl_id seller) referrer t,
       wo_discount = map_option (\<lambda>c. (dc_id c, base - price)) d\<rparr>"
    have free: "\<not> list_ex (\<lambda>u. du_code u = c \<and> du_seller u = sl_id seller) (discount_usages t)"
      if "wo_discount ?ord = Some (c, a)" for c a
      using that assms(4) by (auto simp: fr(2))
    then have free': "\<forall>c a. wo_discount ?ord = Some (c, a) \<longrightarrow>
        \<not> list_ex (\<lambda>u. du_code u = c \<and> du_seller u = sl_id seller) (discount_usages t)" by blast
    have price: "wo_price ?ord = price" by simp
    have out: "if wallet_short (sl_id seller) price t
      then \<exists>e. purchaseFromWalletBalance_tx (fr_subscription fr) (sl_id seller) ?ord now t = Inl e
      else \<exists>q l1 l2 u. purchaseFromWalletBalance_tx (fr_subscription fr) (sl_id seller) ?ord now t
             = Inr ((q, l1, l2), u) \<and> sub_price q = toDecimal (of_int price)"
      using wallet_tx_outcome [of "sl_id seller" t ?ord "fr_subscription fr" now, OF here free']
      by (simp only: price)
    show ?thesis
    proof (cases "wallet_short (sl_id seller) price s")
      case True': True
      with out short obtain e where
        "purchaseFromWalletBalance_tx (fr_subscription fr) (sl_id seller) ?ord now t = Inl e" by auto
      then show ?thesis
        using True True' by (simp add: purchase_def on assms(2,3) pr rt Let_def)
    next
      case False
      with out short obtain q l1 l2 u where
        "purchaseFromWalletBalance_tx (fr_subscription fr) (sl_id seller) ?ord now t = Inr ((q, l1, l2), u)"
        and "sub_price q = toDecimal (of_int price)" by auto
      then show ?thesis
        using True False by (simp add: purchase_def on assms(2,3) pr rt Let_def)
    qed
  next
    case False
    then show ?thesis by (simp add: purchase_def on assms(2,3) pr rt Let_def)
  qed
qed

lemma purchase_check_quoted:
  assumes "codes_canonical s" and "sl_referredBy seller \<noteq> Some (sl_id seller)"
    and "feature_on cfg AffiliateCommissions"
    and "pa_discountCode args = map_option dc_code (availableDiscount seller s)"
  shows "purchase_check cfg seller args s =
    (if pa_tier args = UltraKey \<and> sl_tier seller \<noteq> ULTRA \<and> \<not> ever_ultra (sl_id seller) s
     then Inl (Forbidden ''ULTRA can only be granted by an administrator the first time.'')
     else Inr (availableDiscount seller s))"
proof -
  have on: "assertEnabled cfg AffiliateCommissions None = Inr ()"
    using assertEnabled_cases [of cfg AffiliateCommissions None] assms(3) by auto
  show ?thesis
  proof (cases "availableDiscount seller s")
    case None
    with assms(4) show ?thesis by (simp add: purchase_check_def on given_def)
  next
    case (Some d)
    from quoted_code_valid [OF assms(1,2) Some] assms(4) Some show ?thesis
      by (simp add: purchase_check_def on)
  qed
qed


definition demo_quote_db :: platform_db where
  "demo_quote_db = demo_chain\<lparr>discount_codes :=
     [\<lparr>dc_id = ''x'', dc_code = ''SAVE10'', dc_percent = 10, dc_referrer = ''r'', dc_active = True\<rparr>]\<rparr>"

definition demo_quote :: quote where
  "demo_quote = (case getQuote ''up'' demo_quote_db of Inr q \<Rightarrow> q | Inl _ \<Rightarrow> undefined)"

lemma demo_quote_ok: "getQuote ''up'' demo_quote_db = Inr demo_quote"
  by (simp add: demo_quote_def getQuote_def demo_quote_db_def demo_chain_defs Let_def)

definition demo_args :: purchase_args where
  "demo_args = \<lparr>pa_tier = ProKey, pa_plan = Monthly, pa_referralCode = None,
     pa_discountCode = Some ''SAVE10'', pa_method = Pay_payos\<rparr>"


end
