(* ===== verification/TierSettlement.thy ===== *)
theory TierSettlement
  imports Tiers
begin

text \<open>
  Settling tier payments: a paid link is confirmed once, what a discount code used twice does to a
  paid tier, what a refund gives back, and what two concurrent refunds do.
\<close>

section \<open>Frames\<close>

lemma reverse_frames [simp]:
  "deposits (reverse_wallet_credit did sid now s) = deposits s"
  "discount_usages (reverse_wallet_credit did sid now s) = discount_usages s"
  "sellers (reverse_wallet_credit did sid now s) = sellers s"
  "subscriptions (reverse_wallet_credit did sid now s) = subscriptions s"
  by (simp_all add: reverse_wallet_credit_def Let_def split: option.split)

lemma update_deposit_frames [simp]:
  "discount_usages (update_deposit i f s) = discount_usages s"
  "sellers (update_deposit i f s) = sellers s"
  "subscriptions (update_deposit i f s) = subscriptions s"
  by (simp_all add: update_deposit_def)

section \<open>A paid link is confirmed once\<close>

definition tier_payment_settled :: "string \<Rightarrow> platform_db \<Rightarrow> bool" where
  "tier_payment_settled code s \<longleftrightarrow>
     (case List.find (\<lambda>d. dep_code d = Some code) (deposits s) of None \<Rightarrow> False
      | Some d \<Rightarrow> dep_status d = DepConfirmed
          \<and> parse_tier_note (case dep_note d of None \<Rightarrow> [] | Some m \<Rightarrow> m) \<noteq> None)"

lemma confirm_tier_tx_deposits:
  assumes "confirm_tier_tx aborts newId d n now s = Inr (c, t)"
  shows "t = s \<or> deposits t = deposits (update_deposit (dep_id d)
           (\<lambda>r. r\<lparr>dep_status := DepConfirmed, dep_paidAt := Some now\<rparr>) s)"
  using assms create_usage_frame(5)
  by (auto simp: confirm_tier_tx_def Let_def split: option.splits if_splits prod.splits sum.splits)

lemma confirm_settles:
  assumes "snd (confirmFromExternalOrderCode aborts newId code now s) \<noteq> s"
  shows "tier_payment_settled code (snd (confirmFromExternalOrderCode aborts newId code now s))"
proof -
  from assms obtain d n where d: "List.find (\<lambda>d. dep_code d = Some code) (deposits s) = Some d"
    and n: "parse_tier_note (case dep_note d of None \<Rightarrow> [] | Some m \<Rightarrow> m) = Some n"
    by (auto simp: confirmFromExternalOrderCode_def split: option.splits)
  define t where "t = snd (transaction (confirm_tier_tx aborts newId d n now) s)"
  have "snd (confirmFromExternalOrderCode aborts newId code now s) \<in> {s, t}"
    unfolding confirmFromExternalOrderCode_def t_def by (simp add: d n split: sum.split prod.split)
  with assms have t: "snd (confirmFromExternalOrderCode aborts newId code now s) = t" by simp
  with assms have "t \<noteq> s" by simp
  then obtain c where "confirm_tier_tx aborts newId d n now s = Inr (c, t)"
    using transaction_changed [of "confirm_tier_tx aborts newId d n now" s, folded t_def] by blast
  from confirm_tier_tx_deposits [OF this] \<open>t \<noteq> s\<close>
  have "deposits t = modify_rows (\<lambda>r. dep_id r = dep_id d)
      (\<lambda>r. r\<lparr>dep_status := DepConfirmed, dep_paidAt := Some now\<rparr>) (deposits s)"
    by (simp add: update_deposit_def)
  then have "List.find (\<lambda>d. dep_code d = Some code) (deposits t)
      = Some (d\<lparr>dep_status := DepConfirmed, dep_paidAt := Some now\<rparr>)"
    using d by (simp add: find_modify_rows)
  then show ?thesis using n by (simp add: t tier_payment_settled_def)
qed

interpretation tier_once: settle_once
  "\<lambda>s. snd (confirmFromExternalOrderCode aborts newId code now s)" "tier_payment_settled code"
  for aborts newId code now
proof unfold_locales
  fix s assume "tier_payment_settled code s"
  then show "snd (confirmFromExternalOrderCode aborts newId code now s) = s"
    by (auto simp: tier_payment_settled_def confirmFromExternalOrderCode_def split: option.splits)
qed (rule confirm_settles)

text \<open>
  C19. A tier payment is applied once. After a confirmation changed anything, delivering the
  confirmation of the same payment code again, any number of times and at any time, changes
  nothing: no second subscription, no second period, no second commission.
\<close>

theorem tier_payment_confirmed_once:
  assumes "snd (confirmFromExternalOrderCode aborts newId code now s) \<noteq> s"
  shows "((\<lambda>t. snd (confirmFromExternalOrderCode aborts newId' code now' t)) ^^ n)
           (snd (confirmFromExternalOrderCode aborts newId code now s))
       = snd (confirmFromExternalOrderCode aborts newId code now s)"
  by (rule tier_once.settled_stays [OF confirm_settles [OF assms]])

definition demo_tier_deposit :: "string \<Rightarrow> deposit" where
  "demo_tier_deposit code = \<lparr>dep_id = code, dep_seller = ''p'', dep_amount = 179100, dep_status = DepPending,
     dep_provider = PAYOS, dep_code = Some code, dep_expiresAt = Some 1800000, dep_paidAt = None,
     dep_note = Some (print_tier_note \<lparr>tn_tier = ProKey, tn_plan = Monthly, tn_seller = ''p'',
       tn_referrer = None, tn_grandReferrer = None, tn_discountCode = Some ''x'', tn_discountAmount = 19900\<rparr>)\<rparr>"

definition demo_two_payments :: platform_db where
  "demo_two_payments = demo_quote_db\<lparr>deposits := [demo_tier_deposit ''k1'', demo_tier_deposit ''k2'']\<rparr>"

definition demo_first_paid :: platform_db where
  "demo_first_paid = snd (confirmFromExternalOrderCode True ''n1'' ''k1'' 10 demo_two_payments)"

lemma demo_note_parsed:
  "parse_tier_note (case dep_note (demo_tier_deposit code) of None \<Rightarrow> [] | Some m \<Rightarrow> m)
   = Some \<lparr>tn_tier = ProKey, tn_plan = Monthly, tn_seller = ''p'', tn_referrer = None,
       tn_grandReferrer = None, tn_discountCode = Some ''x'', tn_discountAmount = 19900\<rparr>"
proof -
  have "split_on CHR '':'' (print_tier_note \<lparr>tn_tier = ProKey, tn_plan = Monthly, tn_seller = ''p'',
       tn_referrer = None, tn_grandReferrer = None, tn_discountCode = Some ''x'', tn_discountAmount = 19900\<rparr>)
     = [''TIER_SUB'', ''pro'', ''monthly'', ''p'', [], [], ''x'', show_nat 19900]"
    unfolding print_tier_note_def by (subst split_join) (auto simp: opt_field_def)
  then show ?thesis
    by (simp add: demo_tier_deposit_def parse_tier_note_def Let_def tier_of_name_def plan_of_name_def field_opt_def)
qed

lemma demo_deposit_fields [simp]:
  "dep_id (demo_tier_deposit c) = c" "dep_code (demo_tier_deposit c) = Some c"
  "dep_status (demo_tier_deposit c) = DepPending" "dep_provider (demo_tier_deposit c) = PAYOS"
  "dep_amount (demo_tier_deposit c) = 179100"
  by (simp_all add: demo_tier_deposit_def)

lemmas demo_confirm_defs = confirmFromExternalOrderCode_def confirm_tier_tx_def transaction_def
  assertCryptoReceiptClaimed_def isReceiptBackedCryptoProvider_def isDirectOnchainProvider_def
  update_deposit_def reverse_wallet_credit_def create_usage_def creditCommissionsForSubscription_def
  already_credited_def credit_level1_def credit_level2_def update_subscription_def Let_def

lemma demo_first_paid_eq:
  "deposits demo_first_paid = [(demo_tier_deposit ''k1'')\<lparr>dep_status := DepConfirmed, dep_paidAt := Some 10\<rparr>,
     demo_tier_deposit ''k2'']"
  "discount_usages demo_first_paid = [\<lparr>du_code = ''x'', du_seller = ''p'', du_subscription = ''n1'', du_amount = 19900\<rparr>]"
  by (simp_all add: demo_first_paid_def demo_two_payments_def demo_quote_db_def demo_chain_defs demo_note_parsed
      demo_confirm_defs toDecimal_cents split: prod.split)

theorem tier_payment_confirmed_once_witness:
  "((\<lambda>t. snd (confirmFromExternalOrderCode True ''n2'' ''k1'' 20 t)) ^^ 3) demo_first_paid = demo_first_paid"
  unfolding demo_first_paid_def
proof (rule tier_payment_confirmed_once)
  have "deposits demo_first_paid \<noteq> deposits demo_two_payments"
    by (simp add: demo_first_paid_eq) (simp add: demo_two_payments_def demo_tier_deposit_def)
  then show "snd (confirmFromExternalOrderCode True ''n1'' ''k1'' 10 demo_two_payments) \<noteq> demo_two_payments"
    unfolding demo_first_paid_def by metis
qed

section \<open>A discount code on two open payments\<close>

lemma credit_seller_ids [simp]:
  "(List.find (\<lambda>r. sl_id r = j) (sellers (set_tier i t a b s)) = None) = (seller_at j s = None)"
  by simp

text \<open>
  C35. A seller may open two payment links with the same discount code, since the code is marked
  used only when a payment is confirmed. When the second one is paid, recording the usage hits the
  unique index; the handler catches the error and reports the tier as activated. On a database
  that aborts the transaction after the error the report is wrong: nothing was written, neither
  subscription nor tier nor the deposit's own status, and the paid money bought nothing. Without
  the abort the subscription is created.
\<close>

theorem discount_reuse_loses_paid_tier:
  assumes "List.find (\<lambda>d. dep_code d = Some code) (deposits s) = Some d"
    and "deposit_at (dep_id d) s = Some d" and "dep_status d = DepPending"
    and "parse_tier_note (case dep_note d of None \<Rightarrow> [] | Some m \<Rightarrow> m) = Some n"
    and "\<not> isReceiptBackedCryptoProvider (dep_provider d)"
    and "tn_discountCode n = Some c" and "seller_at (tn_seller n) s \<noteq> None"
    and "list_ex (\<lambda>u. du_code u = c \<and> du_seller u = tn_seller n) (discount_usages s)"
  shows "confirmFromExternalOrderCode True newId code now s = (Inr (Tier_activated (tn_tier n) (tn_plan n)), s)
    \<and> fst (confirmFromExternalOrderCode False newId code now s) = Inr (Tier_activated (tn_tier n) (tn_plan n))
    \<and> map sub_id (subscriptions (snd (confirmFromExternalOrderCode False newId code now s)))
      = map sub_id (subscriptions s) @ [newId]"
proof -
  obtain r where r: "seller_at (tn_seller n) s = Some r" using assms(7) by blast
  obtain a b where p: "tier_period (tierKeyToEnum (tn_tier n)) r now (getDurationMs (tn_plan n)) = (a, b)"
    by (metis surj_pair)
  have receipt: "assertCryptoReceiptClaimed code (dep_provider d) None s = Inr None"
    using assms(5) by (simp add: assertCryptoReceiptClaimed_def)
  have "confirm_tier_tx True newId d n now s = Inr (True, s)"
    by (simp add: confirm_tier_tx_def Let_def assms(2,3,6,8) r p create_usage_def)
  moreover obtain t where "confirm_tier_tx False newId d n now s = Inr (True, t)"
    and "map sub_id (subscriptions t) = map sub_id (subscriptions s) @ [newId]"
    by (simp add: confirm_tier_tx_def Let_def assms(2,3,6,8) r p create_usage_def) (simp add: new_subscription_def)
  ultimately show ?thesis
    by (simp add: confirmFromExternalOrderCode_def assms(1,3,4) receipt)
qed

lemma demo_second_payment:
  "List.find (\<lambda>d. dep_code d = Some ''k2'') (deposits demo_first_paid) = Some (demo_tier_deposit ''k2'')"
  "deposit_at (dep_id (demo_tier_deposit ''k2'')) demo_first_paid = Some (demo_tier_deposit ''k2'')"
  by (simp_all add: demo_first_paid_eq)

lemma demo_first_paid_seller: "seller_at ''p'' demo_first_paid \<noteq> None"
  by (simp add: demo_first_paid_def demo_two_payments_def demo_quote_db_def demo_chain_defs demo_note_parsed
      demo_confirm_defs set_tier_def update_seller_def add_subscription_def split: prod.split)

theorem discount_reuse_loses_paid_tier_witness:
  "confirmFromExternalOrderCode True ''n2'' ''k2'' 20 demo_first_paid
     = (Inr (Tier_activated ProKey Monthly), demo_first_paid)"
  using discount_reuse_loses_paid_tier [OF demo_second_payment demo_deposit_fields(3) demo_note_parsed]
    demo_first_paid_seller
  by (simp add: isReceiptBackedCryptoProvider_def isDirectOnchainProvider_def demo_first_paid_eq)

section \<open>Refunds\<close>

lemma clawBack_frames [simp]:
  "sellers (clawBackCommissions i now s) = sellers s"
  "subscriptions (clawBackCommissions i now s) = subscriptions s"
proof -
  have "sellers (debit_commission i x c now s) = sellers s"
    "subscriptions (debit_commission i x c now s) = subscriptions s" for x c s
    by (simp_all add: debit_commission_def debitFromWallet_def Let_def split: option.split)
  then show "sellers (clawBackCommissions i now s) = sellers s"
    "subscriptions (clawBackCommissions i now s) = subscriptions s"
    by (simp_all add: clawBackCommissions_def Let_def split: option.split)
qed

lemma update_subscription_frames [simp]:
  "seller_wallets (update_subscription i f s) = seller_wallets s"
  "sellers (update_subscription i f s) = sellers s"
  "wallet_ledgers (update_subscription i f s) = wallet_ledgers s"
  by (simp_all add: update_subscription_def)

lemma refund_write_row:
  assumes "subscription_at (sub_id sub) s = Some q"
  shows "subscription_at (sub_id sub) (refund_write (sub, act) now s)
       = Some (q\<lparr>sub_status := SubRefunded, sub_refundedAt := Some now\<rparr>)"
  using assms by (simp add: refund_write_def Let_def) (simp add: update_seller_def)

lemma refund_write_tier:
  "tier_of_seller j (refund_write (sub, act) now s) =
     (if act \<and> j = sub_seller sub then map_option (\<lambda>_. (FREE, None, None)) (tier_of_seller j s)
      else tier_of_seller j s)"
  by (simp add: refund_write_def Let_def tier_of_seller_def option.map_comp comp_def)

lemma commissions_cents_refunded:
  "commissions_cents s \<Longrightarrow> commissions_cents (update_subscription i
     (\<lambda>q. q\<lparr>sub_status := SubRefunded, sub_refundedAt := Some now\<rparr>) s)"
  by (auto simp: commissions_cents_def update_subscription_def dest!: set_modify_rows)

lemma refund_write_money:
  assumes "money_ok s" and "commissions_cents s" and "cents (sub_price sub)"
  shows "money_ok (refund_write (sub, act) now s)"
  using assms commissions_cents_refunded [OF assms(2)]
  by (simp add: refund_write_def Let_def money_ok_creditToWallet money_ok_clawBack)

lemma refund_check_found:
  assumes "refund_check sa i s = Inr (sub, act)"
  shows "subscription_at i s = Some sub" and "sub_id sub = i" and "sub \<in> set (subscriptions s)"
  using assms by (auto simp: refund_check_def split: option.splits if_splits dest: find_SomeD)

text \<open>
  C26. An administrator's refund. It leaves the money reconciled, marks the subscription so that a
  second refund is refused, and takes the tier away exactly when the seller's running period ends
  where this subscription ends; in every other case (for instance the earlier of two stacked
  purchases) the seller keeps tier and end date unchanged. Nobody else's tier moves.
\<close>

theorem refund_effect:
  assumes "money_ok s" and "commissions_cents s"
    and "refundTierSubscription sa i now s = (Inr rep, t)"
  shows "money_ok t
    \<and> (\<exists>e. fst (refundTierSubscription sa i now' t) = Inl e)
    \<and> (\<exists>sub. subscription_at i s = Some sub \<and> rr_priceRefunded rep = sub_price sub
        \<and> rr_tierDowngraded rep = (\<exists>a. tier_of_seller (sub_seller sub) s
              = Some (sub_tier sub, a, Some (sub_endsAt sub)))
        \<and> (\<forall>j. tier_of_seller j t = (if rr_tierDowngraded rep \<and> j = sub_seller sub
              then Some (FREE, None, None) else tier_of_seller j s)))"
proof -
  obtain sub act where c: "refund_check sa i s = Inr (sub, act)" and t: "t = refund_write (sub, act) now s"
    and rep: "rr_priceRefunded rep = sub_price sub" "rr_tierDowngraded rep = act"
    using assms(3) by (auto simp: refundTierSubscription_def split: sum.splits)
  note f = refund_check_found [OF c]
  have p: "cents (sub_price sub)" using assms(2) f(3) by (auto simp: commissions_cents_def)
  have again: "\<exists>e. fst (refundTierSubscription sa i now' t) = Inl e"
    using refund_write_row [of sub s sub act now] f by (simp add: t refundTierSubscription_def refund_check_def)
  have act: "act = (\<exists>a. tier_of_seller (sub_seller sub) s = Some (sub_tier sub, a, Some (sub_endsAt sub)))"
    using c f(1) by (auto simp: refund_check_def tier_of_seller_def split: option.splits if_splits)
  then have "act \<Longrightarrow> tier_of_seller (sub_seller sub) s \<noteq> None" by auto
  then have "\<forall>j. tier_of_seller j t = (if act \<and> j = sub_seller sub then Some (FREE, None, None)
      else tier_of_seller j s)"
    unfolding t refund_write_tier by auto
  then show ?thesis
    using refund_write_money [OF assms(1,2) p] again f(1) rep act unfolding t by blast
qed

text \<open>
  C36. The refund checks before its transaction and does not check again inside it. Two requests
  that both pass the check give the price back twice, although a request that starts after the
  first one finished is refused.
\<close>

theorem refund_race_pays_twice:
  assumes "money_ok s" and "refund_check sa i s = Inr (sub, act)"
    and "sub_paidFromWallet sub" and "cents (sub_price sub)" and "0 < sub_price sub"
    and "sub_referrer sub = None" and "sub_grandReferrer sub = None"
  shows "wallet_or_0 (refund_write (sub, act) now' (refund_write (sub, act) now s)) (sub_seller sub)
       = wallet_or_0 s (sub_seller sub) + 2 * sub_price sub
    \<and> \<not> is_ok (refund_check sa i (refund_write (sub, act) now s))"
proof -
  have claw: "clawBackCommissions (sub_id sub) n u = u"
    if "\<exists>q. subscription_at (sub_id sub) u = Some q \<and> sub_referrer q = None \<and> sub_grandReferrer q = None" for n u
    using that by (auto simp: clawBackCommissions_def Let_def debit_commission_def)
  have once: "wallet_or_0 (refund_write (sub, act) n u) (sub_seller sub)
        = wallet_or_0 u (sub_seller sub) + sub_price sub \<and> money_ok (refund_write (sub, act) n u)
      \<and> (\<exists>q. subscription_at (sub_id sub) (refund_write (sub, act) n u) = Some q
            \<and> sub_referrer q = None \<and> sub_grandReferrer q = None)"
    if m: "money_ok u" and row: "\<exists>q. subscription_at (sub_id sub) u = Some q \<and> sub_referrer q = None
        \<and> sub_grandReferrer q = None" for n u
  proof -
    let ?u1 = "update_subscription (sub_id sub) (\<lambda>q. q\<lparr>sub_status := SubRefunded, sub_refundedAt := Some n\<rparr>) u"
    have c1: "clawBackCommissions (sub_id sub) n ?u1 = ?u1" by (rule claw) (use row in auto)
    have m1: "money_ok ?u1" using m by simp
    have eq: "refund_write (sub, act) n u = (let v = creditToWallet (sub_seller sub) (sub_price sub) ADJUST
        ''tier_subscription_refund'' (sub_id sub) n ?u1 in if act then update_seller (sub_seller sub)
          (\<lambda>r. r\<lparr>sl_tier := FREE, sl_tierStartedAt := None, sl_tierExpiresAt := None\<rparr>) v else v)"
      using assms(3,5) by (simp add: refund_write_def c1)
    have us: "wallet_or_0 (update_seller j f v) = wallet_or_0 v" for j f v
      by (rule wallet_or_0_cong) (simp add: update_seller_def)
    show ?thesis
      unfolding eq using row m1 assms(4)
      by (auto simp: Let_def us wallet_or_0_credit money_ok_creditToWallet) (simp_all add: update_seller_def)
  qed
  note f = refund_check_found [OF assms(2)]
  have row: "\<exists>q. subscription_at (sub_id sub) s = Some q \<and> sub_referrer q = None \<and> sub_grandReferrer q = None"
    using f assms(6,7) by simp
  note first = once [OF assms(1) row, of now]
  have "\<not> is_ok (refund_check sa i (refund_write (sub, act) now s))"
    using refund_write_row [of sub s sub act now] f by (simp add: refund_check_def)
  then show ?thesis
    using first once [of "refund_write (sub, act) now s" now'] by simp
qed

definition demo_refund_db :: platform_db where
  "demo_refund_db = demo_chain\<lparr>subscriptions := [demo_subscription\<lparr>sub_referrer := None, sub_grandReferrer := None\<rparr>]\<rparr>"

lemma demo_refund_ok: "money_ok demo_refund_db" "commissions_cents demo_refund_db"
  using demo_chain_ok by (simp_all add: demo_refund_db_def commissions_cents_def demo_subscription_def)

lemma demo_refund_run:
  "refundTierSubscription True ''t1'' 50 demo_refund_db = (Inr \<lparr>rr_walletRefunded = True, rr_priceRefunded = 199000,
     rr_externalRefundRequired = False, rr_tierDowngraded = False\<rparr>,
     snd (refundTierSubscription True ''t1'' 50 demo_refund_db))"
  by (simp add: refundTierSubscription_def refund_check_def demo_refund_db_def demo_chain_defs)

theorem refund_effect_witness:
  "money_ok (snd (refundTierSubscription True ''t1'' 50 demo_refund_db))"
  using refund_effect [OF demo_refund_ok demo_refund_run] by blast

theorem refund_race_pays_twice_witness:
  "wallet_or_0 (refund_write (demo_subscription\<lparr>sub_referrer := None, sub_grandReferrer := None\<rparr>, False) 60
     (refund_write (demo_subscription\<lparr>sub_referrer := None, sub_grandReferrer := None\<rparr>, False) 50 demo_refund_db)) ''p''
   = 398000"
proof -
  have "refund_check True ''t1'' demo_refund_db
      = Inr (demo_subscription\<lparr>sub_referrer := None, sub_grandReferrer := None\<rparr>, False)"
    by (simp add: refund_check_def demo_refund_db_def demo_chain_defs)
  from refund_race_pays_twice [OF demo_refund_ok(1) this, of 60 50]
  show ?thesis by (simp add: demo_subscription_def demo_refund_db_def demo_chain_def empty_platform_def wallet_or_0_def)
qed

end
