(* ===== verification/ShopData.thy ===== *)
theory ShopData
  imports Ledger Receipts
begin

text \<open>
  The shop side of the database (\<open>prisma/schema.prisma\<close>): customers and their wallets, wallet
  ledger and top-ups, promotions, the connections of resellers to an upstream shop and their audit
  ledger, products, stock, orders. A customer wallet is keyed by its customer (\<open>customerId\<close> is
  unique). Fields no modelled operation reads or writes are left out.
\<close>

datatype payment_tx_status = TxPending | TxPaid | TxFailed | TxCanceled
datatype customer_ledger_type =
    CTopup | CTopupBonus | CSpendOrder | CRefundOrder | CAdjust | CAffiliateCommission
datatype currency = VND | USDT
datatype source_ledger_type = STopup | SDebitOrder | SRefundOrder | SAdjust
datatype order_status =
    AwaitingPayment | Paid | ProcessingPurchase | Delivered | Failed | PaidWaitingStock | Refunded
datatype payment_status = PayUnpaid | PayPending | PayPaid | PayFailed | PayRefunded
datatype preorder_cancellation = PcNone | PcRequested | PcApproved | PcRejected | PcSellerCanceled
datatype stock_status = Available | Sold | Extracted

record customer =
  cu_id :: ident
  cu_shop :: ident
  cu_telegramUserId :: string
  cu_telegramChatId :: string
  cu_referredBy :: "ident option"

record customer_wallet =
  cw_balance :: money
  cw_commission :: money
  cw_usdt :: rat

record customer_entry =
  cl_customer :: ident
  cl_type :: customer_ledger_type
  cl_currency :: currency
  cl_amount :: money
  cl_before :: money
  cl_after :: money
  cl_commissionBefore :: "money option"
  cl_commissionAfter :: "money option"
  cl_refType :: string
  cl_refId :: string

record topup =
  tu_id :: ident
  tu_shop :: ident
  tu_customer :: ident
  tu_provider :: provider
  tu_amount :: money
  tu_code :: string
  tu_txHash :: "string option"
  tu_status :: payment_tx_status
  tu_expiresAt :: timestamp
  tu_paidAt :: "timestamp option"
  tu_canceledAt :: "timestamp option"
  tu_bonusPercent :: "rat option"
  tu_bonusAmount :: "money option"

record promotion =
  pm_id :: ident
  pm_shop :: ident
  pm_minAmount :: money
  pm_bonusPercent :: rat
  pm_startAt :: timestamp
  pm_endAt :: timestamp
  pm_createdAt :: timestamp

record connection =
  cn_id :: ident
  cn_upstreamShop :: ident
  cn_chatId :: "string option"
  cn_active :: bool
  cn_lastOrderedAt :: "timestamp option"

record source_entry =
  il_connection :: ident
  il_type :: source_ledger_type
  il_amount :: money
  il_before :: money
  il_after :: money
  il_refType :: string
  il_refId :: string

record product =
  pr_id :: ident
  pr_shop :: ident
  pr_providerManual :: bool
  pr_metaManual :: bool
  pr_metaShared :: bool
  pr_sharedContent :: "string option"
  pr_addMail :: bool
  pr_requiresEmail :: bool
  pr_available :: "int option"
  pr_soldCount :: int
  pr_external :: ident
  pr_connection :: "ident option"
  pr_sourcePrice :: money

record stock_batch =
  sb_id :: ident
  sb_costPerUnit :: "money option"
  sb_expiresAt :: "timestamp option"
  sb_priority :: int
  sb_createdAt :: timestamp
  sb_deletedAt :: "timestamp option"

record stock_entry =
  se_id :: ident
  se_product :: ident
  se_batch :: "ident option"
  se_text :: string
  se_status :: stock_status
  se_uploadedAt :: timestamp
  se_soldAt :: "timestamp option"
  se_soldToOrder :: "ident option"
  se_soldToCustomer :: "ident option"

record order =
  od_id :: ident
  od_shop :: ident
  od_customer :: ident
  od_product :: ident
  od_quantity :: nat
  od_totalSale :: money
  od_totalSource :: money
  od_isPreorder :: bool
  od_cancellation :: preorder_cancellation
  od_status :: order_status
  od_payment :: payment_status
  od_deliveredText :: "string option"
  od_failureReason :: "string option"
  od_affiliateCustomer :: "ident option"
  od_affiliateCommission :: "money option"
  od_paidAt :: "timestamp option"
  od_createdAt :: timestamp
  od_deliveredAt :: "timestamp option"
  od_seller :: ident
  od_preorderFee :: money
  od_internal :: bool
  od_cancelRefund :: money
  od_cancelFeeRefund :: money

record order_event =
  oe_order :: ident
  oe_type :: string

record pay_tx =
  pt_order :: ident
  pt_provider :: provider
  pt_code :: string
  pt_amount :: money
  pt_txHash :: "string option"
  pt_status :: payment_tx_status
  pt_paidAt :: "timestamp option"

record shop_db = payment_store +
  customers :: "customer list"
  customer_wallets :: "ident \<rightharpoonup> customer_wallet"
  customer_ledger :: "customer_entry list"
  topups :: "topup list"
  promotions :: "promotion list"
  connections :: "connection list"
  source_ledger :: "source_entry list"
  products :: "product list"
  stock_batches :: "stock_batch list"
  stock_entries :: "stock_entry list"
  orders :: "order list"
  order_events :: "order_event list"
  payments :: "pay_tx list"

definition empty_shop :: shop_db where
  "empty_shop = \<lparr>receipts = [], reservations = [], customers = [], customer_wallets = Map.empty,
     customer_ledger = [], topups = [], promotions = [], connections = [], source_ledger = [],
     products = [], stock_batches = [], stock_entries = [], orders = [], order_events = [], payments = []\<rparr>"

abbreviation customer_at :: "ident \<Rightarrow> shop_db \<Rightarrow> customer option" where
  "customer_at i s \<equiv> List.find (\<lambda>r. cu_id r = i) (customers s)"

abbreviation topup_at :: "ident \<Rightarrow> shop_db \<Rightarrow> topup option" where
  "topup_at i s \<equiv> List.find (\<lambda>r. tu_id r = i) (topups s)"

abbreviation connection_at :: "ident \<Rightarrow> shop_db \<Rightarrow> connection option" where
  "connection_at i s \<equiv> List.find (\<lambda>r. cn_id r = i) (connections s)"

abbreviation product_at :: "ident \<Rightarrow> shop_db \<Rightarrow> product option" where
  "product_at i s \<equiv> List.find (\<lambda>r. pr_id r = i) (products s)"

abbreviation batch_at :: "ident \<Rightarrow> shop_db \<Rightarrow> stock_batch option" where
  "batch_at i s \<equiv> List.find (\<lambda>r. sb_id r = i) (stock_batches s)"

abbreviation order_at :: "ident \<Rightarrow> shop_db \<Rightarrow> order option" where
  "order_at i s \<equiv> List.find (\<lambda>r. od_id r = i) (orders s)"

definition update_order :: "ident \<Rightarrow> (order \<Rightarrow> order) \<Rightarrow> shop_db \<Rightarrow> shop_db" where
  "update_order i f s = s\<lparr>orders := modify_rows (\<lambda>r. od_id r = i) f (orders s)\<rparr>"

definition update_product :: "ident \<Rightarrow> (product \<Rightarrow> product) \<Rightarrow> shop_db \<Rightarrow> shop_db" where
  "update_product i f s = s\<lparr>products := modify_rows (\<lambda>r. pr_id r = i) f (products s)\<rparr>"

definition update_topup :: "ident \<Rightarrow> (topup \<Rightarrow> topup) \<Rightarrow> shop_db \<Rightarrow> shop_db" where
  "update_topup i f s = s\<lparr>topups := modify_rows (\<lambda>r. tu_id r = i) f (topups s)\<rparr>"

definition add_event :: "ident \<Rightarrow> string \<Rightarrow> shop_db \<Rightarrow> shop_db" where
  "add_event i ty s = s\<lparr>order_events := order_events s @ [\<lparr>oe_order = i, oe_type = ty\<rparr>]\<rparr>"

lemmas shop_update_defs = update_order_def update_product_def update_topup_def add_event_def

lemma shop_update_frames [simp]:
  "customers (update_order i f s) = customers s"
  "customer_wallets (update_order i f s) = customer_wallets s"
  "customer_ledger (update_order i f s) = customer_ledger s"
  "topups (update_order i f s) = topups s"
  "promotions (update_order i f s) = promotions s"
  "connections (update_order i f s) = connections s"
  "source_ledger (update_order i f s) = source_ledger s"
  "products (update_order i f s) = products s"
  "stock_batches (update_order i f s) = stock_batches s"
  "stock_entries (update_order i f s) = stock_entries s"
  "order_events (update_order i f s) = order_events s"
  "receipts (update_order i f s) = receipts s"
  "payments (update_order i f s) = payments s"
  "customers (update_product i g s) = customers s"
  "customer_wallets (update_product i g s) = customer_wallets s"
  "customer_ledger (update_product i g s) = customer_ledger s"
  "topups (update_product i g s) = topups s"
  "promotions (update_product i g s) = promotions s"
  "connections (update_product i g s) = connections s"
  "source_ledger (update_product i g s) = source_ledger s"
  "stock_batches (update_product i g s) = stock_batches s"
  "stock_entries (update_product i g s) = stock_entries s"
  "orders (update_product i g s) = orders s"
  "order_events (update_product i g s) = order_events s"
  "receipts (update_product i g s) = receipts s"
  "payments (update_product i g s) = payments s"
  "customers (update_topup i h s) = customers s"
  "customer_wallets (update_topup i h s) = customer_wallets s"
  "customer_ledger (update_topup i h s) = customer_ledger s"
  "promotions (update_topup i h s) = promotions s"
  "connections (update_topup i h s) = connections s"
  "source_ledger (update_topup i h s) = source_ledger s"
  "products (update_topup i h s) = products s"
  "stock_batches (update_topup i h s) = stock_batches s"
  "stock_entries (update_topup i h s) = stock_entries s"
  "orders (update_topup i h s) = orders s"
  "order_events (update_topup i h s) = order_events s"
  "receipts (update_topup i h s) = receipts s"
  "payments (update_topup i h s) = payments s"
  "customers (add_event i ty s) = customers s"
  "customer_wallets (add_event i ty s) = customer_wallets s"
  "customer_ledger (add_event i ty s) = customer_ledger s"
  "topups (add_event i ty s) = topups s"
  "promotions (add_event i ty s) = promotions s"
  "connections (add_event i ty s) = connections s"
  "source_ledger (add_event i ty s) = source_ledger s"
  "products (add_event i ty s) = products s"
  "stock_batches (add_event i ty s) = stock_batches s"
  "stock_entries (add_event i ty s) = stock_entries s"
  "orders (add_event i ty s) = orders s"
  "receipts (add_event i ty s) = receipts s"
  "payments (add_event i ty s) = payments s"
  by (simp_all add: shop_update_defs)

section \<open>Customer wallets and their ledger\<close>

definition new_wallet :: customer_wallet where
  "new_wallet = \<lparr>cw_balance = 0, cw_commission = 0, cw_usdt = 0\<rparr>"

text \<open>\<open>customerWallet.upsert\<close> with an empty update, and the wallet it returns.\<close>

definition upsert_customer_wallet :: "ident \<Rightarrow> shop_db \<Rightarrow> shop_db" where
  "upsert_customer_wallet i s = (case customer_wallets s i of
     None \<Rightarrow> s\<lparr>customer_wallets := (customer_wallets s)(i \<mapsto> new_wallet)\<rparr> | Some _ \<Rightarrow> s)"

definition wallet_or_new :: "shop_db \<Rightarrow> ident \<Rightarrow> customer_wallet" where
  "wallet_or_new s i = (case customer_wallets s i of None \<Rightarrow> new_wallet | Some w \<Rightarrow> w)"

text \<open>The update of the wallet row and the ledger rows that go with it.\<close>

definition write_wallet :: "ident \<Rightarrow> customer_wallet \<Rightarrow> customer_entry list \<Rightarrow> shop_db \<Rightarrow> shop_db" where
  "write_wallet i w es s = s\<lparr>customer_wallets := (customer_wallets s)(i \<mapsto> w),
     customer_ledger := customer_ledger s @ es\<rparr>"

lemma write_wallet_simps [simp]:
  "customer_wallets (write_wallet i w es s) = (customer_wallets s)(i \<mapsto> w)"
  "customer_ledger (write_wallet i w es s) = customer_ledger s @ es"
  "customers (write_wallet i w es s) = customers s"
  "topups (write_wallet i w es s) = topups s"
  "promotions (write_wallet i w es s) = promotions s"
  "connections (write_wallet i w es s) = connections s"
  "source_ledger (write_wallet i w es s) = source_ledger s"
  "products (write_wallet i w es s) = products s"
  "stock_batches (write_wallet i w es s) = stock_batches s"
  "stock_entries (write_wallet i w es s) = stock_entries s"
  "orders (write_wallet i w es s) = orders s"
  "order_events (write_wallet i w es s) = order_events s"
  "receipts (write_wallet i w es s) = receipts s"
  "payments (write_wallet i w es s) = payments s"
  by (simp_all add: write_wallet_def)

text \<open>What an entry moves: the main balance (only in dong), the commission balance.\<close>

definition main_delta :: "customer_entry \<Rightarrow> money" where
  "main_delta e = (if cl_currency e = VND then cl_after e - cl_before e else 0)"

definition commission_delta :: "customer_entry \<Rightarrow> money" where
  "commission_delta e = (case (cl_commissionBefore e, cl_commissionAfter e) of
     (Some a, Some b) \<Rightarrow> b - a | _ \<Rightarrow> 0)"

definition commit_main :: "ident \<Rightarrow> money \<Rightarrow> customer_entry list \<Rightarrow> shop_db \<Rightarrow> shop_db" where
  "commit_main i b es s = write_wallet i ((wallet_or_new s i)\<lparr>cw_balance := b\<rparr>) es s"

definition commit_commission :: "ident \<Rightarrow> money \<Rightarrow> customer_entry list \<Rightarrow> shop_db \<Rightarrow> shop_db" where
  "commit_commission i b es s = write_wallet i ((wallet_or_new s i)\<lparr>cw_commission := b\<rparr>) es s"

definition main_balance :: "shop_db \<Rightarrow> ident \<Rightarrow> money option" where
  "main_balance s i = map_option cw_balance (customer_wallets s i)"

definition commission_balance :: "shop_db \<Rightarrow> ident \<Rightarrow> money option" where
  "commission_balance s i = map_option cw_commission (customer_wallets s i)"

lemma balances_write [simp]:
  "main_balance (write_wallet i w es s) = (main_balance s)(i \<mapsto> cw_balance w)"
  "commission_balance (write_wallet i w es s) = (commission_balance s)(i \<mapsto> cw_commission w)"
  by (simp_all add: main_balance_def commission_balance_def fun_eq_iff)

interpretation main: ledger_store main_balance customer_ledger cl_customer main_delta commit_main
  by unfold_locales (simp_all add: commit_main_def)

interpretation com: ledger_store commission_balance customer_ledger cl_customer commission_delta commit_commission
  by unfold_locales (simp_all add: commit_commission_def)

text \<open>The money invariant of the shop side: both balances of every customer follow from the ledger.\<close>

definition shop_money_ok :: "shop_db \<Rightarrow> bool" where
  "shop_money_ok s \<longleftrightarrow> main.reconciled s \<and> com.reconciled s"

lemma shop_money_frame:
  assumes "shop_money_ok s" and "customer_wallets t = customer_wallets s" and "customer_ledger t = customer_ledger s"
  shows "shop_money_ok t"
  using assms main.reconciled_frame [of s t] com.reconciled_frame [of s t]
  by (simp add: shop_money_ok_def main_balance_def commission_balance_def fun_eq_iff)

lemma shop_money_cong:
  "customer_wallets t = customer_wallets s \<Longrightarrow> customer_ledger t = customer_ledger s
   \<Longrightarrow> shop_money_ok t = shop_money_ok s"
  by (rule iffI; erule shop_money_frame; simp)

lemma shop_money_updates [simp]:
  "shop_money_ok (update_order i f s) = shop_money_ok s"
  "shop_money_ok (update_product i g s) = shop_money_ok s"
  "shop_money_ok (update_topup i h s) = shop_money_ok s"
  "shop_money_ok (add_event i ty s) = shop_money_ok s"
  "shop_money_ok (s\<lparr>source_ledger := l\<rparr>) = shop_money_ok s"
  "shop_money_ok (s\<lparr>connections := c\<rparr>) = shop_money_ok s"
  "shop_money_ok (s\<lparr>topups := ts\<rparr>) = shop_money_ok s"
  "shop_money_ok (s\<lparr>customers := cs\<rparr>) = shop_money_ok s"
  "shop_money_ok (s\<lparr>stock_entries := es\<rparr>) = shop_money_ok s"
  "shop_money_ok (s\<lparr>stock_batches := bs\<rparr>) = shop_money_ok s"
  "shop_money_ok (s\<lparr>orders := os\<rparr>) = shop_money_ok s"
  "shop_money_ok (s\<lparr>payments := qs\<rparr>) = shop_money_ok s"
  by (rule shop_money_cong; simp add: shop_update_defs)+

lemma shop_money_write:
  assumes "shop_money_ok s" and "\<And>e. e \<in> set es \<Longrightarrow> cl_customer e = i"
    and "cw_balance w = cw_balance (wallet_or_new s i) + sum_list (map main_delta es)"
    and "cw_commission w = cw_commission (wallet_or_new s i) + sum_list (map commission_delta es)"
  shows "shop_money_ok (write_wallet i w es s)"
proof -
  have "main.reconciled (write_wallet i w es s)"
  proof (rule main.reconciled_step [of s _ i "cw_balance w" es])
    show "cw_balance w = (case main_balance s i of None \<Rightarrow> 0 | Some b0 \<Rightarrow> b0) + sum_list (map main_delta es)"
      using assms(3) by (simp add: main_balance_def wallet_or_new_def new_wallet_def split: option.splits)
  qed (use assms(1,2) in \<open>simp_all add: shop_money_ok_def\<close>)
  moreover have "com.reconciled (write_wallet i w es s)"
  proof (rule com.reconciled_step [of s _ i "cw_commission w" es])
    show "cw_commission w = (case commission_balance s i of None \<Rightarrow> 0 | Some b0 \<Rightarrow> b0)
        + sum_list (map commission_delta es)"
      using assms(4) by (simp add: commission_balance_def wallet_or_new_def new_wallet_def split: option.splits)
  qed (use assms(1,2) in \<open>simp_all add: shop_money_ok_def\<close>)
  ultimately show ?thesis by (simp add: shop_money_ok_def)
qed

lemma upsert_as_write:
  "customer_wallets s i = None \<Longrightarrow> upsert_customer_wallet i s = write_wallet i new_wallet [] s"
  by (simp add: upsert_customer_wallet_def write_wallet_def)

lemma shop_money_upsert: "shop_money_ok s \<Longrightarrow> shop_money_ok (upsert_customer_wallet i s)"
proof (cases "customer_wallets s i")
  case None
  then show "shop_money_ok s \<Longrightarrow> ?thesis"
    by (simp only: upsert_as_write) (rule shop_money_write; simp add: wallet_or_new_def)
qed (simp add: upsert_customer_wallet_def)

lemma upsert_customer_simps [simp]:
  "customer_wallets (upsert_customer_wallet i s) i = Some (wallet_or_new s i)"
  "wallet_or_new (upsert_customer_wallet i s) = wallet_or_new s"
  "customer_ledger (upsert_customer_wallet i s) = customer_ledger s"
  "topups (upsert_customer_wallet i s) = topups s"
  "orders (upsert_customer_wallet i s) = orders s"
  "payments (upsert_customer_wallet i s) = payments s"
  "products (upsert_customer_wallet i s) = products s"
  "customers (upsert_customer_wallet i s) = customers s"
  "connections (upsert_customer_wallet i s) = connections s"
  "source_ledger (upsert_customer_wallet i s) = source_ledger s"
  "order_events (upsert_customer_wallet i s) = order_events s"
  by (auto simp: upsert_customer_wallet_def wallet_or_new_def fun_eq_iff split: option.split)

lemma wallet_or_new_write [simp]: "wallet_or_new (write_wallet i w es s) j = (if j = i then w else wallet_or_new s j)"
  by (simp add: wallet_or_new_def)

lemma shop_money_empty: "shop_money_ok empty_shop"
  by (simp add: shop_money_ok_def main.reconciled_def com.reconciled_def main.ledger_sum_def com.ledger_sum_def
      main_balance_def commission_balance_def empty_shop_def)

text \<open>
  The invariant of the shop side: reconciled, and every wallet holds whole cents and is not
  negative, in the main and in the commission balance.
\<close>

definition wallet_fine :: "customer_wallet \<Rightarrow> bool" where
  "wallet_fine w \<longleftrightarrow> cents (cw_balance w) \<and> 0 \<le> cw_balance w
     \<and> cents (cw_commission w) \<and> 0 \<le> cw_commission w"

definition shop_inv :: "shop_db \<Rightarrow> bool" where
  "shop_inv s \<longleftrightarrow> shop_money_ok s \<and> (\<forall>i w. customer_wallets s i = Some w \<longrightarrow> wallet_fine w)"

lemma shop_inv_money: "shop_inv s \<Longrightarrow> shop_money_ok s"
  by (simp add: shop_inv_def)

lemma shop_inv_wallet: "shop_inv s \<Longrightarrow> customer_wallets s i = Some w \<Longrightarrow> wallet_fine w"
  by (simp add: shop_inv_def)

lemma wallet_fine_new: "shop_inv s \<Longrightarrow> wallet_fine (wallet_or_new s i)"
  by (auto simp: wallet_or_new_def shop_inv_def split: option.split)
     (simp add: wallet_fine_def new_wallet_def)

lemma wallet_fineD:
  "wallet_fine w \<Longrightarrow> cents (cw_balance w)" "wallet_fine w \<Longrightarrow> 0 \<le> cw_balance w"
  "wallet_fine w \<Longrightarrow> cents (cw_commission w)" "wallet_fine w \<Longrightarrow> 0 \<le> cw_commission w"
  by (simp_all add: wallet_fine_def)

lemma shop_inv_cong:
  "customer_wallets t = customer_wallets s \<Longrightarrow> customer_ledger t = customer_ledger s
   \<Longrightarrow> shop_inv t = shop_inv s"
  using shop_money_cong [of t s] by (simp add: shop_inv_def)

lemma shop_inv_updates [simp]:
  "shop_inv (update_order i f s) = shop_inv s"
  "shop_inv (update_product i g s) = shop_inv s"
  "shop_inv (update_topup i h s) = shop_inv s"
  "shop_inv (add_event i ty s) = shop_inv s"
  "shop_inv (s\<lparr>source_ledger := l\<rparr>) = shop_inv s"
  "shop_inv (s\<lparr>connections := c\<rparr>) = shop_inv s"
  "shop_inv (s\<lparr>topups := ts\<rparr>) = shop_inv s"
  "shop_inv (s\<lparr>customers := cs\<rparr>) = shop_inv s"
  "shop_inv (s\<lparr>promotions := ps\<rparr>) = shop_inv s"
  "shop_inv (s\<lparr>stock_entries := es\<rparr>) = shop_inv s"
  "shop_inv (s\<lparr>stock_batches := bs\<rparr>) = shop_inv s"
  "shop_inv (s\<lparr>orders := os\<rparr>) = shop_inv s"
  "shop_inv (s\<lparr>payments := qs\<rparr>) = shop_inv s"
  by (rule shop_inv_cong; simp add: shop_update_defs)+

lemma shop_inv_write:
  assumes "shop_inv s" and "wallet_fine w" and "\<And>e. e \<in> set es \<Longrightarrow> cl_customer e = i"
    and "cw_balance w = cw_balance (wallet_or_new s i) + sum_list (map main_delta es)"
    and "cw_commission w = cw_commission (wallet_or_new s i) + sum_list (map commission_delta es)"
  shows "shop_inv (write_wallet i w es s)"
  using assms shop_money_write [of s es i w] by (simp add: shop_inv_def)

lemma shop_inv_upsert: "shop_inv s \<Longrightarrow> shop_inv (upsert_customer_wallet i s)"
  using shop_money_upsert [of s i] wallet_fine_new [of s i]
  by (auto simp: shop_inv_def upsert_customer_wallet_def wallet_or_new_def split: option.splits)

lemma shop_inv_empty: "shop_inv empty_shop"
  using shop_money_empty by (simp add: shop_inv_def empty_shop_def)

end
