(* ===== verification/CustomerWallet.thy ===== *)
theory CustomerWallet
  imports ShopData
begin

text \<open>
  Customer wallets of a shop's bot: promotions (\<open>wallet/wallet-promotion.service.ts\<close>), top-ups
  (\<open>customer-wallet/customer-wallet.service.ts\<close>) and the seller's manual corrections
  (\<open>adjustCustomerWallet\<close> of \<open>wallet/wallet.service.ts\<close>), all under \<open>apps/api/src\<close>. The
  payment link service, fresh row ids and payment codes are arguments; pictures, messages and
  listings are left out.
\<close>

section \<open>Promotions\<close>

definition promo_applies :: "ident \<Rightarrow> rat \<Rightarrow> timestamp \<Rightarrow> promotion \<Rightarrow> bool" where
  "promo_applies shop amount now p \<longleftrightarrow> pm_shop p = shop \<and> pm_minAmount p \<le> toDecimal amount
     \<and> pm_startAt p \<le> now \<and> now \<le> pm_endAt p"

text \<open>The order of the query: highest threshold, then highest percentage, then newest.\<close>

definition promo_before :: "promotion \<Rightarrow> promotion \<Rightarrow> bool" where
  "promo_before p q \<longleftrightarrow> pm_minAmount p > pm_minAmount q \<or> pm_minAmount p = pm_minAmount q
     \<and> (pm_bonusPercent p > pm_bonusPercent q \<or> pm_bonusPercent p = pm_bonusPercent q
        \<and> pm_createdAt p > pm_createdAt q)"

definition promo_pick :: "promotion option \<Rightarrow> promotion \<Rightarrow> promotion option" where
  "promo_pick best p = (case best of None \<Rightarrow> Some p
     | Some b \<Rightarrow> if promo_before p b then Some p else Some b)"

definition getActivePromotion :: "ident \<Rightarrow> rat \<Rightarrow> timestamp \<Rightarrow> shop_db \<Rightarrow> promotion option" where
  "getActivePromotion shop amount now s =
     foldl promo_pick None (filter (promo_applies shop amount now) (promotions s))"

text \<open>\<open>bonusPercent\<close> is a number here: the request is validated with \<open>@IsNumber\<close> before.\<close>

definition createPromotion ::
  "ident \<Rightarrow> ident \<Rightarrow> jsnum \<Rightarrow> rat \<Rightarrow> timestamp \<Rightarrow> timestamp \<Rightarrow> timestamp \<Rightarrow> shop_db
   \<Rightarrow> (promotion \<times> shop_db) result" where
  "createPromotion newId shop minAmount bonusPercent startAt endAt now s =
     (if bonusPercent \<le> 0 \<or> 100 < bonusPercent
      then Inl (BadRequest ''bonusPercent out of range.'')
      else if \<not> is_finite minAmount \<or> js_less minAmount (Fin 0)
      then Inl (BadRequest ''minAmount must not be negative.'')
      else if endAt \<le> startAt then Inl (BadRequest ''endAt must be after startAt.'')
      else
        (let p = \<lparr>pm_id = newId, pm_shop = shop, pm_minAmount = toDecimal (num_val minAmount),
                  pm_bonusPercent = toDecimal bonusPercent, pm_startAt = startAt,
                  pm_endAt = endAt, pm_createdAt = now\<rparr>
         in Inr (p, s\<lparr>promotions := promotions s @ [p]\<rparr>)))"

definition deletePromotion :: "ident \<Rightarrow> ident \<Rightarrow> shop_db \<Rightarrow> unit result \<times> shop_db" where
  "deletePromotion shop promotionId s =
     (if List.find (\<lambda>p. pm_id p = promotionId \<and> pm_shop p = shop) (promotions s) = None
      then (Inl (NotFound ''Promotion not found.''), s)
      else (Inr (), s\<lparr>promotions := filter (\<lambda>p. pm_id p \<noteq> promotionId) (promotions s)\<rparr>))"

section \<open>Top-ups\<close>

definition is_crypto_topup :: "provider option \<Rightarrow> bool" where
  "is_crypto_topup p \<longleftrightarrow> p \<in> {Some USDT_TRC20, Some USDT_BEP20, Some USDT_SOL, Some USDT_TON,
     Some BINANCE, Some BINANCE_PAY, Some OKX}"

definition topup_expiry_ms :: "provider option \<Rightarrow> int" where
  "topup_expiry_ms p = (if is_crypto_topup p then 30 * 60 * 1000 else 5 * 60 * 1000)"

record telegram_profile =
  tp_userId :: string
  tp_chatId :: string

definition upsertTelegramCustomer :: "ident \<Rightarrow> ident \<Rightarrow> telegram_profile \<Rightarrow> shop_db \<Rightarrow> ident \<times> shop_db" where
  "upsertTelegramCustomer newId shop prof s =
     (case List.find (\<lambda>c. cu_shop c = shop \<and> cu_telegramUserId c = tp_userId prof) (customers s) of
        Some c \<Rightarrow> (cu_id c, s\<lparr>customers := modify_rows
            (\<lambda>r. cu_shop r = shop \<and> cu_telegramUserId r = tp_userId prof)
            (\<lambda>r. r\<lparr>cu_telegramChatId := tp_chatId prof\<rparr>) (customers s)\<rparr>)
      | None \<Rightarrow> (newId, s\<lparr>customers := customers s @
            [\<lparr>cu_id = newId, cu_shop = shop, cu_telegramUserId = tp_userId prof,
              cu_telegramChatId = tp_chatId prof, cu_referredBy = None\<rparr>]\<rparr>))"

record topup_ids =
  ti_customer :: ident
  ti_topup :: ident
  ti_code :: string
  ti_provider :: "provider option \<Rightarrow> provider"

definition topup_bonus :: "rat \<Rightarrow> promotion option \<Rightarrow> rat option \<times> int option" where
  "topup_bonus amount promo = (case promo of None \<Rightarrow> (None, None)
     | Some p \<Rightarrow> (Some (pm_bonusPercent p), Some \<lfloor>amount * pm_bonusPercent p / 100\<rfloor>))"

definition createTopupForTelegram ::
  "system_config \<Rightarrow> topup_ids \<Rightarrow> ident \<Rightarrow> jsnum \<Rightarrow> telegram_profile \<Rightarrow> provider option \<Rightarrow> timestamp
   \<Rightarrow> shop_db \<Rightarrow> topup result \<times> shop_db" where
  "createTopupForTelegram cfg ids shop amount prof override now s0 =
     (case assertEnabled cfg WalletTopups None of Inl e \<Rightarrow> (Inl e, s0) | Inr _ \<Rightarrow>
      (if \<not> is_integer amount \<or> js_less amount (Fin 1000)
       then (Inl (BadRequest ''Top-up must be a whole amount from 1.000d.''), s0)
       else
         (let (cid, s1) = upsertTelegramCustomer (ti_customer ids) shop prof s0;
              s2 = upsert_customer_wallet cid s1;
              activePromo = getActivePromotion shop (num_val amount) now s2;
              (bonusPercent, bonusAmount) = topup_bonus (num_val amount) activePromo;
              t = \<lparr>tu_id = ti_topup ids, tu_shop = shop, tu_customer = cid,
                   tu_provider = ti_provider ids override, tu_amount = toDecimal (num_val amount),
                   tu_code = ti_code ids, tu_txHash = None, tu_status = TxPending,
                   tu_expiresAt = now + topup_expiry_ms override, tu_paidAt = None, tu_canceledAt = None,
                   tu_bonusPercent = map_option toDecimal bonusPercent,
                   tu_bonusAmount = map_option (\<lambda>b. toDecimal (of_int b)) bonusAmount\<rparr>
          in (Inr t, s2\<lparr>topups := topups s2 @ [t]\<rparr>))))"

record paid_options =
  po_cryptoTxHash :: "string option"
  po_confirmedExternal :: bool

definition can_settle :: "paid_options \<Rightarrow> topup \<Rightarrow> bool" where
  "can_settle opts t \<longleftrightarrow> tu_status t = TxPending \<or> tu_status t = TxCanceled \<and> po_confirmedExternal opts"

text \<open>The dong per USDT of a shop: its override if it is a positive number, else the configured rate.\<close>

definition resolveUsdtVndRate :: "jsnum \<Rightarrow> rat \<Rightarrow> rat" where
  "resolveUsdtVndRate override fallback =
     (if is_finite override \<and> js_less (Fin 0) override then num_val override else fallback)"

text \<open>
  The part of \<open>markTopupPaid\<close> before its transaction: \<open>Some\<close> the row it goes on with, \<open>None\<close> when
  there is nothing to do.
\<close>

definition markTopupPaid_read :: "string \<Rightarrow> paid_options \<Rightarrow> shop_db \<Rightarrow> topup option result" where
  "markTopupPaid_read externalOrderCode opts s =
     (case List.find (\<lambda>t. tu_code t = externalOrderCode) (topups s) of
        None \<Rightarrow> Inl (NotFound ''Customer wallet topup not found.'')
      | Some t \<Rightarrow>
        if tu_status t = TxPaid then Inr None
        else
          (case assertCryptoReceiptClaimed externalOrderCode (tu_provider t) (po_cryptoTxHash opts) s of
             Inl e \<Rightarrow> Inl e
           | Inr _ \<Rightarrow> if can_settle opts t then Inr (Some t) else Inr None))"

definition topup_entry ::
  "topup \<Rightarrow> customer_ledger_type \<Rightarrow> currency \<Rightarrow> rat \<Rightarrow> rat \<Rightarrow> rat \<Rightarrow> customer_entry" where
  "topup_entry t ty cur amount before after =
     \<lparr>cl_customer = tu_customer t, cl_type = ty, cl_currency = cur, cl_amount = toDecimal amount,
      cl_before = toDecimal before, cl_after = toDecimal after, cl_commissionBefore = None,
      cl_commissionAfter = None, cl_refType = ''customer_wallet_topup'', cl_refId = tu_id t\<rparr>"

definition paid_hash :: "paid_options \<Rightarrow> string option" where
  "paid_hash opts = (case po_cryptoTxHash opts of None \<Rightarrow> None | Some h \<Rightarrow> if h = [] then None else Some h)"

definition paid_row :: "paid_options \<Rightarrow> timestamp \<Rightarrow> topup \<Rightarrow> topup" where
  "paid_row opts now r = r\<lparr>tu_status := TxPaid, tu_paidAt := Some now, tu_canceledAt := None,
     tu_txHash := (case paid_hash opts of None \<Rightarrow> tu_txHash r | Some h \<Rightarrow> Some h)\<rparr>"

definition bonus_of :: "topup \<Rightarrow> money" where
  "bonus_of t = (case tu_bonusAmount t of None \<Rightarrow> 0 | Some b \<Rightarrow> b)"

definition usdt_synced :: "rat \<Rightarrow> money \<Rightarrow> rat" where
  "usdt_synced rate balanceAfter = max 0 (to_fixed 4 (balanceAfter / max 1 rate))"

definition paid_entries :: "topup \<Rightarrow> customer_wallet \<Rightarrow> rat \<Rightarrow> customer_entry list" where
  "paid_entries t w usdtAfter =
     (let balanceBefore = cw_balance w; mainBalanceAfter = balanceBefore + tu_amount t;
          bonusAmount = bonus_of t; balanceAfter = balanceBefore + tu_amount t + bonusAmount
      in [topup_entry t CTopup VND (tu_amount t) balanceBefore mainBalanceAfter]
         @ (if bonusAmount > 0
            then [topup_entry t CTopupBonus VND bonusAmount mainBalanceAfter balanceAfter] else [])
         @ [topup_entry t CTopup USDT (to_fixed 4 (usdtAfter - cw_usdt w)) (cw_usdt w) usdtAfter])"

text \<open>
  The transaction, under the locks of the top-up and of the wallet. It answers with the main balance
  the caller reads afterwards; a transaction hash another top-up carries hits the unique index.
\<close>

definition markTopupPaid_tx ::
  "ident \<Rightarrow> paid_options \<Rightarrow> rat \<Rightarrow> timestamp \<Rightarrow> shop_db \<Rightarrow> (money \<times> shop_db) result" where
  "markTopupPaid_tx tid opts rate now s =
     (case topup_at tid s of
        None \<Rightarrow> Inl (NotFound ''Customer wallet topup not found.'')
      | Some t \<Rightarrow>
        if \<not> can_settle opts t then Inr (cw_balance (wallet_or_new s (tu_customer t)), s)
        else
          (case customer_wallets s (tu_customer t) of
             None \<Rightarrow> Inl (NotFound ''Customer wallet not found.'')
           | Some w \<Rightarrow>
             if paid_hash opts \<noteq> None \<and> list_ex (\<lambda>r. tu_id r \<noteq> tid \<and> tu_txHash r = paid_hash opts) (topups s)
             then Inl (Conflict ''Unique constraint failed.'')
             else
               (let balanceAfter = cw_balance w + tu_amount t + bonus_of t;
                    usdtAfter = usdt_synced rate balanceAfter
                in Inr (toDecimal balanceAfter, update_topup tid (paid_row opts now)
                     (write_wallet (tu_customer t)
                        (w\<lparr>cw_balance := toDecimal balanceAfter, cw_usdt := toDecimal usdtAfter\<rparr>)
                        (paid_entries t w usdtAfter) s)))))"

text \<open>
  After the transaction: the audit row of a linked reseller, from the row read before the
  transaction and the balance it returned.
\<close>

definition markTopupPaid_audit :: "topup \<Rightarrow> money \<Rightarrow> shop_db \<Rightarrow> shop_db" where
  "markTopupPaid_audit t walletAfter s =
     (case customer_at (tu_customer t) s of None \<Rightarrow> s | Some c \<Rightarrow>
      if cu_telegramChatId c = [] then s
      else
        (case List.find (\<lambda>n. cn_upstreamShop n = tu_shop t \<and> cn_chatId n = Some (cu_telegramChatId c) \<and> cn_active n)
                (connections s) of
           None \<Rightarrow> s
         | Some n \<Rightarrow> s\<lparr>source_ledger := source_ledger s @
             [\<lparr>il_connection = cn_id n, il_type = STopup, il_amount = tu_amount t,
               il_before = toDecimal (walletAfter - tu_amount t), il_after = toDecimal walletAfter,
               il_refType = ''customer_wallet_topup'', il_refId = tu_id t\<rparr>]\<rparr>))"

definition markTopupPaid ::
  "string \<Rightarrow> paid_options \<Rightarrow> rat \<Rightarrow> timestamp \<Rightarrow> shop_db \<Rightarrow> unit result \<times> shop_db" where
  "markTopupPaid externalOrderCode opts rate now s =
     (case markTopupPaid_read externalOrderCode opts s of
        Inl e \<Rightarrow> (Inl e, s)
      | Inr None \<Rightarrow> (Inr (), s)
      | Inr (Some t) \<Rightarrow>
        (case transaction (markTopupPaid_tx (tu_id t) opts rate now) s of
           (Inl e, s') \<Rightarrow> (Inl e, s')
         | (Inr walletAfter, s') \<Rightarrow> (Inr (), markTopupPaid_audit t walletAfter s')))"

definition expired_topups :: "timestamp \<Rightarrow> nat \<Rightarrow> shop_db \<Rightarrow> topup list" where
  "expired_topups now limit s = take limit (sort_key tu_expiresAt
     (filter (\<lambda>t. tu_status t = TxPending \<and> tu_expiresAt t \<le> now) (topups s)))"

definition expire_one_topup :: "timestamp \<Rightarrow> topup \<Rightarrow> topup list \<times> shop_db \<Rightarrow> topup list \<times> shop_db" where
  "expire_one_topup now t st =
     (let (results, s) = st; p = (\<lambda>r. tu_id r = tu_id t \<and> tu_status r = TxPending);
          updated = count_rows p (topups s)
      in (if updated > 0 then results @ [t] else results,
          s\<lparr>topups := modify_rows p (\<lambda>r. r\<lparr>tu_status := TxCanceled, tu_canceledAt := Some now\<rparr>) (topups s)\<rparr>))"

definition expirePendingTopups :: "timestamp \<Rightarrow> nat \<Rightarrow> shop_db \<Rightarrow> topup list \<times> shop_db" where
  "expirePendingTopups now limit s = fold (expire_one_topup now) (expired_topups now limit s) ([], s)"

section \<open>Manual corrections by the seller\<close>

datatype customer_adjust = AdjTopup | AdjDeduct | AdjSet

definition adjust_entry :: "ident \<Rightarrow> currency \<Rightarrow> rat \<Rightarrow> rat \<Rightarrow> rat \<Rightarrow> customer_entry" where
  "adjust_entry cid cur amount before after =
     \<lparr>cl_customer = cid, cl_type = CAdjust, cl_currency = cur, cl_amount = toDecimal amount,
      cl_before = toDecimal before, cl_after = toDecimal after, cl_commissionBefore = None,
      cl_commissionAfter = None, cl_refType = ''manual_adjust'', cl_refId = cid\<rparr>"

text \<open>The change asked for and the balance after it.\<close>

definition adjust_amounts :: "customer_adjust \<Rightarrow> rat \<Rightarrow> rat \<Rightarrow> rat \<times> rat" where
  "adjust_amounts action amount before = (case action of
     AdjTopup \<Rightarrow> (amount, before + amount) | AdjDeduct \<Rightarrow> (- amount, before + - amount)
   | AdjSet \<Rightarrow> (amount - before, amount))"

definition adjust_customer_tx ::
  "ident \<Rightarrow> customer_adjust \<Rightarrow> rat \<Rightarrow> bool \<Rightarrow> rat \<Rightarrow> shop_db \<Rightarrow> (money \<times> shop_db) result" where
  "adjust_customer_tx cid action amount isUsdt rate s0 =
     (let s = upsert_customer_wallet cid s0; w = wallet_or_new s cid;
          vndBefore = cw_balance w; usdtBefore = cw_usdt w;
          balanceBefore = (if isUsdt then usdtBefore else vndBefore);
          (d, balanceAfter) = adjust_amounts action amount balanceBefore
      in if action = AdjDeduct \<and> balanceAfter < 0 then Inl (BadRequest ''Balance is too low to deduct.'')
         else
           (let usdtAfter = (if isUsdt then max 0 balanceAfter
                             else max 0 (to_fixed 4 (max 0 balanceAfter / max 1 rate)));
                vndAfter = (if isUsdt then max 0 (of_int (js_round (usdtAfter * rate))) else max 0 balanceAfter);
                syncBefore = (if isUsdt then vndBefore else usdtBefore);
                syncAfter = (if isUsdt then vndAfter else usdtAfter);
                syncDelta = (if isUsdt then syncAfter - syncBefore else to_fixed 4 (syncAfter - syncBefore));
                es = [adjust_entry cid (if isUsdt then USDT else VND) d balanceBefore balanceAfter]
                   @ (if syncDelta \<noteq> 0
                      then [adjust_entry cid (if isUsdt then VND else USDT) syncDelta syncBefore syncAfter] else [])
            in Inr (toDecimal vndAfter, write_wallet cid
                 (w\<lparr>cw_balance := toDecimal vndAfter, cw_usdt := toDecimal usdtAfter\<rparr>) es s)))"

definition adjustCustomerWallet ::
  "ident \<Rightarrow> ident \<Rightarrow> customer_adjust \<Rightarrow> rat \<Rightarrow> bool \<Rightarrow> rat \<Rightarrow> shop_db \<Rightarrow> money result \<times> shop_db" where
  "adjustCustomerWallet shop cid action amount isUsdt rate s =
     (if List.find (\<lambda>c. cu_id c = cid \<and> cu_shop c = shop) (customers s) = None
      then (Inl (NotFound ''Customer not found.''), s)
      else transaction (adjust_customer_tx cid action amount isUsdt rate) s)"

section \<open>The wallet invariant\<close>

definition topup_fine :: "topup \<Rightarrow> bool" where
  "topup_fine t \<longleftrightarrow> cents (tu_amount t) \<and> 0 < tu_amount t
     \<and> (case tu_bonusAmount t of None \<Rightarrow> True | Some b \<Rightarrow> cents b \<and> 0 \<le> b)"

definition customer_inv :: "shop_db \<Rightarrow> bool" where
  "customer_inv s \<longleftrightarrow> shop_inv s \<and> list_all topup_fine (topups s)
     \<and> list_all (\<lambda>p. 0 \<le> pm_bonusPercent p) (promotions s)"

lemma customer_invD:
  "customer_inv s \<Longrightarrow> shop_inv s"
  "customer_inv s \<Longrightarrow> topup_at i s = Some t \<Longrightarrow> topup_fine t"
  by (auto simp: customer_inv_def list_all_iff dest: find_SomeD)

lemma customer_inv_cong:
  "shop_inv t = shop_inv s \<Longrightarrow> topups t = topups s \<Longrightarrow> promotions t = promotions s
   \<Longrightarrow> customer_inv t = customer_inv s"
  by (simp add: customer_inv_def)

lemma main_delta_entry [simp]:
  "main_delta (topup_entry t ty cur a b c) = (if cur = VND then toDecimal c - toDecimal b else 0)"
  "main_delta (adjust_entry i cur a b c) = (if cur = VND then toDecimal c - toDecimal b else 0)"
  "commission_delta (topup_entry t ty cur a b c) = 0" "commission_delta (adjust_entry i cur a b c) = 0"
  "cl_customer (topup_entry t ty cur a b c) = tu_customer t" "cl_customer (adjust_entry i cur a b c) = i"
  by (simp_all add: main_delta_def commission_delta_def topup_entry_def adjust_entry_def)

lemma wallet_at_new: "customer_wallets s i = Some w \<Longrightarrow> wallet_or_new s i = w"
  by (simp add: wallet_or_new_def)

lemma topup_fine_row: "topup_fine t \<Longrightarrow> topup_fine (paid_row opts now t)"
  by (simp add: topup_fine_def paid_row_def)

lemma topup_fineD:
  "topup_fine t \<Longrightarrow> cents (tu_amount t)" "topup_fine t \<Longrightarrow> 0 < tu_amount t"
  "topup_fine t \<Longrightarrow> cents (bonus_of t)" "topup_fine t \<Longrightarrow> 0 \<le> bonus_of t"
  by (auto simp: topup_fine_def bonus_of_def split: option.split)

lemma mark_paid_tx_cases:
  assumes "markTopupPaid_tx tid opts rate now s = Inr (b, u)"
  obtains t where "topup_at tid s = Some t" and "\<not> can_settle opts t" and "u = s"
    and "b = cw_balance (wallet_or_new s (tu_customer t))"
  | t w usdt where "topup_at tid s = Some t" and "can_settle opts t"
    and "customer_wallets s (tu_customer t) = Some w"
    and "b = toDecimal (cw_balance w + tu_amount t + bonus_of t)"
    and "u = update_topup tid (paid_row opts now) (write_wallet (tu_customer t)
           (w\<lparr>cw_balance := b, cw_usdt := toDecimal usdt\<rparr>) (paid_entries t w usdt) s)"
proof -
  obtain t where t: "topup_at tid s = Some t"
    using assms by (cases "topup_at tid s") (simp_all add: markTopupPaid_tx_def)
  show thesis
  proof (cases "can_settle opts t")
    case False
    with assms t show thesis by (intro that(1) [OF t False]) (auto simp: markTopupPaid_tx_def)
  next
    case True
    with assms t obtain w where w: "customer_wallets s (tu_customer t) = Some w"
      by (cases "customer_wallets s (tu_customer t)") (simp_all add: markTopupPaid_tx_def)
    from assms show thesis
      by (intro that(2) [OF t True w, where usdt = "usdt_synced rate (cw_balance w + tu_amount t + bonus_of t)"])
         (auto simp: markTopupPaid_tx_def t True w Let_def split: if_splits)
  qed
qed

lemma cents_after_topup:
  assumes "topup_fine t" and "wallet_fine w"
  shows "cents (cw_balance w + tu_amount t)" and "cents (cw_balance w + tu_amount t + bonus_of t)"
proof -
  show "cents (cw_balance w + tu_amount t)" by (intro on_grid_add topup_fineD wallet_fineD assms)
  then show "cents (cw_balance w + tu_amount t + bonus_of t)" by (rule on_grid_add) (intro topup_fineD assms)
qed

lemma paid_entries_owner: "e \<in> set (paid_entries t w usdt) \<Longrightarrow> cl_customer e = tu_customer t"
  by (auto simp: paid_entries_def Let_def split: if_splits)

lemma paid_entries_sums:
  assumes "topup_fine t" and "wallet_fine w"
  shows "sum_list (map main_delta (paid_entries t w usdt)) = tu_amount t + bonus_of t"
    and "sum_list (map commission_delta (paid_entries t w usdt)) = 0"
proof -
  have c: "cents (cw_balance w)" "cents (cw_balance w + tu_amount t)"
    "cents (cw_balance w + tu_amount t + bonus_of t)"
    using assms by (simp_all add: cents_after_topup wallet_fineD)
  have "0 \<le> bonus_of t" using assms(1) by (rule topup_fineD)
  then show "sum_list (map main_delta (paid_entries t w usdt)) = tu_amount t + bonus_of t"
    by (auto simp: paid_entries_def Let_def toDecimal_cents c)
  show "sum_list (map commission_delta (paid_entries t w usdt)) = 0"
    by (simp add: paid_entries_def Let_def)
qed

lemma customer_inv_mark_tx:
  assumes inv: "customer_inv s" and tx: "markTopupPaid_tx tid opts rate now s = Inr (b, u)"
  shows "customer_inv u"
  using tx
proof (cases rule: mark_paid_tx_cases)
  case (2 t w usdt)
  have fine: "topup_fine t" "wallet_fine w"
    using inv 2(1,3) by (auto dest: customer_invD shop_inv_wallet)
  have b: "b = cw_balance w + tu_amount t + bonus_of t"
    unfolding 2(4) by (rule toDecimal_cents) (simp add: cents_after_topup fine)
  have "shop_inv (write_wallet (tu_customer t) (w\<lparr>cw_balance := b, cw_usdt := toDecimal usdt\<rparr>)
      (paid_entries t w usdt) s)"
  proof (rule shop_inv_write)
    have "cents b" by (simp add: 2(4))
    moreover have "0 \<le> b" using fine by (simp add: b topup_fineD wallet_fineD less_imp_le)
    ultimately show "wallet_fine (w\<lparr>cw_balance := b, cw_usdt := toDecimal usdt\<rparr>)"
      using fine(2) by (simp add: wallet_fine_def)
  qed (use inv fine in \<open>simp_all add: customer_invD wallet_at_new [OF 2(3)] paid_entries_owner
      paid_entries_sums b\<close>)
  moreover have "list_all topup_fine (topups u)"
    using inv by (auto simp: 2(5) update_topup_def customer_inv_def intro: list_all_modify_keep topup_fine_row)
  ultimately show ?thesis using inv by (simp add: customer_inv_def 2(5))
qed (use inv in simp)

lemma customer_inv_audit: "customer_inv (markTopupPaid_audit t b s) = customer_inv s"
  by (auto simp: markTopupPaid_audit_def customer_inv_def split: option.split)

lemma customer_inv_markTopupPaid:
  assumes "customer_inv s" shows "customer_inv (snd (markTopupPaid code opts rate now s))"
proof -
  have "customer_inv (snd (transaction (markTopupPaid_tx tid opts rate now) s))" for tid
    by (rule transaction_preserves) (use assms in \<open>auto intro: customer_inv_mark_tx\<close>)
  then have tx: "transaction (markTopupPaid_tx tid opts rate now) s = (r, u) \<Longrightarrow> customer_inv u" for tid r u
    by (metis snd_conv)
  show ?thesis
    using assms by (cases "markTopupPaid_read code opts s")
      (auto simp: markTopupPaid_def customer_inv_audit split: sum.split option.split prod.split intro: tx)
qed

lemma fold_promo_pick: "foldl promo_pick b ps = None \<longleftrightarrow> b = None \<and> ps = []"
  by (induction ps arbitrary: b) (auto simp: promo_pick_def split: option.split)

lemma foldl_promo_pick_mem: "foldl promo_pick b ps = Some p \<Longrightarrow> b = Some p \<or> p \<in> set ps"
proof (induction ps arbitrary: b)
  case (Cons q ps)
  have "promo_pick b q = Some q \<or> promo_pick b q = b \<and> b \<noteq> None"
    by (auto simp: promo_pick_def split: option.split)
  moreover have "promo_pick b q = Some p \<or> p \<in> set ps"
    using Cons.prems by (intro Cons.IH) simp
  ultimately show ?case by auto
qed simp

lemma active_promotion_mem:
  "getActivePromotion shop amount now s = Some p \<Longrightarrow> p \<in> set (promotions s) \<and> promo_applies shop amount now p"
  unfolding getActivePromotion_def by (drule foldl_promo_pick_mem) simp

lemma topup_bonus_nonneg:
  assumes "customer_inv s" and "0 \<le> amount"
    and "topup_bonus amount (getActivePromotion shop amount now s) = (pc, Some b)"
  shows "0 \<le> b"
proof -
  from assms(3) obtain p where p: "getActivePromotion shop amount now s = Some p"
      and b: "b = \<lfloor>amount * pm_bonusPercent p / 100\<rfloor>"
    by (auto simp: topup_bonus_def split: option.splits)
  have "0 \<le> pm_bonusPercent p"
    using active_promotion_mem [OF p] assms(1) by (auto simp: customer_inv_def list_all_iff)
  then show ?thesis using assms(2) by (simp add: b)
qed

lemma customer_inv_upserts:
  "customer_inv s \<Longrightarrow> customer_inv (snd (upsertTelegramCustomer newId shop prof s))"
  "customer_inv s \<Longrightarrow> customer_inv (upsert_customer_wallet cid s)"
  by (auto simp: upsertTelegramCustomer_def customer_inv_def shop_inv_upsert split: option.split)
     (simp_all add: upsert_customer_wallet_def split: option.split)

lemma customer_inv_createTopup:
  assumes "customer_inv s"
  shows "customer_inv (snd (createTopupForTelegram cfg ids shop amount prof override now s))"
proof (cases "assertEnabled cfg WalletTopups None = Inr () \<and> is_integer amount \<and> \<not> js_less amount (Fin 1000)")
  case True
  obtain cid s1 where c: "upsertTelegramCustomer (ti_customer ids) shop prof s = (cid, s1)" by (metis surj_pair)
  let ?s2 = "upsert_customer_wallet cid s1"
  obtain pc bo where b: "topup_bonus (num_val amount) (getActivePromotion shop (num_val amount) now ?s2) = (pc, bo)"
    by (metis surj_pair)
  have inv: "customer_inv ?s2"
    using customer_inv_upserts(1) [OF assms, of "ti_customer ids" shop prof] by (simp add: c customer_inv_upserts(2))
  obtain k where k: "amount = Fin (of_int k)" using True by (auto elim: is_integerE)
  then have amt: "1000 \<le> num_val amount" "num_val amount = of_int k" using True by auto
  then have "cents (num_val amount)" by simp
  moreover have "bo = Some k \<Longrightarrow> 0 \<le> k" for k
    by (rule topup_bonus_nonneg [OF inv]) (use amt(1) b in auto)
  ultimately have "topup_fine t" if "tu_amount t = toDecimal (num_val amount)"
      "tu_bonusAmount t = map_option (\<lambda>b. toDecimal (of_int b)) bo" for t
    using that amt(1) by (auto simp: topup_fine_def toDecimal_cents split: option.split)
  then show ?thesis
    using True inv by (simp add: createTopupForTelegram_def c b Let_def customer_inv_def)
next
  case False
  then show ?thesis using assms by (auto simp: createTopupForTelegram_def split: sum.split)
qed

lemma expire_one_topup_frame:
  "customer_wallets (snd (expire_one_topup now t st)) = customer_wallets (snd st)"
  "customer_ledger (snd (expire_one_topup now t st)) = customer_ledger (snd st)"
  "promotions (snd (expire_one_topup now t st)) = promotions (snd st)"
  "topups (snd (expire_one_topup now t st)) = modify_rows (\<lambda>r. tu_id r = tu_id t \<and> tu_status r = TxPending)
     (\<lambda>r. r\<lparr>tu_status := TxCanceled, tu_canceledAt := Some now\<rparr>) (topups (snd st))"
  by (simp_all add: expire_one_topup_def Let_def split: prod.split)

lemma customer_inv_expire_one: "customer_inv (snd st) \<Longrightarrow> customer_inv (snd (expire_one_topup now t st))"
  using shop_inv_cong [OF expire_one_topup_frame(1,2), of now t st]
  by (auto simp: customer_inv_def expire_one_topup_frame intro!: list_all_modify_keep)
     (simp add: topup_fine_def)

lemma customer_inv_expire:
  assumes "customer_inv s" shows "customer_inv (snd (expirePendingTopups now limit s))"
proof -
  have "customer_inv (snd st) \<Longrightarrow> customer_inv (snd (fold (expire_one_topup now) ts st))" for ts st
    by (induction ts arbitrary: st) (simp_all add: customer_inv_expire_one)
  then show ?thesis using assms by (simp add: expirePendingTopups_def)
qed

lemma customer_inv_promotions:
  "customer_inv s \<Longrightarrow> createPromotion newId shop m p a b now s = Inr (q, t) \<Longrightarrow> customer_inv t"
  "customer_inv s \<Longrightarrow> customer_inv (snd (deletePromotion shop pid s))"
  by (auto simp: createPromotion_def deletePromotion_def customer_inv_def Let_def list_all_iff
      toDecimal_nonneg split: if_splits) 

lemma shop_inv_adjust_tx:
  assumes inv: "shop_inv s" and amt: "0 \<le> amount"
    and tx: "adjust_customer_tx cid action amount isUsdt rate s = Inr (b, u)"
  shows "shop_inv u \<and> topups u = topups s \<and> promotions u = promotions s"
proof -
  let ?s = "upsert_customer_wallet cid s" and ?w = "wallet_or_new s cid"
  obtain d after where da: "adjust_amounts action amount (if isUsdt then cw_usdt ?w else cw_balance ?w) = (d, after)"
    by (metis surj_pair)
  have fine: "wallet_fine ?w" using inv by (rule wallet_fine_new)
  note D = wallet_fineD [OF fine]
  have up: "topups ?s = topups s" "promotions ?s = promotions s"
    by (simp_all add: upsert_customer_wallet_def split: option.split)
  have written: "shop_inv (write_wallet cid (?w\<lparr>cw_balance := v, cw_usdt := y\<rparr>) es ?s)"
    if "cents v" "0 \<le> v" "\<And>e. e \<in> set es \<Longrightarrow> cl_customer e = cid"
      "sum_list (map main_delta es) = v - cw_balance ?w" "sum_list (map commission_delta es) = 0" for v y es
    using that D by (intro shop_inv_write shop_inv_upsert inv) (auto simp: wallet_fine_def)
  have after: "\<not> isUsdt \<Longrightarrow> \<not> (action = AdjDeduct \<and> after < 0) \<Longrightarrow> 0 \<le> after"
    using da amt D(2) by (auto simp: adjust_amounts_def split: customer_adjust.splits)
  show ?thesis
    using tx da D after
    by (cases isUsdt; auto simp: adjust_customer_tx_def Let_def up toDecimal_cents toDecimal_nonneg on_grid_max
        split: if_splits intro!: written)
qed

lemma customer_inv_adjust:
  assumes "customer_inv s" and "0 \<le> amount"
  shows "customer_inv (snd (adjustCustomerWallet shop cid action amount isUsdt rate s))"
proof -
  have "customer_inv (snd (transaction (adjust_customer_tx cid action amount isUsdt rate) s))"
  proof (rule transaction_preserves)
    show "customer_inv s" by fact
    fix a t assume "adjust_customer_tx cid action amount isUsdt rate s = Inr (a, t)"
    from shop_inv_adjust_tx [OF customer_invD(1) [OF assms(1)] assms(2) this] assms(1)
    show "customer_inv t" by (simp add: customer_inv_def)
  qed
  then show ?thesis using assms by (simp add: adjustCustomerWallet_def)
qed

section \<open>Runs of the customer wallet operations\<close>

datatype customer_call =
    CreateTopup system_config topup_ids ident jsnum telegram_profile "provider option" timestamp
  | MarkPaid string paid_options rat timestamp
  | ExpireTopups timestamp nat
  | AdjustCustomer ident ident customer_adjust rat bool rat
  | CreatePromotion ident ident jsnum rat timestamp timestamp timestamp
  | DeletePromotion ident ident

primrec exec_customer :: "customer_call \<Rightarrow> shop_db \<Rightarrow> shop_db" where
  "exec_customer (CreateTopup cfg ids shop amount prof override now) s =
     snd (createTopupForTelegram cfg ids shop amount prof override now s)"
| "exec_customer (MarkPaid code opts rate now) s = snd (markTopupPaid code opts rate now s)"
| "exec_customer (ExpireTopups now limit) s = snd (expirePendingTopups now limit s)"
| "exec_customer (AdjustCustomer shop cid action amount isUsdt rate) s =
     snd (adjustCustomerWallet shop cid action amount isUsdt rate s)"
| "exec_customer (CreatePromotion newId shop m p a b now) s =
     (case createPromotion newId shop m p a b now s of Inl _ \<Rightarrow> s | Inr (_, t) \<Rightarrow> t)"
| "exec_customer (DeletePromotion shop pid) s = snd (deletePromotion shop pid s)"

text \<open>What the request validation guarantees: a correction is not negative.\<close>

primrec valid_customer_call :: "customer_call \<Rightarrow> bool" where
  "valid_customer_call (AdjustCustomer shop cid action amount isUsdt rate) = (0 \<le> amount)"
| "valid_customer_call (CreateTopup cfg ids shop amount prof override now) = True"
| "valid_customer_call (MarkPaid code opts rate now) = True"
| "valid_customer_call (ExpireTopups now limit) = True"
| "valid_customer_call (CreatePromotion newId shop m p a b now) = True"
| "valid_customer_call (DeletePromotion shop pid) = True"

lemma customer_inv_exec: "customer_inv s \<Longrightarrow> valid_customer_call c \<Longrightarrow> customer_inv (exec_customer c s)"
  by (cases c) (auto simp: customer_inv_createTopup customer_inv_markTopupPaid customer_inv_expire
      customer_inv_adjust customer_inv_promotions split: sum.split)

lemma customer_inv_empty: "customer_inv empty_shop"
  using shop_inv_empty by (simp add: customer_inv_def empty_shop_def)

section \<open>A top-up is credited once\<close>

definition topup_paid :: "ident \<Rightarrow> shop_db \<Rightarrow> bool" where
  "topup_paid tid s \<longleftrightarrow> (case topup_at tid s of None \<Rightarrow> False | Some t \<Rightarrow> tu_status t = TxPaid)"

definition is_topup_credit :: "ident \<Rightarrow> customer_entry \<Rightarrow> bool" where
  "is_topup_credit tid e \<longleftrightarrow> cl_type e = CTopup \<and> cl_currency e = VND \<and> cl_refId e = tid"

definition topup_credits :: "ident \<Rightarrow> shop_db \<Rightarrow> nat" where
  "topup_credits tid s = count_rows (is_topup_credit tid) (customer_ledger s)"

definition topup_once :: "ident \<Rightarrow> shop_db \<Rightarrow> bool" where
  "topup_once tid s \<longleftrightarrow> topup_credits tid s = 0 \<or> topup_credits tid s = 1 \<and> topup_paid tid s"

lemma topup_once_frame:
  "topup_once tid s \<Longrightarrow> topup_credits tid t = topup_credits tid s \<Longrightarrow> (topup_paid tid s \<Longrightarrow> topup_paid tid t)
   \<Longrightarrow> topup_once tid t"
  by (auto simp: topup_once_def)

lemma topup_at_update [simp]:
  "(\<And>r. tu_id (f r) = tu_id r) \<Longrightarrow> topup_at j (update_topup i f s)
     = map_option (\<lambda>r. if j = i then f r else r) (topup_at j s)"
  unfolding update_topup_def by (simp add: find_modify_key)

lemma paid_row_simps [simp]:
  "tu_id (paid_row opts now r) = tu_id r" "tu_customer (paid_row opts now r) = tu_customer r" "tu_status (paid_row opts now r) = TxPaid"
  by (simp_all add: paid_row_def)

lemma paid_entries_credits:
  "count_rows (is_topup_credit tid) (paid_entries t w usdt) = (if tu_id t = tid then 1 else 0)"
  by (simp add: paid_entries_def is_topup_credit_def topup_entry_def Let_def)

lemma topup_once_mark_tx:
  assumes "topup_once tid s" and "markTopupPaid_tx j opts rate now s = Inr (b, u)"
  shows "topup_once tid u"
  using assms(2)
proof (cases rule: mark_paid_tx_cases)
  case (2 t w usdt)
  have id: "tu_id t = j" using find_SomeD [OF 2(1)] by simp
  have "topup_credits tid u = topup_credits tid s + (if j = tid then 1 else 0)"
    by (simp add: 2(5) topup_credits_def update_topup_def paid_entries_credits id)
  moreover have "topup_paid tid u = (topup_paid tid s \<or> j = tid)"
    using 2(1) by (auto simp: 2(5) topup_paid_def split: option.splits)
  moreover have "j = tid \<Longrightarrow> \<not> topup_paid tid s"
    using 2(1,2) by (auto simp: topup_paid_def can_settle_def)
  ultimately show ?thesis using assms(1) by (auto simp: topup_once_def)
qed (use assms(1) in simp)

lemma topup_once_same: "topup_once tid s \<Longrightarrow> topups t = topups s \<Longrightarrow> customer_ledger t = customer_ledger s \<Longrightarrow> topup_once tid t"
  by (simp add: topup_once_def topup_credits_def topup_paid_def)

lemma topup_once_markTopupPaid:
  assumes "topup_once tid s" shows "topup_once tid (snd (markTopupPaid code opts rate now s))"
proof -
  have "topup_once tid (snd (transaction (markTopupPaid_tx j opts rate now) s))" for j
    by (rule transaction_preserves) (use assms in \<open>auto intro: topup_once_mark_tx\<close>)
  then have tx: "transaction (markTopupPaid_tx j opts rate now) s = (r, u) \<Longrightarrow> topup_once tid u" for j r u
    by (metis snd_conv)
  have "topup_once tid (markTopupPaid_audit t b u) = topup_once tid u" for t b u
    by (auto simp: topup_once_def topup_credits_def topup_paid_def markTopupPaid_audit_def split: option.split)
  then show ?thesis
    using assms by (cases "markTopupPaid_read code opts s")
      (auto simp: markTopupPaid_def split: sum.split option.split prod.split intro: tx)
qed

lemma topup_paid_append: "topup_paid tid s \<Longrightarrow> topups t = topups s @ ts \<Longrightarrow> topup_paid tid t"
  by (auto simp: topup_paid_def find_append split: option.splits)

lemma upserts_frame:
  "topups (snd (upsertTelegramCustomer newId shop prof s)) = topups s"
  "customer_ledger (snd (upsertTelegramCustomer newId shop prof s)) = customer_ledger s"
  by (simp_all add: upsertTelegramCustomer_def split: option.split)

lemma topup_once_createTopup:
  assumes "topup_once tid s"
  shows "topup_once tid (snd (createTopupForTelegram cfg ids shop amount prof override now s))"
proof (rule topup_once_frame [OF assms])
  let ?u = "snd (createTopupForTelegram cfg ids shop amount prof override now s)"
  have "(\<exists>ts. topups ?u = topups s @ ts) \<and> customer_ledger ?u = customer_ledger s"
    using upserts_frame [of "ti_customer ids" shop prof s]
    by (auto simp: createTopupForTelegram_def Let_def split: sum.split prod.split)
  then show "topup_credits tid ?u = topup_credits tid s" "topup_paid tid s \<Longrightarrow> topup_paid tid ?u"
    by (auto simp: topup_credits_def intro: topup_paid_append)
qed

lemma topup_once_expire:
  assumes "topup_once tid s" shows "topup_once tid (snd (expirePendingTopups now limit s))"
proof -
  have "topup_paid tid (snd st) \<Longrightarrow> topup_paid tid (snd (expire_one_topup now t st))" for t st
    by (auto simp: topup_paid_def expire_one_topup_frame find_modify_rows split: option.splits)
  then have "topup_once tid (snd st) \<Longrightarrow> topup_once tid (snd (expire_one_topup now t st))" for t st
    by (erule_tac topup_once_frame) (simp_all add: topup_credits_def expire_one_topup_frame)
  then have "topup_once tid (snd st) \<Longrightarrow> topup_once tid (snd (fold (expire_one_topup now) ts st))" for ts st
    by (induction ts arbitrary: st) simp_all
  then show ?thesis using assms by (simp add: expirePendingTopups_def)
qed

lemma topup_once_adjust:
  assumes "topup_once tid s"
  shows "topup_once tid (snd (adjustCustomerWallet shop cid action amount isUsdt rate s))"
proof -
  have "topup_once tid (snd (transaction (adjust_customer_tx cid action amount isUsdt rate) s))"
    by (rule transaction_preserves)
       (use assms in \<open>auto simp: adjust_customer_tx_def Let_def topup_once_def topup_credits_def
          is_topup_credit_def adjust_entry_def topup_paid_def split: prod.splits if_splits\<close>)
  then show ?thesis using assms by (simp add: adjustCustomerWallet_def)
qed

lemma topup_once_exec: "topup_once tid s \<Longrightarrow> topup_once tid (exec_customer c s)"
  by (cases c) (auto simp: topup_once_createTopup topup_once_markTopupPaid topup_once_expire topup_once_adjust
      createPromotion_def deletePromotion_def Let_def split: sum.split intro: topup_once_same)

lemma customer_inv_runs:
  "list_all valid_customer_call cs \<Longrightarrow> customer_inv s \<Longrightarrow> customer_inv (fold exec_customer cs s)"
  by (induction cs arbitrary: s) (simp_all add: customer_inv_exec)

text \<open>
  C6. Over any run of the customer wallet operations from an empty shop a top-up is credited at
  most once, however often and however its payment is confirmed (a canceled top-up may still be
  paid late), and a credited top-up stays paid.
\<close>

theorem topup_credited_once:
  "topup_credits tid (fold exec_customer cs empty_shop) = 0
   \<or> topup_credits tid (fold exec_customer cs empty_shop) = 1 \<and> topup_paid tid (fold exec_customer cs empty_shop)"
proof -
  have "topup_once tid s \<Longrightarrow> topup_once tid (fold exec_customer cs s)" for s
    by (induction cs arbitrary: s) (simp_all add: topup_once_exec)
  moreover have "topup_once tid empty_shop"
    by (simp add: topup_once_def topup_credits_def empty_shop_def)
  ultimately show ?thesis unfolding topup_once_def by blast
qed

section \<open>The effect of a paid top-up\<close>

lemma markTopupPaid_ok_cases:
  assumes "markTopupPaid code opts rate now s = (Inr (), u)"
    and "List.find (\<lambda>t. tu_code t = code) (topups s) = Some t" and "can_settle opts t"
  obtains b v where "markTopupPaid_tx (tu_id t) opts rate now s = Inr (b, v)"
    and "u = markTopupPaid_audit t b v"
    and "is_ok (assertCryptoReceiptClaimed code (tu_provider t) (po_cryptoTxHash opts) s)"
proof -
  have "markTopupPaid_read code opts s = (case assertCryptoReceiptClaimed code (tu_provider t) (po_cryptoTxHash opts) s of
      Inl e \<Rightarrow> Inl e | Inr _ \<Rightarrow> Inr (Some t))"
    using assms(2,3) by (auto simp: markTopupPaid_read_def can_settle_def split: sum.split)
  with assms(1) that show thesis
    by (auto simp: markTopupPaid_def transaction_def split: sum.splits)
qed

lemma markTopupPaid_settled:
  "List.find (\<lambda>t. tu_code t = code) (topups s) = Some t \<Longrightarrow> tu_status t = TxPaid
   \<Longrightarrow> markTopupPaid code opts rate now s = (Inr (), s)"
  by (simp add: markTopupPaid_def markTopupPaid_read_def)

lemma audit_frame [simp]:
  "topups (markTopupPaid_audit t b s) = topups s"
  "customer_wallets (markTopupPaid_audit t b s) = customer_wallets s"
  by (simp_all add: markTopupPaid_audit_def split: option.split)


definition demo_connection :: connection where
  "demo_connection = \<lparr>cn_id = ''n1'', cn_upstreamShop = ''s1'', cn_chatId = Some ''77'', cn_active = True,
     cn_lastOrderedAt = None\<rparr>"

definition demo_topup_calls :: "customer_call list" where
  "demo_topup_calls =
     [CreatePromotion ''p1'' ''s1'' (Fin 0) 10 0 1000 1,
      CreateTopup (\<lambda>_. None) \<lparr>ti_customer = ''c1'', ti_topup = ''t1'', ti_code = ''NAP1'', ti_provider = (\<lambda>_. PAYOS)\<rparr>
        ''s1'' (Fin 100000) \<lparr>tp_userId = ''u1'', tp_chatId = ''77''\<rparr> None 10]"

definition demo_topup_shop :: shop_db where
  "demo_topup_shop = fold exec_customer demo_topup_calls (empty_shop\<lparr>connections := [demo_connection]\<rparr>)"

definition demo_topup :: topup where
  "demo_topup = \<lparr>tu_id = ''t1'', tu_shop = ''s1'', tu_customer = ''c1'', tu_provider = PAYOS, tu_amount = 100000,
     tu_code = ''NAP1'', tu_txHash = None, tu_status = TxPending, tu_expiresAt = 300010, tu_paidAt = None,
     tu_canceledAt = None, tu_bonusPercent = Some 10, tu_bonusAmount = Some 10000\<rparr>"

abbreviation demo_opts :: paid_options where
  "demo_opts \<equiv> \<lparr>po_cryptoTxHash = None, po_confirmedExternal = True\<rparr>"

lemmas demo_topup_defs = demo_topup_calls_def empty_shop_def createPromotion_def createTopupForTelegram_def
  assertEnabled_def upsertTelegramCustomer_def upsert_customer_wallet_def new_wallet_def topup_bonus_def
  getActivePromotion_def promo_applies_def promo_pick_def topup_expiry_ms_def is_crypto_topup_def toDecimal_cents
  Let_def

lemma demo_topup_shop_eq:
  "demo_topup_shop = empty_shop\<lparr>connections := [demo_connection], promotions := [\<lparr>pm_id = ''p1'', pm_shop = ''s1'',
       pm_minAmount = 0, pm_bonusPercent = 10, pm_startAt = 0, pm_endAt = 1000, pm_createdAt = 1\<rparr>],
     customers := [\<lparr>cu_id = ''c1'', cu_shop = ''s1'', cu_telegramUserId = ''u1'', cu_telegramChatId = ''77'', cu_referredBy = None\<rparr>],
     customer_wallets := [''c1'' \<mapsto> new_wallet], topups := [demo_topup]\<rparr>"
  by (simp add: demo_topup_shop_def demo_topup_defs demo_topup_def)

lemma demo_topup_inv: "customer_inv demo_topup_shop"
  unfolding demo_topup_shop_def
  by (rule customer_inv_runs)
     (use customer_inv_empty in \<open>simp_all add: demo_topup_calls_def customer_inv_def\<close>)

lemma demo_topup_read:
  "markTopupPaid_read ''NAP1'' demo_opts demo_topup_shop = Inr (Some demo_topup)"
  by (simp add: demo_topup_shop_eq markTopupPaid_read_def demo_topup_def can_settle_def
      assertCryptoReceiptClaimed_def isReceiptBackedCryptoProvider_def isDirectOnchainProvider_def)

definition demo_paid_shop :: shop_db where
  "demo_paid_shop = update_topup ''t1'' (paid_row demo_opts 20)
     (write_wallet ''c1'' \<lparr>cw_balance = 110000, cw_commission = 0, cw_usdt = 44 / 10\<rparr>
        (paid_entries demo_topup new_wallet (44 / 10)) demo_topup_shop)"

lemma demo_topup_tx: "markTopupPaid_tx ''t1'' demo_opts 25000 20 demo_topup_shop = Inr (110000, demo_paid_shop)"
  by (simp add: markTopupPaid_tx_def demo_paid_shop_def demo_topup_shop_eq can_settle_def demo_topup_def new_wallet_def
      bonus_of_def usdt_synced_def paid_hash_def toDecimal_def to_fixed_def Let_def)


text \<open>
  The audit row for a linked reseller does not follow the wallet: its balance before the
  top-up is too high by the bonus, and when two deliveries of the same confirmation both pass the
  first check, the second leaves a second audit row although its transaction finds the top-up paid
  and changes nothing. Here one top-up of 100000 with a bonus of 10000 moves the wallet once from 0
  to 110000 while the audit ledger shows two rows from 10000 to 110000.
\<close>

theorem topup_audit_diverges:
  "markTopupPaid_read ''NAP1'' demo_opts demo_topup_shop = Inr (Some demo_topup)
   \<and> (\<exists>b1 s1 b2 s2. transaction (markTopupPaid_tx ''t1'' demo_opts 25000 20) demo_topup_shop = (Inr b1, s1)
      \<and> transaction (markTopupPaid_tx ''t1'' demo_opts 25000 21) (markTopupPaid_audit demo_topup b1 s1) = (Inr b2, s2)
      \<and> main_balance demo_topup_shop ''c1'' = Some 0 \<and> main_balance s2 ''c1'' = Some 110000
      \<and> topup_credits ''t1'' s2 = 1
      \<and> map (\<lambda>l. (il_before l, il_after l)) (source_ledger (markTopupPaid_audit demo_topup b2 s2))
          = [(10000, 110000), (10000, 110000)])"
proof -
  let ?a = "markTopupPaid_audit demo_topup 110000 demo_paid_shop"
  have one: "transaction (markTopupPaid_tx ''t1'' demo_opts 25000 20) demo_topup_shop = (Inr 110000, demo_paid_shop)"
    by (simp add: demo_topup_tx)
  have two: "transaction (markTopupPaid_tx ''t1'' demo_opts 25000 21) ?a = (Inr 110000, ?a)"
    by (simp add: markTopupPaid_tx_def demo_paid_shop_def demo_topup_shop_eq demo_topup_def can_settle_def wallet_or_new_def)
  have bal: "main_balance demo_topup_shop ''c1'' = Some 0" "main_balance ?a ''c1'' = Some 110000"
    by (simp_all add: main_balance_def demo_topup_shop_eq new_wallet_def demo_paid_shop_def update_topup_def)
  have cr: "topup_credits ''t1'' ?a = 1"
    by (simp add: topup_credits_def demo_paid_shop_def update_topup_def demo_topup_shop_eq empty_shop_def
        paid_entries_credits demo_topup_def markTopupPaid_audit_def demo_connection_def)
  have rows: "map (\<lambda>l. (il_before l, il_after l)) (source_ledger (markTopupPaid_audit demo_topup 110000 ?a))
      = [(10000, 110000), (10000, 110000)]"
    by (simp add: demo_paid_shop_def update_topup_def demo_topup_shop_eq empty_shop_def demo_topup_def
        markTopupPaid_audit_def demo_connection_def toDecimal_cents)
  show ?thesis
    by (rule conjI [OF demo_topup_read], rule exI [of _ 110000], rule exI [of _ demo_paid_shop],
        rule exI [of _ 110000], rule exI [of _ ?a]) (intro conjI one two bal cr rows)
qed

lemma promo_before_trans: "promo_before p q \<Longrightarrow> promo_before q r \<Longrightarrow> promo_before p r"
  by (auto simp: promo_before_def)

lemma promo_before_negtrans: "\<not> promo_before p q \<Longrightarrow> \<not> promo_before q r \<Longrightarrow> \<not> promo_before p r"
  by (auto simp: promo_before_def)

lemma foldl_promo_pick_best:
  "foldl promo_pick b ps = Some p \<Longrightarrow>
     (\<forall>q \<in> set ps. \<not> promo_before q p) \<and> (case b of None \<Rightarrow> True | Some b0 \<Rightarrow> \<not> promo_before b0 p)"
proof (induction ps arbitrary: b)
  case Nil
  then show ?case by (simp add: promo_before_def)
next
  case (Cons q ps)
  from Cons.IH [of "promo_pick b q"] Cons.prems have
    IH: "\<forall>q \<in> set ps. \<not> promo_before q p" "case promo_pick b q of None \<Rightarrow> True | Some b0 \<Rightarrow> \<not> promo_before b0 p"
    by simp_all
  then show ?case
    using promo_before_trans [of q "the b" p] promo_before_negtrans [of q "the b" p]
    by (cases b) (auto simp: promo_pick_def split: if_splits)
qed

text \<open>
  The promotion a top-up gets is one that runs for the shop and whose threshold the amount
  reaches, and no running promotion is better (higher threshold, then higher percentage, then
  newer); none is chosen only if none applies.
\<close>

theorem promotion_best:
  "case getActivePromotion shop amount now s of
     None \<Rightarrow> filter (promo_applies shop amount now) (promotions s) = []
   | Some p \<Rightarrow> p \<in> set (promotions s) \<and> promo_applies shop amount now p
       \<and> filter (\<lambda>q. promo_applies shop amount now q \<and> promo_before q p) (promotions s) = []"
proof (cases "getActivePromotion shop amount now s")
  case None
  then show ?thesis by (simp add: getActivePromotion_def fold_promo_pick)
next
  case (Some p)
  from foldl_promo_pick_best [OF Some [unfolded getActivePromotion_def]] active_promotion_mem [OF Some]
  show ?thesis using Some by (auto simp: filter_empty_conv)
qed

end
