(* ===== verification/EmailList.thy ===== *)
theory EmailList
  imports JsString
begin

text \<open>
  The list of customer addresses a buyer enters for products that are delivered by invitation:
  \<open>apps/api/src/lib/customer-email-list.ts\<close>. The text is split at \<open>\n\<close> or \<open>\r\n\<close>; \<open>\s\<close> is the
  white space of \<open>is_ws\<close>. Order creation stores the addresses joined by newlines.
\<close>

abbreviation nl :: char where "nl \<equiv> CHR 0x0A"
abbreviation cr :: char where "cr \<equiv> CHR 0x0D"

text \<open>\<open>/^[^\s@]+@[^\s@]+\.[^\s@]+$/\<close>: one \<open>@\<close>, no white space, and a dot inside the part behind it.\<close>

definition customer_email_pattern :: "string \<Rightarrow> bool" where
  "customer_email_pattern s =
     (case split_on (CHR ''@'') s of
        [user, domain] \<Rightarrow> list_all (\<lambda>c. \<not> is_ws c) s \<and> user \<noteq> []
          \<and> CHR ''.'' \<in> set (butlast (tl domain))
      | _ \<Rightarrow> False)"

record email_list =
  emails :: "string list"
  nonEmptyLineCount :: nat
  invalidLineNumbers :: "nat list"
  duplicateEmails :: "string list"

text \<open>\<open>split(/\r?\n/)\<close>: a carriage return directly before a newline belongs to the separator.\<close>

fun drop_cr :: "string list \<Rightarrow> string list" where
  "drop_cr [] = []"
| "drop_cr [l] = [l]"
| "drop_cr (l # m # ls) = (if l \<noteq> [] \<and> last l = cr then butlast l else l) # drop_cr (m # ls)"

definition split_lines :: "string \<Rightarrow> string list" where
  "split_lines s = drop_cr (split_on nl s)"

text \<open>One round of \<open>forEach\<close>; the set of addresses seen is the set of addresses kept.\<close>

definition email_step :: "nat \<Rightarrow> string \<Rightarrow> email_list \<Rightarrow> email_list" where
  "email_step i rawLine r =
     (let email = to_lower (js_trim rawLine)
      in if email = [] then r
         else
           (let r = r\<lparr>nonEmptyLineCount := nonEmptyLineCount r + 1\<rparr>
            in if length email > 254 \<or> \<not> customer_email_pattern email
               then r\<lparr>invalidLineNumbers := invalidLineNumbers r @ [i + 1]\<rparr>
               else if email \<in> set (emails r)
               then r\<lparr>duplicateEmails := duplicateEmails r @ [email]\<rparr>
               else r\<lparr>emails := emails r @ [email]\<rparr>))"

fun email_lines :: "nat \<Rightarrow> string list \<Rightarrow> email_list \<Rightarrow> email_list" where
  "email_lines i [] r = r"
| "email_lines i (l # ls) r = email_lines (i + 1) ls (email_step i l r)"

abbreviation empty_email_list :: email_list where
  "empty_email_list \<equiv> \<lparr>emails = [], nonEmptyLineCount = 0, invalidLineNumbers = [], duplicateEmails = []\<rparr>"

text \<open>A missing value reads as the empty text.\<close>

definition parseCustomerEmailList :: "string option \<Rightarrow> email_list" where
  "parseCustomerEmailList value =
     email_lines 0 (split_lines (case value of None \<Rightarrow> [] | Some s \<Rightarrow> s)) empty_email_list"

definition hasValidCustomerEmailList :: "email_list \<Rightarrow> bool" where
  "hasValidCustomerEmailList p \<longleftrightarrow> 0 < length (emails p) \<and> length (invalidLineNumbers p) = 0
     \<and> length (duplicateEmails p) = 0 \<and> length (emails p) = nonEmptyLineCount p"

section \<open>What a line contributes\<close>

definition good_email :: "string \<Rightarrow> bool" where
  "good_email e \<longleftrightarrow> e \<noteq> [] \<and> length e \<le> 254 \<and> customer_email_pattern e \<and> to_lower e = e"

definition line_email :: "string \<Rightarrow> string" where
  "line_email l = to_lower (js_trim l)"

definition line_emails :: "string list \<Rightarrow> string list" where
  "line_emails ls = filter (\<lambda>e. e \<noteq> []) (map line_email ls)"

text \<open>Every non-empty line is kept, is reported as invalid or is reported as a duplicate.\<close>

lemma email_lines_counts:
  assumes "length (emails r) + length (invalidLineNumbers r) + length (duplicateEmails r) = nonEmptyLineCount r"
    and "distinct (emails r)" and "list_all good_email (emails r)"
  shows "length (emails (email_lines i ls r)) + length (invalidLineNumbers (email_lines i ls r))
      + length (duplicateEmails (email_lines i ls r)) = nonEmptyLineCount (email_lines i ls r)
    \<and> distinct (emails (email_lines i ls r)) \<and> list_all good_email (emails (email_lines i ls r))
    \<and> nonEmptyLineCount (email_lines i ls r) = nonEmptyLineCount r + length (line_emails ls)"
  using assms
proof (induction i ls r rule: email_lines.induct)
  case (2 i l ls r)
  have step: "length (emails (email_step i l r)) + length (invalidLineNumbers (email_step i l r))
      + length (duplicateEmails (email_step i l r)) = nonEmptyLineCount (email_step i l r)"
    "distinct (emails (email_step i l r))" "list_all good_email (emails (email_step i l r))"
    "nonEmptyLineCount (email_step i l r) = nonEmptyLineCount r + (if line_email l = [] then 0 else 1)"
    using "2.prems" by (auto simp: email_step_def Let_def good_email_def [of "to_lower (js_trim l)"] line_email_def)
  from "2.IH" [OF step(1-3)] step(4) show ?case by (simp add: line_emails_def)
qed (simp add: line_emails_def)

text \<open>A run of good, new lines only extends the list of addresses.\<close>

lemma email_lines_good:
  assumes "list_all (\<lambda>l. line_email l = [] \<or> good_email (line_email l)) ls" and "distinct (emails r @ line_emails ls)"
  shows "email_lines i ls r = r\<lparr>emails := emails r @ line_emails ls,
    nonEmptyLineCount := nonEmptyLineCount r + length (line_emails ls)\<rparr>"
  using assms
proof (induction i ls r rule: email_lines.induct)
  case (2 i l ls r)
  show ?case
  proof (cases "line_email l = []")
    case True
    then have s: "email_step i l r = r" by (simp add: email_step_def line_email_def Let_def)
    with 2 True show ?thesis by (simp add: line_emails_def)
  next
    case False
    with "2.prems" have g: "good_email (line_email l)" "line_email l \<notin> set (emails r)"
      by (auto simp: line_emails_def)
    then have s: "email_step i l r = r\<lparr>emails := emails r @ [line_email l],
        nonEmptyLineCount := nonEmptyLineCount r + 1\<rparr>"
      by (simp add: email_step_def good_email_def line_email_def Let_def)
    have "distinct (emails (email_step i l r) @ line_emails ls)"
      using "2.prems"(2) False by (simp add: s line_emails_def)
    with "2.IH" "2.prems"(1) show ?thesis using False by (simp add: s line_emails_def)
  qed
qed (simp add: line_emails_def)

lemma email_lines_bad_stay:
  assumes "invalidLineNumbers r \<noteq> [] \<or> duplicateEmails r \<noteq> []"
  shows "invalidLineNumbers (email_lines i ls r) \<noteq> [] \<or> duplicateEmails (email_lines i ls r) \<noteq> []"
  using assms by (induction i ls r rule: email_lines.induct) (auto simp: email_step_def Let_def)

lemma email_lines_valid:
  assumes "invalidLineNumbers (email_lines i ls r) = []" and "duplicateEmails (email_lines i ls r) = []"
    and "distinct (emails r)"
  shows "list_all (\<lambda>l. line_email l = [] \<or> good_email (line_email l)) ls \<and> distinct (emails r @ line_emails ls)"
  using assms
proof (induction i ls r rule: email_lines.induct)
  case (2 i l ls r)
  have clean: "invalidLineNumbers (email_step i l r) = []" "duplicateEmails (email_step i l r) = []"
    using email_lines_bad_stay [of "email_step i l r" "i + 1" ls] "2.prems" by auto
  show ?case
  proof (cases "line_email l = []")
    case True
    then have s: "email_step i l r = r" by (simp add: email_step_def line_email_def Let_def)
    with 2 True show ?thesis by (simp add: line_emails_def)
  next
    case False
    then have s: "email_step i l r = r\<lparr>emails := emails r @ [line_email l],
        nonEmptyLineCount := nonEmptyLineCount r + 1\<rparr>" and g: "good_email (line_email l)" "line_email l \<notin> set (emails r)"
      using clean by (auto simp: email_step_def good_email_def line_email_def Let_def split: if_splits)
    have "distinct (emails (email_step i l r))" using "2.prems"(3) g(2) by (simp add: s)
    with "2.IH" "2.prems" g(1) False show ?thesis by (simp add: s line_emails_def)
  qed
qed (simp add: line_emails_def)

lemma parse_valid_iff:
  "hasValidCustomerEmailList (parseCustomerEmailList v) \<longleftrightarrow>
     (let es = line_emails (split_lines (case v of None \<Rightarrow> [] | Some s \<Rightarrow> s))
      in es \<noteq> [] \<and> distinct es \<and> list_all good_email es)"
  (is "?valid \<longleftrightarrow> ?spec")
proof -
  let ?ls = "split_lines (case v of None \<Rightarrow> [] | Some s \<Rightarrow> s)"
  let ?es = "line_emails ?ls"
  have lines: "list_all (\<lambda>l. line_email l = [] \<or> good_email (line_email l)) ?ls \<longleftrightarrow> list_all good_email ?es"
    by (auto simp: line_emails_def list_all_iff good_email_def)
  note counts = email_lines_counts [of empty_email_list 0 ?ls, simplified]
  show ?thesis
  proof
    assume v: ?valid
    then have c: "invalidLineNumbers (email_lines 0 ?ls empty_email_list) = []"
      "duplicateEmails (email_lines 0 ?ls empty_email_list) = []" "emails (email_lines 0 ?ls empty_email_list) \<noteq> []"
      by (auto simp: hasValidCustomerEmailList_def parseCustomerEmailList_def)
    have "?es \<noteq> []" using counts c by auto
    moreover have "list_all good_email ?es \<and> distinct ?es"
      using email_lines_valid [OF c(1,2)] lines by simp
    ultimately show ?spec by (simp add: Let_def)
  next
    assume s: ?spec
    then have "parseCustomerEmailList v = empty_email_list\<lparr>emails := ?es, nonEmptyLineCount := length ?es\<rparr>"
      using email_lines_good [of ?ls empty_email_list 0] lines by (simp add: parseCustomerEmailList_def Let_def)
    with s show ?valid by (simp add: hasValidCustomerEmailList_def Let_def)
  qed
qed

section \<open>The stored text\<close>

lemma dropWhile_none: "(\<And>x. x \<in> set xs \<Longrightarrow> \<not> p x) \<Longrightarrow> dropWhile p xs = xs"
  by (cases xs) auto

lemma js_trim_plain: "list_all (\<lambda>c. \<not> is_ws c) s \<Longrightarrow> js_trim s = s"
  using dropWhile_none [of s is_ws] dropWhile_none [of "rev s" is_ws] by (simp add: js_trim_def list_all_iff)

lemma good_email_chars: "good_email e \<Longrightarrow> list_all (\<lambda>c. \<not> is_ws c) e"
  by (auto simp: good_email_def customer_email_pattern_def split: list.splits)

lemma good_email_line: "good_email e \<Longrightarrow> line_email e = e"
  by (simp add: line_email_def js_trim_plain good_email_chars) (simp add: good_email_def)

lemma good_email_no_break: "good_email e \<Longrightarrow> nl \<notin> set e" "good_email e \<Longrightarrow> cr \<notin> set e"
  using good_email_chars [of e] by (auto simp: list_all_iff is_ws_def)

lemma drop_cr_plain: "(\<And>l. l \<in> set ls \<Longrightarrow> cr \<notin> set l) \<Longrightarrow> drop_cr ls = ls"
  by (induction ls rule: drop_cr.induct) (auto dest: last_in_set)

lemma split_lines_join:
  assumes "es \<noteq> []" and "list_all good_email es"
  shows "split_lines (join_with nl es) = es"
proof -
  have "split_on nl (join_with nl es) = es"
    using assms good_email_no_break(1) by (intro split_join) (auto simp: list_all_iff)
  then show ?thesis
    using assms(2) good_email_no_break(2) by (auto simp: split_lines_def list_all_iff intro!: drop_cr_plain)
qed

lemma line_emails_good: "list_all good_email es \<Longrightarrow> line_emails es = es"
  by (induction es) (auto simp: line_emails_def good_email_line, simp_all add: good_email_def)

lemma parse_good:
  assumes "distinct (line_emails ls)" and "list_all good_email (line_emails ls)"
  shows "email_lines 0 ls empty_email_list = \<lparr>emails = line_emails ls, nonEmptyLineCount = length (line_emails ls),
      invalidLineNumbers = [], duplicateEmails = []\<rparr>"
  using assms email_lines_good [of ls empty_email_list 0] by (auto simp: line_emails_def list_all_iff)

lemma parse_valid_emails:
  assumes "hasValidCustomerEmailList (parseCustomerEmailList v)"
  shows "emails (parseCustomerEmailList v) = line_emails (split_lines (case v of None \<Rightarrow> [] | Some s \<Rightarrow> s))"
  using assms parse_valid_iff [of v] by (simp add: parseCustomerEmailList_def parse_good Let_def)

lemma parse_joined:
  assumes "es \<noteq> []" and "distinct es" and "list_all good_email es"
  shows "parseCustomerEmailList (Some (join_with nl es)) = \<lparr>emails = es, nonEmptyLineCount = length es,
      invalidLineNumbers = [], duplicateEmails = []\<rparr>"
  using assms parse_good [of es] by (simp add: parseCustomerEmailList_def split_lines_join line_emails_good)

lemma join_good_not_Nil: "es \<noteq> [] \<Longrightarrow> list_all good_email es \<Longrightarrow> join_with nl es \<noteq> []"
  by (cases es; cases "tl es") (auto simp: good_email_def)

text \<open>
  C30. The list is accepted exactly when the non-empty lines, trimmed and in lower case, are valid
  addresses without repetition; then nothing is lost, and the text that is stored with the order
  (the addresses joined by newlines) parses back to the same list.
\<close>

theorem email_list_roundtrip:
  "(hasValidCustomerEmailList (parseCustomerEmailList (Some s)) \<longleftrightarrow>
      (let es = line_emails (split_lines s) in es \<noteq> [] \<and> distinct es \<and> list_all good_email es))
   \<and> (hasValidCustomerEmailList (parseCustomerEmailList (Some s)) \<longrightarrow>
        emails (parseCustomerEmailList (Some s)) = line_emails (split_lines s)
        \<and> parseCustomerEmailList (Some (join_with nl (emails (parseCustomerEmailList (Some s)))))
          = \<lparr>emails = line_emails (split_lines s), nonEmptyLineCount = length (line_emails (split_lines s)),
             invalidLineNumbers = [], duplicateEmails = []\<rparr>)"
proof (intro conjI impI)
  show iff: "hasValidCustomerEmailList (parseCustomerEmailList (Some s)) \<longleftrightarrow>
      (let es = line_emails (split_lines s) in es \<noteq> [] \<and> distinct es \<and> list_all good_email es)"
    using parse_valid_iff [of "Some s"] by simp
  assume v: "hasValidCustomerEmailList (parseCustomerEmailList (Some s))"
  then show e: "emails (parseCustomerEmailList (Some s)) = line_emails (split_lines s)"
    using parse_valid_emails [of "Some s"] by simp
  from v iff show "parseCustomerEmailList (Some (join_with nl (emails (parseCustomerEmailList (Some s)))))
      = \<lparr>emails = line_emails (split_lines s), nonEmptyLineCount = length (line_emails (split_lines s)),
         invalidLineNumbers = [], duplicateEmails = []\<rparr>"
    unfolding e by (intro parse_joined) (simp_all add: Let_def)
qed

text \<open>Two valid addresses, one in capitals, on lines with Windows line ends and an empty one between.\<close>

theorem email_list_roundtrip_witness:
  "emails (parseCustomerEmailList (Some (''A@b.co'' @ [cr, nl, nl] @ '' c@d.e ''))) = [''a@b.co'', ''c@d.e'']"
proof -
  let ?s = "''A@b.co'' @ [cr, nl, nl] @ '' c@d.e ''"
  have es: "line_emails (split_lines ?s) = [''a@b.co'', ''c@d.e'']" by code_simp
  have "distinct [''a@b.co'', ''c@d.e''] \<and> list_all good_email [''a@b.co'', ''c@d.e'']" by code_simp
  with es email_list_roundtrip [of ?s] show ?thesis by simp
qed

end
