(* ===== verification/OrderPricing.thy ===== *)
theory OrderPricing
  imports CustomerWallet Pricing EmailList
begin

text \<open>
  The price of a new order: \<open>prepareTelegramOrderContext\<close> of
  \<open>apps/api/src/orders/orders.service.ts\<close>. Prices are exact rationals, a number of the product's
  metadata is finite or NaN. The columns of the product that the rest of the shop side uses are in
  its row; the others, the seller's override and the shop's settings are in \<open>offer\<close>. What the
  external provider answers (live stock, balance) is an argument. The quantity of an order is a
  natural number: a social service whose configured minimum is zero accepts the quantity zero, and
  a negative quantity, which a negative minimum would let through, is outside the model. The refresh of a
  connected product from its upstream shop, which comes first, is left out.
\<close>

section \<open>Inputs\<close>

record promo =
  pf_type :: string
  pf_buyN :: int
  pf_getM :: int
  pf_tiers :: "(jsnum \<times> jsnum) list"
  pf_priceTiers :: "(jsnum \<times> jsnum) list"
  pf_bulkMinQty :: int
  pf_bulkDiscountPct :: rat
  pf_startAt :: "timestamp option"
  pf_endAt :: "timestamp option"

record offer =
  of_isSample :: bool
  of_archived :: bool
  of_ownProductsOnly :: bool
  of_hidden :: bool
  of_social :: bool
  of_minQty :: "jsnum option"
  of_maxQty :: "jsnum option"
  of_overrideSale :: "money option"
  of_overrideUsd :: "money option"
  of_internalEnabled :: bool
  of_internalPrice :: "money option"
  of_promo :: promo
  of_preorderEnabled :: bool
  of_preorderFeePercent :: rat
  of_providerSource :: bool
  of_shopInternal :: bool
  of_seller :: ident

text \<open>Who buys: the flag and the discount of the customer, an active API key, an active connection.\<close>

record buyer =
  by_isCtv :: "bool option"
  by_apiKey :: bool
  by_connection :: bool
  by_discountPercent :: rat

record provider_answers =
  pa_roboticvn :: "bool result"
  pa_inStock :: bool
  pa_checkBalance :: bool
  pa_balanceVnd :: "rat option"

record order_input =
  oi_shop :: ident
  oi_profile :: telegram_profile
  oi_product :: ident
  oi_quantity :: jsnum
  oi_email :: "string option"
  oi_targetLink :: "string option"
  oi_comments :: "string option"

record prepared =
  pd_customer :: ident
  pd_product :: ident
  pd_quantity :: nat
  pd_paidQuantity :: nat
  pd_salePrice :: rat
  pd_totalSale :: rat
  pd_totalSaleUsd :: "rat option"
  pd_totalSource :: rat
  pd_email :: "string option"
  pd_targetLink :: "string option"
  pd_isPreorder :: bool
  pd_preorderFeePercent :: rat
  pd_preorderFee :: rat
  pd_internal :: bool
  pd_seller :: ident

section \<open>Who pays which price\<close>

definition isOwnShopProduct :: "product \<Rightarrow> bool" where
  "isOwnShopProduct p \<longleftrightarrow> pr_providerManual p \<or> pr_metaManual p"

definition isProductVisibleForBot :: "offer \<Rightarrow> product \<Rightarrow> bool" where
  "isProductVisibleForBot f p =
     (if of_archived f then False else \<not> of_ownProductsOnly f \<or> isOwnShopProduct p)"

definition is_ctv :: "buyer \<Rightarrow> bool" where
  "is_ctv b \<longleftrightarrow> by_isCtv b \<noteq> Some False \<and> (by_isCtv b = Some True \<or> by_apiKey b \<or> by_connection b)"

definition base_price :: "buyer \<Rightarrow> offer \<Rightarrow> product \<Rightarrow> rat" where
  "base_price b f p =
     (let baseSalePrice = (case of_overrideSale f of Some x \<Rightarrow> x | None \<Rightarrow> pr_sourcePrice p)
      in if is_ctv b
         then (let ctvBase = (case of_internalPrice f of
                     Some x \<Rightarrow> if of_internalEnabled f then x else baseSalePrice | None \<Rightarrow> baseSalePrice)
               in if by_discountPercent b > 0
                  then of_int (js_round (ctvBase * (1 - by_discountPercent b / 100))) else ctvBase)
         else baseSalePrice)"

definition base_price_usd :: "buyer \<Rightarrow> offer \<Rightarrow> rat option" where
  "base_price_usd b f = (if is_ctv b then None else of_overrideUsd f)"

text \<open>\<open>Math.floor(Number(x))\<close>\<close>

fun js_floor :: "jsnum \<Rightarrow> jsnum" where
  "js_floor (Fin x) = Fin (of_int \<lfloor>x\<rfloor>)"
| "js_floor x = x"

definition validate_quantity :: "offer \<Rightarrow> jsnum \<Rightarrow> unit result" where
  "validate_quantity f quantity =
     (if of_social f
      then
        (let minSocialQty = (case of_minQty f of Some x \<Rightarrow> x | None \<Rightarrow> Fin 1);
             maxSocialQty = (case of_maxQty f of Some x \<Rightarrow> x | None \<Rightarrow> Fin 1000000)
         in if \<not> is_integer quantity \<or> js_less quantity minSocialQty \<or> js_less maxSocialQty quantity
            then Inl (BadRequest ''The quantity must be a whole number within the limits of the service.'') else Inr ())
      else if \<not> is_integer quantity \<or> js_less quantity (Fin 1)
      then Inl (BadRequest ''Quantity must be a positive integer.'') else Inr ())"

section \<open>Promotions\<close>

definition promo_tiers :: "promo \<Rightarrow> (int \<times> int) list" where
  "promo_tiers m = map (\<lambda>(b, g). (\<lfloor>num_val b\<rfloor>, \<lfloor>num_val g\<rfloor>))
     (filter (\<lambda>(b, g). js_less (Fin 0) (js_floor b) \<and> js_less (Fin 0) (js_floor g)) (pf_tiers m))"

text \<open>Ascending in the quantity; tiers of one quantity keep their order.\<close>

definition promo_price_tiers :: "promo \<Rightarrow> (int \<times> rat) list" where
  "promo_price_tiers m = sort_key fst (map (\<lambda>(q, x). (\<lfloor>num_val q\<rfloor>, num_val x))
     (filter (\<lambda>(q, x). js_less (Fin 0) (js_floor q) \<and> is_finite x \<and> js_le (Fin 0) x) (pf_priceTiers m)))"

record promo_result =
  pp_salePrice :: rat
  pp_salePriceUsd :: "rat option"
  pp_bonusUnits :: int
  pp_discount :: rat
  pp_discountUnits :: int
  pp_discountPct :: rat

definition promo_active :: "timestamp \<Rightarrow> promo \<Rightarrow> bool" where
  "promo_active now m \<longleftrightarrow> (case pf_startAt m of None \<Rightarrow> True | Some t \<Rightarrow> t \<le> now)
     \<and> (case pf_endAt m of None \<Rightarrow> True | Some t \<Rightarrow> now \<le> t)"

definition apply_promo ::
  "timestamp \<Rightarrow> bool \<Rightarrow> bool \<Rightarrow> promo \<Rightarrow> int \<Rightarrow> rat \<Rightarrow> rat option \<Rightarrow> promo_result" where
  "apply_promo now isCtvCustomer requiresCustomerEmail m quantity salePrice salePriceUsd =
     (let r = \<lparr>pp_salePrice = salePrice, pp_salePriceUsd = salePriceUsd, pp_bonusUnits = 0, pp_discount = 0,
               pp_discountUnits = 0, pp_discountPct = 0\<rparr>
      in if \<not> promo_active now m then r
         else if pf_type m = ''TIER_PRICE'' \<and> \<not> isCtvCustomer
         then
           (let eligiblePriceTiers = filter (\<lambda>t. fst t \<le> quantity) (promo_price_tiers m)
            in if eligiblePriceTiers = [] then r
               else r\<lparr>pp_salePrice := snd (last eligiblePriceTiers), pp_salePriceUsd := None\<rparr>)
         else if \<not> requiresCustomerEmail \<and> pf_type m = ''BUY_N_GET_M'' \<and> pf_buyN m > 0 \<and> pf_getM m > 0
           \<and> quantity \<ge> pf_buyN m
         then
           (let tiers = (if promo_tiers m \<noteq> [] then promo_tiers m else [(pf_buyN m, pf_getM m)])
            in r\<lparr>pp_bonusUnits := foldl (\<lambda>best (buy, get). max best (quantity div buy * get)) 0 tiers\<rparr>)
         else if pf_type m = ''BUY_N_PAY_M'' \<and> pf_buyN m > 0 \<and> pf_getM m \<ge> 0 \<and> pf_getM m < pf_buyN m
           \<and> quantity \<ge> pf_buyN m
         then
           (let units = quantity div pf_buyN m * (pf_buyN m - pf_getM m)
            in r\<lparr>pp_discountUnits := units, pp_discount := salePrice * of_int units\<rparr>)
         else if pf_type m = ''BULK_DISCOUNT'' \<and> pf_bulkMinQty m > 0 \<and> pf_bulkDiscountPct m > 0
             \<and> quantity \<ge> pf_bulkMinQty m
           \<or> pf_type m = ''PERCENT_DISCOUNT'' \<and> pf_bulkDiscountPct m > 0
         then
           (let pct = min 100 (pf_bulkDiscountPct m)
            in r\<lparr>pp_discountPct := pct, pp_discount := of_int \<lfloor>salePrice * of_int quantity * pct / 100\<rfloor>\<rparr>)
         else r)"

section \<open>Preorders and the provider\<close>

definition is_reserving :: "ident \<Rightarrow> order \<Rightarrow> bool" where
  "is_reserving pid r \<longleftrightarrow> od_product r = pid \<and> od_isPreorder r \<and> od_payment r = PayPaid
     \<and> (od_status r = Paid \<or> od_status r = ProcessingPurchase \<or> od_status r = PaidWaitingStock)
     \<and> od_cancellation r \<noteq> PcRequested"

definition reserved_quantity :: "ident \<Rightarrow> shop_db \<Rightarrow> int" where
  "reserved_quantity pid s = sum_list (map (\<lambda>r. int (od_quantity r)) (filter (is_reserving pid) (orders s)))"

definition check_provider :: "bool \<Rightarrow> rat \<Rightarrow> provider_answers \<Rightarrow> unit result" where
  "check_provider isPreorder totalSourceAmount pa =
     (case (if isPreorder then Inr True else pa_roboticvn pa) of
        Inl e \<Rightarrow> Inl e
      | Inr roboticvnStockConfirmed \<Rightarrow>
        if \<not> (isPreorder \<or> roboticvnStockConfirmed \<or> pa_inStock pa)
        then Inl (BadRequest ''The provider is out of stock for the moment.'')
        else if pa_checkBalance pa \<and> (case pa_balanceVnd pa of None \<Rightarrow> True | Some x \<Rightarrow> x < totalSourceAmount)
        then Inl (BadRequest ''The source wallet of the shop does not cover this order.'')
        else Inr ())"

section \<open>The price of the order\<close>

record order_price =
  op_bonusUnits :: int
  op_salePrice :: rat
  op_merchandise :: rat
  op_merchandiseUsd :: "rat option"
  op_totalSource :: rat

definition price_order :: "timestamp \<Rightarrow> buyer \<Rightarrow> offer \<Rightarrow> product \<Rightarrow> int \<Rightarrow> order_price" where
  "price_order now b f p quantity =
     (let r = apply_promo now (is_ctv b) (pr_addMail p \<or> pr_requiresEmail p) (of_promo f) quantity
                (base_price b f p) (base_price_usd b f);
          effectiveQuantity = quantity + pp_bonusUnits r
      in \<lparr>op_bonusUnits = pp_bonusUnits r, op_salePrice = pp_salePrice r,
          op_merchandise = max 0 (pp_salePrice r * of_int quantity - pp_discount r),
          op_merchandiseUsd = map_option (\<lambda>usd. max 0 (usd * of_int (quantity - pp_discountUnits r)
            * (1 - pp_discountPct r / 100))) (pp_salePriceUsd r),
          op_totalSource = pr_sourcePrice p * of_int effectiveQuantity\<rparr>)"

text \<open>The address list, or the single address as it is.\<close>

definition order_email :: "bool \<Rightarrow> string option \<Rightarrow> string option" where
  "order_email requiresCustomerEmail v =
     (let e = (if requiresCustomerEmail then join_with nl (emails (parseCustomerEmailList v))
               else to_lower (js_trim (case v of None \<Rightarrow> [] | Some s \<Rightarrow> s)))
      in if e = [] then None else Some e)"

definition check_emails :: "bool \<Rightarrow> string option \<Rightarrow> int \<Rightarrow> unit result" where
  "check_emails requiresCustomerEmail v quantity =
     (if requiresCustomerEmail \<and> (\<not> hasValidCustomerEmailList (parseCustomerEmailList v)
          \<or> int (length (emails (parseCustomerEmailList v))) \<noteq> quantity)
      then Inl (BadRequest ''Enter one valid, unique customer email per purchased item.'') else Inr ())"

definition trimmed :: "string option \<Rightarrow> string option" where
  "trimmed v = (case v of None \<Rightarrow> None | Some s \<Rightarrow> if s = [] then None else Some (js_trim s))"

text \<open>Everything after the customer row is written; \<open>quantity\<close> is the validated one.\<close>

definition prepare_priced ::
  "timestamp \<Rightarrow> buyer \<Rightarrow> offer \<Rightarrow> provider_answers \<Rightarrow> order_input \<Rightarrow> product \<Rightarrow> int \<Rightarrow> ident \<Rightarrow> shop_db
   \<Rightarrow> prepared result" where
  "prepare_priced now b f pa i p quantity cid s =
     (let requiresCustomerEmail = (pr_addMail p \<or> pr_requiresEmail p);
          price = price_order now b f p quantity;
          effectiveQuantity = quantity + op_bonusUnits price;
          targetLink = trimmed (oi_targetLink i)
      in case check_emails requiresCustomerEmail (oi_email i) quantity of
           Inl e \<Rightarrow> Inl e
         | Inr _ \<Rightarrow>
           if of_social f \<and> (case targetLink of None \<Rightarrow> True | Some l \<Rightarrow> l = [])
           then Inl (BadRequest ''Enter the link of the post or channel.'')
           else
             (let availableForNewOrder = getAvailableForNewOrders (pr_available p) (reserved_quantity (pr_id p) s);
                  isPreorder = needsPreorder availableForNewOrder effectiveQuantity
              in if isPreorder \<and> \<not> of_preorderEnabled f
                 then Inl (BadRequest (if (case availableForNewOrder of None \<Rightarrow> False | Some a \<Rightarrow> a > 0)
                        then ''Only a few items left in stock.'' else ''Product is out of stock.''))
                 else if isPreorder \<and> pr_addMail p
                 then Inl (BadRequest ''ADD_MAIL products cannot be preordered.'')
                 else
                   (let charge = calculatePreorderCharge (op_merchandise price)
                          (if isPreorder then of_preorderFeePercent f else 0);
                        totalUsd = map_option (\<lambda>usd. to_fixed 2 (usd * (1 + feePercent charge / 100)))
                          (op_merchandiseUsd price)
                    in if \<not> isOrderPriceSafe (Fin (totalAmount charge)) (Fin (op_totalSource price))
                       then Inl (BadRequest ''The sale price is below the source price.'')
                       else
                         (case (if pr_addMail p \<or> isOwnShopProduct p then Inr ()
                                else check_provider isPreorder (op_totalSource price) pa) of
                            Inl e \<Rightarrow> Inl e
                          | Inr _ \<Rightarrow>
                            Inr \<lparr>pd_customer = cid, pd_product = pr_id p, pd_quantity = nat effectiveQuantity,
                              pd_paidQuantity = nat quantity, pd_salePrice = op_salePrice price,
                              pd_totalSale = totalAmount charge, pd_totalSaleUsd = totalUsd,
                              pd_totalSource = op_totalSource price,
                              pd_email = order_email requiresCustomerEmail (oi_email i),
                              pd_targetLink = targetLink,
                              pd_isPreorder = isPreorder, pd_preorderFeePercent = feePercent charge,
                              pd_preorderFee = feeAmount charge,
                              pd_internal = (\<not> of_providerSource f \<and> (pr_connection p \<noteq> None \<or> of_shopInternal f)),
                              pd_seller = of_seller f\<rparr>))))"

text \<open>The customer row is written outside any transaction: it stays when the order is refused later.\<close>

definition prepareTelegramOrderContext ::
  "(ident \<Rightarrow> buyer) \<Rightarrow> (ident \<Rightarrow> offer) \<Rightarrow> provider_answers \<Rightarrow> ident \<Rightarrow> order_input \<Rightarrow> timestamp \<Rightarrow> shop_db
   \<Rightarrow> prepared result \<times> shop_db" where
  "prepareTelegramOrderContext buyers offers pa newCustomer i now s =
     (case List.find (\<lambda>p. pr_id p = oi_product i \<and> pr_shop p = oi_shop i) (products s) of
        None \<Rightarrow> (Inl (NotFound ''Product not found.''), s)
      | Some p \<Rightarrow>
        (let f = offers (pr_id p)
         in if of_isSample f then (Inl (BadRequest ''A sample product cannot be bought.''), s)
            else if \<not> isProductVisibleForBot f p then (Inl (BadRequest ''Product is not available.''), s)
            else if of_hidden f then (Inl (BadRequest ''Product is not available.''), s)
            else
              (case validate_quantity f (oi_quantity i) of
                 Inl e \<Rightarrow> (Inl e, s)
               | Inr _ \<Rightarrow>
                 (let (cid, s1) = upsertTelegramCustomer newCustomer (oi_shop i) (oi_profile i) s
                  in (prepare_priced now (buyers cid) f pa i p \<lfloor>num_val (oi_quantity i)\<rfloor> cid s1, s1)))))"

section \<open>Promotions pick the best tier\<close>

lemma sorted_last_max: "sorted (map k xs) \<Longrightarrow> x \<in> set xs \<Longrightarrow> k x \<le> k (last xs)"
  by (induction xs) (auto simp: sorted_iff_nth_mono)

lemma foldr_max_start: "foldr max xs (max a b) = max b (foldr max xs (a :: int))"
  by (induction xs) (simp_all add: max.left_commute max.commute)

lemma foldl_max_best:
  "foldl (\<lambda>best (buy, get). max best (q div buy * get)) (a :: int) ts
     = foldr max (map (\<lambda>(buy, get). q div buy * get) ts) a"
  by (induction ts arbitrary: a) (auto simp: foldr_max_start)

lemma foldr_max_bounds:
  "a \<le> foldr max xs (a :: int)" "x \<in> set xs \<Longrightarrow> x \<le> foldr max xs a"
  "foldr max xs a = a \<or> foldr max xs a \<in> set xs"
  by (induction xs) (auto simp: max_def)

abbreviation bonus_tiers :: "promo \<Rightarrow> (int \<times> int) list" where
  "bonus_tiers m \<equiv> if promo_tiers m \<noteq> [] then promo_tiers m else [(pf_buyN m, pf_getM m)]"

text \<open>
  Within its window, a tier-price promotion charges the price of the largest tier the quantity
  reaches, and nothing else changes; a buy-N-get-M promotion gives the best of what its tiers give
  and leaves the price alone; outside the window no promotion has an effect.
\<close>

theorem promotion_takes_best_tier:
  fixes now ctv em m q x usd
  defines "r \<equiv> apply_promo now ctv em m q x usd"
  shows "(promo_active now m \<and> pf_type m = ''TIER_PRICE'' \<and> \<not> ctv
        \<and> (\<exists>t \<in> set (promo_price_tiers m). fst t \<le> q)
      \<longrightarrow> (\<exists>t \<in> set (promo_price_tiers m). fst t \<le> q \<and> pp_salePrice r = snd t
            \<and> (\<forall>u \<in> set (promo_price_tiers m). fst u \<le> q \<longrightarrow> fst u \<le> fst t)
            \<and> pp_bonusUnits r = 0 \<and> pp_discount r = 0))
    \<and> (promo_active now m \<and> pf_type m = ''BUY_N_GET_M'' \<and> \<not> em \<and> 0 < pf_buyN m \<and> 0 < pf_getM m \<and> pf_buyN m \<le> q
      \<longrightarrow> (\<forall>(buy, get) \<in> set (bonus_tiers m). q div buy * get \<le> pp_bonusUnits r)
          \<and> (\<exists>(buy, get) \<in> set (bonus_tiers m). pp_bonusUnits r = max 0 (q div buy * get))
          \<and> pp_salePrice r = x \<and> pp_discount r = 0)
    \<and> (\<not> promo_active now m \<longrightarrow> pp_salePrice r = x \<and> pp_salePriceUsd r = usd \<and> pp_bonusUnits r = 0 \<and> pp_discount r = 0)"
proof (intro conjI impI)
  assume a: "promo_active now m \<and> pf_type m = ''TIER_PRICE'' \<and> \<not> ctv
      \<and> (\<exists>t \<in> set (promo_price_tiers m). fst t \<le> q)"
  define ts where "ts = filter (\<lambda>t. fst t \<le> q) (promo_price_tiers m)"
  have ne: "ts \<noteq> []" using a by (auto simp: ts_def filter_empty_conv)
  have srt: "sorted (map fst ts)" unfolding ts_def promo_price_tiers_def by (rule sorted_filter) (rule sorted_sort_key)
  have r: "r = \<lparr>pp_salePrice = snd (last ts), pp_salePriceUsd = None, pp_bonusUnits = 0, pp_discount = 0,
      pp_discountUnits = 0, pp_discountPct = 0\<rparr>"
    using a ne unfolding r_def by (simp add: apply_promo_def ts_def [symmetric] Let_def)
  have mem: "last ts \<in> set ts" using ne by simp
  show "\<exists>t \<in> set (promo_price_tiers m). fst t \<le> q \<and> pp_salePrice r = snd t
      \<and> (\<forall>u \<in> set (promo_price_tiers m). fst u \<le> q \<longrightarrow> fst u \<le> fst t) \<and> pp_bonusUnits r = 0 \<and> pp_discount r = 0"
  proof (rule bexI [of _ "last ts"], intro conjI ballI impI)
    fix u assume "u \<in> set (promo_price_tiers m)" "fst u \<le> q"
    then show "fst u \<le> fst (last ts)" by (intro sorted_last_max srt) (simp add: ts_def)
  qed (use mem in \<open>simp_all add: r ts_def\<close>)
next
  assume a: "promo_active now m \<and> pf_type m = ''BUY_N_GET_M'' \<and> \<not> em \<and> 0 < pf_buyN m \<and> 0 < pf_getM m \<and> pf_buyN m \<le> q"
  let ?g = "\<lambda>(buy, get). q div buy * get"
  have b: "pp_bonusUnits r = foldr max (map ?g (bonus_tiers m)) 0"
    using a unfolding r_def by (simp add: apply_promo_def foldl_max_best)
  show "\<forall>(buy, get) \<in> set (bonus_tiers m). q div buy * get \<le> pp_bonusUnits r"
    unfolding b using foldr_max_bounds(2) [of _ "map ?g (bonus_tiers m)" 0] by force
  show "\<exists>(buy, get) \<in> set (bonus_tiers m). pp_bonusUnits r = max 0 (q div buy * get)"
  proof -
    have ne: "bonus_tiers m \<noteq> []" by auto
    consider "pp_bonusUnits r = 0" | t where "t \<in> set (bonus_tiers m)" "pp_bonusUnits r = ?g t"
      using foldr_max_bounds(3) [of "map ?g (bonus_tiers m)" 0] unfolding b by auto
    then show ?thesis
    proof cases
      case 1
      with ne foldr_max_bounds(2) [of "?g (hd (bonus_tiers m))" "map ?g (bonus_tiers m)" 0] show ?thesis
        unfolding b by (intro bexI [of _ "hd (bonus_tiers m)"]) auto
    next
      case (2 t)
      with foldr_max_bounds(1) [of 0 "map ?g (bonus_tiers m)"] show ?thesis
        unfolding b by (intro bexI [of _ t]) auto
    qed
  qed
  show "pp_salePrice r = x" "pp_discount r = 0" using a unfolding r_def by (simp_all add: apply_promo_def)
qed (simp_all add: r_def apply_promo_def)

section \<open>What an accepted order guarantees\<close>

lemma apply_promo_bonus_nonneg: "0 \<le> pp_bonusUnits (apply_promo now ctv em m q x usd)"
  by (auto simp: apply_promo_def Let_def foldl_max_best foldr_max_bounds(1))

lemma prepare_priced_ok:
  assumes "prepare_priced now b f pa i p q cid s = Inr pd" and "0 \<le> q"
  shows "pd_product pd = pr_id p" and "pd_customer pd = cid" and "pd_paidQuantity pd = nat q"
    and "pd_paidQuantity pd \<le> pd_quantity pd"
    and "0 \<le> pd_totalSource pd" and "pd_totalSource pd \<le> pd_totalSale pd"
    and "pd_totalSource pd = pr_sourcePrice p * of_nat (pd_quantity pd)"
    and "0 \<le> pd_preorderFee pd" and "pd_preorderFee pd \<le> pd_totalSale pd"
    and "pd_isPreorder pd \<Longrightarrow> of_preorderEnabled f \<and> \<not> pr_addMail p"
    and "\<not> pd_isPreorder pd \<Longrightarrow> (case pr_available p of None \<Rightarrow> True
           | Some a \<Rightarrow> int (pd_quantity pd) \<le> max 0 (a - reserved_quantity (pr_id p) s))"
proof -
  let ?r = "apply_promo now (is_ctv b) (pr_addMail p \<or> pr_requiresEmail p) (of_promo f) q (base_price b f p) (base_price_usd b f)"
  let ?pr = "price_order now b f p q"
  have bonus: "0 \<le> op_bonusUnits ?pr" by (simp add: price_order_def Let_def apply_promo_bonus_nonneg)
  have src: "op_totalSource ?pr = pr_sourcePrice p * of_int (q + op_bonusUnits ?pr)"
    by (simp add: price_order_def Let_def)
  have safe: "isOrderPriceSafe (Fin (pd_totalSale pd)) (Fin (pd_totalSource pd))" and
    eqs: "pd_product pd = pr_id p" "pd_customer pd = cid" "pd_paidQuantity pd = nat q"
      "pd_quantity pd = nat (q + op_bonusUnits ?pr)" "pd_totalSource pd = op_totalSource ?pr"
      "pd_isPreorder pd = needsPreorder (getAvailableForNewOrders (pr_available p) (reserved_quantity (pr_id p) s))
         (q + op_bonusUnits ?pr)"
      "\<exists>pct. pd_preorderFee pd = feeAmount (calculatePreorderCharge (op_merchandise ?pr) pct)
         \<and> pd_totalSale pd = totalAmount (calculatePreorderCharge (op_merchandise ?pr) pct)"
      "pd_isPreorder pd \<Longrightarrow> of_preorderEnabled f \<and> \<not> pr_addMail p"
    using assms(1) by (auto simp: prepare_priced_def Let_def split: sum.splits if_splits)
  show "pd_product pd = pr_id p" "pd_customer pd = cid" "pd_paidQuantity pd = nat q"
    "pd_isPreorder pd \<Longrightarrow> of_preorderEnabled f \<and> \<not> pr_addMail p" by (fact eqs)+
  show "pd_paidQuantity pd \<le> pd_quantity pd" using bonus by (simp add: eqs(3,4))
  show "0 \<le> pd_totalSource pd" "pd_totalSource pd \<le> pd_totalSale pd" using safe by (auto simp: isOrderPriceSafe_iff)
  show "pd_totalSource pd = pr_sourcePrice p * of_nat (pd_quantity pd)"
    using bonus assms(2) by (simp add: eqs(4,5) src)
  from eqs(7) obtain pct where "pd_preorderFee pd = feeAmount (calculatePreorderCharge (op_merchandise ?pr) pct)"
    "pd_totalSale pd = totalAmount (calculatePreorderCharge (op_merchandise ?pr) pct)" by blast
  then show "0 \<le> pd_preorderFee pd" "pd_preorderFee pd \<le> pd_totalSale pd"
    by (simp_all add: calculatePreorderCharge_def Let_def js_round_nonneg)
  show "case pr_available p of None \<Rightarrow> True
      | Some a \<Rightarrow> int (pd_quantity pd) \<le> max 0 (a - reserved_quantity (pr_id p) s)" if "\<not> pd_isPreorder pd"
  proof (cases "pr_available p")
    case (Some a)
    have "0 \<le> reserved_quantity (pr_id p) s" by (auto simp: reserved_quantity_def intro!: sum_list_nonneg)
    with Some that bonus assms(2) show ?thesis
      by (auto simp: eqs(4,6) needsPreorder_def getAvailableForNewOrders_def)
  qed simp
qed

definition social_minimum :: "offer \<Rightarrow> jsnum" where
  "social_minimum f = (case of_minQty f of Some x \<Rightarrow> x | None \<Rightarrow> Fin 1)"

lemma validate_quantity_accepts:
  assumes "validate_quantity f q = Inr u"
  shows "is_integer q" and "if of_social f then \<not> js_less q (social_minimum f) else 1 \<le> num_val q"
proof -
  show i: "is_integer q" using assms by (simp add: validate_quantity_def Let_def split: if_splits)
  then obtain k where "q = Fin (of_int k)" by (rule is_integerE)
  with assms show "if of_social f then \<not> js_less q (social_minimum f) else 1 \<le> num_val q"
    by (auto simp: validate_quantity_def social_minimum_def Let_def split: if_splits)
qed

text \<open>
  A social product whose provider metadata names a minimum of zero or below, or no number, is
  accepted with quantity zero: the service itself does not insist on one unit. The chat bot, its
  only caller, drops a zero before it calls.
\<close>

lemma zero_quantity_accepted:
  "validate_quantity f (Fin 0) = Inr () \<longleftrightarrow>
     of_social f \<and> \<not> js_less (Fin 0) (social_minimum f)
     \<and> \<not> js_less (case of_maxQty f of Some x \<Rightarrow> x | None \<Rightarrow> Fin 1000000) (Fin 0)"
  by (simp add: validate_quantity_def social_minimum_def Let_def)

lemma prepare_ok:
  assumes "prepareTelegramOrderContext buyers offers pa new i now s = (Inr pd, t)"
  obtains p cid where "p \<in> set (products s)" and "pr_id p = oi_product i" and "pr_shop p = oi_shop i"
    and "isProductVisibleForBot (offers (pr_id p)) p" and "validate_quantity (offers (pr_id p)) (oi_quantity i) = Inr ()"
    and "(cid, t) = upsertTelegramCustomer new (oi_shop i) (oi_profile i) s"
    and "prepare_priced now (buyers cid) (offers (pr_id p)) pa i p \<lfloor>num_val (oi_quantity i)\<rfloor> cid t = Inr pd"
proof -
  obtain p where p: "List.find (\<lambda>p. pr_id p = oi_product i \<and> pr_shop p = oi_shop i) (products s) = Some p"
    using assms by (auto simp: prepareTelegramOrderContext_def split: option.splits)
  from find_SomeD [OF p] assms p that show thesis
    by (auto simp: prepareTelegramOrderContext_def Let_def split: if_splits sum.splits prod.splits)
qed

text \<open>
  C17. An order is only prepared for a visible product of the shop and a whole quantity, the one
  asked for: at least one unit, or for a social product, asked for with a quantity that is not
  negative, at least the minimum the provider's metadata names, whatever that minimum is. Never
  fewer units are delivered than paid for; the total covers the source cost of all of them (bonus
  units included), the preorder fee is part of the total; an order that is not a preorder fits into
  the stock that paid preorders leave, and a product that needs addresses gets exactly one valid,
  distinct address per paid unit, stored so that it reads back.
\<close>

theorem prepared_order_covered:
  assumes "prepareTelegramOrderContext buyers offers pa new i now s = (Inr pd, t)"
    and "of_social (offers (oi_product i)) \<longrightarrow> 0 \<le> num_val (oi_quantity i)"
  shows "\<exists>p \<in> set (products s). pr_id p = oi_product i \<and> pr_shop p = oi_shop i
    \<and> isProductVisibleForBot (offers (pr_id p)) p
    \<and> oi_quantity i = Fin (of_nat (pd_paidQuantity pd)) \<and> pd_paidQuantity pd \<le> pd_quantity pd
    \<and> (if of_social (offers (pr_id p)) then \<not> js_less (oi_quantity i) (social_minimum (offers (pr_id p)))
       else 1 \<le> pd_paidQuantity pd)
    \<and> pd_totalSource pd = pr_sourcePrice p * of_nat (pd_quantity pd)
    \<and> 0 \<le> pd_totalSource pd \<and> pd_totalSource pd \<le> pd_totalSale pd
    \<and> 0 \<le> pd_preorderFee pd \<and> pd_preorderFee pd \<le> pd_totalSale pd
    \<and> (pd_isPreorder pd \<longrightarrow> of_preorderEnabled (offers (pr_id p)) \<and> \<not> pr_addMail p)
    \<and> (\<not> pd_isPreorder pd \<longrightarrow> (case pr_available p of None \<Rightarrow> True
          | Some a \<Rightarrow> int (pd_quantity pd) \<le> max 0 (a - reserved_quantity (pr_id p) t)))
    \<and> (pr_addMail p \<or> pr_requiresEmail p \<longrightarrow> (let l = parseCustomerEmailList (pd_email pd)
          in hasValidCustomerEmailList l \<and> length (emails l) = pd_paidQuantity pd))"
proof -
  obtain p cid where p: "p \<in> set (products s)" "pr_id p = oi_product i" "pr_shop p = oi_shop i"
    "isProductVisibleForBot (offers (pr_id p)) p" "validate_quantity (offers (pr_id p)) (oi_quantity i) = Inr ()"
    and ok: "prepare_priced now (buyers cid) (offers (pr_id p)) pa i p \<lfloor>num_val (oi_quantity i)\<rfloor> cid t = Inr pd"
    using prepare_ok [OF assms(1)] by metis
  let ?q = "\<lfloor>num_val (oi_quantity i)\<rfloor>"
  note v = validate_quantity_accepts [OF p(5)]
  obtain k where k: "oi_quantity i = Fin (of_int k)" using v(1) by (rule is_integerE)
  have q: "0 \<le> ?q" using v(2) assms(2) p(2) k by (auto split: if_splits)
  have paid: "oi_quantity i = Fin (of_nat (pd_paidQuantity pd))"
    using q k by (simp add: prepare_priced_ok(3) [OF ok q])
  then have least: "if of_social (offers (pr_id p)) then \<not> js_less (oi_quantity i) (social_minimum (offers (pr_id p)))
       else 1 \<le> pd_paidQuantity pd"
    using v(2) by (auto split: if_splits)
  have "let l = parseCustomerEmailList (pd_email pd) in hasValidCustomerEmailList l \<and> length (emails l) = pd_paidQuantity pd"
    if "pr_addMail p \<or> pr_requiresEmail p"
  proof -
    let ?l = "parseCustomerEmailList (oi_email i)"
    have v: "hasValidCustomerEmailList ?l" "int (length (emails ?l)) = ?q"
      and e: "pd_email pd = order_email True (oi_email i)"
      using ok that by (auto simp: prepare_priced_def check_emails_def Let_def split: sum.splits if_splits)
    define es where "es = line_emails (split_lines (case oi_email i of None \<Rightarrow> [] | Some x \<Rightarrow> x))"
    have es: "es \<noteq> []" "distinct es" "list_all good_email es" "emails ?l = es"
      using v(1) parse_valid_iff [of "oi_email i"] parse_valid_emails [of "oi_email i"] by (simp_all add: es_def Let_def)
    then have j: "pd_email pd = Some (join_with nl es)"
      using e join_good_not_Nil [of es] by (simp add: order_email_def)
    show ?thesis
      using es v(2) prepare_priced_ok(3) [OF ok] q parse_joined [OF es(1-3)]
      by (simp add: j Let_def hasValidCustomerEmailList_def)
  qed
  then show ?thesis
    using p(1-4) paid least prepare_priced_ok(1,2,4-11) [OF ok q] by (intro bexI [of _ p]) simp_all
qed

section \<open>A shop with one promoted product\<close>

definition demo_promo :: promo where
  "demo_promo = \<lparr>pf_type = ''BUY_N_GET_M'', pf_buyN = 2, pf_getM = 1,
     pf_tiers = [(Fin 2, Fin 1), (Fin 3, Fin 2), (NaN, Fin 9)], pf_priceTiers = [], pf_bulkMinQty = 0, pf_bulkDiscountPct = 0,
     pf_startAt = None, pf_endAt = Some 100\<rparr>"

definition demo_offer :: offer where
  "demo_offer = \<lparr>of_isSample = False, of_archived = False, of_ownProductsOnly = True, of_hidden = False,
     of_social = False, of_minQty = None, of_maxQty = None, of_overrideSale = Some 50000, of_overrideUsd = None,
     of_internalEnabled = False, of_internalPrice = None, of_promo = demo_promo, of_preorderEnabled = True,
     of_preorderFeePercent = 10, of_providerSource = False, of_shopInternal = False, of_seller = ''v1''\<rparr>"

definition demo_goods :: product where
  "demo_goods = \<lparr>pr_id = ''p1'', pr_shop = ''s1'', pr_providerManual = True, pr_metaManual = True, pr_metaShared = False,
     pr_sharedContent = None, pr_addMail = False, pr_requiresEmail = False, pr_available = Some 4, pr_soldCount = 0,
     pr_external = ''e1'', pr_connection = None, pr_sourcePrice = 20000\<rparr>"

definition demo_buyer :: buyer where
  "demo_buyer = \<lparr>by_isCtv = None, by_apiKey = False, by_connection = False, by_discountPercent = 0\<rparr>"

definition demo_answers :: provider_answers where
  "demo_answers = \<lparr>pa_roboticvn = Inr False, pa_inStock = True, pa_checkBalance = False, pa_balanceVnd = None\<rparr>"

definition demo_input :: order_input where
  "demo_input = \<lparr>oi_shop = ''s1'', oi_profile = \<lparr>tp_userId = ''u1'', tp_chatId = ''77''\<rparr>, oi_product = ''p1'',
     oi_quantity = Fin 3, oi_email = None, oi_targetLink = None, oi_comments = None\<rparr>"

definition demo_prepared :: prepared where
  "demo_prepared = \<lparr>pd_customer = ''c1'', pd_product = ''p1'', pd_quantity = 5, pd_paidQuantity = 3, pd_salePrice = 50000,
     pd_totalSale = 165000, pd_totalSaleUsd = None, pd_totalSource = 100000, pd_email = None, pd_targetLink = None,
     pd_isPreorder = True, pd_preorderFeePercent = 10, pd_preorderFee = 15000, pd_internal = False, pd_seller = ''v1''\<rparr>"

lemma demo_promo_result:
  "apply_promo 10 False False demo_promo 3 50000 None = \<lparr>pp_salePrice = 50000, pp_salePriceUsd = None, pp_bonusUnits = 2,
     pp_discount = 0, pp_discountUnits = 0, pp_discountPct = 0\<rparr>"
  by (simp add: apply_promo_def demo_promo_def promo_active_def promo_tiers_def)

text \<open>Three units, two more as a bonus: more than the four in stock, so the order becomes a preorder with its fee.\<close>

lemma demo_prepare:
  assumes "products s = [demo_goods]" and "reserved_quantity ''p1'' s = 0" and "customers s = []"
  shows "fst (prepareTelegramOrderContext (\<lambda>_. demo_buyer) (\<lambda>_. demo_offer) demo_answers ''c1'' demo_input 10 s)
    = Inr demo_prepared"
proof -
  have v: "validate_quantity demo_offer (Fin 3) = Inr ()"
    by (simp add: validate_quantity_def demo_offer_def)
  have pr: "price_order 10 demo_buyer demo_offer demo_goods 3 = \<lparr>op_bonusUnits = 2, op_salePrice = 50000,
      op_merchandise = 150000, op_merchandiseUsd = None, op_totalSource = 100000\<rparr>"
  proof -
    have "is_ctv demo_buyer = False" "base_price demo_buyer demo_offer demo_goods = 50000"
      "base_price_usd demo_buyer demo_offer = None" "of_promo demo_offer = demo_promo"
      "pr_addMail demo_goods = False" "pr_requiresEmail demo_goods = False" "pr_sourcePrice demo_goods = 20000"
      by (simp_all add: is_ctv_def demo_buyer_def base_price_def base_price_usd_def demo_offer_def demo_goods_def)
    then show ?thesis by (simp add: price_order_def demo_promo_result)
  qed
  have t: "reserved_quantity ''p1'' (snd (upsertTelegramCustomer ''c1'' ''s1'' prof s)) = 0" for prof
    using assms(2,3) by (simp add: upsertTelegramCustomer_def reserved_quantity_def)
  have c: "fst (upsertTelegramCustomer ''c1'' ''s1'' prof s) = ''c1''" for prof
    using assms(3) by (simp add: upsertTelegramCustomer_def)
  have "prepare_priced 10 demo_buyer demo_offer demo_answers demo_input demo_goods 3 ''c1'' u = Inr demo_prepared"
    if "reserved_quantity ''p1'' u = 0" for u
  proof -
    have r: "reserved_quantity (pr_id demo_goods) u = 0" using that by (simp add: demo_goods_def)
    show ?thesis
      by (simp add: prepare_priced_def pr Let_def r check_emails_def trimmed_def order_email_def js_trim_def to_lower_def
          getAvailableForNewOrders_def needsPreorder_def calculatePreorderCharge_def isOrderPriceSafe_def
          demo_prepared_def isOwnShopProduct_def)
        (simp add: demo_goods_def demo_offer_def demo_input_def)
  qed
  note prep = this
  obtain u where u: "upsertTelegramCustomer ''c1'' ''s1'' \<lparr>tp_userId = ''u1'', tp_chatId = ''77''\<rparr> s = (''c1'', u)"
    using c by (metis prod.collapse)
  have r: "reserved_quantity ''p1'' u = 0" using t [of "\<lparr>tp_userId = ''u1'', tp_chatId = ''77''\<rparr>"] by (simp add: u)
  have i: "oi_shop demo_input = ''s1''" "oi_profile demo_input = \<lparr>tp_userId = ''u1'', tp_chatId = ''77''\<rparr>"
    "oi_product demo_input = ''p1''" "oi_quantity demo_input = Fin 3" by (simp_all add: demo_input_def)
  have g: "pr_id demo_goods = ''p1''" "pr_shop demo_goods = ''s1''" "isProductVisibleForBot demo_offer demo_goods"
    "\<not> of_isSample demo_offer" "\<not> of_hidden demo_offer"
    by (simp_all add: demo_goods_def demo_offer_def isProductVisibleForBot_def isOwnShopProduct_def)
  show ?thesis by (simp add: prepareTelegramOrderContext_def i g u v assms(1) prep [OF r])
qed

definition demo_catalog :: shop_db where
  "demo_catalog = empty_shop\<lparr>products := [demo_goods]\<rparr>"

lemma demo_catalog_prepared:
  "fst (prepareTelegramOrderContext (\<lambda>_. demo_buyer) (\<lambda>_. demo_offer) demo_answers ''c1'' demo_input 10 demo_catalog)
    = Inr demo_prepared"
  by (rule demo_prepare) (simp_all add: demo_catalog_def empty_shop_def reserved_quantity_def)

theorem prepared_order_covered_witness:
  "\<exists>p \<in> set (products demo_catalog). pd_totalSource demo_prepared = pr_sourcePrice p * 5
     \<and> pd_paidQuantity demo_prepared = 3 \<and> 1 \<le> pd_paidQuantity demo_prepared
     \<and> pd_totalSource demo_prepared \<le> pd_totalSale demo_prepared"
proof -
  obtain t where t: "prepareTelegramOrderContext (\<lambda>_. demo_buyer) (\<lambda>_. demo_offer) demo_answers ''c1'' demo_input 10
      demo_catalog = (Inr demo_prepared, t)" using demo_catalog_prepared by (metis prod.collapse)
  have "pd_quantity demo_prepared = 5" "pd_paidQuantity demo_prepared = 3" by (simp_all add: demo_prepared_def)
  with prepared_order_covered [OF t] show ?thesis by (auto simp: demo_offer_def)
qed

theorem promotion_takes_best_tier_witness:
  "\<exists>(buy, get) \<in> set (bonus_tiers demo_promo). pp_bonusUnits (apply_promo 10 False False demo_promo 3 50000 None)
     = max 0 (3 div buy * get)"
  using promotion_takes_best_tier [of 10 demo_promo False 3 False 50000 None]
  by (simp add: demo_promo_def promo_active_def)

end
