(* ===== verification/ConnectionWallet.thy ===== *)
theory ConnectionWallet
  imports CustomerWallet Pricing
begin

text \<open>
  The wallet of a reseller's connection to an upstream shop, and the commission of a referring
  customer: \<open>apps/worker/src/wallet.ts\<close>. A downstream order is paid from the wallet the reseller
  holds as a customer of the upstream shop, commission balance first; it is given back when the
  order fails. The configured exchange rate and the affiliate settings of a shop are arguments.
  Money columns round what is written to two decimals, the USDT column to eight.
\<close>

section \<open>The linked wallet\<close>

text \<open>\<open>Left\<close> side: why there is none.\<close>

definition linked_customer :: "ident \<Rightarrow> shop_db \<Rightarrow> (ident \<times> customer_wallet) result" where
  "linked_customer connectionId s =
     (case connection_at connectionId s of
        None \<Rightarrow> Inl (ConnectionBalanceError ''Internal source connection has no linked customer wallet.'')
      | Some n \<Rightarrow>
        (case cn_chatId n of
           None \<Rightarrow> Inl (ConnectionBalanceError ''Internal source connection has no linked customer wallet.'')
         | Some chat \<Rightarrow>
           if chat = [] then Inl (ConnectionBalanceError ''Internal source connection has no linked customer wallet.'')
           else
             (case List.find (\<lambda>c. cu_shop c = cn_upstreamShop n \<and> cu_telegramChatId c = chat) (customers s) of
                None \<Rightarrow> Inl (ConnectionBalanceError ''Internal source customer wallet not found.'')
              | Some c \<Rightarrow>
                (case customer_wallets s (cu_id c) of
                   None \<Rightarrow> Inl (ConnectionBalanceError ''Internal source customer wallet not found.'')
                 | Some w \<Rightarrow> Inr (cu_id c, w)))))"

definition is_order_row :: "customer_ledger_type \<Rightarrow> ident \<Rightarrow> ident \<Rightarrow> customer_entry \<Rightarrow> bool" where
  "is_order_row ty cid orderId e \<longleftrightarrow>
     cl_customer e = cid \<and> cl_type e = ty \<and> cl_refType e = ''order'' \<and> cl_refId e = orderId"

definition order_rows :: "customer_ledger_type \<Rightarrow> ident \<Rightarrow> ident \<Rightarrow> shop_db \<Rightarrow> customer_entry list" where
  "order_rows ty cid orderId s = filter (is_order_row ty cid orderId) (customer_ledger s)"

text \<open>One row that moves both balances; the columns keep two decimals.\<close>

definition order_entry ::
  "customer_ledger_type \<Rightarrow> ident \<Rightarrow> ident \<Rightarrow> rat \<Rightarrow> customer_wallet \<Rightarrow> customer_wallet \<Rightarrow> customer_entry" where
  "order_entry ty cid orderId amount w w' =
     \<lparr>cl_customer = cid, cl_type = ty, cl_currency = VND, cl_amount = to_fixed 2 amount,
      cl_before = cw_balance w, cl_after = cw_balance w',
      cl_commissionBefore = Some (cw_commission w), cl_commissionAfter = Some (cw_commission w'),
      cl_refType = ''order'', cl_refId = orderId\<rparr>"

definition source_row ::
  "source_ledger_type \<Rightarrow> ident \<Rightarrow> ident \<Rightarrow> rat \<Rightarrow> customer_wallet \<Rightarrow> customer_wallet \<Rightarrow> source_entry" where
  "source_row ty connectionId orderId amount w w' =
     \<lparr>il_connection = connectionId, il_type = ty, il_amount = to_fixed 2 amount,
      il_before = cw_balance w + cw_commission w, il_after = cw_balance w' + cw_commission w',
      il_refType = ''order'', il_refId = orderId\<rparr>"

definition touch_connection :: "ident \<Rightarrow> timestamp \<Rightarrow> shop_db \<Rightarrow> shop_db" where
  "touch_connection connectionId now s = s\<lparr>connections :=
     modify_rows (\<lambda>n. cn_id n = connectionId) (\<lambda>n. n\<lparr>cn_lastOrderedAt := Some now\<rparr>) (connections s)\<rparr>"

definition add_source_row :: "source_entry \<Rightarrow> shop_db \<Rightarrow> shop_db" where
  "add_source_row e s = s\<lparr>source_ledger := source_ledger s @ [e]\<rparr>"

section \<open>Debit and refund\<close>

text \<open>Commission balance first, then the main balance.\<close>

definition debited :: "rat \<Rightarrow> rat \<Rightarrow> customer_wallet \<Rightarrow> customer_wallet" where
  "debited rate debitAmount w =
     (let fromCommission = min (cw_commission w) debitAmount; fromMain = debitAmount - fromCommission
      in \<lparr>cw_balance = to_fixed 2 (cw_balance w - fromMain),
          cw_commission = to_fixed 2 (cw_commission w - fromCommission),
          cw_usdt = to_fixed 8 (max 0 (cw_usdt w - fromMain / rate))\<rparr>)"

text \<open>\<open>True\<close>: already debited.\<close>

definition debitConnectionBalanceTx ::
  "rat \<Rightarrow> ident \<Rightarrow> jsnum \<Rightarrow> ident \<Rightarrow> jsnum \<Rightarrow> timestamp \<Rightarrow> shop_db \<Rightarrow> (bool \<times> shop_db) result" where
  "debitConnectionBalanceTx fallback connectionId amount orderId usdtVndRate now s =
     (if \<not> is_finite amount \<or> js_le amount (Fin 0)
      then Inl (ConnectionBalanceError ''Invalid internal source debit amount.'')
      else
        (case linked_customer connectionId s of
           Inl e \<Rightarrow> Inl e
         | Inr (cid, w) \<Rightarrow>
           if length (order_rows CSpendOrder cid orderId s) > length (order_rows CRefundOrder cid orderId s)
           then Inr (True, s)
           else
             (let debitAmount = num_val amount
              in if cw_balance w + cw_commission w < debitAmount
                 then Inl (ConnectionBalanceError ''Insufficient source balance.'')
                 else
                   (let w' = debited (resolveUsdtVndRate usdtVndRate fallback) debitAmount w
                    in Inr (False,
                         add_source_row (source_row SDebitOrder connectionId orderId (- debitAmount) w w')
                         (touch_connection connectionId now
                         (write_wallet cid w' [order_entry CSpendOrder cid orderId (- debitAmount) w w'] s)))))))"

text \<open>What a debit row took from the two balances.\<close>

definition row_main :: "customer_entry \<Rightarrow> money" where
  "row_main e = cl_before e - cl_after e"

definition row_commission :: "customer_entry \<Rightarrow> money" where
  "row_commission e = decimalToNumber (cl_commissionBefore e) - decimalToNumber (cl_commissionAfter e)"

definition refunded :: "rat \<Rightarrow> customer_entry \<Rightarrow> customer_wallet \<Rightarrow> customer_wallet" where
  "refunded rate debit w =
     \<lparr>cw_balance = to_fixed 2 (cw_balance w + row_main debit),
      cw_commission = to_fixed 2 (cw_commission w + row_commission debit),
      cw_usdt = to_fixed 8 (max 0 (cw_usdt w + row_main debit / rate))\<rparr>"

text \<open>The refund of the oldest debit that has none yet; \<open>False\<close>: nothing to refund.\<close>

definition refundConnectionBalanceTx ::
  "rat \<Rightarrow> ident \<Rightarrow> ident \<Rightarrow> jsnum \<Rightarrow> timestamp \<Rightarrow> shop_db \<Rightarrow> bool \<times> shop_db" where
  "refundConnectionBalanceTx fallback connectionId orderId usdtVndRate now s =
     (case linked_customer connectionId s of
        Inl e \<Rightarrow> (False, s)
      | Inr (cid, w) \<Rightarrow>
        (let debits = order_rows CSpendOrder cid orderId s;
             refunds = length (order_rows CRefundOrder cid orderId s)
         in if length debits \<le> refunds then (False, s)
            else
              (let debit = debits ! refunds;
                   refundAmount = row_main debit + row_commission debit;
                   w' = refunded (resolveUsdtVndRate usdtVndRate fallback) debit w
               in (True,
                   add_source_row (source_row SRefundOrder connectionId orderId refundAmount w w')
                   (touch_connection connectionId now
                   (write_wallet cid w' [order_entry CRefundOrder cid orderId refundAmount w w'] s))))))"

text \<open>\<open>usdtVndRateOverride\<close> of the upstream shop; \<open>None\<close>: no payment settings.\<close>

definition getConnectionUsdtVndRate ::
  "(ident \<Rightarrow> jsnum) \<Rightarrow> rat \<Rightarrow> ident \<Rightarrow> shop_db \<Rightarrow> rat result" where
  "getConnectionUsdtVndRate overrideRate fallback connectionId s =
     (case connection_at connectionId s of
        None \<Rightarrow> Inl (ConnectionBalanceError ''Internal source connection not found.'')
      | Some n \<Rightarrow> Inr (resolveUsdtVndRate (overrideRate (cn_upstreamShop n)) fallback))"

definition debitConnectionBalance ::
  "(ident \<Rightarrow> jsnum) \<Rightarrow> rat \<Rightarrow> ident \<Rightarrow> jsnum \<Rightarrow> ident \<Rightarrow> timestamp \<Rightarrow> shop_db \<Rightarrow> bool result \<times> shop_db" where
  "debitConnectionBalance overrideRate fallback connectionId amount orderId now s =
     (case getConnectionUsdtVndRate overrideRate fallback connectionId s of
        Inl e \<Rightarrow> (Inl e, s)
      | Inr usdtVndRate \<Rightarrow>
        transaction (debitConnectionBalanceTx fallback connectionId amount orderId (Fin usdtVndRate) now) s)"

section \<open>The commission of a referring customer\<close>

record affiliate_config =
  ac_enabled :: bool
  ac_commissionPct :: rat

text \<open>The reads before the transaction: \<open>Some\<close> the referrer and the commission to credit.\<close>

definition creditAffiliateCommission_read ::
  "(ident \<Rightarrow> affiliate_config option) \<Rightarrow> ident \<Rightarrow> shop_db \<Rightarrow> (ident \<times> rat) option" where
  "creditAffiliateCommission_read cfg orderId s =
     (case order_at orderId s of None \<Rightarrow> None | Some ord \<Rightarrow>
      (case customer_at (od_customer ord) s of None \<Rightarrow> None | Some c \<Rightarrow>
       (case cu_referredBy c of None \<Rightarrow> None | Some referredById \<Rightarrow>
        if (case od_affiliateCommission ord of None \<Rightarrow> False | Some a \<Rightarrow> 0 < a) then None
        else
          (case cfg (od_shop ord) of None \<Rightarrow> None | Some conf \<Rightarrow>
           if \<not> ac_enabled conf then None
           else
             (let commission = js_round (resolveSellerSafeAffiliateCommission (Fin (od_totalSale ord))
                    (Fin (od_totalSource ord)) (Fin (ac_commissionPct conf)))
              in if commission \<le> 0 then None else Some (referredById, of_int commission))))))"

definition creditAffiliateCommission_tx :: "ident \<Rightarrow> ident \<times> rat \<Rightarrow> shop_db \<Rightarrow> shop_db" where
  "creditAffiliateCommission_tx orderId rc s0 =
     (let (referredById, commission) = rc;
          s = upsert_customer_wallet referredById (update_order orderId
                (\<lambda>r. r\<lparr>od_affiliateCommission := Some commission, od_affiliateCustomer := Some referredById\<rparr>) s0);
          w = wallet_or_new s referredById;
          w' = w\<lparr>cw_commission := to_fixed 2 (cw_commission w + commission)\<rparr>
      in write_wallet referredById w' [order_entry CAffiliateCommission referredById orderId commission w w'] s)"

definition creditAffiliateCommission ::
  "(ident \<Rightarrow> affiliate_config option) \<Rightarrow> ident \<Rightarrow> shop_db \<Rightarrow> shop_db" where
  "creditAffiliateCommission cfg orderId s =
     (case creditAffiliateCommission_read cfg orderId s of
        None \<Rightarrow> s | Some rc \<Rightarrow> creditAffiliateCommission_tx orderId rc s)"

section \<open>Wallets stay in order\<close>

lemma order_entry_simps [simp]:
  "cl_customer (order_entry ty cid oid a w w') = cid" "cl_type (order_entry ty cid oid a w w') = ty"
  "main_delta (order_entry ty cid oid a w w') = cw_balance w' - cw_balance w"
  "commission_delta (order_entry ty cid oid a w w') = cw_commission w' - cw_commission w"
  "row_main (order_entry ty cid oid a w w') = cw_balance w - cw_balance w'"
  "row_commission (order_entry ty cid oid a w w') = cw_commission w - cw_commission w'"
  "is_order_row ty' cid' oid' (order_entry ty cid oid a w w') \<longleftrightarrow> cid' = cid \<and> oid' = oid \<and> ty' = ty"
  by (auto simp: order_entry_def main_delta_def commission_delta_def row_main_def row_commission_def
      decimalToNumber_def is_order_row_def)

lemma connection_frames [simp]:
  "customer_wallets (add_source_row e s) = customer_wallets s" "customer_ledger (add_source_row e s) = customer_ledger s"
  "customers (add_source_row e s) = customers s" "connections (add_source_row e s) = connections s"
  "source_ledger (add_source_row e s) = source_ledger s @ [e]" "orders (add_source_row e s) = orders s"
  "customer_wallets (touch_connection c now s) = customer_wallets s"
  "customer_ledger (touch_connection c now s) = customer_ledger s"
  "customers (touch_connection c now s) = customers s" "source_ledger (touch_connection c now s) = source_ledger s"
  "orders (touch_connection c now s) = orders s" "topups (touch_connection c now s) = topups s"
  "promotions (touch_connection c now s) = promotions s" "topups (add_source_row e s) = topups s"
  "promotions (add_source_row e s) = promotions s"
  "shop_inv (add_source_row e s) = shop_inv s" "shop_inv (touch_connection c now s) = shop_inv s"
  by (simp_all add: add_source_row_def touch_connection_def)

lemma wallet_fine_debited:
  "wallet_fine w \<Longrightarrow> 0 < a \<Longrightarrow> a \<le> cw_balance w + cw_commission w \<Longrightarrow> wallet_fine (debited rate a w)"
  by (auto simp: wallet_fine_def debited_def Let_def min_def intro!: to_fixed_nonneg)

lemma wallet_fine_refunded:
  "wallet_fine w \<Longrightarrow> 0 \<le> row_main d \<Longrightarrow> 0 \<le> row_commission d \<Longrightarrow> wallet_fine (refunded rate d w)"
  by (auto simp: wallet_fine_def refunded_def intro!: to_fixed_nonneg)

lemma linked_wallet: "linked_customer n s = Inr (cid, w) \<Longrightarrow> customer_wallets s cid = Some w"
  by (auto simp: linked_customer_def split: option.splits if_splits)

lemma shop_inv_order_write:
  assumes "shop_inv s" and "customer_wallets s cid = Some w" and "wallet_fine w'"
  shows "shop_inv (write_wallet cid w' [order_entry ty cid oid a w w'] s)"
  by (rule shop_inv_write) (use assms wallet_at_new [OF assms(2)] in auto)

text \<open>A debit row never gave money; refunds of an order in a wallet lag its debits by at most one.\<close>

definition spend_fine :: "customer_entry \<Rightarrow> bool" where
  "spend_fine e \<longleftrightarrow> (cl_type e = CSpendOrder \<longrightarrow> 0 \<le> row_main e \<and> 0 \<le> row_commission e
     \<and> cents (row_main e) \<and> cents (row_commission e))"

definition outstanding_ok :: "shop_db \<Rightarrow> bool" where
  "outstanding_ok s \<longleftrightarrow> (\<forall>cid oid. length (order_rows CRefundOrder cid oid s) \<le> length (order_rows CSpendOrder cid oid s)
     \<and> length (order_rows CSpendOrder cid oid s) \<le> Suc (length (order_rows CRefundOrder cid oid s)))"

definition connection_inv :: "shop_db \<Rightarrow> bool" where
  "connection_inv s \<longleftrightarrow> shop_inv s \<and> list_all spend_fine (customer_ledger s) \<and> outstanding_ok s"

lemma outstandingD:
  "outstanding_ok s \<Longrightarrow> length (order_rows CRefundOrder cid oid s) \<le> length (order_rows CSpendOrder cid oid s)"
  "outstanding_ok s \<Longrightarrow> length (order_rows CSpendOrder cid oid s) \<le> Suc (length (order_rows CRefundOrder cid oid s))"
  by (simp_all add: outstanding_ok_def)

lemma order_rows_write [simp]:
  "order_rows ty cid oid (write_wallet i w es s) = order_rows ty cid oid s @ filter (is_order_row ty cid oid) es"
  "order_rows ty cid oid (add_source_row e s) = order_rows ty cid oid s"
  "order_rows ty cid oid (touch_connection n now s) = order_rows ty cid oid s"
  by (simp_all add: order_rows_def)

lemma debit_tx_cases:
  assumes "debitConnectionBalanceTx fb n amount oid rate now s = Inr (d, t)"
  obtains cid w where "linked_customer n s = Inr (cid, w)" and "d" and "t = s"
    and "length (order_rows CSpendOrder cid oid s) > length (order_rows CRefundOrder cid oid s)"
  | cid w a w' where "linked_customer n s = Inr (cid, w)" and "\<not> d" and "amount = Fin a" and "0 < a"
    and "length (order_rows CSpendOrder cid oid s) \<le> length (order_rows CRefundOrder cid oid s)"
    and "a \<le> cw_balance w + cw_commission w" and "w' = debited (resolveUsdtVndRate rate fb) a w"
    and "t = add_source_row (source_row SDebitOrder n oid (- a) w w') (touch_connection n now
           (write_wallet cid w' [order_entry CSpendOrder cid oid (- a) w w'] s))"
proof -
  obtain a where a: "amount = Fin a" "0 < a"
    using assms by (cases amount) (auto simp: debitConnectionBalanceTx_def split: if_splits)
  obtain cid w where l: "linked_customer n s = Inr (cid, w)"
    using assms a by (auto simp: debitConnectionBalanceTx_def split: sum.splits)
  show thesis
  proof (cases "length (order_rows CSpendOrder cid oid s) > length (order_rows CRefundOrder cid oid s)")
    case True
    show thesis
      by (rule that(1) [OF l _ _ True]) (use assms a l True in \<open>simp_all add: debitConnectionBalanceTx_def\<close>)
  next
    case False
    show thesis
      by (rule that(2) [OF l _ a _ _ refl])
         (use assms a l False in \<open>simp_all add: debitConnectionBalanceTx_def Let_def split: if_splits\<close>)
  qed
qed

lemma refund_tx_cases:
  assumes "refundConnectionBalanceTx fb n oid rate now s = (r, t)"
  obtains "\<not> r" and "t = s"
  | cid w debit w' where "linked_customer n s = Inr (cid, w)" and "r"
    and "length (order_rows CRefundOrder cid oid s) < length (order_rows CSpendOrder cid oid s)"
    and "debit = order_rows CSpendOrder cid oid s ! length (order_rows CRefundOrder cid oid s)"
    and "w' = refunded (resolveUsdtVndRate rate fb) debit w"
    and "t = add_source_row (source_row SRefundOrder n oid (row_main debit + row_commission debit) w w')
           (touch_connection n now
             (write_wallet cid w' [order_entry CRefundOrder cid oid (row_main debit + row_commission debit) w w'] s))"
proof (cases r)
  case False
  show thesis
    by (rule that(1)) (use assms False in
      \<open>auto simp: refundConnectionBalanceTx_def Let_def split: sum.splits if_splits\<close>)
next
  case True
  then obtain cid w where l: "linked_customer n s = Inr (cid, w)"
    using assms by (auto simp: refundConnectionBalanceTx_def split: sum.splits)
  show thesis
    by (rule that(2) [OF l True _ refl refl])
       (use assms True l in \<open>simp_all add: refundConnectionBalanceTx_def Let_def split: if_splits\<close>)
qed

lemma spend_fine_debit:
  assumes "wallet_fine w" and "wallet_fine w'" and "cw_balance w' \<le> cw_balance w" and "cw_commission w' \<le> cw_commission w"
  shows "spend_fine (order_entry ty cid oid a w w')"
  using assms by (auto simp: spend_fine_def wallet_fine_def)

lemma to_fixed_mono: "x \<le> y \<Longrightarrow> 0 \<le> x \<Longrightarrow> to_fixed d x \<le> to_fixed d y"
proof -
  assume "x \<le> y" "0 \<le> x"
  then have "\<lfloor>x * 10 ^ d + 1 / 2\<rfloor> \<le> \<lfloor>y * 10 ^ d + 1 / 2\<rfloor>" by (intro floor_mono) simp
  then show ?thesis using \<open>x \<le> y\<close> \<open>0 \<le> x\<close> by (simp add: to_fixed_def divide_right_mono)
qed

lemma debited_le:
  assumes "wallet_fine w" and "0 < a" and "a \<le> cw_balance w + cw_commission w"
  shows "cw_balance (debited rate a w) \<le> cw_balance w" and "cw_commission (debited rate a w) \<le> cw_commission w"
proof -
  have w: "to_fixed 2 (cw_balance w) = cw_balance w" "to_fixed 2 (cw_commission w) = cw_commission w"
    using assms(1) by (simp_all add: wallet_fineD to_fixed_grid)
  show "cw_balance (debited rate a w) \<le> cw_balance w"
    using to_fixed_mono [of "cw_balance w - (a - min (cw_commission w) a)" "cw_balance w" 2] assms
    by (auto simp: debited_def Let_def w min_def wallet_fine_def)
  show "cw_commission (debited rate a w) \<le> cw_commission w"
    using to_fixed_mono [of "cw_commission w - min (cw_commission w) a" "cw_commission w" 2] assms
    by (auto simp: debited_def Let_def w min_def wallet_fine_def)
qed

lemma connection_inv_write:
  assumes "connection_inv s" and "customer_wallets s cid = Some w" and "wallet_fine w'"
    and "ty = CSpendOrder \<Longrightarrow> spend_fine (order_entry ty cid oid a w w')"
    and "ty = CSpendOrder \<Longrightarrow> length (order_rows CSpendOrder cid oid s) \<le> length (order_rows CRefundOrder cid oid s)"
    and "ty = CRefundOrder \<Longrightarrow> length (order_rows CRefundOrder cid oid s) < length (order_rows CSpendOrder cid oid s)"
  shows "connection_inv (write_wallet cid w' [order_entry ty cid oid a w w'] s)"
proof -
  have "shop_inv (write_wallet cid w' [order_entry ty cid oid a w w'] s)"
    using assms(1-3) by (auto simp: connection_inv_def intro: shop_inv_order_write)
  moreover have "spend_fine (order_entry ty cid oid a w w')"
    using assms(4) by (cases "ty = CSpendOrder") (auto simp: spend_fine_def)
  moreover have "outstanding_ok (write_wallet cid w' [order_entry ty cid oid a w w'] s)"
    using assms(1,5,6) by (cases ty) (auto simp: connection_inv_def outstanding_ok_def intro: le_SucI)
  ultimately show ?thesis using assms(1) by (simp add: connection_inv_def)
qed

lemma connection_inv_frames [simp]:
  "connection_inv (add_source_row e s) = connection_inv s" "connection_inv (touch_connection n now s) = connection_inv s"
  by (simp_all add: connection_inv_def outstanding_ok_def)

lemma connection_inv_wallet:
  "connection_inv s \<Longrightarrow> linked_customer n s = Inr (cid, w) \<Longrightarrow> wallet_fine w"
  by (auto simp: connection_inv_def dest: linked_wallet shop_inv_wallet)

lemma connection_inv_debit:
  assumes "connection_inv s" and "debitConnectionBalanceTx fb n amount oid rate now s = Inr (d, t)"
  shows "connection_inv t"
  using assms(2)
proof (cases rule: debit_tx_cases)
  case (2 cid w a w')
  have fine: "wallet_fine w" "wallet_fine w'"
    using connection_inv_wallet [OF assms(1) 2(1)] 2(4,6,7) by (auto intro: wallet_fine_debited)
  have "spend_fine (order_entry CSpendOrder cid oid (- a) w w')"
    using debited_le [OF fine(1) 2(4,6)] 2(7) by (intro spend_fine_debit fine) simp_all
  then show ?thesis
    using connection_inv_write [OF assms(1) linked_wallet [OF 2(1)] fine(2), of CSpendOrder oid "- a"] 2(5)
    by (simp add: 2(8))
qed (use assms in simp)

lemma debit_row_fine:
  assumes "connection_inv s" and "k < length (order_rows CSpendOrder cid oid s)"
  shows "spend_fine (order_rows CSpendOrder cid oid s ! k) \<and> cl_type (order_rows CSpendOrder cid oid s ! k) = CSpendOrder"
proof -
  have "order_rows CSpendOrder cid oid s ! k \<in> set (order_rows CSpendOrder cid oid s)" using assms(2) by simp
  then show ?thesis
    using assms(1) by (auto simp: order_rows_def connection_inv_def list_all_iff is_order_row_def)
qed

lemma connection_inv_refund:
  assumes "connection_inv s" and "refundConnectionBalanceTx fb n oid rate now s = (r, t)"
  shows "connection_inv t"
  using assms(2)
proof (cases rule: refund_tx_cases)
  case (2 cid w debit w')
  have "spend_fine debit \<and> cl_type debit = CSpendOrder" unfolding 2(4) by (rule debit_row_fine [OF assms(1) 2(3)])
  then have "wallet_fine w'"
    using connection_inv_wallet [OF assms(1) 2(1)] unfolding 2(5) spend_fine_def by (auto intro: wallet_fine_refunded)
  then show ?thesis
    using connection_inv_write [OF assms(1) linked_wallet [OF 2(1)], of w' CRefundOrder oid] 2(3)
    by (simp add: 2(6))
qed (use assms in simp)

section \<open>Runs of debits and refunds\<close>

datatype connection_call =
    DebitConnection ident jsnum ident timestamp
  | RefundConnection ident ident jsnum timestamp

primrec exec_connection :: "(ident \<Rightarrow> jsnum) \<Rightarrow> rat \<Rightarrow> connection_call \<Rightarrow> shop_db \<Rightarrow> shop_db" where
  "exec_connection ov fb (DebitConnection n amount oid now) s = snd (debitConnectionBalance ov fb n amount oid now s)"
| "exec_connection ov fb (RefundConnection n oid rate now) s = snd (refundConnectionBalanceTx fb n oid rate now s)"

lemma connection_inv_exec:
  assumes "connection_inv s" shows "connection_inv (exec_connection ov fb c s)"
proof (cases c)
  case (DebitConnection n amount oid now)
  have "connection_inv (snd (transaction (debitConnectionBalanceTx fb n amount oid rate now) s))" for rate
    by (rule transaction_preserves) (use assms in \<open>auto intro: connection_inv_debit\<close>)
  then show ?thesis
    using assms by (simp add: DebitConnection debitConnectionBalance_def split: sum.split)
next
  case (RefundConnection n oid rate now)
  then show ?thesis
    using connection_inv_refund [OF assms, of fb n oid rate now "fst (refundConnectionBalanceTx fb n oid rate now s)"] by simp
qed

lemma connection_inv_run: "connection_inv s \<Longrightarrow> connection_inv (fold (exec_connection ov fb) cs s)"
  by (induction cs arbitrary: s) (simp_all add: connection_inv_exec)

text \<open>
  C9. Whatever debits and refunds of downstream orders run, in any order and with any repeats:
  for each order and wallet the debits are the refunds or one more, so an order is never paid twice
  at the same time nor refunded without a debit; and both balances stay in whole cents, never
  negative and equal to the sum of the ledger.
\<close>

theorem connection_debits_outstanding:
  assumes "connection_inv s"
  shows "shop_inv (fold (exec_connection ov fb) cs s)
     \<and> length (order_rows CSpendOrder cid oid (fold (exec_connection ov fb) cs s))
        - length (order_rows CRefundOrder cid oid (fold (exec_connection ov fb) cs s)) \<in> {0, 1}
     \<and> length (order_rows CRefundOrder cid oid (fold (exec_connection ov fb) cs s))
        \<le> length (order_rows CSpendOrder cid oid (fold (exec_connection ov fb) cs s))"
  using connection_inv_run [OF assms, of ov fb cs]
    outstandingD [of "fold (exec_connection ov fb) cs s" cid oid]
  by (auto simp: connection_inv_def)

section \<open>Undoing a debit\<close>

lemma linked_customer_written:
  assumes "linked_customer n s = Inr (cid, w)"
  shows "linked_customer n (add_source_row e (touch_connection m now (write_wallet cid w' es s))) = Inr (cid, w')"
proof -
  have "connection_at n (add_source_row e (touch_connection m now (write_wallet cid w' es s)))
      = map_option (\<lambda>r. if n = m then r\<lparr>cn_lastOrderedAt := Some now\<rparr> else r) (connection_at n s)"
    by (simp add: add_source_row_def touch_connection_def find_modify_key)
  then show ?thesis
    using assms by (auto simp: linked_customer_def split: option.splits if_splits)
qed

lemma debited_cents:
  assumes "wallet_fine w" and "cents a"
  shows "cw_balance (debited rate a w) = cw_balance w - (a - min (cw_commission w) a)"
    and "cw_commission (debited rate a w) = cw_commission w - min (cw_commission w) a"
  using assms by (simp_all add: debited_def Let_def to_fixed_grid wallet_fineD on_grid_diff on_grid_min)

lemma wallets_same:
  "main_balance t = (main_balance s)(cid \<mapsto> b) \<Longrightarrow> main_balance s cid = Some b \<Longrightarrow> main_balance t = main_balance s"
  by auto

lemma demo_paid_connection_inv: "connection_inv demo_paid_shop"
proof -
  have "customer_inv demo_paid_shop" by (rule customer_inv_mark_tx [OF demo_topup_inv demo_topup_tx])
  moreover have "customer_ledger demo_paid_shop = paid_entries demo_topup new_wallet (44 / 10)"
    by (simp add: demo_paid_shop_def demo_topup_shop_eq empty_shop_def)
  ultimately show ?thesis
    by (simp add: connection_inv_def customer_invD outstanding_ok_def order_rows_def is_order_row_def
        paid_entries_def topup_entry_def spend_fine_def Let_def)
qed

lemma demo_linked: "linked_customer ''n1'' demo_paid_shop = Inr (''c1'', \<lparr>cw_balance = 110000, cw_commission = 0, cw_usdt = 44 / 10\<rparr>)"
  by (simp add: linked_customer_def demo_paid_shop_def demo_topup_shop_eq demo_connection_def)

lemma demo_no_order_rows: "order_rows ty cid ''o1'' demo_paid_shop = []"
  by (simp add: order_rows_def is_order_row_def demo_paid_shop_def demo_topup_shop_eq empty_shop_def
      paid_entries_def topup_entry_def Let_def)

theorem connection_debits_outstanding_witness:
  "length (order_rows CSpendOrder ''c1'' ''o1'' (fold (exec_connection (\<lambda>_. NaN) 25000)
     [DebitConnection ''n1'' (Fin 60000) ''o1'' 30, DebitConnection ''n1'' (Fin 60000) ''o1'' 31] demo_paid_shop))
   - length (order_rows CRefundOrder ''c1'' ''o1'' (fold (exec_connection (\<lambda>_. NaN) 25000)
     [DebitConnection ''n1'' (Fin 60000) ''o1'' 30, DebitConnection ''n1'' (Fin 60000) ''o1'' 31] demo_paid_shop)) \<in> {0, 1}"
  using connection_debits_outstanding [OF demo_paid_connection_inv] by blast

text \<open>
  C10. Debiting a downstream order takes exactly the amount from the linked wallet, the commission
  balance before the main balance; a second debit of the same order takes nothing. The refund that
  follows gives both balances back exactly, and a second refund finds nothing to give back.
\<close>

theorem debit_refund_roundtrip:
  assumes "connection_inv s" and "cents a"
    and "debitConnectionBalanceTx fb n (Fin a) oid rate now s = Inr (False, t)"
    and "refundConnectionBalanceTx fb n oid rate' now' t = (r, u)"
  shows "\<exists>cid b c. main_balance s cid = Some b \<and> commission_balance s cid = Some c \<and> a \<le> b + c
      \<and> main_balance t = (main_balance s)(cid \<mapsto> b - (a - min c a))
      \<and> commission_balance t = (commission_balance s)(cid \<mapsto> c - min c a)
      \<and> debitConnectionBalanceTx fb n (Fin a) oid rate now t = Inr (True, t)
      \<and> r \<and> main_balance u = main_balance s \<and> commission_balance u = commission_balance s
      \<and> refundConnectionBalanceTx fb n oid rate' now' u = (False, u)"
  using assms(3)
proof (cases rule: debit_tx_cases)
  case (2 cid w a' w')
  then have [simp]: "a' = a" by simp
  have fine: "wallet_fine w" by (rule connection_inv_wallet [OF assms(1) 2(1)])
  have w: "customer_wallets s cid = Some w" by (rule linked_wallet [OF 2(1)])
  have eq: "length (order_rows CSpendOrder cid oid s) = length (order_rows CRefundOrder cid oid s)"
    using 2(5) assms(1) by (auto simp: connection_inv_def outstanding_ok_def intro: le_antisym)
  note w' = debited_cents [OF fine assms(2), of "resolveUsdtVndRate rate fb", folded 2(7) [simplified]]
  have lt: "linked_customer n t = Inr (cid, w')" unfolding 2(8) by (rule linked_customer_written [OF 2(1)])
  have rows: "order_rows CSpendOrder cid oid t = order_rows CSpendOrder cid oid s @ [order_entry CSpendOrder cid oid (- a) w w']"
    "order_rows CRefundOrder cid oid t = order_rows CRefundOrder cid oid s"
    by (simp_all add: 2(8))
  have again: "debitConnectionBalanceTx fb n (Fin a) oid rate now t = Inr (True, t)"
    using 2(4) lt rows eq by (simp add: debitConnectionBalanceTx_def)
  define w'' where "w'' = refunded (resolveUsdtVndRate rate' fb) (order_entry CSpendOrder cid oid (- a) w w') w'"
  have u: "r" "u = add_source_row (source_row SRefundOrder n oid a w' w'') (touch_connection n now'
      (write_wallet cid w'' [order_entry CRefundOrder cid oid a w' w''] t))"
    using assms(4) lt rows eq by (auto simp: refundConnectionBalanceTx_def Let_def nth_append w''_def w')
  have w'': "cw_balance w'' = cw_balance w" "cw_commission w'' = cw_commission w"
    using fine by (simp_all add: w''_def refunded_def wallet_fineD to_fixed_grid)
  have "refundConnectionBalanceTx fb n oid rate' now' u = (False, u)"
    using eq rows linked_customer_written [OF lt] by (simp add: refundConnectionBalanceTx_def u(2))
  moreover have "main_balance u = main_balance s" "commission_balance u = commission_balance s"
    using w by (auto simp: u(2) 2(8) w'' main_balance_def commission_balance_def fun_eq_iff)
  moreover have "main_balance t = (main_balance s)(cid \<mapsto> cw_balance w')"
      "commission_balance t = (commission_balance s)(cid \<mapsto> cw_commission w')"
    by (auto simp: 2(8) main_balance_def commission_balance_def fun_eq_iff)
  ultimately show ?thesis
    using w again u(1) 2(6) by (intro exI [of _ cid]) (simp add: main_balance_def commission_balance_def w')
qed simp

lemma demo_debit:
  "\<exists>t. debitConnectionBalanceTx 25000 ''n1'' (Fin 60000) ''o1'' NaN 30 demo_paid_shop = Inr (False, t)"
  by (simp add: debitConnectionBalanceTx_def demo_linked demo_no_order_rows Let_def)

theorem debit_refund_roundtrip_witness:
  "\<exists>t u. main_balance t = (main_balance demo_paid_shop)(''c1'' \<mapsto> 50000)
     \<and> main_balance u = main_balance demo_paid_shop
     \<and> refundConnectionBalanceTx 25000 ''n1'' ''o1'' NaN 40 t = (True, u)"
proof -
  from demo_debit obtain t where t: "debitConnectionBalanceTx 25000 ''n1'' (Fin 60000) ''o1'' NaN 30 demo_paid_shop = Inr (False, t)" ..
  obtain r u where u: "refundConnectionBalanceTx 25000 ''n1'' ''o1'' NaN 40 t = (r, u)" by (metis surj_pair)
  have w: "customer_wallets demo_paid_shop ''c1'' = Some \<lparr>cw_balance = 110000, cw_commission = 0, cw_usdt = 44 / 10\<rparr>"
    by (rule linked_wallet [OF demo_linked])
  from debit_refund_roundtrip [OF demo_paid_connection_inv on_grid_numeral t u] obtain cid b c where
    x: "main_balance demo_paid_shop cid = Some b" "commission_balance demo_paid_shop cid = Some c"
      "main_balance t = (main_balance demo_paid_shop)(cid \<mapsto> b - (60000 - min c 60000))" "r"
      "main_balance u = main_balance demo_paid_shop" by blast
  have "customer_wallets demo_paid_shop = [''c1'' \<mapsto> \<lparr>cw_balance = 110000, cw_commission = 0, cw_usdt = 44 / 10\<rparr>]"
    by (simp add: demo_paid_shop_def demo_topup_shop_eq)
  then have "cid = ''c1'' \<and> b = 110000 \<and> c = 0"
    using x(1,2) by (auto simp: main_balance_def commission_balance_def split: if_splits)
  then show ?thesis using x u by auto
qed

section \<open>Referral commissions\<close>

definition commission_settled :: "ident \<Rightarrow> shop_db \<Rightarrow> bool" where
  "commission_settled oid s \<longleftrightarrow> (case order_at oid s of None \<Rightarrow> False
     | Some r \<Rightarrow> (case od_affiliateCommission r of None \<Rightarrow> False | Some a \<Rightarrow> 0 < a))"

lemma order_at_update [simp]:
  "(\<And>r. od_id (f r) = od_id r) \<Longrightarrow> order_at j (update_order i f s)
     = map_option (\<lambda>r. if j = i then f r else r) (order_at j s)"
  unfolding update_order_def by (simp add: find_modify_key)

lemma commission_read_SomeE:
  assumes "creditAffiliateCommission_read cfg oid s = Some (ref, k)"
  obtains r conf where "order_at oid s = Some r" and "cfg (od_shop r) = Some conf"
    and "k = of_int (js_round (resolveSellerSafeAffiliateCommission (Fin (od_totalSale r))
           (Fin (od_totalSource r)) (Fin (ac_commissionPct conf))))" and "1 \<le> k"
  using assms by (fastforce simp: creditAffiliateCommission_read_def Let_def split: option.splits if_splits)

lemma commission_tx_order [simp]:
  "order_at j (creditAffiliateCommission_tx oid (ref, k) s) = map_option (\<lambda>r. if j = oid
     then r\<lparr>od_affiliateCommission := Some k, od_affiliateCustomer := Some ref\<rparr> else r) (order_at j s)"
  by (simp add: creditAffiliateCommission_tx_def Let_def)

interpretation commission_once: settle_once "creditAffiliateCommission cfg oid" "commission_settled oid" for cfg oid
proof unfold_locales
  fix s assume "commission_settled oid s"
  then show "creditAffiliateCommission cfg oid s = s"
    by (auto simp: commission_settled_def creditAffiliateCommission_def creditAffiliateCommission_read_def
        split: option.splits)
next
  fix s assume "creditAffiliateCommission cfg oid s \<noteq> s"
  then obtain ref k where rd: "creditAffiliateCommission_read cfg oid s = Some (ref, k)"
    and u: "creditAffiliateCommission cfg oid s = creditAffiliateCommission_tx oid (ref, k) s"
    by (auto simp: creditAffiliateCommission_def split: option.splits)
  from rd show "commission_settled oid (creditAffiliateCommission cfg oid s)"
    by (cases rule: commission_read_SomeE) (simp add: u commission_settled_def)
qed

lemma commission_bounded:
  assumes "creditAffiliateCommission_read cfg oid s = Some (ref, k)"
  shows "1 \<le> k" and "cents k"
    and "\<exists>r. order_at oid s = Some r \<and> k \<le> max 0 (od_totalSale r - od_totalSource r) + 1 / 2"
proof -
  from assms obtain r conf where r: "order_at oid s = Some r" and "cfg (od_shop r) = Some conf" and k: "k = of_int (js_round
      (resolveSellerSafeAffiliateCommission (Fin (od_totalSale r)) (Fin (od_totalSource r)) (Fin (ac_commissionPct conf))))"
    and "1 \<le> k" by (elim commission_read_SomeE) (rule that, assumption+)
  show "1 \<le> k" by fact
  show "cents k" by (simp add: k)
  let ?c = "resolveSellerSafeAffiliateCommission (Fin (od_totalSale r)) (Fin (od_totalSource r)) (Fin (ac_commissionPct conf))"
  have "?c \<le> max 0 (od_totalSale r - od_totalSource r)"
    by (auto simp: commission_cases)
  moreover have "k \<le> ?c + 1 / 2" using js_round_error [of ?c] unfolding k by linarith
  ultimately show "\<exists>r. order_at oid s = Some r \<and> k \<le> max 0 (od_totalSale r - od_totalSource r) + 1 / 2"
    using r by (intro exI [of _ r]) linarith
qed

lemma commission_tx_wallets:
  assumes "shop_inv s" and "1 \<le> k" and "cents k"
  shows "shop_inv (creditAffiliateCommission_tx oid (ref, k) s)"
    and "wallet_or_new (creditAffiliateCommission_tx oid (ref, k) s) ref
       = (wallet_or_new s ref)\<lparr>cw_commission := cw_commission (wallet_or_new s ref) + k\<rparr>"
    and "j \<noteq> ref \<Longrightarrow> wallet_or_new (creditAffiliateCommission_tx oid (ref, k) s) j = wallet_or_new s j"
proof -
  let ?o = "update_order oid (\<lambda>r. r\<lparr>od_affiliateCommission := Some k, od_affiliateCustomer := Some ref\<rparr>) s"
  let ?w = "wallet_or_new s ref"
  have same: "wallet_or_new ?o = wallet_or_new s" by (simp add: wallet_or_new_def fun_eq_iff)
  have fine: "wallet_fine ?w" using assms(1) by (rule wallet_fine_new)
  then have c: "to_fixed 2 (cw_commission ?w + k) = cw_commission ?w + k"
    using assms(3) by (intro to_fixed_grid on_grid_add) (simp_all add: wallet_fineD)
  show "wallet_or_new (creditAffiliateCommission_tx oid (ref, k) s) ref = ?w\<lparr>cw_commission := cw_commission ?w + k\<rparr>"
    by (simp add: creditAffiliateCommission_tx_def Let_def same c)
  show "j \<noteq> ref \<Longrightarrow> wallet_or_new (creditAffiliateCommission_tx oid (ref, k) s) j = wallet_or_new s j"
    by (simp add: creditAffiliateCommission_tx_def Let_def same)
  have "wallet_fine (?w\<lparr>cw_commission := cw_commission ?w + k\<rparr>)"
    using fine assms(2,3) by (auto simp: wallet_fine_def)
  then show "shop_inv (creditAffiliateCommission_tx oid (ref, k) s)"
    using assms(1) unfolding creditAffiliateCommission_tx_def
    by (simp add: Let_def same c) (rule shop_inv_order_write; simp add: shop_inv_upsert same)
qed

text \<open>
  C27. A referral commission goes to the commission balance of the referring customer and to
  nothing else, is a whole number of dong of at least one and exceeds the seller's margin on the
  order by at most the half dong of the rounding; crediting the order again, any number of times,
  changes nothing.
\<close>

theorem affiliate_commission_once:
  assumes "shop_inv s" and "creditAffiliateCommission_read cfg oid s = Some (ref, k)"
  shows "let t = creditAffiliateCommission cfg oid s in shop_inv t
      \<and> wallet_or_new t = (wallet_or_new s)(ref := (wallet_or_new s ref)\<lparr>cw_commission := cw_commission (wallet_or_new s ref) + k\<rparr>)
      \<and> 1 \<le> k \<and> (\<exists>r. order_at oid s = Some r \<and> k \<le> max 0 (od_totalSale r - od_totalSource r) + 1 / 2)
      \<and> (\<forall>n. (creditAffiliateCommission cfg oid ^^ n) t = t)"
proof -
  note b = commission_bounded [OF assms(2)]
  have t: "creditAffiliateCommission cfg oid s = creditAffiliateCommission_tx oid (ref, k) s"
    by (simp add: creditAffiliateCommission_def assms(2))
  have "(creditAffiliateCommission cfg oid ^^ n) (creditAffiliateCommission cfg oid s) = creditAffiliateCommission cfg oid s" for n
    using commission_once.run_many [where cfg = cfg and oid = oid and n = n and s = s] by (simp add: funpow_swap1)
  moreover have "wallet_or_new (creditAffiliateCommission_tx oid (ref, k) s)
      = (wallet_or_new s)(ref := (wallet_or_new s ref)\<lparr>cw_commission := cw_commission (wallet_or_new s ref) + k\<rparr>)"
    using commission_tx_wallets(2,3) [OF assms(1) b(1,2)] by (auto simp: fun_eq_iff)
  ultimately show ?thesis
    using commission_tx_wallets(1) [OF assms(1) b(1,2)] b(1,3) by (simp add: Let_def t)
qed

text \<open>
  The check that the order has no commission yet is made before the transaction and not in it:
  two workers that both made it before either wrote credit the referring customer twice.
\<close>

lemma affiliate_race_credits_twice:
  assumes "shop_inv s" and "creditAffiliateCommission_read cfg oid s = Some (ref, k)"
  shows "cw_commission (wallet_or_new (creditAffiliateCommission_tx oid (ref, k)
           (creditAffiliateCommission_tx oid (ref, k) s)) ref) = cw_commission (wallet_or_new s ref) + 2 * k"
  using commission_tx_wallets [OF assms(1) commission_bounded(1,2) [OF assms(2)], of oid ref]
    commission_tx_wallets(2) [OF _ commission_bounded(1,2) [OF assms(2)], of "creditAffiliateCommission_tx oid (ref, k) s" oid ref]
  by simp

definition demo_order :: order where
  "demo_order = \<lparr>od_id = ''o1'', od_shop = ''s1'', od_customer = ''c2'', od_product = ''p1'', od_quantity = 1,
     od_totalSale = 100000, od_totalSource = 80000, od_isPreorder = False, od_cancellation = PcNone,
     od_status = Delivered, od_payment = PayPaid, od_deliveredText = Some ''x'', od_failureReason = None,
     od_affiliateCustomer = None, od_affiliateCommission = None, od_paidAt = Some 5, od_createdAt = 4,
     od_deliveredAt = Some 6, od_seller = ''v1'', od_preorderFee = 0, od_internal = False,
     od_cancelRefund = 0, od_cancelFeeRefund = 0\<rparr>"

definition demo_referral_shop :: shop_db where
  "demo_referral_shop = demo_paid_shop\<lparr>orders := [demo_order], customers := [\<lparr>cu_id = ''c2'', cu_shop = ''s1'',
     cu_telegramUserId = ''u2'', cu_telegramChatId = ''88'', cu_referredBy = Some ''c1''\<rparr>]\<rparr>"

lemma demo_referral:
  "shop_inv demo_referral_shop"
  "creditAffiliateCommission_read (\<lambda>_. Some \<lparr>ac_enabled = True, ac_commissionPct = 10\<rparr>) ''o1'' demo_referral_shop
     = Some (''c1'', 10000)"
  "wallet_or_new demo_referral_shop ''c1'' = \<lparr>cw_balance = 110000, cw_commission = 0, cw_usdt = 44 / 10\<rparr>"
proof -
  have "shop_inv demo_referral_shop = shop_inv demo_paid_shop"
    by (rule shop_inv_cong) (simp_all add: demo_referral_shop_def)
  then show "shop_inv demo_referral_shop" using demo_paid_connection_inv by (simp add: connection_inv_def)
  show "creditAffiliateCommission_read (\<lambda>_. Some \<lparr>ac_enabled = True, ac_commissionPct = 10\<rparr>) ''o1'' demo_referral_shop
     = Some (''c1'', 10000)"
    by (simp add: creditAffiliateCommission_read_def demo_referral_shop_def demo_order_def commission_cases)
  show "wallet_or_new demo_referral_shop ''c1'' = \<lparr>cw_balance = 110000, cw_commission = 0, cw_usdt = 44 / 10\<rparr>"
    by (simp add: wallet_or_new_def demo_referral_shop_def demo_paid_shop_def)
qed

theorem affiliate_commission_once_witness:
  "\<exists>t. cw_commission (wallet_or_new t ''c1'') = 10000 \<and> cw_balance (wallet_or_new t ''c1'') = 110000
     \<and> creditAffiliateCommission (\<lambda>_. Some \<lparr>ac_enabled = True, ac_commissionPct = 10\<rparr>) ''o1'' t = t"
proof -
  let ?run = "creditAffiliateCommission (\<lambda>_. Some \<lparr>ac_enabled = True, ac_commissionPct = 10\<rparr>) ''o1''"
  from affiliate_commission_once [OF demo_referral(1,2)] have
    w: "wallet_or_new (?run demo_referral_shop) ''c1'' = \<lparr>cw_balance = 110000, cw_commission = 10000, cw_usdt = 44 / 10\<rparr>"
    and r: "(?run ^^ n) (?run demo_referral_shop) = ?run demo_referral_shop" for n
    by (simp_all add: Let_def demo_referral(3))
  from w r [of 1] show ?thesis by (intro exI [of _ "?run demo_referral_shop"]) simp
qed

lemma affiliate_race_example:
  "cw_commission (wallet_or_new (creditAffiliateCommission_tx ''o1'' (''c1'', 10000)
     (creditAffiliateCommission_tx ''o1'' (''c1'', 10000) demo_referral_shop)) ''c1'') = 20000"
  using affiliate_race_credits_twice [OF demo_referral(1,2)] by (simp add: demo_referral(3))

end
