(* ===== verification/Stock.thy ===== *)
theory Stock
  imports ShopData "HOL-Library.Product_Lexorder" "HOL-Library.List_Lexorder" "HOL-Library.Char_ord"
begin

text \<open>
  Stock of account entries: \<open>apps/worker/src/stock.ts\<close>. Entries come in batches with a cost, an
  expiry and a priority, or without one; a sale takes the first ones in a fixed order. The stock
  hold of a checkout lives in a shared key-value store, a map with expiry times here.
\<close>

section \<open>What can be sold, and in which order\<close>

definition batch_open :: "timestamp \<Rightarrow> stock_batch \<Rightarrow> bool" where
  "batch_open now b \<longleftrightarrow> sb_deletedAt b = None
     \<and> (case sb_expiresAt b of None \<Rightarrow> True | Some e \<Rightarrow> now < e)"

definition stock_live :: "timestamp \<Rightarrow> ident \<Rightarrow> shop_db \<Rightarrow> stock_entry \<Rightarrow> bool" where
  "stock_live now pid s e \<longleftrightarrow> se_product e = pid \<and> se_status e = Available
     \<and> (case se_batch e of None \<Rightarrow> True
        | Some b \<Rightarrow> (case batch_at b s of None \<Rightarrow> False | Some r \<Rightarrow> batch_open now r))"

definition live_entries :: "timestamp \<Rightarrow> ident \<Rightarrow> shop_db \<Rightarrow> stock_entry list" where
  "live_entries now pid s = filter (stock_live now pid s) (stock_entries s)"

text \<open>
  The sort of the code: entries without a batch first, then higher priority, earlier batch,
  earlier upload, smaller id.
\<close>

definition entry_key :: "shop_db \<Rightarrow> stock_entry \<Rightarrow> bool \<times> int \<times> int \<times> int \<times> string" where
  "entry_key s e = (let b = (case se_batch e of None \<Rightarrow> None | Some i \<Rightarrow> batch_at i s)
     in (se_batch e \<noteq> None, - (case b of None \<Rightarrow> 0 | Some r \<Rightarrow> sb_priority r),
         (case b of None \<Rightarrow> 0 | Some r \<Rightarrow> sb_createdAt r), se_uploadedAt e, se_id e))"

definition pick_order :: "timestamp \<Rightarrow> ident \<Rightarrow> shop_db \<Rightarrow> stock_entry list" where
  "pick_order now pid s = sort_key (entry_key s) (live_entries now pid s)"

section \<open>Taking entries\<close>

record popped =
  pp_extracted :: "string list"
  pp_totalCost :: money
  pp_entryIds :: "ident list"

definition entry_cost :: "shop_db \<Rightarrow> stock_entry \<Rightarrow> money" where
  "entry_cost s e = (case se_batch e of None \<Rightarrow> 0 | Some b \<Rightarrow>
     (case batch_at b s of None \<Rightarrow> 0 | Some r \<Rightarrow> decimalToNumber (sb_costPerUnit r)))"

definition mark_sold :: "timestamp \<Rightarrow> ident option \<Rightarrow> ident option \<Rightarrow> ident list \<Rightarrow> shop_db \<Rightarrow> shop_db" where
  "mark_sold now orderId customerId ids s = s\<lparr>stock_entries := modify_rows (\<lambda>e. se_id e \<in> set ids)
     (\<lambda>e. e\<lparr>se_status := Sold, se_soldAt := Some now, se_soldToOrder := orderId, se_soldToCustomer := customerId\<rparr>)
     (stock_entries s)\<rparr>"

text \<open>A batch with no available entry left is closed.\<close>

definition close_batch :: "timestamp \<Rightarrow> ident \<Rightarrow> shop_db \<Rightarrow> shop_db" where
  "close_batch now b s =
     (if count_rows (\<lambda>e. se_batch e = Some b \<and> se_status e = Available) (stock_entries s) = 0
      then s\<lparr>stock_batches := modify_rows (\<lambda>r. sb_id r = b) (\<lambda>r. r\<lparr>sb_deletedAt := Some now\<rparr>) (stock_batches s)\<rparr>
      else s)"

definition affected_batches :: "stock_entry list \<Rightarrow> ident list" where
  "affected_batches es = remdups (List.map_filter se_batch es)"

definition popManualStockEntries ::
  "timestamp \<Rightarrow> ident \<Rightarrow> nat \<Rightarrow> ident option \<Rightarrow> ident option \<Rightarrow> shop_db \<Rightarrow> (popped \<times> shop_db) option" where
  "popManualStockEntries now pid quantity orderId customerId s =
     (let entries = take quantity (pick_order now pid s)
      in if length entries < quantity then None
         else
           (let ids = map se_id entries; s1 = mark_sold now orderId customerId ids s
            in Some (\<lparr>pp_extracted = map se_text entries, pp_totalCost = sum_list (map (entry_cost s) entries),
                      pp_entryIds = ids\<rparr>,
                     fold (close_batch now) (affected_batches entries) s1)))"

definition countAvailableManualEntries :: "timestamp \<Rightarrow> ident \<Rightarrow> shop_db \<Rightarrow> nat" where
  "countAvailableManualEntries now pid s = length (live_entries now pid s)"

text \<open>The callers pass the integer quantity of an order.\<close>

definition incrementSoldAndClampAvailable :: "ident \<Rightarrow> int \<Rightarrow> shop_db \<Rightarrow> shop_db" where
  "incrementSoldAndClampAvailable pid quantity s =
     (let q = max 0 quantity
      in if pid = [] \<or> q = 0 then s
         else update_product pid (\<lambda>p. p\<lparr>pr_soldCount := pr_soldCount p + q,
                pr_available := map_option (\<lambda>a. max 0 (a - q)) (pr_available p)\<rparr>) s)"

definition isManualSourceProduct :: "product \<Rightarrow> bool" where
  "isManualSourceProduct p \<longleftrightarrow> pr_addMail p \<or> pr_providerManual p \<or> pr_metaManual p"

text \<open>\<open>None\<close>: without limit.\<close>

definition getPreorderAvailableQuantity :: "timestamp \<Rightarrow> product option \<Rightarrow> shop_db \<Rightarrow> int option" where
  "getPreorderAvailableQuantity now product s =
     (case product of None \<Rightarrow> Some 0
      | Some p \<Rightarrow>
        if isManualSourceProduct p \<and> \<not> pr_metaShared p \<and> \<not> pr_addMail p
        then Some (int (countAvailableManualEntries now (pr_id p) s))
        else (case pr_available p of None \<Rightarrow> None | Some a \<Rightarrow> Some (max 0 a)))"

section \<open>Stock holds of a checkout\<close>

type_synonym holds = "(ident \<times> ident) \<rightharpoonup> (int \<times> timestamp)"

definition hold_of :: "holds \<Rightarrow> timestamp \<Rightarrow> ident \<times> ident \<Rightarrow> int" where
  "hold_of h now k = (case h k of None \<Rightarrow> 0 | Some (v, expiry) \<Rightarrow> if now < expiry then v else 0)"

definition releaseOrderStockHold :: "ident \<Rightarrow> ident \<Rightarrow> int \<Rightarrow> timestamp \<Rightarrow> holds \<Rightarrow> holds" where
  "releaseOrderStockHold shop pid quantity now h =
     (if shop = [] \<or> pid = [] \<or> quantity \<le> 0 then h
      else
        (let new_hold = max 0 (hold_of h now (shop, pid) - quantity)
         in if new_hold > 0 then h((shop, pid) \<mapsto> (new_hold, now + 300 * 1000)) else h((shop, pid) := None)))"

section \<open>A sale takes the first entries\<close>

lemma set_pick_order: "set (pick_order now pid s) = set (live_entries now pid s)"
  by (simp add: pick_order_def)

lemma distinct_pick_order:
  "distinct (map se_id (stock_entries s)) \<Longrightarrow> distinct (map se_id (pick_order now pid s))"
proof -
  assume d: "distinct (map se_id (stock_entries s))"
  then have "distinct (live_entries now pid s)" "inj_on se_id (set (live_entries now pid s))"
    by (auto simp: live_entries_def distinct_map inj_on_def)
  then show ?thesis by (simp add: distinct_map set_pick_order) (simp add: pick_order_def)
qed

lemma close_batch_frame [simp]:
  "stock_entries (close_batch now b s) = stock_entries s" "products (close_batch now b s) = products s"
  "orders (close_batch now b s) = orders s" "order_events (close_batch now b s) = order_events s"
  "customer_wallets (close_batch now b s) = customer_wallets s" "customer_ledger (close_batch now b s) = customer_ledger s"
  "customers (close_batch now b s) = customers s" "topups (close_batch now b s) = topups s"
  "promotions (close_batch now b s) = promotions s"
  by (simp_all add: close_batch_def)

lemma close_batches_frame [simp]:
  "stock_entries (fold (close_batch now) bs s) = stock_entries s" "products (fold (close_batch now) bs s) = products s"
  "orders (fold (close_batch now) bs s) = orders s" "order_events (fold (close_batch now) bs s) = order_events s"
  "customer_wallets (fold (close_batch now) bs s) = customer_wallets s"
  "customer_ledger (fold (close_batch now) bs s) = customer_ledger s"
  "customers (fold (close_batch now) bs s) = customers s" "topups (fold (close_batch now) bs s) = topups s"
  "promotions (fold (close_batch now) bs s) = promotions s"
  by (induction bs arbitrary: s; simp)+

lemma mark_sold_frame [simp]:
  "stock_batches (mark_sold now oid cid ids s) = stock_batches s" "products (mark_sold now oid cid ids s) = products s"
  "orders (mark_sold now oid cid ids s) = orders s" "order_events (mark_sold now oid cid ids s) = order_events s"
  "customer_wallets (mark_sold now oid cid ids s) = customer_wallets s"
  "customer_ledger (mark_sold now oid cid ids s) = customer_ledger s"
  "customers (mark_sold now oid cid ids s) = customers s" "topups (mark_sold now oid cid ids s) = topups s"
  "promotions (mark_sold now oid cid ids s) = promotions s"
  by (simp_all add: mark_sold_def)

text \<open>Closing a batch takes no entry away from sale and does not change the order.\<close>

lemma batch_at_close:
  "batch_at i (close_batch now b s) = map_option (\<lambda>r. if i = b
     \<and> count_rows (\<lambda>e. se_batch e = Some b \<and> se_status e = Available) (stock_entries s) = 0
     then r\<lparr>sb_deletedAt := Some now\<rparr> else r) (batch_at i s)"
  by (auto simp: close_batch_def find_modify_key option.map_ident)

lemma stock_live_close:
  assumes "e \<in> set (stock_entries s)"
  shows "stock_live now' pid (close_batch now b s) e = stock_live now' pid s e"
proof (cases "se_batch e")
  case (Some i)
  have "se_status e = Available \<Longrightarrow> i = b \<Longrightarrow>
      count_rows (\<lambda>e. se_batch e = Some b \<and> se_status e = Available) (stock_entries s) \<noteq> 0"
    using assms Some by (auto simp: count_rows_0_iff)
  then show ?thesis
    by (auto simp: stock_live_def Some batch_at_close split: option.splits)
qed (simp add: stock_live_def)

lemma pick_order_close: "pick_order now' pid (close_batch now b s) = pick_order now' pid s"
proof -
  have "entry_key (close_batch now b s) = entry_key s"
    by (auto simp: entry_key_def fun_eq_iff batch_at_close Let_def split: option.splits)
  moreover have "live_entries now' pid (close_batch now b s) = live_entries now' pid s"
    by (auto simp: live_entries_def stock_live_close intro: filter_cong)
  ultimately show ?thesis by (simp add: pick_order_def)
qed

lemma pick_order_close_fold: "pick_order now' pid (fold (close_batch now) bs s) = pick_order now' pid s"
  by (induction bs arbitrary: s) (simp_all add: pick_order_close)

lemma modify_rows_filter_rest:
  "(\<And>r. r \<in> set rs \<Longrightarrow> p r \<Longrightarrow> \<not> q (f r)) \<Longrightarrow> filter q (modify_rows p f rs) = filter (\<lambda>r. q r \<and> \<not> p r) rs"
  by (induction rs) auto

lemma pick_order_sold:
  "pick_order now' pid (mark_sold now oid cid ids s) = filter (\<lambda>e. se_id e \<notin> set ids) (pick_order now' pid s)"
proof -
  have key: "entry_key (mark_sold now oid cid ids s) = entry_key s"
    by (auto simp: entry_key_def fun_eq_iff Let_def split: option.split)
  have live: "stock_live now' pid (mark_sold now oid cid ids s) = stock_live now' pid s"
    by (auto simp: stock_live_def fun_eq_iff split: option.split)
  have "live_entries now' pid (mark_sold now oid cid ids s)
      = filter (\<lambda>r. stock_live now' pid s r \<and> \<not> se_id r \<in> set ids) (stock_entries s)"
    unfolding live_entries_def live unfolding mark_sold_def
    by simp (rule modify_rows_filter_rest, simp add: stock_live_def)
  then show ?thesis
    by (simp add: pick_order_def key filter_sort live_entries_def)
qed

lemma filter_not_taken:
  "distinct (map f xs) \<Longrightarrow> filter (\<lambda>x. f x \<notin> set (map f (take n xs))) xs = drop n xs"
proof (induction xs arbitrary: n)
  case (Cons x xs)
  show ?case
  proof (cases n)
    case (Suc m)
    have "filter (\<lambda>y. f y \<noteq> f x \<and> f y \<notin> f ` set (take m xs)) xs = filter (\<lambda>y. f y \<notin> set (map f (take m xs))) xs"
      using Cons.prems by (intro filter_cong refl) (metis distinct.simps(2) image_eqI list.map(2) set_map)
    then show ?thesis using Cons by (simp add: Suc)
  qed simp
qed simp

lemma pop_cases:
  assumes "popManualStockEntries now pid q oid cid s = Some (p, t)"
  shows "q \<le> length (pick_order now pid s)"
    and "pp_entryIds p = map se_id (take q (pick_order now pid s))"
    and "pp_extracted p = map se_text (take q (pick_order now pid s))"
    and "t = fold (close_batch now) (affected_batches (take q (pick_order now pid s)))
           (mark_sold now oid cid (map se_id (take q (pick_order now pid s))) s)"
  using assms by (auto simp: popManualStockEntries_def Let_def split: if_splits)

lemma pop_None_iff:
  "popManualStockEntries now pid q oid cid s = None \<longleftrightarrow> countAvailableManualEntries now pid s < q"
  by (auto simp: popManualStockEntries_def Let_def countAvailableManualEntries_def pick_order_def)

text \<open>Entries that stand as sold to an order.\<close>

definition sold_to :: "ident \<Rightarrow> shop_db \<Rightarrow> stock_entry list" where
  "sold_to oid s = filter (\<lambda>e. se_status e = Sold \<and> se_soldToOrder e = Some oid) (stock_entries s)"

lemma sold_to_mark:
  assumes "e \<in> set (stock_entries s)" and "se_id e \<in> set ids"
  shows "se_id e \<in> se_id ` set (sold_to oid (mark_sold now (Some oid) cid ids s))"
proof (rule image_eqI)
  let ?e = "e\<lparr>se_status := Sold, se_soldAt := Some now, se_soldToOrder := Some oid, se_soldToCustomer := cid\<rparr>"
  show "se_id e = se_id ?e" by simp
  show "?e \<in> set (sold_to oid (mark_sold now (Some oid) cid ids s))"
    using assms by (force simp: sold_to_def mark_sold_def modify_rows_def)
qed

lemma sold_to_close [simp]: "sold_to oid (fold (close_batch now) bs s) = sold_to oid s"
  by (simp add: sold_to_def)

lemma pop_first_entries:
  assumes "distinct (map se_id (stock_entries s))" and "popManualStockEntries now pid q (Some oid) cid s = Some (p, t)"
  shows "length (pp_extracted p) = q" and "distinct (pp_entryIds p)"
    and "pp_extracted p = map se_text (take q (pick_order now pid s))"
    and "pick_order now pid t = drop q (pick_order now pid s)"
    and "countAvailableManualEntries now pid s = countAvailableManualEntries now pid t + q"
    and "set (pp_entryIds p) \<subseteq> set (map se_id (sold_to oid t))"
    and "filter (\<lambda>e. se_id e \<notin> set (pp_entryIds p)) (stock_entries t)
      = filter (\<lambda>e. se_id e \<notin> set (pp_entryIds p)) (stock_entries s)"
proof -
  note P = pop_cases [OF assms(2)]
  let ?xs = "pick_order now pid s"
  have dist: "distinct (map se_id ?xs)" by (rule distinct_pick_order [OF assms(1)])
  show "distinct (pp_entryIds p)" using distinct_take [OF dist, of q] by (simp add: P(2) take_map)
  show rest: "pick_order now pid t = drop q ?xs"
    unfolding P(4) pick_order_close_fold pick_order_sold by (rule filter_not_taken [OF dist])
  then have "length (pick_order now pid s) = length (pick_order now pid t) + q" using P(1) by simp
  then show "countAvailableManualEntries now pid s = countAvailableManualEntries now pid t + q"
    by (simp add: countAvailableManualEntries_def pick_order_def)
  show "length (pp_extracted p) = q" "pp_extracted p = map se_text (take q ?xs)" using P(1,3) by simp_all
  have mem: "e \<in> set (take q ?xs) \<Longrightarrow> e \<in> set (stock_entries s)" for e
    using set_take_subset [of q ?xs] by (auto simp: set_pick_order live_entries_def)
  show "set (pp_entryIds p) \<subseteq> set (map se_id (sold_to oid t))"
  proof
    fix i assume "i \<in> set (pp_entryIds p)"
    then obtain e where e: "e \<in> set (take q ?xs)" "i = se_id e" by (auto simp: P(2))
    with sold_to_mark [OF mem [OF e(1)], of "map se_id (take q ?xs)" oid now cid]
    show "i \<in> set (map se_id (sold_to oid t))" by (simp add: P(4))
  qed
  show "filter (\<lambda>e. se_id e \<notin> set (pp_entryIds p)) (stock_entries t)
      = filter (\<lambda>e. se_id e \<notin> set (pp_entryIds p)) (stock_entries s)"
    by (simp add: P(2,4) mark_sold_def) (subst modify_rows_filter_rest; simp)
qed

text \<open>
  C11. A sale of a quantity that the open stock does not cover takes nothing. Otherwise it hands out
  exactly that many different entries, the first of the selling order, marks each of them sold to
  the order, leaves the rest of the selling order as it was (for this product and any later time
  of sale), and touches no entry that was not for sale.
\<close>

theorem pop_takes_first:
  assumes "distinct (map se_id (stock_entries s))"
  shows "case popManualStockEntries now pid q (Some oid) cid s of
     None \<Rightarrow> countAvailableManualEntries now pid s < q
   | Some (p, t) \<Rightarrow> length (pp_extracted p) = q \<and> distinct (pp_entryIds p)
       \<and> pp_extracted p = map se_text (take q (pick_order now pid s))
       \<and> pick_order now pid t = drop q (pick_order now pid s)
       \<and> countAvailableManualEntries now pid s = countAvailableManualEntries now pid t + q
       \<and> set (pp_entryIds p) \<subseteq> set (map se_id (sold_to oid t))
       \<and> filter (\<lambda>e. se_id e \<notin> set (pp_entryIds p)) (stock_entries t)
           = filter (\<lambda>e. se_id e \<notin> set (pp_entryIds p)) (stock_entries s)"
proof (cases "popManualStockEntries now pid q (Some oid) cid s")
  case None
  then have "countAvailableManualEntries now pid s < q" by (simp add: pop_None_iff)
  with None show ?thesis by simp
next
  case (Some pt)
  obtain p t where pt: "pt = (p, t)" by (metis surj_pair)
  show ?thesis using pop_first_entries [OF assms Some [unfolded pt]] by (simp add: Some pt)
qed

definition demo_entry :: "ident \<Rightarrow> ident option \<Rightarrow> string \<Rightarrow> timestamp \<Rightarrow> stock_entry" where
  "demo_entry i b txt up = \<lparr>se_id = i, se_product = ''p1'', se_batch = b, se_text = txt, se_status = Available,
     se_uploadedAt = up, se_soldAt = None, se_soldToOrder = None, se_soldToCustomer = None\<rparr>"

definition demo_stock :: shop_db where
  "demo_stock = empty_shop\<lparr>
     stock_batches := [\<lparr>sb_id = ''b1'', sb_costPerUnit = Some 500, sb_expiresAt = None, sb_priority = 1, sb_createdAt = 1, sb_deletedAt = None\<rparr>],
     stock_entries := [demo_entry ''e1'' (Some ''b1'') ''acc1'' 2, demo_entry ''e2'' None ''acc2'' 3,
       demo_entry ''e3'' (Some ''b1'') ''acc3'' 4]\<rparr>"

lemma demo_stock_distinct: "distinct (map se_id (stock_entries demo_stock))"
  by (simp add: demo_stock_def demo_entry_def)

lemma demo_pick_order: "map se_id (pick_order 10 ''p1'' demo_stock) = [''e2'', ''e1'', ''e3'']"
  by (simp add: pick_order_def live_entries_def stock_live_def batch_open_def demo_stock_def demo_entry_def
      entry_key_def sort_key_def)

theorem pop_takes_first_witness:
  "\<exists>p t. popManualStockEntries 10 ''p1'' 2 (Some ''o1'') None demo_stock = Some (p, t)
     \<and> length (pp_extracted p) = 2 \<and> countAvailableManualEntries 10 ''p1'' t = 1"
proof -
  have c: "countAvailableManualEntries 10 ''p1'' demo_stock = 3"
    using arg_cong [OF demo_pick_order, of length] by (simp add: countAvailableManualEntries_def pick_order_def)
  show ?thesis
  proof (cases "popManualStockEntries 10 ''p1'' 2 (Some ''o1'') None demo_stock")
    case None
    then show ?thesis using c by (simp only: pop_None_iff)
  next
    case (Some pt)
    with pop_takes_first [OF demo_stock_distinct, of 10 "''p1''" 2 "''o1''" None] c show ?thesis
      by (cases pt) auto
  qed
qed

end
