(* ===== verification/Fulfillment.thy ===== *)
theory Fulfillment
  imports ConnectionWallet Stock JsString
begin

text \<open>
  The worker's fulfilment of paid orders: \<open>apps/worker/src/fulfillment/purchase.ts\<close> as far as it
  serves the shop's own (manual) products: the out-of-stock refund, the queue of paid pre-orders,
  its sweep, and \<open>processPurchase\<close> up to the end of the manual branch. Purchases from upstream
  shops and from external providers, messages and warranty snapshots are left out. The job queue
  (BullMQ) is the list of accepted jobs; \<open>up\<close> says for which orders it accepts a job.
\<close>

section \<open>Refund to the customer's wallet\<close>

definition refund_entry :: "order \<Rightarrow> bool \<Rightarrow> rat \<Rightarrow> customer_wallet \<Rightarrow> customer_wallet \<Rightarrow> customer_entry" where
  "refund_entry ord isOutOfStock amount w w' =
     \<lparr>cl_customer = od_customer ord, cl_type = CRefundOrder, cl_currency = VND, cl_amount = toDecimal amount,
      cl_before = toDecimal (cw_balance w), cl_after = cw_balance w',
      cl_commissionBefore = Some (toDecimal (cw_commission w)), cl_commissionAfter = Some (cw_commission w'),
      cl_refType = (if isOutOfStock then ''race_out_of_stock'' else ''upstream_failed''), cl_refId = od_id ord\<rparr>"

definition original_spend :: "order \<Rightarrow> shop_db \<Rightarrow> customer_entry option" where
  "original_spend ord s = List.find (is_order_row CSpendOrder (od_customer ord) (od_id ord)) (customer_ledger s)"

definition original_commission :: "order \<Rightarrow> shop_db \<Rightarrow> rat" where
  "original_commission ord s = (case original_spend ord s of None \<Rightarrow> 0 | Some e \<Rightarrow> max 0 (row_commission e))"

definition has_refund :: "order \<Rightarrow> shop_db \<Rightarrow> bool" where
  "has_refund ord s \<longleftrightarrow> list_ex (\<lambda>e. cl_customer e = od_customer ord \<and> cl_type e = CRefundOrder
     \<and> cl_refId e = od_id ord) (customer_ledger s)"

definition refunded_wallet :: "rat \<Rightarrow> rat \<Rightarrow> rat \<Rightarrow> customer_wallet \<Rightarrow> customer_wallet" where
  "refunded_wallet rate mainRefund commissionRefund w =
     \<lparr>cw_balance = toDecimal (cw_balance w + mainRefund),
      cw_commission = toDecimal (cw_commission w + commissionRefund),
      cw_usdt = to_fixed 4 (usdt_synced rate (cw_balance w + mainRefund))\<rparr>"

text \<open>
  The transaction, under the lock of the order: \<open>ord\<close> is the order as read before it. It never
  throws here; a settled or already refunded order is left alone.
\<close>

definition refund_out_of_stock_tx ::
  "(ident \<Rightarrow> jsnum) \<Rightarrow> rat \<Rightarrow> bool \<Rightarrow> string \<Rightarrow> order \<Rightarrow> shop_db \<Rightarrow> shop_db" where
  "refund_out_of_stock_tx overrideRate fallback isOutOfStock failureReason ord s0 =
     (let orderTotal = max 0 (od_totalSale ord)
      in case order_at (od_id ord) s0 of
           None \<Rightarrow> s0
         | Some lockedOrder \<Rightarrow>
           if od_status lockedOrder = Refunded \<or> od_status lockedOrder = Delivered then s0
           else if has_refund ord s0 then s0
           else
             (let cid = od_customer ord; s = upsert_customer_wallet cid s0; w = wallet_or_new s cid;
                  commissionRefund = min orderTotal (original_commission ord s);
                  mainRefund = max 0 (orderTotal - commissionRefund);
                  w' = refunded_wallet (resolveUsdtVndRate (overrideRate (od_shop ord)) fallback) mainRefund commissionRefund w
              in add_event (od_id ord) (if isOutOfStock then ''race_out_of_stock_refund'' else ''upstream_failed_refund'')
                   (update_order (od_id ord)
                      (\<lambda>r. r\<lparr>od_status := Refunded, od_payment := PayRefunded, od_failureReason := Some failureReason\<rparr>)
                      (write_wallet cid w' [refund_entry ord isOutOfStock orderTotal w w'] s))))"

definition refund_reason :: "bool \<Rightarrow> string option \<Rightarrow> string" where
  "refund_reason isOutOfStock reason =
     (let dflt = (if isOutOfStock then ''Out of stock, refunded to the bot wallet.'' else ''Upstream failed, refunded to the bot wallet.'')
      in case reason of None \<Rightarrow> dflt | Some r \<Rightarrow> if r = [] then dflt else r)"

text \<open>\<open>True\<close>: the customer is told that the order was refunded.\<close>

definition refundOutOfStockOrderToCustomerWallet ::
  "(ident \<Rightarrow> jsnum) \<Rightarrow> rat \<Rightarrow> bool \<Rightarrow> string option \<Rightarrow> ident \<Rightarrow> shop_db \<Rightarrow> bool \<times> shop_db" where
  "refundOutOfStockOrderToCustomerWallet overrideRate fallback isOutOfStock reason orderId s =
     (case order_at orderId s of
        None \<Rightarrow> (False, s)
      | Some ord \<Rightarrow>
        if od_isPreorder ord then (False, s)
        else if od_status ord = Refunded \<or> od_status ord = Delivered then (False, s)
        else (True, refund_out_of_stock_tx overrideRate fallback isOutOfStock (refund_reason isOutOfStock reason) ord s))"

section \<open>Jobs\<close>

record job =
  jb_id :: string
  jb_order :: ident

type_synonym jobs = "job list"

text \<open>The queue ignores a job whose id it already has.\<close>

definition queue_add :: "string \<Rightarrow> ident \<Rightarrow> jobs \<Rightarrow> jobs" where
  "queue_add jid orderId q = (if list_ex (\<lambda>j. jb_id j = jid) q then q else q @ [\<lparr>jb_id = jid, jb_order = orderId\<rparr>])"

definition enqueuePaidOrder :: "(ident \<Rightarrow> bool) \<Rightarrow> ident \<Rightarrow> shop_db \<times> jobs \<Rightarrow> unit result \<times> shop_db \<times> jobs" where
  "enqueuePaidOrder up orderId st =
     (let (s, q) = st
      in case order_at orderId s of
           None \<Rightarrow> (Inl (NotFound ''Record to update not found.''), s, q)
         | Some _ \<Rightarrow>
           (let s1 = add_event orderId ''purchase_enqueued''
                  (update_order orderId (\<lambda>r. r\<lparr>od_status := ProcessingPurchase\<rparr>) s)
            in if up orderId then (Inr (), s1, queue_add (''purchase-'' @ orderId) orderId q)
               else (Inl (ServiceUnavailable ''Processing failed.''),
                     update_order orderId (\<lambda>r. r\<lparr>od_status := Failed, od_failureReason := Some ''Processing failed.''\<rparr>) s1, q)))"

section \<open>The queue of paid pre-orders\<close>

definition is_manual :: "product \<Rightarrow> bool" where
  "is_manual p \<longleftrightarrow> pr_providerManual p \<or> pr_metaManual p"

definition preorder_available :: "timestamp \<Rightarrow> product option \<Rightarrow> shop_db \<Rightarrow> int option" where
  "preorder_available now product s =
     (case product of None \<Rightarrow> Some 0
      | Some p \<Rightarrow>
        if is_manual p \<and> \<not> pr_metaShared p \<and> \<not> pr_addMail p
        then Some (int (countAvailableManualEntries now (pr_id p) s))
        else (case pr_available p of None \<Rightarrow> None | Some a \<Rightarrow> Some (max 0 a)))"

text \<open>Enough for a quantity; \<open>None\<close> is without limit.\<close>

definition covers :: "int option \<Rightarrow> nat \<Rightarrow> bool" where
  "covers available q \<longleftrightarrow> (case available of None \<Rightarrow> True | Some a \<Rightarrow> int q \<le> a)"

definition fifo_key :: "order \<Rightarrow> bool \<times> int \<times> int \<times> string" where
  "fifo_key r = (od_paidAt r = None, (case od_paidAt r of None \<Rightarrow> 0 | Some t \<Rightarrow> t), od_createdAt r, od_id r)"

definition in_preorder_queue :: "ident \<Rightarrow> order \<Rightarrow> bool" where
  "in_preorder_queue pid r \<longleftrightarrow> od_product r = pid \<and> od_isPreorder r \<and> od_payment r = PayPaid
     \<and> (od_status r = Paid \<or> od_status r = ProcessingPurchase \<or> od_status r = PaidWaitingStock)"

definition getPaidPreorderQueue :: "ident \<Rightarrow> shop_db \<Rightarrow> order list" where
  "getPaidPreorderQueue pid s = sort_key fifo_key (filter (in_preorder_queue pid) (orders s))"

text \<open>\<open>sent\<close>: whether a message to the customer goes out.\<close>

definition movePreorderToWaiting :: "bool \<Rightarrow> order \<Rightarrow> shop_db \<Rightarrow> shop_db" where
  "movePreorderToWaiting sent ord s =
     (if od_product ord = [] then s
      else
        (let queue = getPaidPreorderQueue (od_product ord) s;
             first = (case queue of [] \<Rightarrow> True | h # _ \<Rightarrow> od_id h = od_id ord);
             waits = list_ex (\<lambda>r. od_id r = od_id ord) queue \<and> \<not> first;
             reason = (if waits then ''Waiting for its FIFO turn.'' else ''Paid, waiting for stock.'');
             p = (\<lambda>r. od_id r = od_id ord \<and> od_status r = ProcessingPurchase)
         in if count_rows p (orders s) = 0 then s
            else
              (let s1 = add_event (od_id ord) ''preorder_waiting_stock''
                     (s\<lparr>orders := modify_rows p (\<lambda>r. r\<lparr>od_status := PaidWaitingStock, od_failureReason := Some reason\<rparr>) (orders s)\<rparr>)
               in if sent \<and> \<not> list_ex (\<lambda>e. oe_order e = od_id ord \<and> oe_type e = ''preorder_waiting_confirmation_sent'') (order_events s1)
                  then add_event (od_id ord) ''preorder_waiting_confirmation_sent'' s1 else s1)))"

definition claimable :: "ident \<Rightarrow> order \<Rightarrow> bool" where
  "claimable orderId r \<longleftrightarrow> od_id r = orderId \<and> od_isPreorder r \<and> od_payment r = PayPaid
     \<and> od_status r = PaidWaitingStock \<and> od_cancellation r \<noteq> PcRequested"

definition enqueueWaitingPreorder ::
  "(ident \<Rightarrow> bool) \<Rightarrow> (ident \<Rightarrow> string) \<Rightarrow> ident \<Rightarrow> shop_db \<times> jobs \<Rightarrow> bool result \<times> shop_db \<times> jobs" where
  "enqueueWaitingPreorder up stamp orderId st =
     (let (s, q) = st
      in if count_rows (claimable orderId) (orders s) = 0 then (Inr False, s, q)
         else
           (let s1 = s\<lparr>orders := modify_rows (claimable orderId)
                  (\<lambda>r. r\<lparr>od_status := ProcessingPurchase, od_failureReason := None\<rparr>) (orders s)\<rparr>
            in if up orderId
               then (Inr True, add_event orderId ''preorder_fulfillment_enqueued'' s1,
                     queue_add (''preorder-'' @ orderId @ ''-'' @ stamp orderId) orderId q)
               else (Inl (ServiceUnavailable ''Pre-order enqueue failed.''),
                     s1\<lparr>orders := modify_rows (\<lambda>r. od_id r = orderId \<and> od_status r = ProcessingPurchase)
                       (\<lambda>r. r\<lparr>od_status := PaidWaitingStock, od_failureReason := Some ''Pre-order enqueue failed.''\<rparr>) (orders s1)\<rparr>, q)))"

text \<open>The inner loop of the sweep: skip what does not wait, stop at the first order the stock does not cover.\<close>

fun sweep_fifo ::
  "(ident \<Rightarrow> bool) \<Rightarrow> (ident \<Rightarrow> string) \<Rightarrow> int option \<Rightarrow> order list \<Rightarrow> shop_db \<times> jobs \<Rightarrow> unit result \<times> shop_db \<times> jobs" where
  "sweep_fifo up stamp remaining [] st = (Inr (), st)"
| "sweep_fifo up stamp remaining (w # ws) st =
     (if od_status w \<noteq> PaidWaitingStock \<or> od_cancellation w = PcRequested
      then sweep_fifo up stamp remaining ws st
      else if \<not> covers remaining (od_quantity w) then (Inr (), st)
      else
        (case enqueueWaitingPreorder up stamp (od_id w) st of
           (Inl e, st') \<Rightarrow> (Inl e, st')
         | (Inr enqueued, st') \<Rightarrow>
           sweep_fifo up stamp (if enqueued then map_option (\<lambda>a. a - int (od_quantity w)) remaining else remaining) ws st'))"

definition sweep_product ::
  "(ident \<Rightarrow> bool) \<Rightarrow> (ident \<Rightarrow> string) \<Rightarrow> timestamp \<Rightarrow> ident \<Rightarrow> shop_db \<times> jobs \<Rightarrow> unit result \<times> shop_db \<times> jobs" where
  "sweep_product up stamp now pid st =
     (case product_at pid (fst st) of
        None \<Rightarrow> (Inr (), st)
      | Some p \<Rightarrow> sweep_fifo up stamp (preorder_available now (Some p) (fst st)) (getPaidPreorderQueue pid (fst st)) st)"

fun sweep_products ::
  "(ident \<Rightarrow> bool) \<Rightarrow> (ident \<Rightarrow> string) \<Rightarrow> timestamp \<Rightarrow> ident list \<Rightarrow> shop_db \<times> jobs \<Rightarrow> unit result \<times> shop_db \<times> jobs" where
  "sweep_products up stamp now [] st = (Inr (), st)"
| "sweep_products up stamp now (pid # pids) st =
     (case sweep_product up stamp now pid st of
        (Inl e, st') \<Rightarrow> (Inl e, st')
      | (Inr _, st') \<Rightarrow> sweep_products up stamp now pids st')"

definition waiting_preorder :: "order \<Rightarrow> bool" where
  "waiting_preorder r \<longleftrightarrow> od_isPreorder r \<and> od_payment r = PayPaid \<and> od_status r = PaidWaitingStock
     \<and> od_cancellation r \<noteq> PcRequested"

text \<open>\<open>preorderSweepRunning\<close> lets one sweep run at a time; this is one.\<close>

definition enqueueFulfillablePreorders ::
  "(ident \<Rightarrow> bool) \<Rightarrow> (ident \<Rightarrow> string) \<Rightarrow> timestamp \<Rightarrow> shop_db \<times> jobs \<Rightarrow> unit result \<times> shop_db \<times> jobs" where
  "enqueueFulfillablePreorders up stamp now st =
     (let waiting = take 200 (sort_key fifo_key (filter waiting_preorder (orders (fst st))));
          productIds = filter (\<lambda>i. i \<noteq> []) (rev (remdups (rev (map od_product waiting))))
      in sweep_products up stamp now productIds st)"

section \<open>Delivery of manual products\<close>

text \<open>
  A transaction body that throws a symbol; the state beside the symbol is what it had written by
  then, which the rollback discards.
\<close>

datatype abort = RaceOutOfStock | ManualShortage

definition rollback :: "('s \<Rightarrow> ('e \<times> 's) + 's) \<Rightarrow> 's \<Rightarrow> 'e option \<times> 's" where
  "rollback body s = (case body s of Inl (e, _) \<Rightarrow> (Some e, s) | Inr t \<Rightarrow> (None, t))"

fun join_blank :: "string list \<Rightarrow> string" where
  "join_blank [] = []"
| "join_blank [x] = x"
| "join_blank (x # y # xs) = x @ [CHR 0x0A, CHR 0x0A] @ join_blank (y # xs)"

abbreviation shortage_reason :: string where
  "shortage_reason \<equiv> ''Kho tai khoan giao tu dong khong du so luong. Don da chuyen sang cho seller xu ly thu cong.''"

definition count_available :: "ident \<Rightarrow> shop_db \<Rightarrow> nat" where
  "count_available pid s = count_rows (\<lambda>e. se_product e = pid \<and> se_status e = Available) (stock_entries s)"

definition manual_delivery_body :: "timestamp \<Rightarrow> order \<Rightarrow> shop_db \<Rightarrow> (abort \<times> shop_db) + shop_db" where
  "manual_delivery_body now ord s =
     (case popManualStockEntries now (od_product ord) (od_quantity ord) (Some (od_id ord)) (Some (od_customer ord)) s of
        None \<Rightarrow>
          if \<not> od_isPreorder ord then Inl (RaceOutOfStock, s)
          else Inl (ManualShortage, add_event (od_id ord) ''manual_product_pending''
                 (update_order (od_id ord)
                    (\<lambda>r. r\<lparr>od_status := PaidWaitingStock, od_failureReason := Some shortage_reason\<rparr>) s))
      | Some (p, t) \<Rightarrow>
          (let totalSourceAmount = (if pp_totalCost p > 0 then pp_totalCost p else od_totalSource ord);
               t1 = add_event (od_id ord) ''manual_product_delivered''
                 (update_order (od_id ord)
                    (\<lambda>r. r\<lparr>od_status := Delivered, od_deliveredText := Some (join_blank (pp_extracted p)),
                           od_deliveredAt := Some now, od_totalSource := toDecimal totalSourceAmount\<rparr>) t)
           in Inr (update_product (od_product ord)
                (\<lambda>r. r\<lparr>pr_soldCount := pr_soldCount r + int (od_quantity ord),
                       pr_available := Some (int (count_available (od_product ord) t1))\<rparr>) t1)))"

text \<open>Handing the order over to the seller; the counter of the product goes down when it has one.\<close>

definition pend_manual :: "string \<Rightarrow> order \<Rightarrow> product \<Rightarrow> shop_db \<Rightarrow> shop_db" where
  "pend_manual reason ord p s =
     (let s1 = add_event (od_id ord) ''manual_product_pending''
            (update_order (od_id ord) (\<lambda>r. r\<lparr>od_status := PaidWaitingStock, od_failureReason := Some reason\<rparr>) s)
      in case pr_available p of
           None \<Rightarrow> s1
         | Some a \<Rightarrow> update_product (od_product ord) (\<lambda>r. r\<lparr>pr_available := Some (max 0 (a - int (od_quantity ord)))\<rparr>) s1)"

definition deliver_shared :: "timestamp \<Rightarrow> string \<Rightarrow> order \<Rightarrow> product \<Rightarrow> shop_db \<Rightarrow> shop_db" where
  "deliver_shared now deliveredText ord p s =
     (let currentAvailable = (case pr_available p of None \<Rightarrow> 0 | Some a \<Rightarrow> a);
          newAvailable = max 0 (currentAvailable - int (od_quantity ord))
      in update_product (od_product ord)
           (\<lambda>r. r\<lparr>pr_soldCount := pr_soldCount r + int (od_quantity ord), pr_available := Some newAvailable\<rparr>)
           (add_event (od_id ord) ''shared_product_delivered''
             (update_order (od_id ord)
               (\<lambda>r. r\<lparr>od_status := Delivered, od_deliveredText := Some deliveredText, od_deliveredAt := Some now,
                      od_failureReason := None\<rparr>) s)))"

text \<open>The settings a run of the worker reads: exchange rates, affiliate programmes, whether messages go out.\<close>

record worker_env =
  env_override :: "ident \<Rightarrow> jsnum"
  env_fallbackRate :: rat
  env_affiliate :: "ident \<Rightarrow> affiliate_config option"
  env_sent :: bool

abbreviation race_refund :: "worker_env \<Rightarrow> ident \<Rightarrow> shop_db \<Rightarrow> shop_db" where
  "race_refund env orderId s \<equiv>
     snd (refundOutOfStockOrderToCustomerWallet (env_override env) (env_fallbackRate env) True
       (Some ''Out of stock because another customer paid first.'') orderId s)"

definition shared_text :: "product \<Rightarrow> string option" where
  "shared_text p = (if pr_metaShared p
     then (case pr_sharedContent p of None \<Rightarrow> None | Some c \<Rightarrow> if js_trim c = [] then None else Some (js_trim c))
     else None)"

text \<open>The manual branch, on the order and the product as read at the start of the job.\<close>

definition process_manual :: "worker_env \<Rightarrow> timestamp \<Rightarrow> order \<Rightarrow> product \<Rightarrow> shop_db \<Rightarrow> shop_db" where
  "process_manual env now ord p s =
     (case shared_text p of
        Some deliveredText \<Rightarrow>
          if (case pr_available p of None \<Rightarrow> False | Some a \<Rightarrow> a < int (od_quantity ord)) \<and> \<not> od_isPreorder ord
          then race_refund env (od_id ord) s
          else creditAffiliateCommission (env_affiliate env) (od_id ord) (deliver_shared now deliveredText ord p s)
      | None \<Rightarrow>
          if od_product ord = [] then s
          else
            (let availableManualEntries = countAvailableManualEntries now (od_product ord) s
             in if availableManualEntries \<ge> od_quantity ord
                then
                  (case rollback (manual_delivery_body now ord) s of
                     (Some RaceOutOfStock, s') \<Rightarrow> race_refund env (od_id ord) s'
                   | (Some ManualShortage, s') \<Rightarrow> s'
                   | (None, t) \<Rightarrow> creditAffiliateCommission (env_affiliate env) (od_id ord) t)
                else if availableManualEntries > 0
                then (if \<not> od_isPreorder ord then race_refund env (od_id ord) s
                      else pend_manual shortage_reason ord p s)
                else if \<not> (pr_addMail p \<or> pr_requiresEmail p) \<and> \<not> od_isPreorder ord
                then race_refund env (od_id ord) s
                else pend_manual ''San pham manual dang cho seller xu ly thu cong.'' ord p s))"

text \<open>The gate of a pre-order: \<open>Some\<close> the state the job ends in, \<open>None\<close> when it goes on.\<close>

definition preorder_gate :: "worker_env \<Rightarrow> timestamp \<Rightarrow> order \<Rightarrow> shop_db \<Rightarrow> shop_db option" where
  "preorder_gate env now ord s =
     (if \<not> od_isPreorder ord then None
      else if od_status ord \<noteq> ProcessingPurchase \<or> od_payment ord \<noteq> PayPaid then Some s
      else if od_cancellation ord = PcRequested
      then Some (s\<lparr>orders := modify_rows
             (\<lambda>r. od_id r = od_id ord \<and> od_status r = ProcessingPurchase \<and> od_cancellation r = PcRequested)
             (\<lambda>r. r\<lparr>od_status := PaidWaitingStock, od_failureReason := Some ''Khach da yeu cau huy. Don tam khoa giao hang de cho seller duyet.''\<rparr>)
             (orders s)\<rparr>)
      else
        (let isFirstInQueue = (case getPaidPreorderQueue (od_product ord) s of [] \<Rightarrow> False | h # _ \<Rightarrow> od_id h = od_id ord)
         in if \<not> isFirstInQueue \<or> \<not> covers (preorder_available now (product_at (od_product ord) s) s) (od_quantity ord)
            then Some (movePreorderToWaiting (env_sent env) ord s)
            else None))"

text \<open>
  A job of the purchase queue for an order of a manual product; \<open>None\<close> for any other order, whose
  purchase from an upstream shop or a provider is not modelled.
\<close>

definition processPurchase :: "worker_env \<Rightarrow> timestamp \<Rightarrow> ident \<Rightarrow> shop_db \<Rightarrow> shop_db option" where
  "processPurchase env now orderId s =
     (case order_at orderId s of
        None \<Rightarrow> Some s
      | Some ord \<Rightarrow>
        (case product_at (od_product ord) s of
           None \<Rightarrow> None
         | Some p \<Rightarrow>
           if \<not> is_manual p then None
           else (case preorder_gate env now ord s of
                   Some t \<Rightarrow> Some t
                 | None \<Rightarrow> Some (process_manual env now ord p s))))"

section \<open>The refund gives back what was paid\<close>

lemma refund_entry_simps:
  "wallet_fine w \<Longrightarrow> main_delta (refund_entry ord oos a w w') = cw_balance w' - cw_balance w"
  "wallet_fine w \<Longrightarrow> commission_delta (refund_entry ord oos a w w') = cw_commission w' - cw_commission w"
  "cl_customer (refund_entry ord oos a w w') = od_customer ord"
  "is_order_row ty cid oid (refund_entry ord oos a w w') = False"
  "spend_fine (refund_entry ord oos a w w')"
  by (auto simp: refund_entry_def main_delta_def commission_delta_def is_order_row_def spend_fine_def
      toDecimal_cents wallet_fineD)

lemma connection_inv_order_updates [simp]:
  "connection_inv (update_order i f s) = connection_inv s" "connection_inv (add_event i ty s) = connection_inv s"
  "connection_inv (update_product i g s) = connection_inv s"
  by (simp_all add: connection_inv_def outstanding_ok_def order_rows_def)

lemma connection_inv_upsert: "connection_inv s \<Longrightarrow> connection_inv (upsert_customer_wallet i s)"
  by (simp add: connection_inv_def outstanding_ok_def order_rows_def shop_inv_upsert)

lemma original_commission_fine:
  assumes "connection_inv s" shows "0 \<le> original_commission ord s" and "cents (original_commission ord s)"
proof -
  have "spend_fine e \<and> cl_type e = CSpendOrder" if "original_spend ord s = Some e" for e
    using find_SomeD [OF that [unfolded original_spend_def]] assms
    by (auto simp: connection_inv_def list_all_iff is_order_row_def)
  then show "0 \<le> original_commission ord s" "cents (original_commission ord s)"
    by (auto simp: original_commission_def spend_fine_def max_def split: option.split)
qed

lemma original_commission_upsert [simp]:
  "original_commission ord (upsert_customer_wallet i s) = original_commission ord s"
  by (simp add: original_commission_def original_spend_def)

definition refund_shares :: "order \<Rightarrow> shop_db \<Rightarrow> rat \<times> rat" where
  "refund_shares ord s = (let c = min (od_totalSale ord) (original_commission ord s) in (od_totalSale ord - c, c))"

lemma refund_tx_open:
  assumes inv: "connection_inv s" and total: "0 \<le> od_totalSale ord" "cents (od_totalSale ord)"
    and unsettled: "order_at (od_id ord) s = Some l" "od_status l \<noteq> Refunded" "od_status l \<noteq> Delivered" "\<not> has_refund ord s"
    and t: "t = refund_out_of_stock_tx ov fb oos reason ord s"
    and shares: "refund_shares ord s = (m, c)"
  shows "connection_inv t" and "cw_balance (wallet_or_new t (od_customer ord)) = cw_balance (wallet_or_new s (od_customer ord)) + m"
    and "cw_commission (wallet_or_new t (od_customer ord)) = cw_commission (wallet_or_new s (od_customer ord)) + c"
    and "j \<noteq> od_customer ord \<Longrightarrow> wallet_or_new t j = wallet_or_new s j"
    and "map_option od_status (order_at (od_id ord) t) = Some Refunded"
    and "stock_entries t = stock_entries s"
proof -
  let ?cid = "od_customer ord" and ?s = "upsert_customer_wallet (od_customer ord) s"
  let ?w = "wallet_or_new s ?cid"
  let ?rate = "resolveUsdtVndRate (ov (od_shop ord)) fb"
  have fine: "wallet_fine ?w" using inv by (simp add: connection_inv_def wallet_fine_new)
  have mc: "c = min (od_totalSale ord) (original_commission ord s)" "m = od_totalSale ord - c" "0 \<le> m" "0 \<le> c" "cents m" "cents c"
    using shares original_commission_fine [OF inv, of ord] total
    by (auto simp: refund_shares_def Let_def min_def)
  let ?w' = "refunded_wallet ?rate m c ?w"
  have max: "max 0 (od_totalSale ord) = od_totalSale ord" using total(1) by simp
  have t': "t = add_event (od_id ord) (if oos then ''race_out_of_stock_refund'' else ''upstream_failed_refund'')
      (update_order (od_id ord)
        (\<lambda>r. r\<lparr>od_status := Refunded, od_payment := PayRefunded, od_failureReason := Some reason\<rparr>)
        (write_wallet ?cid ?w' [refund_entry ord oos (od_totalSale ord) ?w ?w'] ?s))"
    using unsettled mc(1-3) unfolding t by (simp add: refund_out_of_stock_tx_def max Let_def)
  have bal: "cw_balance ?w' = cw_balance ?w + m" "cw_commission ?w' = cw_commission ?w + c"
    using fine mc by (simp_all add: refunded_wallet_def toDecimal_cents wallet_fineD on_grid_add)
  then have fine': "wallet_fine ?w'" using fine mc by (auto simp: wallet_fine_def)
  have same: "wallet_or_new t = (wallet_or_new s)(?cid := ?w')" by (auto simp: t' wallet_or_new_def fun_eq_iff upsert_customer_wallet_def split: option.split)
  have "shop_inv (write_wallet ?cid ?w' [refund_entry ord oos (od_totalSale ord) ?w ?w'] ?s)"
    using inv by (intro shop_inv_write fine' shop_inv_upsert)
      (auto simp: connection_inv_def refund_entry_simps fine)
  then show "connection_inv t"
    using inv by (simp add: t' connection_inv_def outstanding_ok_def order_rows_def refund_entry_simps)
  show "cw_balance (wallet_or_new t ?cid) = cw_balance ?w + m" "cw_commission (wallet_or_new t ?cid) = cw_commission ?w + c"
    "j \<noteq> ?cid \<Longrightarrow> wallet_or_new t j = wallet_or_new s j"
    by (simp_all add: same bal)
  show "map_option od_status (order_at (od_id ord) t) = Some Refunded" using unsettled(1) by (simp add: t')
  show "stock_entries t = stock_entries s" by (simp add: t' upsert_customer_wallet_def split: option.split)
qed

lemma refund_settled:
  "order_at oid s = Some r \<Longrightarrow> od_status r = Refunded \<Longrightarrow>
     refundOutOfStockOrderToCustomerWallet ov fb oos reason oid s = (False, s)"
  by (simp add: refundOutOfStockOrderToCustomerWallet_def)

text \<open>
  C13. The out-of-stock refund of an open order gives its customer exactly the order's total: to the
  commission balance what the original payment took from it, at most the total, and the rest to the
  main balance. Nobody else's wallet moves, wallets stay reconciled and non-negative, the order
  reads refunded, and asking for the refund again, in whatever way, changes nothing.
\<close>

theorem refund_gives_back_payment:
  assumes "connection_inv s" and "order_at oid s = Some ord" and "\<not> od_isPreorder ord"
    and "od_status ord \<noteq> Refunded" and "od_status ord \<noteq> Delivered" and "\<not> has_refund ord s"
    and "0 \<le> od_totalSale ord" and "cents (od_totalSale ord)"
    and "refundOutOfStockOrderToCustomerWallet ov fb oos reason oid s = (told, t)"
  shows "told \<and> connection_inv t
      \<and> (let c = min (od_totalSale ord) (original_commission ord s); w = wallet_or_new s (od_customer ord);
             w' = wallet_or_new t (od_customer ord)
         in cw_balance w' = cw_balance w + (od_totalSale ord - c) \<and> cw_commission w' = cw_commission w + c)
      \<and> (\<forall>j. j = od_customer ord \<or> wallet_or_new t j = wallet_or_new s j)
      \<and> map_option od_status (order_at oid t) = Some Refunded
      \<and> (\<forall>ov' fb' oos' reason'. refundOutOfStockOrderToCustomerWallet ov' fb' oos' reason' oid t = (False, t))"
proof -
  have id: "od_id ord = oid" using find_SomeD [OF assms(2)] by simp
  have t: "told" "t = refund_out_of_stock_tx ov fb oos (refund_reason oos reason) ord s"
    using assms(2-5,9) by (auto simp: refundOutOfStockOrderToCustomerWallet_def)
  note R = refund_tx_open [OF assms(1,7,8) _ assms(4,5,6) t(2), unfolded id, OF assms(2)]
  obtain r where "order_at oid t = Some r" "od_status r = Refunded"
    using R(5) by (auto simp: refund_shares_def Let_def)
  then show ?thesis
    using R(1-4) t(1) refund_settled by (auto simp: refund_shares_def Let_def)
qed

lemma connection_inv_cong:
  "customer_wallets t = customer_wallets s \<Longrightarrow> customer_ledger t = customer_ledger s
   \<Longrightarrow> connection_inv t = connection_inv s"
  using shop_inv_cong [of t s] by (simp add: connection_inv_def outstanding_ok_def order_rows_def)

definition demo_sale :: "ident \<Rightarrow> nat \<Rightarrow> bool \<Rightarrow> timestamp \<Rightarrow> order" where
  "demo_sale i q pre paid = \<lparr>od_id = i, od_shop = ''s1'', od_customer = ''c1'', od_product = ''p1'', od_quantity = q,
     od_totalSale = 60000, od_totalSource = 40000, od_isPreorder = pre, od_cancellation = PcNone,
     od_status = ProcessingPurchase, od_payment = PayPaid, od_deliveredText = None, od_failureReason = None,
     od_affiliateCustomer = None, od_affiliateCommission = None, od_paidAt = Some paid, od_createdAt = paid - 1,
     od_deliveredAt = None, od_seller = ''v1'', od_preorderFee = 0, od_internal = False,
     od_cancelRefund = 0, od_cancelFeeRefund = 0\<rparr>"

lemma demo_sale_simps [simp]:
  "od_id (demo_sale i q pre paid) = i" "od_customer (demo_sale i q pre paid) = ''c1''"
  "od_product (demo_sale i q pre paid) = ''p1''" "od_quantity (demo_sale i q pre paid) = q"
  "od_totalSale (demo_sale i q pre paid) = 60000" "od_isPreorder (demo_sale i q pre paid) = pre"
  "od_cancellation (demo_sale i q pre paid) = PcNone" "od_status (demo_sale i q pre paid) = ProcessingPurchase"
  "od_payment (demo_sale i q pre paid) = PayPaid" "od_paidAt (demo_sale i q pre paid) = Some paid"
  "od_createdAt (demo_sale i q pre paid) = paid - 1"
  by (simp_all add: demo_sale_def)

definition demo_product :: product where
  "demo_product = \<lparr>pr_id = ''p1'', pr_shop = ''s1'', pr_providerManual = True, pr_metaManual = True, pr_metaShared = False,
     pr_sharedContent = None, pr_addMail = False, pr_requiresEmail = False, pr_available = Some 3, pr_soldCount = 0,
     pr_external = ''e1'', pr_connection = None, pr_sourcePrice = 20000\<rparr>"

definition demo_shop :: shop_db where
  "demo_shop = demo_paid_shop\<lparr>products := [demo_product], stock_batches := stock_batches demo_stock,
     stock_entries := stock_entries demo_stock, orders := [demo_sale ''o1'' 2 False 5]\<rparr>"

lemma demo_shop_inv: "connection_inv demo_shop"
proof -
  have "connection_inv demo_shop = connection_inv demo_paid_shop"
    by (rule connection_inv_cong) (simp_all add: demo_shop_def)
  then show ?thesis using demo_paid_connection_inv by simp
qed

lemma demo_shop_ledger: "customer_ledger demo_shop = paid_entries demo_topup new_wallet (44 / 10)"
  by (simp add: demo_shop_def demo_paid_shop_def demo_topup_shop_eq empty_shop_def)

theorem refund_gives_back_payment_witness:
  "\<exists>t. cw_balance (wallet_or_new t ''c1'') = 170000 \<and> cw_commission (wallet_or_new t ''c1'') = 0
     \<and> map_option od_status (order_at ''o1'' t) = Some Refunded"
proof -
  let ?r = "refundOutOfStockOrderToCustomerWallet (\<lambda>_. NaN) 25000 True None ''o1'' demo_shop"
  have o: "order_at ''o1'' demo_shop = Some (demo_sale ''o1'' 2 False 5)" by (simp add: demo_shop_def)
  have nr: "\<not> has_refund (demo_sale ''o1'' 2 False 5) demo_shop"
    by (simp add: has_refund_def demo_shop_ledger paid_entries_def topup_entry_def Let_def)
  have oc: "original_commission (demo_sale ''o1'' 2 False 5) demo_shop = 0"
    by (simp add: original_commission_def original_spend_def demo_shop_ledger paid_entries_def topup_entry_def
        is_order_row_def Let_def)
  have w: "wallet_or_new demo_shop ''c1'' = \<lparr>cw_balance = 110000, cw_commission = 0, cw_usdt = 44 / 10\<rparr>"
    by (simp add: wallet_or_new_def demo_shop_def demo_paid_shop_def)
  show ?thesis
    using refund_gives_back_payment [OF demo_shop_inv o _ _ _ nr _ _ surjective_pairing [of ?r]]
    by (intro exI [of _ "snd ?r"]) (simp add: Let_def w oc)
qed

section \<open>A delivery hands out exactly the order's accounts\<close>

lemma commission_frame [simp]:
  "stock_entries (creditAffiliateCommission cfg oid s) = stock_entries s"
  "stock_batches (creditAffiliateCommission cfg oid s) = stock_batches s"
  "order_events (creditAffiliateCommission cfg oid s) = order_events s"
  by (auto simp: creditAffiliateCommission_def creditAffiliateCommission_tx_def Let_def upsert_customer_wallet_def
      split: option.split prod.split)

lemma commission_order:
  "order_at j s = Some r \<Longrightarrow> \<exists>r'. order_at j (creditAffiliateCommission cfg oid s) = Some r'
     \<and> od_status r' = od_status r \<and> od_deliveredText r' = od_deliveredText r"
  by (auto simp: creditAffiliateCommission_def split: option.split)

lemma pick_order_cong:
  assumes "stock_entries t = stock_entries s" and "stock_batches t = stock_batches s"
  shows "pick_order now pid t = pick_order now pid s"
proof -
  have "stock_live now pid t = stock_live now pid s" "entry_key t = entry_key s"
    using assms by (auto simp: fun_eq_iff stock_live_def entry_key_def Let_def split: option.split)
  then show ?thesis using assms(1) by (simp add: pick_order_def live_entries_def)
qed

lemma count_pick_order: "countAvailableManualEntries now pid s = length (pick_order now pid s)"
  by (simp add: countAvailableManualEntries_def pick_order_def)

text \<open>
  C12. Processing an order of a manual product that the open stock covers ends with the order
  delivered: its text is exactly the accounts of as many entries as were ordered, the first of the
  selling order; those entries are sold to the order, the open stock shrinks by exactly the ordered
  quantity, and no other entry changes.
\<close>

theorem manual_order_delivered:
  assumes "distinct (map se_id (stock_entries s))"
    and "order_at oid s = Some ord" and "product_at (od_product ord) s = Some p" and "is_manual p"
    and "shared_text p = None" and "od_product ord \<noteq> []" and "preorder_gate env now ord s = None"
    and "od_quantity ord \<le> countAvailableManualEntries now (od_product ord) s"
  shows "\<exists>t ids. processPurchase env now oid s = Some t
     \<and> (\<exists>r. order_at oid t = Some r \<and> od_status r = Delivered
          \<and> od_deliveredText r = Some (join_blank (map se_text (take (od_quantity ord) (pick_order now (od_product ord) s)))))
     \<and> ids = map se_id (take (od_quantity ord) (pick_order now (od_product ord) s))
     \<and> length ids = od_quantity ord \<and> distinct ids \<and> set ids \<subseteq> set (map se_id (sold_to oid t))
     \<and> pick_order now (od_product ord) t = drop (od_quantity ord) (pick_order now (od_product ord) s)
     \<and> filter (\<lambda>e. se_id e \<notin> set ids) (stock_entries t) = filter (\<lambda>e. se_id e \<notin> set ids) (stock_entries s)"
proof -
  have id: "od_id ord = oid" using find_SomeD [OF assms(2)] by simp
  let ?pop = "popManualStockEntries now (od_product ord) (od_quantity ord) (Some oid) (Some (od_customer ord)) s"
  obtain pp u where pop: "?pop = Some (pp, u)"
    using assms(8) pop_None_iff [of now "od_product ord" "od_quantity ord" "Some oid" "Some (od_customer ord)" s]
    by (cases ?pop) auto
  have P: "length (pp_extracted pp) = od_quantity ord" "distinct (pp_entryIds pp)"
    "pp_extracted pp = map se_text (take (od_quantity ord) (pick_order now (od_product ord) s))"
    "pick_order now (od_product ord) u = drop (od_quantity ord) (pick_order now (od_product ord) s)"
    "set (pp_entryIds pp) \<subseteq> set (map se_id (sold_to oid u))"
    "filter (\<lambda>e. se_id e \<notin> set (pp_entryIds pp)) (stock_entries u) = filter (\<lambda>e. se_id e \<notin> set (pp_entryIds pp)) (stock_entries s)"
    using pop_first_entries [OF assms(1) pop] by blast+
  have ids: "pp_entryIds pp = map se_id (take (od_quantity ord) (pick_order now (od_product ord) s))"
    by (rule pop_cases(2) [OF pop])
  have ou: "order_at oid u = Some ord" using pop_cases(4) [OF pop] assms(2) by simp
  obtain v where v: "manual_delivery_body now ord s = Inr v" and
    fr: "stock_entries v = stock_entries u" "stock_batches v = stock_batches u" and
    ov: "\<exists>r. order_at oid v = Some r \<and> od_status r = Delivered \<and> od_deliveredText r = Some (join_blank (pp_extracted pp))"
    using ou by (simp add: manual_delivery_body_def id pop Let_def)
  let ?t = "creditAffiliateCommission (env_affiliate env) oid v"
  have "processPurchase env now oid s = Some ?t"
    using assms(2-8) v by (simp add: processPurchase_def process_manual_def Let_def rollback_def id)
  moreover have "\<exists>r. order_at oid ?t = Some r \<and> od_status r = Delivered \<and> od_deliveredText r = Some (join_blank (pp_extracted pp))"
    using ov commission_order [of oid v] by force
  moreover have "pick_order now (od_product ord) ?t = pick_order now (od_product ord) u"
    by (rule pick_order_cong) (simp_all add: fr)
  moreover have "sold_to oid ?t = sold_to oid u" by (simp add: sold_to_def fr)
  moreover have "length (pp_entryIds pp) = od_quantity ord" using P(1,3) ids by simp
  ultimately show ?thesis
    using P(2,4-6) by (intro exI [of _ ?t] exI [of _ "pp_entryIds pp"]) (simp add: fr ids P(3))
qed

abbreviation demo_env :: worker_env where
  "demo_env \<equiv> \<lparr>env_override = (\<lambda>_. NaN), env_fallbackRate = 25000, env_affiliate = (\<lambda>_. None), env_sent = False\<rparr>"

lemma demo_product_manual [simp]:
  "is_manual demo_product" "shared_text demo_product = None" "pr_id demo_product = ''p1''"
  "pr_metaShared demo_product = False" "pr_addMail demo_product = False" "pr_requiresEmail demo_product = False"
  "pr_available demo_product = Some 3"
  by (simp_all add: demo_product_def is_manual_def shared_text_def)

lemma demo_shop_stock:
  "stock_entries demo_shop = stock_entries demo_stock" "stock_batches demo_shop = stock_batches demo_stock"
  by (simp_all add: demo_shop_def)

lemma demo_shop_count: "countAvailableManualEntries 10 ''p1'' demo_shop = 3"
  using arg_cong [OF demo_pick_order, of length]
  by (simp add: count_pick_order pick_order_cong [OF demo_shop_stock])

theorem manual_order_delivered_witness:
  "\<exists>t r. processPurchase demo_env 10 ''o1'' demo_shop = Some t \<and> order_at ''o1'' t = Some r \<and> od_status r = Delivered"
proof -
  have o: "order_at ''o1'' demo_shop = Some (demo_sale ''o1'' 2 False 5)" by (simp add: demo_shop_def)
  have p: "product_at (od_product (demo_sale ''o1'' 2 False 5)) demo_shop = Some demo_product" by (simp add: demo_shop_def)
  have d: "distinct (map se_id (stock_entries demo_shop))" using demo_stock_distinct by (simp add: demo_shop_stock)
  have g: "preorder_gate demo_env 10 (demo_sale ''o1'' 2 False 5) demo_shop = None" by (simp add: preorder_gate_def)
  have q: "od_quantity (demo_sale ''o1'' 2 False 5) \<le> countAvailableManualEntries 10 (od_product (demo_sale ''o1'' 2 False 5)) demo_shop"
    by (simp add: demo_shop_count)
  from manual_order_delivered [OF d o p demo_product_manual(1,2) _ g q] show ?thesis by auto
qed

section \<open>The shortage of a pre-order is lost with the rollback\<close>

lemma enqueue_waiting_not_claimable:
  "count_rows (claimable oid) (orders s) = 0 \<Longrightarrow> enqueueWaitingPreorder up stamp oid (s, q) = (Inr False, s, q)"
  by (simp add: enqueueWaitingPreorder_def)

lemma order_at_modify:
  assumes "\<And>r. od_id (f r) = od_id r"
  shows "order_at i (s\<lparr>orders := modify_rows P f (orders s)\<rparr>) = map_option (\<lambda>r. if P r then f r else r) (order_at i s)"
  using assms by (simp add: find_modify_rows)

lemma enqueue_waiting_other:
  assumes "order_at i (fst st) = Some r" and "\<not> claimable i r" and "distinct (map od_id (orders (fst st)))"
    and "enqueueWaitingPreorder up stamp j st = (res, st')"
  shows "order_at i (fst st') = Some r" and "distinct (map od_id (orders (fst st')))"
    and "products (fst st') = products (fst st)"
proof -
  obtain s q where st: "st = (s, q)" by (metis surj_pair)
  have nc: "\<not> claimable j r"
  proof
    assume "claimable j r"
    moreover have "od_id r = i" using find_SomeD [OF assms(1)] by simp
    ultimately show False using assms(2) by (auto simp: claimable_def)
  qed
  show "distinct (map od_id (orders (fst st')))" "products (fst st') = products (fst st)"
    using assms(3,4) by (auto simp: st enqueueWaitingPreorder_def Let_def map_modify_rows split: if_splits)
  show "order_at i (fst st') = Some r"
  proof (cases "count_rows (claimable j) (orders s) = 0")
    case True
    then show ?thesis using assms(1,4) by (auto simp: st enqueueWaitingPreorder_def)
  next
    case False
    then obtain r' where r': "r' \<in> set (orders s)" "claimable j r'" by (auto simp: count_rows_0_iff)
    have "j \<noteq> i"
    proof
      assume "j = i"
      then have "order_at i s = Some r'"
        using distinct_key_find [of od_id "orders s" r'] r' assms(3) by (simp add: st claimable_def)
      then show False using assms(1,2) r'(2) \<open>j = i\<close> by (simp add: st)
    qed
    moreover have "od_id r = i" using find_SomeD [OF assms(1)] by simp
    ultimately show ?thesis
      using assms(1,4) False nc
      by (auto simp: st enqueueWaitingPreorder_def Let_def find_modify_rows split: if_splits)
  qed
qed

lemma sweep_fifo_other:
  "order_at i (fst st) = Some r \<Longrightarrow> \<not> claimable i r \<Longrightarrow> distinct (map od_id (orders (fst st)))
   \<Longrightarrow> order_at i (fst (snd (sweep_fifo up stamp rem ws st))) = Some r
     \<and> distinct (map od_id (orders (fst (snd (sweep_fifo up stamp rem ws st)))))"
proof (induction up stamp rem ws st rule: sweep_fifo.induct)
  case (2 up stamp rem w ws st)
  obtain res st' where e: "enqueueWaitingPreorder up stamp (od_id w) st = (res, st')" by (metis surj_pair)
  note E = enqueue_waiting_other [OF 2(3-5) e]
  show ?case
    using 2 E(1,2) by (cases res) (auto simp: e split: if_splits)
qed simp

lemma sweep_products_other:
  "order_at i (fst st) = Some r \<Longrightarrow> \<not> claimable i r \<Longrightarrow> distinct (map od_id (orders (fst st)))
   \<Longrightarrow> order_at i (fst (snd (sweep_products up stamp now pids st))) = Some r"
proof (induction up stamp now pids st rule: sweep_products.induct)
  case (2 up stamp now pid pids st)
  obtain res st' where e: "sweep_product up stamp now pid st = (res, st')" by (metis surj_pair)
  have "order_at i (fst st') = Some r \<and> distinct (map od_id (orders (fst st')))"
    using sweep_fifo_other [OF 2(2-4), of up stamp "preorder_available now (product_at pid (fst st)) (fst st)"
        "getPaidPreorderQueue pid (fst st)"] 2(2,4) e
    by (auto simp: sweep_product_def split: option.splits)
  then show ?case using 2 by (cases res) (auto simp: e)
qed simp

text \<open>
  C33. When a pre-order reaches its delivery and another sale has taken the stock after the count,
  the code writes that the order waits for stock and that the seller shall take over, and then
  throws: the rollback discards both. The order stays in processing, and as the sweep only picks
  waiting orders, no sweep, whatever else it does, ever takes it up again.
\<close>

theorem preorder_shortage_lost:
  assumes "order_at oid s = Some ord" and "od_isPreorder ord" and "od_status ord = ProcessingPurchase"
    and "distinct (map od_id (orders s))"
    and "countAvailableManualEntries now (od_product ord) s < od_quantity ord"
  shows "(\<exists>u. manual_delivery_body now ord s = Inl (ManualShortage, u)
        \<and> map_option od_status (order_at oid u) = Some PaidWaitingStock)
     \<and> rollback (manual_delivery_body now ord) s = (Some ManualShortage, s)
     \<and> map_option od_status (order_at oid (fst (snd (enqueueFulfillablePreorders up stamp now' (s, q))))) = Some ProcessingPurchase"
proof -
  have id: "od_id ord = oid" using find_SomeD [OF assms(1)] by simp
  have pop: "popManualStockEntries now (od_product ord) (od_quantity ord) (Some oid) (Some (od_customer ord)) s = None"
    using assms(5) by (simp add: pop_None_iff)
  have "\<not> claimable oid ord" using assms(3) by (simp add: claimable_def)
  then have "order_at oid (fst (snd (enqueueFulfillablePreorders up stamp now' (s, q)))) = Some ord"
    using assms(1,4) by (simp add: enqueueFulfillablePreorders_def Let_def sweep_products_other)
  moreover have "\<exists>u. manual_delivery_body now ord s = Inl (ManualShortage, u)
      \<and> map_option od_status (order_at oid u) = Some PaidWaitingStock"
    using assms(1,2) pop by (simp add: manual_delivery_body_def id)
  ultimately show ?thesis using assms(3) by (auto simp: rollback_def)
qed

definition demo_preorder_shop :: shop_db where
  "demo_preorder_shop = demo_shop\<lparr>orders := [demo_sale ''o1'' 5 True 5]\<rparr>"

theorem preorder_shortage_lost_witness:
  "rollback (manual_delivery_body 10 (demo_sale ''o1'' 5 True 5)) demo_preorder_shop = (Some ManualShortage, demo_preorder_shop)
   \<and> map_option od_status (order_at ''o1'' (fst (snd (enqueueFulfillablePreorders (\<lambda>_. True) (\<lambda>_. ''1'') 20 (demo_preorder_shop, [])))))
       = Some ProcessingPurchase"
proof -
  have o: "order_at ''o1'' demo_preorder_shop = Some (demo_sale ''o1'' 5 True 5)" by (simp add: demo_preorder_shop_def)
  have d: "distinct (map od_id (orders demo_preorder_shop))" by (simp add: demo_preorder_shop_def)
  have "countAvailableManualEntries 10 ''p1'' demo_preorder_shop = countAvailableManualEntries 10 ''p1'' demo_shop"
    by (simp add: count_pick_order) (rule arg_cong [OF pick_order_cong]; simp add: demo_preorder_shop_def)
  then have c: "countAvailableManualEntries 10 (od_product (demo_sale ''o1'' 5 True 5)) demo_preorder_shop
      < od_quantity (demo_sale ''o1'' 5 True 5)" by (simp add: demo_shop_count)
  from preorder_shortage_lost [OF o _ _ d c] show ?thesis by (metis demo_sale_simps(6,8))
qed

section \<open>A cancellation request at the head blocks the queue\<close>

lemma sort_key_map: "(\<And>x. k (g x) = k x) \<Longrightarrow> sort_key k (map g xs) = map g (sort_key k xs)"
proof -
  assume k: "\<And>x. k (g x) = k x"
  have "insort_key k (g x) (map g ys) = map g (insort_key k x ys)" for x ys
    by (induction ys) (simp_all add: k)
  then show ?thesis by (induction xs) simp_all
qed

lemma queue_modify:
  assumes "\<And>r. fifo_key (f r) = fifo_key r" and "\<And>r. P r \<Longrightarrow> in_preorder_queue pid (f r) = in_preorder_queue pid r"
  shows "getPaidPreorderQueue pid (s\<lparr>orders := modify_rows P f (orders s)\<rparr>) = modify_rows P f (getPaidPreorderQueue pid s)"
proof -
  let ?g = "\<lambda>r. if P r then f r else r"
  have "filter (in_preorder_queue pid) (map ?g (orders s)) = map ?g (filter (in_preorder_queue pid) (orders s))"
    using assms(2) by (simp add: filter_map o_def if_distrib cong: if_cong)
  then show ?thesis
    using sort_key_map [of fifo_key ?g "filter (in_preorder_queue pid) (orders s)"] assms(1)
    by (simp add: getPaidPreorderQueue_def modify_rows_def)
qed

lemma queue_add_event [simp]: "getPaidPreorderQueue pid (add_event i ty s) = getPaidPreorderQueue pid s"
  by (simp add: getPaidPreorderQueue_def)

text \<open>
  C34. The sweep passes over a waiting pre-order whose customer asked to cancel it and takes the
  next ones; processing them does not. As long as such an order is first in the queue of its
  product, every pre-order behind it is put back to waiting when its turn comes, whatever the
  stock, nothing is sold to it, and it can be claimed by the sweep again: the queue neither moves
  nor changes.
\<close>

theorem cancellation_request_blocks_queue:
  assumes "order_at oid s = Some ord" and "product_at (od_product ord) s = Some p" and "is_manual p"
    and "od_isPreorder ord" and "od_status ord = ProcessingPurchase" and "od_payment ord = PayPaid"
    and "od_cancellation ord \<noteq> PcRequested" and "od_product ord \<noteq> []"
    and "getPaidPreorderQueue (od_product ord) s = h # hs" and "od_id h \<noteq> oid"
    and "od_status h = PaidWaitingStock" and "od_cancellation h = PcRequested"
  shows "\<exists>t r. processPurchase env now oid s = Some t \<and> order_at oid t = Some r \<and> claimable oid r
     \<and> stock_entries t = stock_entries s
     \<and> (\<exists>hs'. getPaidPreorderQueue (od_product ord) t = h # hs' \<and> map od_id hs' = map od_id hs)"
proof -
  have id: "od_id ord = oid" using find_SomeD [OF assms(1)] by simp
  let ?P = "\<lambda>r. od_id r = oid \<and> od_status r = ProcessingPurchase"
  have cnt: "count_rows ?P (orders s) \<noteq> 0"
    using find_SomeD [OF assms(1)] assms(5) by (auto simp: count_rows_0_iff)
  define reason where "reason = (if list_ex (\<lambda>r. od_id r = oid) (getPaidPreorderQueue (od_product ord) s)
    then ''Waiting for its FIFO turn.'' else ''Paid, waiting for stock.'')"
  let ?f = "\<lambda>r. r\<lparr>od_status := PaidWaitingStock, od_failureReason := Some reason\<rparr>"
  let ?s1 = "add_event oid ''preorder_waiting_stock'' (s\<lparr>orders := modify_rows ?P ?f (orders s)\<rparr>)"
  have "\<exists>t. processPurchase env now oid s = Some t \<and> (t = ?s1 \<or> t = add_event oid ''preorder_waiting_confirmation_sent'' ?s1)"
    using assms cnt by (simp add: processPurchase_def preorder_gate_def movePreorderToWaiting_def Let_def id reason_def)
  then obtain t where t: "processPurchase env now oid s = Some t"
      "t = ?s1 \<or> t = add_event oid ''preorder_waiting_confirmation_sent'' ?s1" by blast
  have ordt: "orders t = modify_rows ?P ?f (orders s)" using t(2) by auto
  have "order_at oid t = Some (?f ord)"
    using assms(1,5) id by (simp add: ordt find_modify_rows)
  moreover have "claimable oid (?f ord)" using assms(4,6,7) id by (simp add: claimable_def)
  moreover have "stock_entries t = stock_entries s" using t(2) by auto
  moreover have "getPaidPreorderQueue (od_product ord) t = h # modify_rows ?P ?f hs"
  proof -
    have "getPaidPreorderQueue (od_product ord) t = getPaidPreorderQueue (od_product ord) (s\<lparr>orders := modify_rows ?P ?f (orders s)\<rparr>)"
      by (simp add: getPaidPreorderQueue_def ordt)
    also have "\<dots> = modify_rows ?P ?f (h # hs)"
      unfolding assms(9) [symmetric] by (rule queue_modify) (auto simp: fifo_key_def in_preorder_queue_def)
    finally show ?thesis using assms(10) by simp
  qed
  moreover have "map od_id (modify_rows ?P ?f hs) = map od_id hs" by (simp add: map_modify_rows)
  ultimately show ?thesis using t(1) by blast
qed

definition demo_blocked_shop :: shop_db where
  "demo_blocked_shop = demo_shop\<lparr>orders :=
     [(demo_sale ''o1'' 1 True 5)\<lparr>od_status := PaidWaitingStock, od_cancellation := PcRequested\<rparr>, demo_sale ''o2'' 1 True 6]\<rparr>"

theorem cancellation_request_blocks_queue_witness:
  "\<exists>t r. processPurchase demo_env 10 ''o2'' demo_blocked_shop = Some t \<and> order_at ''o2'' t = Some r \<and> claimable ''o2'' r"
proof -
  have q: "getPaidPreorderQueue ''p1'' demo_blocked_shop =
      (demo_sale ''o1'' 1 True 5)\<lparr>od_status := PaidWaitingStock, od_cancellation := PcRequested\<rparr> # [demo_sale ''o2'' 1 True 6]"
    by (simp add: getPaidPreorderQueue_def demo_blocked_shop_def in_preorder_queue_def fifo_key_def)
  have o: "order_at ''o2'' demo_blocked_shop = Some (demo_sale ''o2'' 1 True 6)" by (simp add: demo_blocked_shop_def)
  have p: "product_at (od_product (demo_sale ''o2'' 1 True 6)) demo_blocked_shop = Some demo_product"
    by (simp add: demo_blocked_shop_def demo_shop_def)
  show ?thesis
    using cancellation_request_blocks_queue [OF o p demo_product_manual(1), where env = demo_env and now = 10] q by auto
qed

section \<open>The sweep stays within the stock and the order of payment\<close>

definition eligible :: "order \<Rightarrow> bool" where
  "eligible w \<longleftrightarrow> od_status w = PaidWaitingStock \<and> od_cancellation w \<noteq> PcRequested"

definition enqueued_event :: "order \<Rightarrow> order_event" where
  "enqueued_event w = \<lparr>oe_order = od_id w, oe_type = ''preorder_fulfillment_enqueued''\<rparr>"

lemma enqueue_eligible:
  assumes "w \<in> set (orders (fst st))" and "eligible w" and "od_isPreorder w" and "od_payment w = PayPaid"
    and "distinct (map od_id (orders (fst st)))" and "enqueueWaitingPreorder up stamp (od_id w) st = (res, st')"
  shows "if up (od_id w)
     then res = Inr True \<and> order_events (fst st') = order_events (fst st) @ [enqueued_event w]
       \<and> map_option od_status (order_at (od_id w) (fst st')) = Some ProcessingPurchase
     else (\<exists>e. res = Inl e) \<and> order_events (fst st') = order_events (fst st)"
    and "distinct (map od_id (orders (fst st')))"
    and "x \<in> set (orders (fst st)) \<Longrightarrow> od_id x \<noteq> od_id w \<Longrightarrow> x \<in> set (orders (fst st'))"
proof -
  obtain s q where st: "st = (s, q)" by (metis surj_pair)
  have c: "claimable (od_id w) w" using assms(2-4) by (simp add: claimable_def eligible_def)
  then have n: "count_rows (claimable (od_id w)) (orders s) \<noteq> 0"
    using assms(1) by (auto simp: count_rows_0_iff st)
  have "order_at (od_id w) s = Some w"
    using distinct_key_find [of od_id "orders s" w] assms(1,5) by (simp add: st)
  then show "if up (od_id w)
     then res = Inr True \<and> order_events (fst st') = order_events (fst st) @ [enqueued_event w]
       \<and> map_option od_status (order_at (od_id w) (fst st')) = Some ProcessingPurchase
     else (\<exists>e. res = Inl e) \<and> order_events (fst st') = order_events (fst st)"
    using assms(6) n c
    by (auto simp: st enqueueWaitingPreorder_def Let_def add_event_def enqueued_event_def find_modify_rows)
  show "distinct (map od_id (orders (fst st')))"
    using assms(5,6) n by (auto simp: st enqueueWaitingPreorder_def Let_def map_modify_rows split: if_splits)
  assume x: "x \<in> set (orders (fst st))" "od_id x \<noteq> od_id w"
  then have "x \<in> set (modify_rows (claimable (od_id w)) f (orders s))" for f
    by (force simp: modify_rows_def claimable_def st)
  then have "x \<in> set (modify_rows (\<lambda>r. od_id r = od_id w \<and> od_status r = ProcessingPurchase) g
      (modify_rows (claimable (od_id w)) f (orders s)))" for f g
    using x(2) by (force simp: modify_rows_def [of "\<lambda>r. od_id r = od_id w \<and> od_status r = ProcessingPurchase"])
  with \<open>\<And>f. x \<in> set (modify_rows (claimable (od_id w)) f (orders s))\<close> show "x \<in> set (orders (fst st'))"
    using assms(6) n by (auto simp: st enqueueWaitingPreorder_def Let_def split: if_splits)
qed

lemma enqueue_keeps_other:
  assumes "order_at i (fst st) = Some r" and "i \<noteq> j" and "enqueueWaitingPreorder up stamp j st = (res, st')"
  shows "order_at i (fst st') = Some r"
proof -
  have "od_id r = i" using find_SomeD [OF assms(1)] by simp
  then show ?thesis
    using assms by (cases st) (auto simp: enqueueWaitingPreorder_def Let_def find_modify_rows claimable_def split: if_splits)
qed

lemma covers_minus: "covers rem q \<Longrightarrow> covers (map_option (\<lambda>a. a - int q) rem) n = covers rem (q + n)"
  by (auto simp: covers_def split: option.split)

lemma sweep_fifo_keeps:
  "order_at i (fst st) = Some r \<Longrightarrow> i \<notin> od_id ` set ws \<Longrightarrow> order_at i (fst (snd (sweep_fifo up stamp rem ws st))) = Some r"
proof (induction up stamp rem ws st rule: sweep_fifo.induct)
  case (2 up stamp rem w ws st)
  obtain res st' where e: "enqueueWaitingPreorder up stamp (od_id w) st = (res, st')" by (metis surj_pair)
  show ?case using 2 enqueue_keeps_other [OF 2(3) _ e] by (cases res) (auto simp: e)
qed simp

lemma sweep_fifo_claims:
  assumes "distinct (map od_id ws)" and "set ws \<subseteq> set (orders (fst st))" and "distinct (map od_id (orders (fst st)))"
    and "\<And>w. w \<in> set ws \<Longrightarrow> od_isPreorder w \<and> od_payment w = PayPaid" and "covers rem 0"
    and "sweep_fifo up stamp rem ws st = (res, st')"
  shows "\<exists>claimed rest. filter eligible ws = claimed @ rest \<and> covers rem (sum_list (map od_quantity claimed))
    \<and> order_events (fst st') = order_events (fst st) @ map enqueued_event claimed
    \<and> (\<forall>w \<in> set claimed. map_option od_status (order_at (od_id w) (fst st')) = Some ProcessingPurchase)
    \<and> (res = Inr () \<longrightarrow> rest = [] \<or> \<not> covers rem (sum_list (map od_quantity claimed) + od_quantity (hd rest)))"
  using assms
proof (induction ws arbitrary: st rem)
  case Nil
  then show ?case by (intro exI [of _ "[]"]) simp
next
  case (Cons w ws)
  show ?case
  proof (cases "eligible w")
    case False
    then have "sweep_fifo up stamp rem ws st = (res, st')" using Cons.prems(6) by (auto simp: eligible_def)
    then show ?thesis using Cons.IH [of st rem] Cons.prems False by simp
  next
    case True
    show ?thesis
    proof (cases "covers rem (od_quantity w)")
      case False
      then have "st' = st" using Cons.prems(6) True by (auto simp: eligible_def)
      then show ?thesis using True False Cons.prems(5) by (intro exI [of _ "[]"] exI [of _ "w # filter eligible ws"]) simp
    next
      case cov: True
      obtain e st1 where e: "enqueueWaitingPreorder up stamp (od_id w) st = (e, st1)" by (metis surj_pair)
      have w: "w \<in> set (orders (fst st))" "od_isPreorder w" "od_payment w = PayPaid" using Cons.prems(2,4) by auto
      note Q = enqueue_eligible [OF w(1) True w(2,3) Cons.prems(3) e]
      show ?thesis
      proof (cases "up (od_id w)")
        case False
        then have "st' = st1 \<and> (\<exists>x. res = Inl x) \<and> order_events (fst st1) = order_events (fst st)"
          using Q(1) Cons.prems(6) True cov by (auto simp: eligible_def e)
        then show ?thesis using True Cons.prems(5) by (intro exI [of _ "[]"] exI [of _ "w # filter eligible ws"]) auto
      next
        case upw: True
        let ?rem = "map_option (\<lambda>a. a - int (od_quantity w)) rem"
        have ev: "order_events (fst st1) = order_events (fst st) @ [enqueued_event w]"
          and stw: "map_option od_status (order_at (od_id w) (fst st1)) = Some ProcessingPurchase"
          and run: "sweep_fifo up stamp ?rem ws st1 = (res, st')"
          using Q(1) upw Cons.prems(6) True cov by (auto simp: eligible_def e)
        have notin: "od_id w \<notin> od_id ` set ws" using Cons.prems(1) by auto
        have sub: "set ws \<subseteq> set (orders (fst st1))"
        proof
          fix x assume "x \<in> set ws"
          moreover from this have "od_id x \<noteq> od_id w" using notin by (metis image_eqI)
          ultimately show "x \<in> set (orders (fst st1))" using Cons.prems(2) by (intro Q(3)) auto
        qed
        obtain claimed rest where IH: "filter eligible ws = claimed @ rest"
          "covers ?rem (sum_list (map od_quantity claimed))"
          "order_events (fst st') = order_events (fst st1) @ map enqueued_event claimed"
          "\<forall>w \<in> set claimed. map_option od_status (order_at (od_id w) (fst st')) = Some ProcessingPurchase"
          "res = Inr () \<longrightarrow> rest = [] \<or> \<not> covers ?rem (sum_list (map od_quantity claimed) + od_quantity (hd rest))"
          using Cons.IH [OF _ sub Q(2) _ _ run] Cons.prems(1,4) cov covers_minus [OF cov, of 0] by auto
        obtain r where r: "order_at (od_id w) (fst st1) = Some r" "od_status r = ProcessingPurchase" using stw by auto
        have "order_at (od_id w) (fst st') = Some r"
          using sweep_fifo_keeps [OF r(1) notin, of up stamp ?rem] run by simp
        then show ?thesis
          using IH True ev r(2) covers_minus [OF cov]
          by (intro exI [of _ "w # claimed"] exI [of _ rest]) (auto simp: add.assoc)
      qed
    qed
  qed
qed

lemma queue_members:
  "w \<in> set (getPaidPreorderQueue pid s) \<Longrightarrow> w \<in> set (orders s) \<and> od_isPreorder w \<and> od_payment w = PayPaid"
  by (auto simp: getPaidPreorderQueue_def in_preorder_queue_def)

lemma distinct_queue: "distinct (map od_id (orders s)) \<Longrightarrow> distinct (map od_id (getPaidPreorderQueue pid s))"
proof -
  assume d: "distinct (map od_id (orders s))"
  then have "distinct (map od_id (filter (in_preorder_queue pid) (orders s)))" by (rule distinct_map_filter)
  then show ?thesis by (simp add: getPaidPreorderQueue_def distinct_map)
qed

lemma preorder_available_nonneg: "covers (preorder_available now p s) 0"
  by (auto simp: preorder_available_def covers_def split: option.split)

text \<open>
  C14. One sweep of a product claims the first orders of its waiting queue, in the order of their
  payment and without leaving one out, as long as the stock counted at its start covers them
  together; a completed sweep stops only at an order that would exceed the stock. Every claimed
  order is in processing afterwards and gets exactly one event.
\<close>

theorem sweep_claims_fifo_within_stock:
  assumes "distinct (map od_id (orders s))" and "product_at pid s = Some p"
    and "sweep_product up stamp now pid (s, q) = (res, s', q')"
  shows "\<exists>claimed rest. filter eligible (getPaidPreorderQueue pid s) = claimed @ rest
    \<and> covers (preorder_available now (Some p) s) (sum_list (map od_quantity claimed))
    \<and> order_events s' = order_events s @ map enqueued_event claimed
    \<and> (\<forall>w \<in> set claimed. map_option od_status (order_at (od_id w) s') = Some ProcessingPurchase)
    \<and> (res = Inr () \<longrightarrow> rest = []
        \<or> \<not> covers (preorder_available now (Some p) s) (sum_list (map od_quantity claimed) + od_quantity (hd rest)))"
  using sweep_fifo_claims [OF distinct_queue [OF assms(1)], of pid "(s, q)"
      "preorder_available now (Some p) s" up stamp res "(s', q')"] assms queue_members preorder_available_nonneg
  by (auto simp: sweep_product_def subset_iff)

theorem sweep_claims_fifo_within_stock_witness:
  "\<exists>res s' q'. sweep_product (\<lambda>_. True) (\<lambda>_. ''1'') 10 ''p1'' (demo_blocked_shop, []) = (res, s', q')
     \<and> (\<exists>claimed. order_events s' = order_events demo_blocked_shop @ map enqueued_event claimed)"
proof -
  have d: "distinct (map od_id (orders demo_blocked_shop))" by (simp add: demo_blocked_shop_def)
  have p: "product_at ''p1'' demo_blocked_shop = Some demo_product" by (simp add: demo_blocked_shop_def demo_shop_def)
  obtain res s' q' where r: "sweep_product (\<lambda>_. True) (\<lambda>_. ''1'') 10 ''p1'' (demo_blocked_shop, []) = (res, s', q')"
    by (metis surj_pair)
  from sweep_claims_fifo_within_stock [OF d p r] r show ?thesis by blast
qed

end
