(* ===== verification/Checkout.thy ===== *)
theory Checkout
  imports OrderPricing Fulfillment
begin

text \<open>
  Placing and paying orders: \<open>apps/api/src/orders/orders.service.ts\<close> (order creation with a payment
  link or from the customer's wallet, the confirmation of a payment, the hand-over to the purchase
  queue, the customer's cancellation of an unpaid order) and the worker's expiry of unpaid orders
  (\<open>schedulers/order-wallet-cleanup.ts\<close>). The payment link a provider returns is an argument, as
  are the generated identifiers and codes. Queueing follows \<open>Fulfillment\<close>: \<open>up\<close> says whether the
  queue accepts the job.
\<close>

abbreviation payment_with :: "string \<Rightarrow> shop_db \<Rightarrow> pay_tx option" where
  "payment_with code s \<equiv> List.find (\<lambda>r. pt_code r = code) (payments s)"

abbreviation payment_of :: "ident \<Rightarrow> shop_db \<Rightarrow> pay_tx option" where
  "payment_of oid s \<equiv> List.find (\<lambda>r. pt_order r = oid) (payments s)"

definition update_payments :: "(pay_tx \<Rightarrow> bool) \<Rightarrow> (pay_tx \<Rightarrow> pay_tx) \<Rightarrow> shop_db \<Rightarrow> shop_db" where
  "update_payments p f s = s\<lparr>payments := modify_rows p f (payments s)\<rparr>"

definition update_orders :: "(order \<Rightarrow> bool) \<Rightarrow> (order \<Rightarrow> order) \<Rightarrow> shop_db \<Rightarrow> shop_db" where
  "update_orders p f s = s\<lparr>orders := modify_rows p f (orders s)\<rparr>"

section \<open>The checks of the checkout transaction\<close>

definition assertPhysicalStockAvailable :: "ident \<Rightarrow> nat \<Rightarrow> bool \<Rightarrow> shop_db \<Rightarrow> unit result" where
  "assertPhysicalStockAvailable pid requestedQuantity isPreorder s =
     (if isPreorder then Inr ()
      else
        (case product_at pid s of
           None \<Rightarrow> Inl (NotFound ''Product not found.'')
         | Some p \<Rightarrow>
           (case pr_available p of
              None \<Rightarrow> Inr ()
            | Some a \<Rightarrow>
              if a < int requestedQuantity
              then Inl (BadRequest (if a > 0 then ''Only a few items left in stock.'' else ''Product is out of stock.''))
              else Inr ())))"

definition assertCurrentOrderPriceSafe :: "ident \<Rightarrow> nat \<Rightarrow> rat \<Rightarrow> shop_db \<Rightarrow> unit result" where
  "assertCurrentOrderPriceSafe pid quantity totalSaleAmount s =
     (case product_at pid s of
        None \<Rightarrow> Inl (NotFound ''Product not found.'')
      | Some p \<Rightarrow>
        if isOrderPriceSafe (Fin totalSaleAmount) (Fin (pr_sourcePrice p * of_nat quantity)) then Inr ()
        else Inl (BadRequest ''The source price has changed and is above the sale price.''))"

section \<open>The rows of a new order\<close>

record order_ids =
  oc_order :: ident
  oc_code :: string

definition new_order :: "order_ids \<Rightarrow> ident \<Rightarrow> prepared \<Rightarrow> timestamp \<Rightarrow> order" where
  "new_order ids shop pd now =
     \<lparr>od_id = oc_order ids, od_shop = shop, od_customer = pd_customer pd, od_product = pd_product pd,
      od_quantity = pd_quantity pd, od_totalSale = toDecimal (pd_totalSale pd),
      od_totalSource = toDecimal (pd_totalSource pd), od_isPreorder = pd_isPreorder pd, od_cancellation = PcNone,
      od_status = AwaitingPayment, od_payment = PayPending, od_deliveredText = None, od_failureReason = None,
      od_affiliateCustomer = None, od_affiliateCommission = None, od_paidAt = None, od_createdAt = now,
      od_deliveredAt = None, od_seller = pd_seller pd, od_preorderFee = toDecimal (pd_preorderFee pd),
      od_internal = pd_internal pd, od_cancelRefund = 0, od_cancelFeeRefund = 0\<rparr>"

definition insert_order :: "order \<Rightarrow> pay_tx \<Rightarrow> shop_db \<Rightarrow> shop_db" where
  "insert_order r q s =
     add_event (od_id r) ''order_created'' (s\<lparr>orders := orders s @ [r], payments := payments s @ [q]\<rparr>)"

text \<open>\<open>orderId\<close> and \<open>externalOrderCode\<close> are unique columns.\<close>

definition ids_taken :: "order_ids \<Rightarrow> shop_db \<Rightarrow> bool" where
  "ids_taken ids s \<longleftrightarrow> list_ex (\<lambda>r. od_id r = oc_order ids) (orders s)
     \<or> list_ex (\<lambda>q. pt_code q = oc_code ids \<or> pt_order q = oc_order ids) (payments s)"

section \<open>An order with a payment link\<close>

definition create_order_tx ::
  "order_ids \<Rightarrow> ident \<Rightarrow> prepared \<Rightarrow> provider \<Rightarrow> timestamp \<Rightarrow> shop_db \<Rightarrow> (order \<times> shop_db) result" where
  "create_order_tx ids shop pd prov now s =
     (case assertPhysicalStockAvailable (pd_product pd) (pd_quantity pd) (pd_isPreorder pd) s of Inl e \<Rightarrow> Inl e | Inr _ \<Rightarrow>
      (case assertCurrentOrderPriceSafe (pd_product pd) (pd_quantity pd) (pd_totalSale pd) s of Inl e \<Rightarrow> Inl e | Inr _ \<Rightarrow>
       (if ids_taken ids s then Inl (Conflict ''Unique constraint failed.'')
        else
          (let r = new_order ids shop pd now;
               q = \<lparr>pt_order = oc_order ids, pt_provider = prov, pt_code = oc_code ids,
                    pt_amount = toDecimal (pd_totalSale pd), pt_txHash = None, pt_status = TxPending, pt_paidAt = None\<rparr>
           in Inr (r, insert_order r q s)))))"

text \<open>\<open>link\<close>: the provider the payment service made a link with, or its error.\<close>

definition createTelegramOrder ::
  "system_config \<Rightarrow> (ident \<Rightarrow> buyer) \<Rightarrow> (ident \<Rightarrow> offer) \<Rightarrow> provider_answers \<Rightarrow> ident \<Rightarrow> order_ids \<Rightarrow> provider result
   \<Rightarrow> order_input \<Rightarrow> timestamp \<Rightarrow> shop_db \<Rightarrow> order result \<times> shop_db" where
  "createTelegramOrder cfg buyers offers pa newCustomer ids link i now s =
     (case assertEnabled cfg Orders None of Inl e \<Rightarrow> (Inl e, s) | Inr _ \<Rightarrow>
      (case prepareTelegramOrderContext buyers offers pa newCustomer i now s of
         (Inl e, s1) \<Rightarrow> (Inl e, s1)
       | (Inr pd, s1) \<Rightarrow>
         (case link of Inl e \<Rightarrow> (Inl e, s1)
          | Inr prov \<Rightarrow> transaction (create_order_tx ids (oi_shop i) pd prov now) s1)))"

section \<open>An order paid from the customer's wallet\<close>

definition spend_entry :: "ident \<Rightarrow> ident \<Rightarrow> rat \<Rightarrow> customer_wallet \<Rightarrow> customer_wallet \<Rightarrow> customer_entry" where
  "spend_entry cid orderId amount w w' =
     \<lparr>cl_customer = cid, cl_type = CSpendOrder, cl_currency = VND, cl_amount = toDecimal (- amount),
      cl_before = toDecimal (cw_balance w), cl_after = cw_balance w',
      cl_commissionBefore = Some (toDecimal (cw_commission w)), cl_commissionAfter = Some (cw_commission w'),
      cl_refType = ''order'', cl_refId = orderId\<rparr>"

text \<open>\<open>splitWalletDebit\<close> on a wallet row; the USDT balance follows the main balance.\<close>

definition spent_wallet :: "rat \<Rightarrow> rat \<Rightarrow> customer_wallet \<Rightarrow> customer_wallet" where
  "spent_wallet rate amount w =
     (let split = splitWalletDebit (cw_commission w) (cw_balance w) amount
      in \<lparr>cw_balance = toDecimal (splitBalanceAfter split), cw_commission = toDecimal (commissionAfter split),
          cw_usdt = toDecimal (usdt_synced rate (splitBalanceAfter split))\<rparr>)"

definition wallet_order_tx ::
  "order_ids \<Rightarrow> ident \<Rightarrow> prepared \<Rightarrow> rat \<Rightarrow> timestamp \<Rightarrow> shop_db \<Rightarrow> (order \<times> shop_db) result" where
  "wallet_order_tx ids shop pd usdtVndRate now s =
     (case assertPhysicalStockAvailable (pd_product pd) (pd_quantity pd) (pd_isPreorder pd) s of Inl e \<Rightarrow> Inl e | Inr _ \<Rightarrow>
      (case assertCurrentOrderPriceSafe (pd_product pd) (pd_quantity pd) (pd_totalSale pd) s of Inl e \<Rightarrow> Inl e | Inr _ \<Rightarrow>
       (case customer_wallets s (pd_customer pd) of
          None \<Rightarrow> Inl (BadRequest ''Your wallet balance is not enough. Please top up first.'')
        | Some w \<Rightarrow>
          if cw_balance w + cw_commission w < pd_totalSale pd
          then Inl (BadRequest ''Your wallet balance is not enough. Please top up first.'')
          else if ids_taken ids s then Inl (Conflict ''Unique constraint failed.'')
          else
            (let r = (new_order ids shop pd now)\<lparr>od_status := Paid, od_payment := PayPaid, od_paidAt := Some now\<rparr>;
                 q = \<lparr>pt_order = oc_order ids, pt_provider = MOCK, pt_code = oc_code ids,
                      pt_amount = toDecimal (pd_totalSale pd), pt_txHash = None, pt_status = TxPaid, pt_paidAt = Some now\<rparr>;
                 w' = spent_wallet usdtVndRate (pd_totalSale pd) w
             in Inr (r, add_event (oc_order ids) ''payment_completed''
                  (write_wallet (pd_customer pd) w'
                     [spend_entry (pd_customer pd) (oc_order ids) (pd_totalSale pd) w w'] (insert_order r q s)))))))"

text \<open>Claiming the paid order for its purchase; when the queue refuses the job the claim is given back.\<close>

definition enqueuePaidOrder_api :: "(ident \<Rightarrow> bool) \<Rightarrow> ident \<Rightarrow> shop_db \<times> jobs \<Rightarrow> unit result \<times> shop_db \<times> jobs" where
  "enqueuePaidOrder_api up orderId st =
     (let (s, q) = st; paid = (\<lambda>r. od_id r = orderId \<and> od_status r = Paid)
      in if count_rows paid (orders s) = 0 then (Inr (), s, q)
         else
           (let s1 = update_orders paid (\<lambda>r. r\<lparr>od_status := ProcessingPurchase, od_failureReason := None\<rparr>) s
            in if up orderId
               then (Inr (), add_event orderId ''purchase_enqueued'' s1, queue_add (''purchase-'' @ orderId) orderId q)
               else (Inl (ServiceUnavailable ''Purchase enqueue failed.''),
                     update_orders (\<lambda>r. od_id r = orderId \<and> od_status r = ProcessingPurchase)
                       (\<lambda>r. r\<lparr>od_status := Paid, od_failureReason := Some ''Purchase enqueue failed.''\<rparr>) s1, q)))"

definition createTelegramOrderWithWallet ::
  "system_config \<Rightarrow> (ident \<Rightarrow> buyer) \<Rightarrow> (ident \<Rightarrow> offer) \<Rightarrow> provider_answers \<Rightarrow> ident \<Rightarrow> order_ids \<Rightarrow> jsnum \<Rightarrow> rat
   \<Rightarrow> (ident \<Rightarrow> bool) \<Rightarrow> order_input \<Rightarrow> timestamp \<Rightarrow> shop_db \<times> jobs \<Rightarrow> unit result \<times> shop_db \<times> jobs" where
  "createTelegramOrderWithWallet cfg buyers offers pa newCustomer ids override fallback up i now st =
     (let (s, q) = st
      in case assertEnabled cfg Orders None of Inl e \<Rightarrow> (Inl e, s, q) | Inr _ \<Rightarrow>
         (case prepareTelegramOrderContext buyers offers pa newCustomer i now s of
            (Inl e, s1) \<Rightarrow> (Inl e, s1, q)
          | (Inr pd, s1) \<Rightarrow>
            (case transaction (wallet_order_tx ids (oi_shop i) pd (resolveUsdtVndRate override fallback) now) s1 of
               (Inl e, s2) \<Rightarrow> (Inl e, s2, q)
             | (Inr r, s2) \<Rightarrow> enqueuePaidOrder_api up (od_id r) (s2, q))))"

section \<open>The confirmation of a payment\<close>

record confirm_options =
  co_cryptoTxHash :: "string option"
  co_allowManual :: bool

definition expired_reason :: "string option \<Rightarrow> bool" where
  "expired_reason v = starts_with ''Don hang het han thanh toan'' (case v of None \<Rightarrow> [] | Some s \<Rightarrow> s)"

definition given_hash :: "confirm_options \<Rightarrow> string option" where
  "given_hash opts = (case co_cryptoTxHash opts of None \<Rightarrow> None | Some h \<Rightarrow> if h = [] then None else Some h)"

text \<open>The reads before the transaction: \<open>None\<close> when the payment is complete already.\<close>

definition markPaymentCompleted_read :: "string \<Rightarrow> confirm_options \<Rightarrow> shop_db \<Rightarrow> (pay_tx \<times> order) option result" where
  "markPaymentCompleted_read code opts s =
     (case payment_with code s of
        None \<Rightarrow> Inl (NotFound ''Payment transaction not found.'')
      | Some q \<Rightarrow>
        (case order_at (pt_order q) s of
           None \<Rightarrow> Inl (NotFound ''Order not found.'')
         | Some r \<Rightarrow>
           if pt_status q = TxPaid then Inr None
           else
             (case (if co_allowManual opts then Inr None
                    else assertCryptoReceiptClaimed code (pt_provider q) (co_cryptoTxHash opts) s) of
                Inl e \<Rightarrow> Inl e
              | Inr _ \<Rightarrow>
                if \<not> co_allowManual opts \<and> od_status r \<noteq> AwaitingPayment
                   \<and> \<not> (od_status r = Failed \<and> expired_reason (od_failureReason r))
                then Inl (BadRequest ''Order is no longer eligible for automatic payment recovery.'')
                else Inr (Some (q, r)))))"

text \<open>\<open>True\<close>: the payment was still pending and is now complete.\<close>

definition markPaymentCompleted_tx ::
  "string \<Rightarrow> confirm_options \<Rightarrow> timestamp \<Rightarrow> ident \<Rightarrow> shop_db \<Rightarrow> (bool \<times> shop_db) result" where
  "markPaymentCompleted_tx code opts now oid s =
     (let pending = (\<lambda>q. pt_code q = code \<and> pt_status q = TxPending)
      in if count_rows pending (payments s) = 0 then Inr (False, s)
         else if given_hash opts \<noteq> None \<and> list_ex (\<lambda>q. pt_code q \<noteq> code \<and> pt_txHash q = given_hash opts) (payments s)
         then Inl (Conflict ''Unique constraint failed.'')
         else
           Inr (True, add_event oid ''payment_completed''
             (update_order oid (\<lambda>r. r\<lparr>od_payment := PayPaid, od_status := Paid, od_paidAt := Some now, od_failureReason := None\<rparr>)
             (update_payments pending (\<lambda>q. q\<lparr>pt_status := TxPaid, pt_paidAt := Some now,
                pt_txHash := (case given_hash opts of None \<Rightarrow> pt_txHash q | Some h \<Rightarrow> Some h)\<rparr>) s))))"

definition markPaymentCompleted ::
  "string \<Rightarrow> confirm_options \<Rightarrow> timestamp \<Rightarrow> (ident \<Rightarrow> bool) \<Rightarrow> shop_db \<times> jobs \<Rightarrow> unit result \<times> shop_db \<times> jobs" where
  "markPaymentCompleted code opts now up st =
     (let (s, q) = st
      in case markPaymentCompleted_read code opts s of
           Inl e \<Rightarrow> (Inl e, s, q)
         | Inr None \<Rightarrow>
           (case payment_with code s of None \<Rightarrow> (Inr (), s, q) | Some pt \<Rightarrow> enqueuePaidOrder_api up (pt_order pt) (s, q))
         | Inr (Some (pt, r)) \<Rightarrow>
           (case transaction (markPaymentCompleted_tx code opts now (pt_order pt)) s of
              (Inl e, s1) \<Rightarrow> (Inl e, s1, q)
            | (Inr transitioned, s1) \<Rightarrow>
              if transitioned then enqueuePaidOrder_api up (pt_order pt) (s1, q) else (Inr (), s1, q)))"

definition is_manual_crypto :: "provider \<Rightarrow> bool" where
  "is_manual_crypto p \<longleftrightarrow> p \<in> {BINANCE, OKX, USDT_TRC20, USDT_BEP20, USDT_SOL, USDT_TON}"

text \<open>The seller vouches for a transfer; \<open>stampedHash\<close> is the hash made up for it when there is none.\<close>

definition confirmManualCryptoPayment ::
  "ident \<Rightarrow> ident \<Rightarrow> string \<Rightarrow> timestamp \<Rightarrow> (ident \<Rightarrow> bool) \<Rightarrow> shop_db \<times> jobs \<Rightarrow> unit result \<times> shop_db \<times> jobs" where
  "confirmManualCryptoPayment shop orderId stampedHash now up st =
     (let (s, q) = st
      in case (List.find (\<lambda>r. od_id r = orderId \<and> od_shop r = shop) (orders s), payment_of orderId s) of
           (Some r, Some pt) \<Rightarrow>
             if \<not> is_manual_crypto (pt_provider pt)
             then (Inl (BadRequest ''Only manual crypto payments can be confirmed here.''), s, q)
             else if pt_status pt \<noteq> TxPending then (Inl (BadRequest ''This payment is not pending.''), s, q)
             else
               markPaymentCompleted (pt_code pt)
                 \<lparr>co_cryptoTxHash = Some (case pt_txHash pt of None \<Rightarrow> stampedHash | Some h \<Rightarrow> if h = [] then stampedHash else h),
                  co_allowManual = True\<rparr> now up (s, q)
         | _ \<Rightarrow> (Inl (NotFound ''Order not found.''), s, q))"

section \<open>Cancellation and expiry of unpaid orders\<close>

text \<open>
  Two calls: the order is read, then written by its id. The stock hold it releases and the timeout
  job it removes live outside the database (the queue of timeouts has no worker).
\<close>

definition cancelPendingOrder_read :: "ident \<Rightarrow> string \<Rightarrow> ident \<Rightarrow> shop_db \<Rightarrow> order option" where
  "cancelPendingOrder_read shop telegramUserId orderId s =
     List.find (\<lambda>r. od_id r = orderId \<and> od_shop r = shop \<and> od_status r = AwaitingPayment
       \<and> (case customer_at (od_customer r) s of None \<Rightarrow> False | Some c \<Rightarrow> cu_telegramUserId c = telegramUserId)) (orders s)"

definition cancelPendingOrder_write :: "ident \<Rightarrow> shop_db \<Rightarrow> shop_db" where
  "cancelPendingOrder_write orderId s =
     update_order orderId (\<lambda>r. r\<lparr>od_status := Failed, od_payment := PayFailed,
       od_failureReason := Some ''Khach hang huy don (nha kho)''\<rparr>) s"

definition cancelPendingOrder :: "ident \<Rightarrow> string \<Rightarrow> ident \<Rightarrow> shop_db \<Rightarrow> bool \<times> shop_db" where
  "cancelPendingOrder shop telegramUserId orderId s =
     (case cancelPendingOrder_read shop telegramUserId orderId s of
        None \<Rightarrow> (False, s) | Some r \<Rightarrow> (True, cancelPendingOrder_write (od_id r) s))"

text \<open>The worker's sweep: the first fifty unpaid orders older than five minutes.\<close>

definition sweep_crypto :: "pay_tx option \<Rightarrow> bool" where
  "sweep_crypto q \<longleftrightarrow> (case q of None \<Rightarrow> False
     | Some q \<Rightarrow> pt_provider q \<in> {USDT_TRC20, USDT_SOL, USDT_TON, BINANCE, OKX})"

definition expire_one_order :: "timestamp \<Rightarrow> order \<Rightarrow> shop_db \<Rightarrow> shop_db" where
  "expire_one_order now r s =
     (let isCryptoProvider = sweep_crypto (payment_of (od_id r) s);
          cutoff = (if isCryptoProvider then now - 30 * 60 * 1000 else now - 5 * 60 * 1000)
      in if od_createdAt r > cutoff then s
         else update_orders (\<lambda>x. od_id x = od_id r \<and> od_status x = AwaitingPayment)
                (\<lambda>x. x\<lparr>od_status := Failed, od_failureReason := Some (if isCryptoProvider
                   then ''Don hang het han thanh toan (30 phut).'' else ''Don hang het han thanh toan (5 phut).'')\<rparr>) s)"

definition expireAwaitingPaymentOrders :: "timestamp \<Rightarrow> shop_db \<Rightarrow> shop_db" where
  "expireAwaitingPaymentOrders now s =
     fold (expire_one_order now) (take 50 (sort_key od_createdAt
       (filter (\<lambda>r. od_status r = AwaitingPayment \<and> od_createdAt r \<le> now - 5 * 60 * 1000) (orders s)))) s"

text \<open>The worker's expiry of top-ups, thirty at a time.\<close>

definition expireCustomerWalletTopups :: "timestamp \<Rightarrow> shop_db \<Rightarrow> shop_db" where
  "expireCustomerWalletTopups now s =
     fold (\<lambda>t u. if count_rows (\<lambda>x. tu_id x = tu_id t \<and> tu_status x = TxPending) (topups u) = 0 then u
        else u\<lparr>topups := modify_rows (\<lambda>x. tu_id x = tu_id t \<and> tu_status x = TxPending)
               (\<lambda>x. x\<lparr>tu_status := TxCanceled, tu_canceledAt := Some now\<rparr>) (topups u)\<rparr>)
       (take 30 (sort_key tu_expiresAt (filter (\<lambda>t. tu_status t = TxPending \<and> tu_expiresAt t \<le> now) (topups s)))) s"

end
