(* ===== verification/CheckoutRuns.thy ===== *)
theory CheckoutRuns
  imports Checkout
begin

text \<open>
  The checkout as a state machine. A configuration is the database, the purchase queue and the
  requests in flight, each at the point between two of its database calls; requests of any number
  of customers, sellers, webhooks and sweeps interleave, and a request may die between two calls.
  \<open>vouched\<close> is the set of payment codes a seller confirms by hand, \<open>notified\<close> the set of those whose
  payment a provider reports, through a webhook or a reconciliation job that calls
  \<open>markPaymentCompleted\<close>. The steps are those of the API; the paths on which the worker settles and
  queues payments by itself are not among them.
\<close>

datatype in_flight =
    Confirming string confirm_options ident
  | Enqueueing ident
  | Cancelling ident

type_synonym checkout = "shop_db \<times> jobs \<times> in_flight list"

inductive checkout_step :: "string set \<Rightarrow> string set \<Rightarrow> checkout \<Rightarrow> checkout \<Rightarrow> bool" for vouched notified where
  create: "createTelegramOrder cfg buyers offers pa new ids link i now s = (r, t)
     \<Longrightarrow> checkout_step vouched notified (s, q, fl) (t, q, fl)"
| create_wallet: "prepareTelegramOrderContext buyers offers pa new i now s = (Inr pd, s1)
     \<Longrightarrow> transaction (wallet_order_tx ids (oi_shop i) pd rate now) s1 = (Inr r, t)
     \<Longrightarrow> checkout_step vouched notified (s, q, fl) (t, q, fl @ [Enqueueing (od_id r)])"
| create_wallet_refused: "prepareTelegramOrderContext buyers offers pa new i now s = (r, t)
     \<Longrightarrow> checkout_step vouched notified (s, q, fl) (t, q, fl)"
| claim: "claimOnchainPaymentReceipt cfg nrm tol now tgt inp s = Inr (r, t)
     \<Longrightarrow> checkout_step vouched notified (s, q, fl) (t, q, fl)"
| confirm: "markPaymentCompleted_read code opts s = Inr (Some (pt, r))
     \<Longrightarrow> (co_allowManual opts \<Longrightarrow> code \<in> vouched)
     \<Longrightarrow> (\<not> co_allowManual opts \<Longrightarrow> code \<in> notified)
     \<Longrightarrow> checkout_step vouched notified (s, q, fl) (s, q, fl @ [Confirming code opts (pt_order pt)])"
| confirm_again: "markPaymentCompleted_read code opts s = Inr None \<Longrightarrow> payment_with code s = Some pt
     \<Longrightarrow> checkout_step vouched notified (s, q, fl) (s, q, fl @ [Enqueueing (pt_order pt)])"
| confirm_commit: "Confirming code opts oid \<in> set fl
     \<Longrightarrow> transaction (markPaymentCompleted_tx code opts now oid) s = (Inr transitioned, t)
     \<Longrightarrow> checkout_step vouched notified (s, q, fl)
           (t, q, remove1 (Confirming code opts oid) fl @ (if transitioned then [Enqueueing oid] else []))"
| enqueue: "Enqueueing oid \<in> set fl \<Longrightarrow> enqueuePaidOrder_api up oid (s, q) = (r, t, q')
     \<Longrightarrow> checkout_step vouched notified (s, q, fl) (t, q', remove1 (Enqueueing oid) fl)"
| cancel: "cancelPendingOrder_read shop uid oid s = Some r
     \<Longrightarrow> checkout_step vouched notified (s, q, fl) (s, q, fl @ [Cancelling (od_id r)])"
| cancel_commit: "Cancelling oid \<in> set fl
     \<Longrightarrow> checkout_step vouched notified (s, q, fl) (cancelPendingOrder_write oid s, q, remove1 (Cancelling oid) fl)"
| expire: "checkout_step vouched notified (s, q, fl) (expire_one_order now r s, q, fl)"
| die: "checkout_step vouched notified (s, q, fl) (s, q, remove1 x fl)"

inductive checkout_reaches :: "string set \<Rightarrow> string set \<Rightarrow> checkout \<Rightarrow> checkout \<Rightarrow> bool" for vouched notified where
  stop: "checkout_reaches vouched notified c c"
| go: "checkout_reaches vouched notified c c' \<Longrightarrow> checkout_step vouched notified c' c'' \<Longrightarrow> checkout_reaches vouched notified c c''"

section \<open>The invariant\<close>

text \<open>An order and the payment created with it.\<close>

definition row_ok :: "order \<Rightarrow> pay_tx \<Rightarrow> bool" where
  "row_ok r q \<longleftrightarrow> pt_order q = od_id r \<and> pt_amount q = od_totalSale r \<and> pt_status q \<in> {TxPending, TxPaid}
     \<and> (od_status r = AwaitingPayment \<longrightarrow> pt_status q = TxPending)
     \<and> (od_status r = Paid \<or> od_status r = ProcessingPurchase \<longrightarrow> pt_status q = TxPaid)"

definition completions :: "ident \<Rightarrow> shop_db \<Rightarrow> nat" where
  "completions oid s = count_rows (\<lambda>e. oe_order e = oid \<and> oe_type e = ''payment_completed'') (order_events s)"

definition events_ok :: "shop_db \<Rightarrow> bool" where
  "events_ok s \<longleftrightarrow> (\<forall>e \<in> set (order_events s). oe_order e \<in> od_id ` set (orders s))
     \<and> (\<forall>q \<in> set (payments s). completions (pt_order q) s = (if pt_status q = TxPaid then 1 else 0))"

text \<open>A crypto payment that is complete, and no seller vouches for, has a receipt of its provider.\<close>

definition backed :: "string \<Rightarrow> provider \<Rightarrow> shop_db \<Rightarrow> bool" where
  "backed code p s \<longleftrightarrow> (isReceiptBackedCryptoProvider p \<longrightarrow> (\<exists>r \<in> set (receipts s). rc_code r = code \<and> rc_provider r = p))"

definition rows_ok :: "string set \<Rightarrow> shop_db \<Rightarrow> bool" where
  "rows_ok vouched s \<longleftrightarrow> list_all2 row_ok (orders s) (payments s)
     \<and> distinct (map od_id (orders s)) \<and> distinct (map pt_code (payments s))
     \<and> events_ok s \<and> receipts_unique s
     \<and> (\<forall>q \<in> set (payments s). pt_status q = TxPaid \<and> pt_code q \<notin> vouched \<longrightarrow> backed (pt_code q) (pt_provider q) s)"

definition paid_order :: "ident \<Rightarrow> shop_db \<Rightarrow> bool" where
  "paid_order oid s \<longleftrightarrow> (\<exists>q \<in> set (payments s). pt_order q = oid \<and> pt_status q = TxPaid)"

definition jobs_ok :: "jobs \<Rightarrow> shop_db \<Rightarrow> bool" where
  "jobs_ok q s \<longleftrightarrow> distinct (map jb_id q) \<and> (\<forall>j \<in> set q. jb_id j = ''purchase-'' @ jb_order j \<and> paid_order (jb_order j) s)"

definition flight_ok :: "string set \<Rightarrow> in_flight list \<Rightarrow> shop_db \<Rightarrow> bool" where
  "flight_ok vouched fl s \<longleftrightarrow> (\<forall>code opts oid. Confirming code opts oid \<in> set fl \<longrightarrow>
     (\<exists>q \<in> set (payments s). pt_code q = code \<and> pt_order q = oid
        \<and> (code \<notin> vouched \<longrightarrow> backed code (pt_provider q) s)))"

definition checkout_inv :: "string set \<Rightarrow> checkout \<Rightarrow> bool" where
  "checkout_inv vouched c = (case c of (s, q, fl) \<Rightarrow> rows_ok vouched s \<and> jobs_ok q s \<and> flight_ok vouched fl s)"

section \<open>Every step keeps it\<close>

lemma rows_paired: "list_all2 row_ok rs qs \<Longrightarrow> map pt_order qs = map od_id rs"
  by (induction rule: list_all2_induct) (auto simp: row_ok_def)

lemma distinct_pay_orders: "rows_ok vouched s \<Longrightarrow> distinct (map pt_order (payments s))"
  by (auto simp: rows_ok_def dest: rows_paired)

text \<open>Steps that leave payments, receipts and the pairing alone, and only move orders.\<close>

lemma rows_ok_orders:
  assumes "rows_ok vouched s" and "payments t = payments s" and "receipts t = receipts s"
    and "orders t = map f (orders s)" and "\<And>r. od_id (f r) = od_id r" and "\<And>r. od_totalSale (f r) = od_totalSale r"
    and "\<And>r q. r \<in> set (orders s) \<Longrightarrow> row_ok r q \<Longrightarrow> row_ok (f r) q"
    and "order_events t = order_events s @ es"
    and "\<And>e. e \<in> set es \<Longrightarrow> oe_order e \<in> od_id ` set (orders s) \<and> oe_type e \<noteq> ''payment_completed''"
  shows "rows_ok vouched t"
proof -
  have ids: "map od_id (orders t) = map od_id (orders s)" using assms(4,5) by (simp add: comp_def)
  have pair: "list_all2 row_ok (orders t) (payments t)"
    using assms(1,2,4,7) by (auto simp: rows_ok_def list_all2_map1 list_all2_conv_all_nth)
  have comp: "completions oid t = completions oid s" for oid
    using assms(9) by (auto simp: completions_def assms(8) count_rows_0_iff [symmetric]) (auto simp: count_rows_0_iff)
  have img: "od_id ` set (orders t) = od_id ` set (orders s)" by (metis ids image_set)
  show ?thesis
    using assms(1,9) pair ids by (auto simp: rows_ok_def events_ok_def comp img assms(2,3,8) backed_def receipts_unique_def)
qed

lemma jobs_ok_frame: "jobs_ok q s \<Longrightarrow> payments t = payments s \<Longrightarrow> jobs_ok q t"
  by (auto simp: jobs_ok_def paid_order_def)

lemma flight_ok_frame: "flight_ok vouched fl s \<Longrightarrow> payments t = payments s \<Longrightarrow> receipts t = receipts s \<Longrightarrow> flight_ok vouched fl t"
  by (auto simp: flight_ok_def backed_def)

lemma flight_ok_sub: "flight_ok vouched fl s \<Longrightarrow> set fl' \<subseteq> set fl \<union> set xs
    \<Longrightarrow> (\<And>code opts oid. Confirming code opts oid \<notin> set xs) \<Longrightarrow> flight_ok vouched fl' s"
  by (auto simp: flight_ok_def)

lemma flight_ok_remove: "flight_ok vouched fl s \<Longrightarrow> flight_ok vouched (remove1 x fl) s"
  using set_remove1_subset [of x fl] by (rule_tac fl = fl and xs = "[]" in flight_ok_sub) auto

section \<open>Placing orders\<close>

lemma upsertTelegramCustomer_frame:
  assumes "(cid, t) = upsertTelegramCustomer new shop prof s"
  shows "payments t = payments s" "orders t = orders s" "order_events t = order_events s" "receipts t = receipts s"
    "customer_wallets t = customer_wallets s" "customer_ledger t = customer_ledger s" "products t = products s"
  using assms by (auto simp: upsertTelegramCustomer_def split: option.splits)

lemma prepare_frame:
  assumes "prepareTelegramOrderContext buyers offers pa new i now s = (r, t)"
  shows "payments t = payments s \<and> orders t = orders s \<and> order_events t = order_events s \<and> receipts t = receipts s
    \<and> customer_wallets t = customer_wallets s \<and> customer_ledger t = customer_ledger s \<and> products t = products s"
  using assms upsertTelegramCustomer_frame
  by (auto simp: prepareTelegramOrderContext_def Let_def split: option.splits if_splits sum.splits prod.splits) metis+

lemma rows_ok_cong:
  assumes "payments t = payments s \<and> orders t = orders s \<and> order_events t = order_events s \<and> receipts t = receipts s
    \<and> customer_wallets t = customer_wallets s \<and> customer_ledger t = customer_ledger s \<and> products t = products s"
  shows "rows_ok vouched t = rows_ok vouched s" and "jobs_ok q t = jobs_ok q s" and "flight_ok vouched fl t = flight_ok vouched fl s"
  using assms by (auto simp: rows_ok_def events_ok_def completions_def backed_def receipts_unique_def jobs_ok_def
      paid_order_def flight_ok_def)

text \<open>A fresh order with its payment, and the events of its creation.\<close>

lemma rows_ok_insert:
  assumes ok: "rows_ok vouched s" and fresh: "\<not> ids_taken ids s" and pair: "row_ok r q"
    and ids: "od_id r = oc_order ids" "pt_code q = oc_code ids"
    and t: "orders t = orders s @ [r]" "payments t = payments s @ [q]" "receipts t = receipts s"
    and paid: "pt_status q = TxPaid \<Longrightarrow> \<not> isReceiptBackedCryptoProvider (pt_provider q)"
    and ev: "order_events t = order_events s @ \<lparr>oe_order = od_id r, oe_type = ''order_created''\<rparr>
      # (if pt_status q = TxPaid then [\<lparr>oe_order = od_id r, oe_type = ''payment_completed''\<rparr>] else [])"
  shows "rows_ok vouched t"
proof -
  have new: "od_id r \<notin> od_id ` set (orders s)" "pt_code q \<notin> pt_code ` set (payments s)"
    "od_id r \<notin> pt_order ` set (payments s)"
    using fresh ids by (auto simp: ids_taken_def list_ex_iff)
  have new_rows: "pt_order qa \<noteq> od_id r" if "qa \<in> set (payments s)" for qa
    using new(3) that by force
  have none: "completions (od_id r) s = 0"
  proof -
    have "oe_order e \<noteq> od_id r" if "e \<in> set (order_events s)" for e
      using ok new(1) that unfolding rows_ok_def events_ok_def by metis
    then show ?thesis by (simp add: completions_def count_rows_0_iff)
  qed
  have comp: "completions oid t = completions oid s + (if oid = od_id r \<and> pt_status q = TxPaid then 1 else 0)" for oid
    by (simp add: completions_def ev)
  have "pt_order q = od_id r" using pair by (simp add: row_ok_def)
  then have "events_ok t"
    using ok new(1) new_rows none by (auto simp: rows_ok_def events_ok_def comp t ev)
  moreover have "list_all2 row_ok (orders t) (payments t)"
    using ok pair by (simp add: rows_ok_def t list_all2_appendI)
  moreover have "backed c p t = backed c p s" for c p by (simp add: backed_def t)
  ultimately show ?thesis
    using ok new paid by (auto simp: rows_ok_def t receipts_unique_def) (auto simp: backed_def)
qed

lemma paid_order_mono: "paid_order oid s \<Longrightarrow> set (payments s) \<subseteq> set (payments t) \<Longrightarrow> paid_order oid t"
  by (auto simp: paid_order_def)

lemma jobs_ok_mono: "jobs_ok q s \<Longrightarrow> set (payments s) \<subseteq> set (payments t) \<Longrightarrow> jobs_ok q t"
  by (auto simp: jobs_ok_def dest: paid_order_mono)

lemma flight_ok_mono: "flight_ok vouched fl s \<Longrightarrow> set (payments s) \<subseteq> set (payments t) \<Longrightarrow> set (receipts s) \<subseteq> set (receipts t)
    \<Longrightarrow> flight_ok vouched fl t"
  by (fastforce simp: flight_ok_def backed_def)

lemma create_order_tx_cases:
  assumes "create_order_tx ids shop pd prov now s = Inr (r, t)"
  obtains q where "\<not> ids_taken ids s" and "row_ok r q" and "od_id r = oc_order ids" and "pt_code q = oc_code ids"
    and "pt_status q = TxPending" and "t = insert_order r q s"
proof (rule that)
  let ?q = "\<lparr>pt_order = oc_order ids, pt_provider = prov, pt_code = oc_code ids,
      pt_amount = toDecimal (pd_totalSale pd), pt_txHash = None, pt_status = TxPending, pt_paidAt = None\<rparr>"
  show "t = insert_order r ?q s" "\<not> ids_taken ids s" "row_ok r ?q" "od_id r = oc_order ids"
    using assms by (auto simp: create_order_tx_def Let_def new_order_def row_ok_def split: sum.splits if_splits)
qed simp_all

lemma wallet_order_tx_cases:
  assumes "wallet_order_tx ids shop pd rate now s = Inr (r, t)"
  obtains q w w' where "\<not> ids_taken ids s" and "row_ok r q" and "od_id r = oc_order ids" and "pt_code q = oc_code ids"
    and "pt_status q = TxPaid" and "pt_provider q = MOCK"
    and "customer_wallets s (pd_customer pd) = Some w" and "pd_totalSale pd \<le> cw_balance w + cw_commission w"
    and "w' = spent_wallet rate (pd_totalSale pd) w"
    and "t = add_event (oc_order ids) ''payment_completed'' (write_wallet (pd_customer pd) w'
          [spend_entry (pd_customer pd) (oc_order ids) (pd_totalSale pd) w w'] (insert_order r q s))"
    and "od_status r = Paid" and "od_payment r = PayPaid" and "od_customer r = pd_customer pd"
    and "od_totalSale r = toDecimal (pd_totalSale pd)"
proof -
  obtain w where w: "customer_wallets s (pd_customer pd) = Some w"
    using assms by (auto simp: wallet_order_tx_def split: sum.splits option.splits)
  let ?q = "\<lparr>pt_order = oc_order ids, pt_provider = MOCK, pt_code = oc_code ids,
      pt_amount = toDecimal (pd_totalSale pd), pt_txHash = None, pt_status = TxPaid, pt_paidAt = Some now\<rparr>"
  show thesis
  proof (rule that [of ?q w "spent_wallet rate (pd_totalSale pd) w"])
    show "\<not> ids_taken ids s" "row_ok r ?q" "od_id r = oc_order ids" "pd_totalSale pd \<le> cw_balance w + cw_commission w"
      "t = add_event (oc_order ids) ''payment_completed'' (write_wallet (pd_customer pd) (spent_wallet rate (pd_totalSale pd) w)
          [spend_entry (pd_customer pd) (oc_order ids) (pd_totalSale pd) w (spent_wallet rate (pd_totalSale pd) w)]
          (insert_order r ?q s))"
      "od_status r = Paid" "od_payment r = PayPaid" "od_customer r = pd_customer pd" "od_totalSale r = toDecimal (pd_totalSale pd)"
      using assms by (auto simp: wallet_order_tx_def Let_def new_order_def row_ok_def w split: sum.splits if_splits)
  qed (simp_all add: w)
qed

lemma insert_order_frames [simp]:
  "customer_wallets (insert_order r q s) = customer_wallets s" "customer_ledger (insert_order r q s) = customer_ledger s"
  "orders (insert_order r q s) = orders s @ [r]" "payments (insert_order r q s) = payments s @ [q]"
  "receipts (insert_order r q s) = receipts s" "customers (insert_order r q s) = customers s"
  "order_events (insert_order r q s) = order_events s @ [\<lparr>oe_order = od_id r, oe_type = ''order_created''\<rparr>]"
  by (simp_all add: insert_order_def add_event_def)

lemma order_events_add [simp]: "order_events (add_event i ty s) = order_events s @ [\<lparr>oe_order = i, oe_type = ty\<rparr>]"
  by (simp add: add_event_def)

lemma inv_create_order_tx:
  assumes "rows_ok vouched s" and "create_order_tx ids shop pd prov now s = Inr (r, t)"
  shows "rows_ok vouched t \<and> set (payments s) \<subseteq> set (payments t) \<and> receipts t = receipts s"
  using assms(2)
proof (cases rule: create_order_tx_cases)
  case (1 q)
  then have "rows_ok vouched t"
    by (intro rows_ok_insert [OF assms(1), of ids r q t]) (auto simp: row_ok_def)
  with 1 show ?thesis by auto
qed

lemma inv_wallet_order_tx:
  assumes "rows_ok vouched s" and "wallet_order_tx ids shop pd rate now s = Inr (r, t)"
  shows "rows_ok vouched t \<and> set (payments s) \<subseteq> set (payments t) \<and> receipts t = receipts s"
  using assms(2)
proof (cases rule: wallet_order_tx_cases)
  case (1 q w w')
  then have "rows_ok vouched t"
    by (intro rows_ok_insert [OF assms(1), of ids r q t]) (auto simp: isReceiptBackedCryptoProvider_def isDirectOnchainProvider_def)
  with 1 show ?thesis by auto
qed

section \<open>Confirming, queueing, cancelling\<close>

lemma flight_ok_keys:
  assumes "flight_ok vouched fl s" and "receipts t = receipts s"
    and "\<And>q. q \<in> set (payments s) \<Longrightarrow> \<exists>q' \<in> set (payments t). pt_code q' = pt_code q \<and> pt_order q' = pt_order q
           \<and> pt_provider q' = pt_provider q"
  shows "flight_ok vouched fl t"
proof -
  have b: "backed c p t = backed c p s" for c p by (simp add: backed_def assms(2))
  show ?thesis using assms(1,3) unfolding flight_ok_def b by metis
qed

lemma zip_keys:
  assumes "rows_ok vouched s" and "(r, q) \<in> set (zip (orders s) (payments s))"
    and "q0 \<in> set (payments s)"
  shows "row_ok r q" and "pt_code q = pt_code q0 \<longleftrightarrow> q = q0" and "od_id r = pt_order q0 \<longleftrightarrow> q = q0"
proof -
  show row: "row_ok r q" using assms(1,2) by (auto simp: rows_ok_def list_all2_iff)
  have q: "q \<in> set (payments s)" using assms(2) by (rule set_zip_rightD)
  show "pt_code q = pt_code q0 \<longleftrightarrow> q = q0"
    using assms(1,3) q by (auto simp: rows_ok_def distinct_map dest: inj_onD)
  show "od_id r = pt_order q0 \<longleftrightarrow> q = q0"
    using distinct_pay_orders [OF assms(1)] assms(3) q row by (auto simp: row_ok_def distinct_map dest: inj_onD)
qed

lemma confirm_tx_cases:
  assumes "markPaymentCompleted_tx code opts now oid s = Inr (b, t)"
  obtains "\<not> b" and "t = s"
  | h where "b" and "count_rows (\<lambda>q. pt_code q = code \<and> pt_status q = TxPending) (payments s) \<noteq> 0"
    and "t = add_event oid ''payment_completed''
             (update_order oid (\<lambda>r. r\<lparr>od_payment := PayPaid, od_status := Paid, od_paidAt := Some now, od_failureReason := None\<rparr>)
             (update_payments (\<lambda>q. pt_code q = code \<and> pt_status q = TxPending)
                (\<lambda>q. q\<lparr>pt_status := TxPaid, pt_paidAt := Some now, pt_txHash := h q\<rparr>) s))"
proof (cases b)
  case False
  then show thesis using assms by (intro that(1)) (auto simp: markPaymentCompleted_tx_def Let_def split: if_splits)
next
  case True
  show thesis
    by (rule that(2) [of "\<lambda>q. case given_hash opts of None \<Rightarrow> pt_txHash q | Some h \<Rightarrow> Some h"])
       (use assms True in \<open>simp_all add: markPaymentCompleted_tx_def Let_def split: if_splits\<close>)
qed

lemma update_payments_frames [simp]:
  "orders (update_payments p f s) = orders s" "receipts (update_payments p f s) = receipts s"
  "payments (update_payments p f s) = modify_rows p f (payments s)"
  "order_events (update_payments p f s) = order_events s"
  "customer_wallets (update_payments p f s) = customer_wallets s"
  "customer_ledger (update_payments p f s) = customer_ledger s" "customers (update_payments p f s) = customers s"
  by (simp_all add: update_payments_def)

lemma update_orders_frames [simp]:
  "payments (update_orders p f s) = payments s" "receipts (update_orders p f s) = receipts s"
  "orders (update_orders p f s) = modify_rows p f (orders s)"
  "order_events (update_orders p f s) = order_events s"
  "customer_wallets (update_orders p f s) = customer_wallets s"
  "customer_ledger (update_orders p f s) = customer_ledger s" "customers (update_orders p f s) = customers s"
  by (simp_all add: update_orders_def)

lemma update_order_orders: "orders (update_order i f s) = modify_rows (\<lambda>r. od_id r = i) f (orders s)"
  by (simp add: update_order_def)

lemma inv_confirm_tx:
  assumes ok: "rows_ok vouched s" and q0: "q0 \<in> set (payments s)" "pt_code q0 = code" "pt_order q0 = oid"
    and backed0: "code \<notin> vouched \<longrightarrow> backed code (pt_provider q0) s"
    and tx: "markPaymentCompleted_tx code opts now oid s = Inr (b, t)"
  shows "rows_ok vouched t \<and> receipts t = receipts s \<and> (\<forall>o'. paid_order o' s \<longrightarrow> paid_order o' t)
    \<and> (\<forall>q \<in> set (payments s). \<exists>q' \<in> set (payments t). pt_code q' = pt_code q \<and> pt_order q' = pt_order q
           \<and> pt_provider q' = pt_provider q)"
  using tx
proof (cases rule: confirm_tx_cases)
  case (2 h)
  let ?f = "\<lambda>r. r\<lparr>od_payment := PayPaid, od_status := Paid, od_paidAt := Some now, od_failureReason := None\<rparr>"
  let ?g = "\<lambda>q. q\<lparr>pt_status := TxPaid, pt_paidAt := Some now, pt_txHash := h q\<rparr>"
  let ?p = "\<lambda>q. pt_code q = code \<and> pt_status q = TxPending"
  have t: "orders t = modify_rows (\<lambda>r. od_id r = oid) ?f (orders s)" "payments t = modify_rows ?p ?g (payments s)"
    "receipts t = receipts s" "order_events t = order_events s @ [\<lparr>oe_order = oid, oe_type = ''payment_completed''\<rparr>]"
    by (simp_all add: 2(3) update_order_orders)
  obtain q1 where "q1 \<in> set (payments s)" "?p q1" using 2(2) by (auto simp: count_rows_0_iff)
  moreover from this have "q1 = q0"
    using ok q0 by (auto simp: rows_ok_def distinct_map dest: inj_onD)
  ultimately have pending: "pt_status q0 = TxPending" by simp
  have len: "length (orders s) = length (payments s)" using ok by (auto simp: rows_ok_def list_all2_iff)
  have pairs: "list_all2 row_ok (orders t) (payments t)"
    unfolding list_all2_iff t modify_rows_def
  proof (intro conjI ballI)
    fix x assume "x \<in> set (zip (map (\<lambda>r. if od_id r = oid then ?f r else r) (orders s))
        (map (\<lambda>r. if ?p r then ?g r else r) (payments s)))"
    then obtain r q where rq: "(r, q) \<in> set (zip (orders s) (payments s))"
      and x: "x = (if od_id r = oid then ?f r else r, if ?p q then ?g q else q)" by (auto simp: zip_map_map)
    note k = zip_keys [OF ok rq q0(1), unfolded q0(2,3)]
    show "case x of (r, q) \<Rightarrow> row_ok r q"
      using k pending by (cases "q = q0") (auto simp: x row_ok_def q0(2))
  qed (simp add: len)
  have ids: "map od_id (orders t) = map od_id (orders s)" "map pt_code (payments t) = map pt_code (payments s)"
    by (auto simp: t modify_rows_def)
  have events: "events_ok t"
  proof -
    have img: "od_id ` set (orders t) = od_id ` set (orders s)"
      using ids(1) by (metis image_set)
    have mem: "oid \<in> od_id ` set (orders s)"
    proof -
      have "pt_order q0 \<in> set (map pt_order (payments s))" using q0(1) by simp
      also have "map pt_order (payments s) = map od_id (orders s)" using ok by (auto simp: rows_ok_def dest: rows_paired)
      finally show ?thesis by (simp add: q0(3))
    qed
    have comp: "completions o' t = completions o' s + (if o' = oid then 1 else 0)" for o'
      by (simp add: completions_def t(4))
    have "completions (pt_order q') t = (if pt_status q' = TxPaid then 1 else 0)" if q': "q' \<in> set (payments t)" for q'
    proof -
      from q' obtain q where q: "q \<in> set (payments s)" "q' = (if ?p q then ?g q else q)"
        by (auto simp: t modify_rows_def)
      have c: "completions (pt_order q) s = (if pt_status q = TxPaid then 1 else 0)"
        using ok q(1) by (simp add: rows_ok_def events_ok_def)
      have one: "pt_code q = code \<longleftrightarrow> q = q0" "pt_order q = oid \<longleftrightarrow> q = q0"
        using ok distinct_pay_orders [OF ok] q(1) q0 by (auto simp: rows_ok_def distinct_map dest: inj_onD)
      then show ?thesis using c pending by (cases "q = q0") (auto simp: q(2) comp q0)
    qed
    moreover have "\<forall>e \<in> set (order_events t). oe_order e \<in> od_id ` set (orders t)"
      using ok mem unfolding img by (auto simp: rows_ok_def events_ok_def t(4))
    ultimately show ?thesis by (simp add: events_ok_def)
  qed
  have bk: "backed (pt_code q') (pt_provider q') t"
    if "q' \<in> set (payments t)" "pt_status q' = TxPaid" "pt_code q' \<notin> vouched" for q'
  proof -
    from that obtain q where q: "q \<in> set (payments s)" "q' = (if ?p q then ?g q else q)"
      by (auto simp: t modify_rows_def)
    have "pt_code q = code \<longleftrightarrow> q = q0"
      using ok q(1) q0 by (auto simp: rows_ok_def distinct_map dest: inj_onD)
    note one = this
    have frame: "backed c x t = backed c x s" for c x by (simp add: backed_def t(3))
    show ?thesis
    proof (cases "?p q")
      case True
      with one have q': "q = q0" "q' = ?g q" by (simp_all add: q(2))
      from that(3) have "code \<notin> vouched" by (simp add: q' q0)
      with backed0 show ?thesis by (simp add: q' frame q0)
    next
      case False
      with that q(2) have "pt_status q = TxPaid" "pt_code q \<notin> vouched" by (simp_all split: if_splits)
      with ok q(1) have "backed (pt_code q) (pt_provider q) s" unfolding rows_ok_def by blast
      with q(2) False show ?thesis by (simp only: frame) simp
    qed
  qed
  have po: "paid_order o' t" if "paid_order o' s" for o'
  proof -
    from that obtain q where q: "q \<in> set (payments s)" "pt_order q = o'" "pt_status q = TxPaid"
      by (auto simp: paid_order_def)
    then have "q \<in> set (payments t)" by (force simp: t modify_rows_def)
    with q show ?thesis unfolding paid_order_def by blast
  qed
  have ks: "\<exists>q' \<in> set (payments t). pt_code q' = pt_code q \<and> pt_order q' = pt_order q \<and> pt_provider q' = pt_provider q"
    if "q \<in> set (payments s)" for q
    using that by (intro bexI [of _ "if ?p q then ?g q else q"]) (auto simp: t modify_rows_def)
  have "receipts_unique t" "distinct (map od_id (orders t))" "distinct (map pt_code (payments t))"
    using ok by (simp_all add: rows_ok_def ids) (simp add: receipts_unique_def t(3))
  then have "rows_ok vouched t" unfolding rows_ok_def using pairs events bk by blast
  then show ?thesis using po ks t(3) by blast
qed (use ok in auto)

lemma enqueue_cases:
  assumes "enqueuePaidOrder_api up oid (s, q) = (r, t, q')"
  obtains "t = s" and "q' = q"
  | "count_rows (\<lambda>r. od_id r = oid \<and> od_status r = Paid) (orders s) \<noteq> 0" and "up oid"
    and "q' = queue_add (''purchase-'' @ oid) oid q"
    and "t = add_event oid ''purchase_enqueued'' (update_orders (\<lambda>r. od_id r = oid \<and> od_status r = Paid)
           (\<lambda>r. r\<lparr>od_status := ProcessingPurchase, od_failureReason := None\<rparr>) s)"
  | "count_rows (\<lambda>r. od_id r = oid \<and> od_status r = Paid) (orders s) \<noteq> 0" and "\<not> up oid" and "q' = q"
    and "t = update_orders (\<lambda>r. od_id r = oid \<and> od_status r = ProcessingPurchase)
           (\<lambda>r. r\<lparr>od_status := Paid, od_failureReason := Some ''Purchase enqueue failed.''\<rparr>)
           (update_orders (\<lambda>r. od_id r = oid \<and> od_status r = Paid)
             (\<lambda>r. r\<lparr>od_status := ProcessingPurchase, od_failureReason := None\<rparr>) s)"
  using assms by (auto simp: enqueuePaidOrder_api_def Let_def split: if_splits)

lemma paid_row_exists:
  assumes "rows_ok vouched s" and "r \<in> set (orders s)" and "od_status r = Paid \<or> od_status r = ProcessingPurchase"
  shows "paid_order (od_id r) s"
proof -
  from assms(1,2) obtain q where "(r, q) \<in> set (zip (orders s) (payments s))"
    by (metis in_set_impl_in_set_zip1 list_all2_lengthD rows_ok_def)
  with assms show ?thesis
    by (auto simp: rows_ok_def list_all2_iff row_ok_def paid_order_def dest: set_zip_rightD)
qed

lemma rows_ok_update_orders:
  assumes "rows_ok vouched s" and "\<And>r. od_id (f r) = od_id r \<and> od_totalSale (f r) = od_totalSale r"
    and "\<And>r q. r \<in> set (orders s) \<Longrightarrow> p r \<Longrightarrow> row_ok r q \<Longrightarrow> row_ok (f r) q"
  shows "rows_ok vouched (update_orders p f s)"
  by (rule rows_ok_orders [OF assms(1), where f = "\<lambda>r. if p r then f r else r" and es = "[]"])
     (use assms(2,3) in \<open>auto simp: modify_rows_def\<close>)

lemma inv_enqueue:
  assumes ok: "rows_ok vouched s" and jobs: "jobs_ok q s" and e: "enqueuePaidOrder_api up oid (s, q) = (r, t, q')"
  shows "rows_ok vouched t \<and> jobs_ok q' t \<and> payments t = payments s \<and> receipts t = receipts s"
  using e
proof (cases rule: enqueue_cases)
  case 1
  with ok jobs show ?thesis by simp
next
  case 2
  let ?s1 = "update_orders (\<lambda>r. od_id r = oid \<and> od_status r = Paid)
      (\<lambda>r. r\<lparr>od_status := ProcessingPurchase, od_failureReason := None\<rparr>) s"
  obtain r0 where r0: "r0 \<in> set (orders s)" "od_id r0 = oid" "od_status r0 = Paid"
    using 2(1) by (auto simp: count_rows_0_iff)
  have "rows_ok vouched ?s1" by (rule rows_ok_update_orders [OF ok]) (auto simp: row_ok_def)
  then have "rows_ok vouched t"
  proof (rule rows_ok_orders [where f = "\<lambda>r. r" and es = "[\<lparr>oe_order = oid, oe_type = ''purchase_enqueued''\<rparr>]"])
    have "map od_id (orders ?s1) = map od_id (orders s)" by (auto simp: modify_rows_def)
    then have "od_id ` set (orders ?s1) = od_id ` set (orders s)" by (metis image_set)
    then show "oe_order e \<in> od_id ` set (orders ?s1) \<and> oe_type e \<noteq> ''payment_completed''"
      if "e \<in> set [\<lparr>oe_order = oid, oe_type = ''purchase_enqueued''\<rparr>]" for e
      using that r0 by auto
  qed (simp_all add: 2(4))
  moreover have "jobs_ok q' t"
  proof -
    have "paid_order oid s" using paid_row_exists [OF ok r0(1)] r0 by simp
    then have "paid_order oid t" by (simp add: 2(4) paid_order_def)
    moreover have "jobs_ok q t" using jobs_ok_frame [OF jobs] by (simp add: 2(4))
    ultimately show ?thesis
      by (auto simp: jobs_ok_def 2(3) queue_add_def list_ex_iff)
  qed
  ultimately show ?thesis by (simp add: 2(4))
next
  case 3
  have "rows_ok vouched t" unfolding 3(4)
    by (intro rows_ok_update_orders ok) (auto simp: row_ok_def)
  with jobs_ok_frame [OF jobs] show ?thesis by (simp add: 3(3,4))
qed

lemma inv_cancel_write:
  assumes "rows_ok vouched s"
  shows "rows_ok vouched (cancelPendingOrder_write oid s)"
  by (rule rows_ok_orders [OF assms, where es = "[]" and f = "\<lambda>r. if od_id r = oid then r\<lparr>od_status := Failed,
        od_payment := PayFailed, od_failureReason := Some ''Khach hang huy don (nha kho)''\<rparr> else r"])
     (auto simp: cancelPendingOrder_write_def modify_rows_def row_ok_def update_order_orders)

lemma inv_expire:
  assumes "rows_ok vouched s"
  shows "rows_ok vouched (expire_one_order now r s)"
  by (auto simp: expire_one_order_def Let_def assms intro!: rows_ok_update_orders [OF assms]) (simp_all add: row_ok_def)

lemma frames_cancel_expire [simp]:
  "payments (cancelPendingOrder_write oid s) = payments s" "receipts (cancelPendingOrder_write oid s) = receipts s"
  "payments (expire_one_order now r s) = payments s" "receipts (expire_one_order now r s) = receipts s"
  by (simp_all add: cancelPendingOrder_write_def expire_one_order_def Let_def)

lemma inv_claim:
  assumes "rows_ok vouched s" and "claimOnchainPaymentReceipt cfg nrm tol now tgt inp s = Inr (r, t)"
  shows "rows_ok vouched t \<and> payments t = payments s \<and> set (receipts s) \<subseteq> set (receipts t)"
proof -
  have f: "payments t = payments s" "orders t = orders s" "order_events t = order_events s"
    by (rule claim_cases [OF assms(2)]; simp)+
  have "set (receipts s) \<subseteq> set (receipts t)" by (rule claim_keeps_receipts [OF assms(2)])
  moreover have "receipts_unique t" using assms claim_preserves_unique by (auto simp: rows_ok_def)
  ultimately show ?thesis
    using assms(1) by (auto simp: rows_ok_def events_ok_def completions_def f) (fastforce simp: backed_def)
qed

lemma assert_backed:
  assumes "assertCryptoReceiptClaimed code p h s = Inr x"
  shows "backed code p s"
proof (cases "List.find (\<lambda>r. rc_code r = code) (receipts s)")
  case None
  with assms show ?thesis by (auto simp: backed_def assertCryptoReceiptClaimed_def)
next
  case (Some r)
  with assms have "isReceiptBackedCryptoProvider p \<Longrightarrow> rc_provider r = p"
    by (auto simp: assertCryptoReceiptClaimed_def split: if_splits)
  with find_SomeD [OF Some] show ?thesis by (auto simp: backed_def)
qed

lemma read_backed:
  assumes "markPaymentCompleted_read code opts s = Inr (Some (pt, r))"
  shows "pt \<in> set (payments s)" and "pt_code pt = code" and "\<not> co_allowManual opts \<Longrightarrow> backed code (pt_provider pt) s"
proof -
  from assms have p: "payment_with code s = Some pt"
    by (auto simp: markPaymentCompleted_read_def split: option.splits if_splits sum.splits)
  from find_SomeD [OF p] show "pt \<in> set (payments s)" "pt_code pt = code" by auto
  assume "\<not> co_allowManual opts"
  with assms p obtain x where x: "assertCryptoReceiptClaimed code (pt_provider pt) (co_cryptoTxHash opts) s = Inr x"
    by (auto simp: markPaymentCompleted_read_def split: option.splits if_splits sum.splits)
  then show "backed code (pt_provider pt) s" by (rule assert_backed)
qed

section \<open>All runs\<close>

lemma checkout_inv_create:
  assumes "rows_ok vouched s" and "jobs_ok q s" and "flight_ok vouched fl s"
    and "createTelegramOrder cfg buyers offers pa new ids link i now s = (r, t)"
  shows "rows_ok vouched t \<and> jobs_ok q t \<and> flight_ok vouched fl t"
proof (cases "prepareTelegramOrderContext buyers offers pa new i now s")
  case (Pair res s1)
  note frame = rows_ok_cong [OF prepare_frame [OF Pair]]
  show ?thesis
  proof (cases "t = s \<or> t = s1")
    case True
    then show ?thesis using assms(1-3) frame by auto
  next
    case False
    then obtain pd prov r' where "create_order_tx ids (oi_shop i) pd prov now s1 = Inr (r', t)"
      using assms(4) by (auto simp: createTelegramOrder_def Pair transaction_def split: sum.splits)
    from inv_create_order_tx [OF _ this, of vouched] have "rows_ok vouched t"
      "set (payments s1) \<subseteq> set (payments t)" "receipts t = receipts s1"
      using assms(1) frame(1) by blast+
    then show ?thesis
      using jobs_ok_mono [of q s1 t] flight_ok_mono [of vouched fl s1 t] assms(2,3) frame by simp
  qed
qed

lemma checkout_inv_step:
  assumes "checkout_step vouched notified c c'" and "checkout_inv vouched c"
  shows "checkout_inv vouched c'"
  using assms
proof (induction rule: checkout_step.induct)
  case (create cfg buyers offers pa new ids link i now s r t q fl)
  then show ?case using checkout_inv_create [OF _ _ _ create(1), of vouched q fl] by (simp add: checkout_inv_def)
next
  case (create_wallet buyers offers pa new i now s pd s1 ids rate r t q fl)
  note frame = rows_ok_cong [OF prepare_frame [OF create_wallet(1)]]
  from create_wallet(2) have tx: "wallet_order_tx ids (oi_shop i) pd rate now s1 = Inr (r, t)"
    by (auto simp: transaction_def split: sum.splits)
  have s1: "rows_ok vouched s1" "jobs_ok q s1" "flight_ok vouched fl s1"
    using create_wallet(3) frame by (simp_all add: checkout_inv_def)
  note k = inv_wallet_order_tx [OF s1(1) tx]
  have "flight_ok vouched fl t" using flight_ok_mono [OF s1(3)] k by simp
  then have "flight_ok vouched (fl @ [Enqueueing (od_id r)]) t"
    by (rule flight_ok_sub [where xs = "[Enqueueing (od_id r)]"]) simp_all
  moreover have "jobs_ok q t" using jobs_ok_mono [OF s1(2)] k by simp
  ultimately show ?case using k by (simp add: checkout_inv_def)
next
  case (create_wallet_refused buyers offers pa new i now s r t q fl)
  then show ?case using rows_ok_cong [OF prepare_frame [OF create_wallet_refused(1)]] by (simp add: checkout_inv_def)
next
  case (claim cfg nrm tol now tgt inp s r t q fl)
  then have ok: "rows_ok vouched s" "jobs_ok q s" "flight_ok vouched fl s" by (simp_all add: checkout_inv_def)
  note k = inv_claim [OF ok(1) claim(1)]
  then show ?case
    using jobs_ok_mono [OF ok(2), of t] flight_ok_mono [OF ok(3), of t] by (simp add: checkout_inv_def)
next
  case (confirm code opts s pt r q fl)
  from read_backed [OF confirm(1)] confirm(2,4) show ?case
    by (auto simp: checkout_inv_def flight_ok_def)
next
  case (confirm_again code opts s pt q fl)
  then show ?case
    using flight_ok_sub [of vouched fl s "fl @ [Enqueueing (pt_order pt)]" "[Enqueueing (pt_order pt)]"]
    by (simp add: checkout_inv_def)
next
  case (confirm_commit code opts oid fl now s transitioned t q)
  from confirm_commit(2) have tx: "markPaymentCompleted_tx code opts now oid s = Inr (transitioned, t)"
    by (auto simp: transaction_def split: sum.splits)
  have "flight_ok vouched fl s" using confirm_commit(3) by (simp add: checkout_inv_def)
  with confirm_commit(1) obtain q0 where q0: "q0 \<in> set (payments s)" "pt_code q0 = code" "pt_order q0 = oid"
    "code \<notin> vouched \<longrightarrow> backed code (pt_provider q0) s" unfolding flight_ok_def by metis
  have ok: "rows_ok vouched s" "jobs_ok q s" "flight_ok vouched fl s" using confirm_commit(3) by (simp_all add: checkout_inv_def)
  note k = inv_confirm_tx [OF ok(1) q0 tx, THEN conjunct1]
    inv_confirm_tx [OF ok(1) q0 tx, THEN conjunct2, THEN conjunct1]
    inv_confirm_tx [OF ok(1) q0 tx, THEN conjunct2, THEN conjunct2, THEN conjunct1]
    inv_confirm_tx [OF ok(1) q0 tx, THEN conjunct2, THEN conjunct2, THEN conjunct2]
  have "flight_ok vouched fl t" by (rule flight_ok_keys [OF ok(3) k(2)]) (rule k(4) [rule_format])
  moreover have "jobs_ok q t" using ok(2) k(3) unfolding jobs_ok_def by blast
  moreover have "set (remove1 (Confirming code opts oid) fl @ (if transitioned then [Enqueueing oid] else []))
      \<subseteq> set fl \<union> set [Enqueueing oid]" using set_remove1_subset [of _ fl] by auto
  ultimately show ?case
    using k(1) flight_ok_sub [of vouched fl t _ "[Enqueueing oid]"] by (simp add: checkout_inv_def)
next
  case (enqueue oid fl up s q r t q')
  then have ok: "rows_ok vouched s" "jobs_ok q s" by (simp_all add: checkout_inv_def)
  have "rows_ok vouched t \<and> jobs_ok q' t \<and> payments t = payments s \<and> receipts t = receipts s"
    by (rule inv_enqueue [OF ok enqueue(2)])
  moreover have "flight_ok vouched (remove1 (Enqueueing oid) fl) s"
    using enqueue(3) by (simp add: checkout_inv_def flight_ok_remove)
  ultimately show ?case using flight_ok_frame by (simp add: checkout_inv_def)
next
  case (cancel shop uid oid s r q fl)
  then show ?case
    using flight_ok_sub [of vouched fl s "fl @ [Cancelling (od_id r)]" "[Cancelling (od_id r)]"]
    by (simp add: checkout_inv_def)
next
  case (cancel_commit oid fl s q)
  have ok: "rows_ok vouched s" "jobs_ok q s" "flight_ok vouched (remove1 (Cancelling oid) fl) s"
    using cancel_commit(2) by (simp_all add: checkout_inv_def flight_ok_remove)
  then show ?case
    using inv_cancel_write [OF ok(1)] jobs_ok_frame [OF ok(2)] flight_ok_frame [OF ok(3)] by (simp add: checkout_inv_def)
next
  case (expire s q fl now r)
  then have ok: "rows_ok vouched s" "jobs_ok q s" "flight_ok vouched fl s" by (simp_all add: checkout_inv_def)
  then show ?case
    using inv_expire [OF ok(1)] jobs_ok_frame [OF ok(2)] flight_ok_frame [OF ok(3)] by (simp add: checkout_inv_def)
next
  case (die s q fl x)
  then show ?case by (simp add: checkout_inv_def flight_ok_remove)
qed

lemma checkout_inv_reaches:
  "checkout_reaches vouched notified c c' \<Longrightarrow> checkout_inv vouched c \<Longrightarrow> checkout_inv vouched c'"
  by (induction rule: checkout_reaches.induct) (auto intro: checkout_inv_step)

lemma checkout_inv_start:
  "orders s = [] \<Longrightarrow> payments s = [] \<Longrightarrow> order_events s = [] \<Longrightarrow> receipts_unique s \<Longrightarrow> checkout_inv vouched (s, [], [])"
  by (simp add: checkout_inv_def rows_ok_def events_ok_def jobs_ok_def flight_ok_def)

section \<open>What a completed payment rests on\<close>

text \<open>A payment made from the wallet: the customer of the order was debited its amount, in one ledger row.\<close>

definition order_keys :: "shop_db \<Rightarrow> (ident \<times> ident) set" where
  "order_keys s = (\<lambda>r. (od_id r, od_customer r)) ` set (orders s)"

definition wallet_paid :: "pay_tx \<Rightarrow> shop_db \<Rightarrow> bool" where
  "wallet_paid p s \<longleftrightarrow> pt_provider p = MOCK
     \<and> (\<exists>e \<in> set (customer_ledger s). cl_type e = CSpendOrder \<and> cl_refType e = ''order'' \<and> cl_refId e = pt_order p
          \<and> cl_amount e = - pt_amount p \<and> (cl_refId e, cl_customer e) \<in> order_keys s)"

definition settled_by :: "string set \<Rightarrow> string set \<Rightarrow> pay_tx \<Rightarrow> shop_db \<Rightarrow> bool" where
  "settled_by vouched notified p s \<longleftrightarrow> wallet_paid p s \<or> pt_code p \<in> vouched
     \<or> pt_code p \<in> notified \<and> (isReceiptBackedCryptoProvider (pt_provider p) \<longrightarrow>
          (\<exists>r \<in> set (receipts s). rc_code r = pt_code p \<and> rc_provider r = pt_provider p))"

definition confirmed_codes :: "string set \<Rightarrow> string set \<Rightarrow> checkout \<Rightarrow> bool" where
  "confirmed_codes vouched notified c = (case c of (s, q, fl) \<Rightarrow>
     (\<forall>p \<in> set (payments s). pt_status p = TxPaid \<longrightarrow> wallet_paid p s \<or> pt_code p \<in> vouched \<union> notified)
     \<and> (\<forall>code opts oid. Confirming code opts oid \<in> set fl \<longrightarrow> code \<in> vouched \<union> notified))"

lemma wallet_paid_mono:
  "wallet_paid p s \<Longrightarrow> set (customer_ledger s) \<subseteq> set (customer_ledger t) \<Longrightarrow> order_keys s \<subseteq> order_keys t \<Longrightarrow> wallet_paid p t"
  unfolding wallet_paid_def by blast

lemma order_keys_map: "map f (map g xs) = map f xs \<Longrightarrow> f ` set (map g xs) = f ` set xs"
  by (metis image_set)

lemma order_keys_update [simp]:
  assumes "\<And>r. od_id (f r) = od_id r" and "\<And>r. od_customer (f r) = od_customer r"
  shows "order_keys (update_orders p f s) = order_keys s" and "order_keys (update_order i f s) = order_keys s"
  unfolding order_keys_def update_orders_frames update_order_orders modify_rows_def
  by (rule order_keys_map; simp add: assms)+

lemma order_keys_other [simp]:
  "order_keys (add_event i ty s) = order_keys s" "order_keys (update_payments g h s) = order_keys s"
  by (simp_all add: order_keys_def add_event_def)

text \<open>Every new payment of a step is open, paid from the wallet or confirmed by one of the codes.\<close>

lemma confirmed_step:
  assumes "confirmed_codes vouched notified (s, q, fl)"
    and "set (customer_ledger s) \<subseteq> set (customer_ledger t)" and "order_keys s \<subseteq> order_keys t"
    and "\<And>p. p \<in> set (payments t) \<Longrightarrow> pt_status p = TxPaid \<Longrightarrow> p \<notin> set (payments s)
           \<Longrightarrow> wallet_paid p t \<or> pt_code p \<in> vouched \<union> notified"
    and "\<And>code opts oid. Confirming code opts oid \<in> set fl' \<Longrightarrow> Confirming code opts oid \<notin> set fl \<Longrightarrow> code \<in> vouched \<union> notified"
  shows "confirmed_codes vouched notified (t, q', fl')"
  unfolding confirmed_codes_def split_conv
proof (intro conjI ballI allI impI)
  fix p assume p: "p \<in> set (payments t)" "pt_status p = TxPaid"
  show "wallet_paid p t \<or> pt_code p \<in> vouched \<union> notified"
  proof (cases "p \<in> set (payments s)")
    case True
    with assms(1) p(2) have "wallet_paid p s \<or> pt_code p \<in> vouched \<union> notified"
      by (simp add: confirmed_codes_def)
    then show ?thesis using wallet_paid_mono [OF _ assms(2,3)] by blast
  next
    case False
    with assms(4) p show ?thesis by blast
  qed
next
  fix code opts oid assume c: "Confirming code opts oid \<in> set fl'"
  show "code \<in> vouched \<union> notified"
  proof (cases "Confirming code opts oid \<in> set fl")
    case True
    then show ?thesis using assms(1) unfolding confirmed_codes_def split_conv by blast
  next
    case False
    with assms(5) c show ?thesis by blast
  qed
qed

lemma ledger_add_event [simp]: "customer_ledger (add_event i ty s) = customer_ledger s"
  by (simp add: add_event_def)

lemma ledger_update_order [simp]: "customer_ledger (update_order i f s) = customer_ledger s"
  by (simp add: update_order_def)

lemma confirmed_create_tx:
  assumes "create_order_tx ids shop pd prov now s = Inr (r, t)"
  shows "customer_ledger t = customer_ledger s" and "order_keys s \<subseteq> order_keys t"
    and "p \<in> set (payments t) \<Longrightarrow> pt_status p = TxPaid \<Longrightarrow> p \<in> set (payments s)"
  by (rule create_order_tx_cases [OF assms]; auto simp: order_keys_def)+

lemma confirmed_wallet_tx:
  assumes "wallet_order_tx ids shop pd rate now s = Inr (r, t)"
  shows "set (customer_ledger s) \<subseteq> set (customer_ledger t)" and "order_keys s \<subseteq> order_keys t"
    and "p \<in> set (payments t) \<Longrightarrow> p \<notin> set (payments s) \<Longrightarrow> wallet_paid p t"
proof -
  from assms obtain q w w' where c: "row_ok r q" "od_id r = oc_order ids" "pt_provider q = MOCK"
    "od_customer r = pd_customer pd" "od_totalSale r = toDecimal (pd_totalSale pd)"
    and t: "t = add_event (oc_order ids) ''payment_completed'' (write_wallet (pd_customer pd) w'
          [spend_entry (pd_customer pd) (oc_order ids) (pd_totalSale pd) w w'] (insert_order r q s))"
    by (rule wallet_order_tx_cases) blast
  show "set (customer_ledger s) \<subseteq> set (customer_ledger t)" by (auto simp: t)
  show "order_keys s \<subseteq> order_keys t" by (auto simp: t order_keys_def)
  have "toDecimal (- pd_totalSale pd) = - toDecimal (pd_totalSale pd)"
    by (auto simp: toDecimal_def to_fixed_def)
  then have "wallet_paid q t"
    using c by (auto simp: wallet_paid_def t order_keys_def row_ok_def spend_entry_def)
  then show "p \<in> set (payments t) \<Longrightarrow> p \<notin> set (payments s) \<Longrightarrow> wallet_paid p t" by (auto simp: t)
qed

lemma confirmed_confirm_tx:
  assumes "markPaymentCompleted_tx code opts now oid s = Inr (b, t)"
  shows "customer_ledger t = customer_ledger s" and "order_keys t = order_keys s"
    and "p \<in> set (payments t) \<Longrightarrow> p \<notin> set (payments s) \<Longrightarrow> pt_code p = code"
  by (rule confirm_tx_cases [OF assms]; force simp: modify_rows_def)+

lemma confirmed_enqueue:
  assumes "enqueuePaidOrder_api up oid (s, q) = (r, t, q')"
  shows "customer_ledger t = customer_ledger s" and "order_keys t = order_keys s" and "payments t = payments s"
  by (rule enqueue_cases [OF assms]; simp)+

lemma confirmed_cancel_expire:
  "customer_ledger (cancelPendingOrder_write oid s) = customer_ledger s"
  "order_keys (cancelPendingOrder_write oid s) = order_keys s"
  "customer_ledger (expire_one_order now r s) = customer_ledger s"
  "order_keys (expire_one_order now r s) = order_keys s"
  by (simp_all add: cancelPendingOrder_write_def expire_one_order_def Let_def)

lemma confirmed_codes_step:
  assumes "checkout_step vouched notified c c'" and "confirmed_codes vouched notified c"
  shows "confirmed_codes vouched notified c'"
  using assms
proof (induction rule: checkout_step.induct)
  case (create cfg buyers offers pa new ids link i now s r t q fl)
  obtain res s1 where p: "prepareTelegramOrderContext buyers offers pa new i now s = (res, s1)" by (metis surj_pair)
  note fr = prepare_frame [OF p]
  have "customer_ledger t = customer_ledger s \<and> order_keys s \<subseteq> order_keys t
      \<and> (\<forall>p \<in> set (payments t). pt_status p = TxPaid \<longrightarrow> p \<in> set (payments s))"
  proof (cases "t = s \<or> t = s1")
    case True
    with fr show ?thesis by (auto simp: order_keys_def)
  next
    case False
    then obtain pd prov r' where "create_order_tx ids (oi_shop i) pd prov now s1 = Inr (r', t)"
      using create(1) by (auto simp: createTelegramOrder_def p transaction_def split: sum.splits)
    from confirmed_create_tx [OF this] fr show ?thesis by (auto simp: order_keys_def)
  qed
  then show ?case by (intro confirmed_step [OF create(2)]) auto
next
  case (create_wallet buyers offers pa new i now s pd s1 ids rate r t q fl)
  note fr = prepare_frame [OF create_wallet(1)]
  from create_wallet(2) have "wallet_order_tx ids (oi_shop i) pd rate now s1 = Inr (r, t)"
    by (auto simp: transaction_def split: sum.splits)
  note w = confirmed_wallet_tx [OF this]
  show ?case
    by (rule confirmed_step [OF create_wallet(3)]) (use w fr in \<open>auto simp: order_keys_def\<close>)
next
  case (create_wallet_refused buyers offers pa new i now s r t q fl)
  show ?case
    by (rule confirmed_step [OF create_wallet_refused(2)])
      (use prepare_frame [OF create_wallet_refused(1)] in \<open>auto simp: order_keys_def\<close>)
next
  case (claim cfg nrm tol now tgt inp s r t q fl)
  have "customer_ledger t = customer_ledger s" "orders t = orders s" "payments t = payments s"
    by (rule claim_cases [OF claim(1)]; simp)+
  then show ?case by (intro confirmed_step [OF claim(2)]) (auto simp: order_keys_def)
next
  case (confirm code opts s pt r q fl)
  then show ?case by (intro confirmed_step [OF confirm(4)]) auto
next
  case (confirm_again code opts s pt q fl)
  then show ?case by (intro confirmed_step [OF confirm_again(3)]) auto
next
  case (confirm_commit code opts oid fl now s transitioned t q)
  from confirm_commit(2) have tx: "markPaymentCompleted_tx code opts now oid s = Inr (transitioned, t)"
    by (auto simp: transaction_def split: sum.splits)
  have "code \<in> vouched \<union> notified" using confirm_commit(1,3) unfolding confirmed_codes_def split_conv by blast
  with confirmed_confirm_tx [OF tx] show ?case
    by (intro confirmed_step [OF confirm_commit(3)]) (auto dest: set_remove1_subset [THEN subsetD])
next
  case (enqueue oid fl up s q r t q')
  from confirmed_enqueue [OF enqueue(2)] show ?case
    by (intro confirmed_step [OF enqueue(3)]) (auto dest: set_remove1_subset [THEN subsetD])
next
  case (cancel shop uid oid s r q fl)
  then show ?case by (intro confirmed_step [OF cancel(2)]) auto
next
  case (cancel_commit oid fl s q)
  show ?case
    by (intro confirmed_step [OF cancel_commit(2)])
      (auto simp: confirmed_cancel_expire dest: set_remove1_subset [THEN subsetD])
next
  case (expire s q fl now r)
  then show ?case by (intro confirmed_step [OF expire]) (auto simp: confirmed_cancel_expire)
next
  case (die s q fl x)
  then show ?case by (intro confirmed_step [OF die]) (auto dest: set_remove1_subset [THEN subsetD])
qed

lemma confirmed_codes_reaches:
  "checkout_reaches vouched notified c c' \<Longrightarrow> confirmed_codes vouched notified c \<Longrightarrow> confirmed_codes vouched notified c'"
  by (induction rule: checkout_reaches.induct) (auto intro: confirmed_codes_step)

lemma completed_settled:
  assumes "rows_ok vouched s" and "confirmed_codes vouched notified (s, q, fl)"
    and "p \<in> set (payments s)" and "pt_status p = TxPaid"
  shows "settled_by vouched notified p s"
proof -
  have "wallet_paid p s \<or> pt_code p \<in> vouched \<union> notified"
    using assms(2-4) by (simp add: confirmed_codes_def)
  moreover have "backed (pt_code p) (pt_provider p) s" if "pt_code p \<notin> vouched"
    using assms(1,3,4) that unfolding rows_ok_def by blast
  ultimately show ?thesis by (auto simp: settled_by_def backed_def)
qed

text \<open>
  C1. Whatever API requests interleave and wherever they die: every job of the purchase queue, and
  every order that counts as paid or is being purchased, belongs to a completed payment of exactly
  the order's total, and a payment completes once. Every completed payment rests on one of three
  things: a wallet debit of exactly its amount in the ledger of the order's customer; a confirmation
  by the seller; or a confirmation by a payment provider, which for a receipt-backed crypto provider
  comes with a claimed receipt of that provider for this payment. Two completed crypto payments that
  no seller confirmed rest on two different blockchain transfers.
\<close>

theorem purchases_are_paid:
  assumes "checkout_reaches vouched notified (s0, [], []) (s, q, fl)"
    and "orders s0 = []" and "payments s0 = []" and "order_events s0 = []" and "receipts_unique s0"
  shows "distinct (map jb_id q) \<and> (\<forall>j \<in> set q. paid_order (jb_order j) s)
    \<and> (\<forall>r \<in> set (orders s). od_status r = Paid \<or> od_status r = ProcessingPurchase \<longrightarrow>
         (\<exists>p \<in> set (payments s). pt_order p = od_id r \<and> pt_status p = TxPaid \<and> pt_amount p = od_totalSale r))
    \<and> (\<forall>p \<in> set (payments s). completions (pt_order p) s = (if pt_status p = TxPaid then 1 else 0))
    \<and> (\<forall>p \<in> set (payments s). pt_status p = TxPaid \<longrightarrow> settled_by vouched notified p s)
    \<and> (\<forall>p \<in> set (payments s). \<forall>p' \<in> set (payments s). p \<noteq> p' \<and> pt_status p = TxPaid \<and> pt_status p' = TxPaid
         \<and> isReceiptBackedCryptoProvider (pt_provider p) \<and> isReceiptBackedCryptoProvider (pt_provider p')
         \<and> pt_code p \<notin> vouched \<and> pt_code p' \<notin> vouched \<longrightarrow>
         (\<exists>r \<in> set (receipts s). \<exists>r' \<in> set (receipts s). rc_code r = pt_code p \<and> rc_code r' = pt_code p'
            \<and> rc_txHashNormalized r \<noteq> rc_txHashNormalized r'))"
proof (intro conjI ballI impI)
  have inv: "rows_ok vouched s" "jobs_ok q s"
    using checkout_inv_reaches [OF assms(1) checkout_inv_start [OF assms(2-5)]] by (simp_all add: checkout_inv_def)
  then show "distinct (map jb_id q)" and "j \<in> set q \<Longrightarrow> paid_order (jb_order j) s" for j by (auto simp: jobs_ok_def)
  have "confirmed_codes vouched notified (s0, [], [])" using assms(3) by (simp add: confirmed_codes_def)
  with assms(1) have conf: "confirmed_codes vouched notified (s, q, fl)" by (rule confirmed_codes_reaches)
  show "settled_by vouched notified p s" if "p \<in> set (payments s)" "pt_status p = TxPaid" for p
    using inv(1) conf that by (rule completed_settled)
  show "completions (pt_order p) s = (if pt_status p = TxPaid then 1 else 0)" if "p \<in> set (payments s)" for p
    using inv that by (simp add: rows_ok_def events_ok_def)
  fix r assume r: "r \<in> set (orders s)" "od_status r = Paid \<or> od_status r = ProcessingPurchase"
  then obtain p where "(r, p) \<in> set (zip (orders s) (payments s))"
    using inv(1) by (metis in_set_impl_in_set_zip1 list_all2_lengthD rows_ok_def)
  with inv(1) r(2) show "\<exists>p \<in> set (payments s). pt_order p = od_id r \<and> pt_status p = TxPaid \<and> pt_amount p = od_totalSale r"
    by (auto simp: rows_ok_def list_all2_iff row_ok_def dest: set_zip_rightD)
next
  have inv: "rows_ok vouched s"
    using checkout_inv_reaches [OF assms(1) checkout_inv_start [OF assms(2-5)]] by (simp add: checkout_inv_def)
  fix p p' assume p: "p \<in> set (payments s)" "p' \<in> set (payments s)" and a: "p \<noteq> p' \<and> pt_status p = TxPaid \<and> pt_status p' = TxPaid
         \<and> isReceiptBackedCryptoProvider (pt_provider p) \<and> isReceiptBackedCryptoProvider (pt_provider p')
         \<and> pt_code p \<notin> vouched \<and> pt_code p' \<notin> vouched"
  have codes: "pt_code p \<noteq> pt_code p'" using inv p a by (auto simp: rows_ok_def distinct_map dest: inj_onD)
  from inv p a have "backed (pt_code p) (pt_provider p) s" "backed (pt_code p') (pt_provider p') s"
    unfolding rows_ok_def by blast+
  with a obtain r r' where r: "r \<in> set (receipts s)" "r' \<in> set (receipts s)" "rc_code r = pt_code p" "rc_code r' = pt_code p'"
    by (auto simp: backed_def)
  moreover have "rc_txHashNormalized r \<noteq> rc_txHashNormalized r'"
    using unique_same_hash [of s r r'] inv r codes by (auto simp: rows_ok_def)
  ultimately show "\<exists>r \<in> set (receipts s). \<exists>r' \<in> set (receipts s). rc_code r = pt_code p \<and> rc_code r' = pt_code p'
            \<and> rc_txHashNormalized r \<noteq> rc_txHashNormalized r'" by blast
qed

section \<open>An unpaid order, its payment and its cancellation\<close>

abbreviation wire_opts :: confirm_options where
  "wire_opts \<equiv> \<lparr>co_cryptoTxHash = None, co_allowManual = False\<rparr>"

definition demo_ids :: order_ids where
  "demo_ids = \<lparr>oc_order = ''o1'', oc_code = ''k1''\<rparr>"

definition demo_unpaid :: order where
  "demo_unpaid = new_order demo_ids ''s1'' demo_prepared 10"

definition demo_pending :: pay_tx where
  "demo_pending = \<lparr>pt_order = ''o1'', pt_provider = PAYOS, pt_code = ''k1'', pt_amount = 165000, pt_txHash = None,
     pt_status = TxPending, pt_paidAt = None\<rparr>"

definition demo_buyer_row :: customer where
  "demo_buyer_row = \<lparr>cu_id = ''c1'', cu_shop = ''s1'', cu_telegramUserId = ''u1'', cu_telegramChatId = ''77'', cu_referredBy = None\<rparr>"

definition demo_unpaid_shop :: shop_db where
  "demo_unpaid_shop = empty_shop\<lparr>products := [demo_goods], customers := [demo_buyer_row], orders := [demo_unpaid],
     payments := [demo_pending], order_events := [\<lparr>oe_order = ''o1'', oe_type = ''order_created''\<rparr>]\<rparr>"

lemma demo_unpaid_simps [simp]:
  "od_id demo_unpaid = ''o1''" "od_status demo_unpaid = AwaitingPayment" "od_shop demo_unpaid = ''s1''"
  "od_customer demo_unpaid = ''c1''" "od_totalSale demo_unpaid = 165000" "od_isPreorder demo_unpaid = True"
  "pt_code demo_pending = ''k1''" "pt_order demo_pending = ''o1''" "pt_status demo_pending = TxPending"
  "pt_provider demo_pending = PAYOS" "pt_amount demo_pending = 165000" "pt_txHash demo_pending = None"
  "cu_id demo_buyer_row = ''c1''" "cu_telegramUserId demo_buyer_row = ''u1''"
  "pr_id demo_goods = ''p1''" "pr_available demo_goods = Some 4" "pr_sourcePrice demo_goods = 20000"
  by (simp_all add: demo_unpaid_def new_order_def demo_ids_def demo_prepared_def toDecimal_cents demo_pending_def
      demo_buyer_row_def demo_goods_def)

lemma demo_unpaid_shop_simps [simp]:
  "orders demo_unpaid_shop = [demo_unpaid]" "payments demo_unpaid_shop = [demo_pending]"
  "customers demo_unpaid_shop = [demo_buyer_row]" "receipts demo_unpaid_shop = []"
  "order_events demo_unpaid_shop = [\<lparr>oe_order = ''o1'', oe_type = ''order_created''\<rparr>]"
  by (simp_all add: demo_unpaid_shop_def empty_shop_def)

lemma demo_created_by:
  "createTelegramOrder (\<lambda>_. None) (\<lambda>_. demo_buyer) (\<lambda>_. demo_offer) demo_answers ''c1'' demo_ids (Inr prov) demo_input 10
     demo_catalog = (Inr demo_unpaid, demo_unpaid_shop\<lparr>payments := [demo_pending\<lparr>pt_provider := prov\<rparr>]\<rparr>)"
proof -
  obtain t where p: "prepareTelegramOrderContext (\<lambda>_. demo_buyer) (\<lambda>_. demo_offer) demo_answers ''c1'' demo_input 10
      demo_catalog = (Inr demo_prepared, t)" using demo_catalog_prepared by (metis prod.collapse)
  obtain cid where "(cid, t) = upsertTelegramCustomer ''c1'' (oi_shop demo_input) (oi_profile demo_input) demo_catalog"
    using prepare_ok [OF p] by metis
  then have t: "t = demo_catalog\<lparr>customers := [demo_buyer_row]\<rparr>"
    by (simp add: upsertTelegramCustomer_def demo_catalog_def empty_shop_def demo_input_def demo_buyer_row_def)
  have e: "assertEnabled (\<lambda>_. None) Orders None = Inr ()" by (simp add: assertEnabled_def)
  have i: "oi_shop demo_input = ''s1''" by (simp add: demo_input_def)
  have pd: "pd_product demo_prepared = ''p1''" "pd_quantity demo_prepared = 5" "pd_isPreorder demo_prepared = True"
    "pd_totalSale demo_prepared = 165000" by (simp_all add: demo_prepared_def)
  have tp: "products t = [demo_goods]" "orders t = []" "payments t = []" by (simp_all add: t demo_catalog_def empty_shop_def)
  have q: "\<lparr>pt_order = oc_order demo_ids, pt_provider = prov, pt_code = oc_code demo_ids, pt_amount = toDecimal 165000,
      pt_txHash = None, pt_status = TxPending, pt_paidAt = None\<rparr> = demo_pending\<lparr>pt_provider := prov\<rparr>"
    by (simp add: demo_ids_def demo_pending_def toDecimal_cents)
  have "create_order_tx demo_ids ''s1'' demo_prepared prov 10 t
      = Inr (demo_unpaid, insert_order demo_unpaid (demo_pending\<lparr>pt_provider := prov\<rparr>) t)"
    by (simp add: create_order_tx_def assertPhysicalStockAvailable_def pd assertCurrentOrderPriceSafe_def tp
        isOrderPriceSafe_def ids_taken_def demo_unpaid_def [symmetric] q)
  moreover have "insert_order demo_unpaid (demo_pending\<lparr>pt_provider := prov\<rparr>) t
      = demo_unpaid_shop\<lparr>payments := [demo_pending\<lparr>pt_provider := prov\<rparr>]\<rparr>"
    by (simp add: insert_order_def add_event_def t demo_unpaid_shop_def demo_catalog_def empty_shop_def)
  ultimately show ?thesis by (simp add: createTelegramOrder_def e p i)
qed

lemma demo_created:
  "createTelegramOrder (\<lambda>_. None) (\<lambda>_. demo_buyer) (\<lambda>_. demo_offer) demo_answers ''c1'' demo_ids (Inr PAYOS) demo_input 10
     demo_catalog = (Inr demo_unpaid, demo_unpaid_shop)"
proof -
  have "demo_pending\<lparr>pt_provider := PAYOS\<rparr> = demo_pending" by (simp add: demo_pending_def)
  moreover have "demo_unpaid_shop\<lparr>payments := [demo_pending]\<rparr> = demo_unpaid_shop" by (simp add: demo_unpaid_shop_def)
  ultimately show ?thesis using demo_created_by [of PAYOS] by simp
qed

definition demo_settled_shop :: shop_db where
  "demo_settled_shop = add_event ''o1'' ''payment_completed''
     (demo_unpaid_shop\<lparr>orders := [demo_unpaid\<lparr>od_payment := PayPaid, od_status := Paid, od_paidAt := Some 20, od_failureReason := None\<rparr>],
        payments := [demo_pending\<lparr>pt_status := TxPaid, pt_paidAt := Some 20\<rparr>]\<rparr>)"

lemma demo_read: "markPaymentCompleted_read ''k1'' wire_opts demo_unpaid_shop = Inr (Some (demo_pending, demo_unpaid))"
  by (simp add: markPaymentCompleted_read_def assertCryptoReceiptClaimed_def isReceiptBackedCryptoProvider_def
      isDirectOnchainProvider_def)

lemma demo_settle: "markPaymentCompleted_tx ''k1'' wire_opts 20 ''o1'' demo_unpaid_shop = Inr (True, demo_settled_shop)"
  by (simp add: markPaymentCompleted_tx_def given_hash_def demo_settled_shop_def update_order_def update_payments_def
      add_event_def)

lemma demo_enqueue:
  "enqueuePaidOrder_api (\<lambda>_. True) ''o1'' (demo_settled_shop, []) = (r, t, q')
    \<Longrightarrow> q' = [\<lparr>jb_id = ''purchase-o1'', jb_order = ''o1''\<rparr>]"
  by (auto simp: enqueuePaidOrder_api_def demo_settled_shop_def queue_add_def Let_def)

text \<open>An order paid in USDT: its transfer is claimed, then confirmed, then the order is queued.\<close>

definition demo_crypto_payment :: pay_tx where
  "demo_crypto_payment = demo_pending\<lparr>pt_provider := USDT_TRC20\<rparr>"

definition demo_crypto_shop :: shop_db where
  "demo_crypto_shop = demo_unpaid_shop\<lparr>payments := [demo_crypto_payment]\<rparr>"

definition demo_claimed_shop :: shop_db where
  "demo_claimed_shop = demo_crypto_shop\<lparr>receipts := [demo_receipt ''h1'' ''k1'']\<rparr>"

definition demo_crypto_settled :: shop_db where
  "demo_crypto_settled = add_event ''o1'' ''payment_completed''
     (demo_claimed_shop\<lparr>orders := [demo_unpaid\<lparr>od_payment := PayPaid, od_status := Paid, od_paidAt := Some 20, od_failureReason := None\<rparr>],
        payments := [demo_crypto_payment\<lparr>pt_status := TxPaid, pt_paidAt := Some 20\<rparr>]\<rparr>)"

lemma demo_crypto_simps [simp]:
  "orders demo_claimed_shop = [demo_unpaid]" "payments demo_claimed_shop = [demo_crypto_payment]"
  "receipts demo_claimed_shop = [demo_receipt ''h1'' ''k1'']" "receipts demo_crypto_shop = []"
  "pt_code demo_crypto_payment = ''k1''" "pt_order demo_crypto_payment = ''o1''"
  "pt_status demo_crypto_payment = TxPending" "pt_provider demo_crypto_payment = USDT_TRC20"
  "pt_txHash demo_crypto_payment = None"
  by (simp_all add: demo_claimed_shop_def demo_crypto_shop_def demo_crypto_payment_def)

lemma demo_crypto_claim:
  "claimOnchainPaymentReceipt demo_cfg demo_norm (1 / 50) 10 (Some demo_target) (demo_claim ''h1'' ''k1'') demo_crypto_shop
    = Inr (demo_receipt ''h1'' ''k1'', demo_claimed_shop)"
  using demo_validate [of "''h1''" "''k1''"]
  by (simp add: claimOnchainPaymentReceipt_def demo_receipt_def demo_claim_def demo_claimed_shop_def to_fixed_grid Let_def)

lemma demo_crypto_read:
  "markPaymentCompleted_read ''k1'' wire_opts demo_claimed_shop = Inr (Some (demo_crypto_payment, demo_unpaid))"
  by (simp add: markPaymentCompleted_read_def assertCryptoReceiptClaimed_def demo_receipt_def)

lemma demo_crypto_settle:
  "markPaymentCompleted_tx ''k1'' wire_opts 20 ''o1'' demo_claimed_shop = Inr (True, demo_crypto_settled)"
  by (simp add: markPaymentCompleted_tx_def given_hash_def demo_crypto_settled_def update_order_def update_payments_def
      add_event_def)

theorem purchases_are_paid_witness:
  "\<exists>s. checkout_reaches {} {''k1''} (demo_catalog, [], []) (s, [\<lparr>jb_id = ''purchase-o1'', jb_order = ''o1''\<rparr>], [])
     \<and> paid_order ''o1'' s
     \<and> (\<exists>p \<in> set (payments s). pt_order p = ''o1'' \<and> pt_status p = TxPaid
          \<and> (\<exists>r \<in> set (receipts s). rc_code r = pt_code p \<and> rc_provider r = USDT_TRC20))"
proof -
  obtain r t q' where e: "enqueuePaidOrder_api (\<lambda>_. True) ''o1'' (demo_crypto_settled, []) = (r, t, q')"
    by (metis prod.collapse)
  have q': "q' = [\<lparr>jb_id = ''purchase-o1'', jb_order = ''o1''\<rparr>]"
    using e by (auto simp: enqueuePaidOrder_api_def demo_crypto_settled_def queue_add_def Let_def)
  have pay: "payments t = [demo_crypto_payment\<lparr>pt_status := TxPaid, pt_paidAt := Some 20\<rparr>]"
    using confirmed_enqueue(3) [OF e] by (simp add: demo_crypto_settled_def add_event_def)
  have created: "createTelegramOrder (\<lambda>_. None) (\<lambda>_. demo_buyer) (\<lambda>_. demo_offer) demo_answers ''c1'' demo_ids
      (Inr USDT_TRC20) demo_input 10 demo_catalog = (Inr demo_unpaid, demo_crypto_shop)"
    using demo_created_by [of USDT_TRC20] by (simp add: demo_crypto_shop_def demo_crypto_payment_def)
  let ?step = "checkout_step {} {''k1''}"
  have "checkout_reaches {} {''k1''} (demo_catalog, [], []) (demo_crypto_shop, [], [])"
    by (rule checkout_reaches.go [OF checkout_reaches.stop checkout_step.create [OF created]])
  moreover have "?step (demo_crypto_shop, [], []) (demo_claimed_shop, [], [])"
    by (rule checkout_step.claim [OF demo_crypto_claim])
  moreover have "?step (demo_claimed_shop, [], []) (demo_claimed_shop, [], [Confirming ''k1'' wire_opts ''o1''])"
    using checkout_step.confirm [OF demo_crypto_read, of "{}" "{''k1''}" "[]" "[]"] by simp
  moreover have "?step (demo_claimed_shop, [], [Confirming ''k1'' wire_opts ''o1'']) (demo_crypto_settled, [], [Enqueueing ''o1''])"
    using checkout_step.confirm_commit [of "''k1''" wire_opts "''o1''" "[Confirming ''k1'' wire_opts ''o1'']" 20 demo_claimed_shop
        True demo_crypto_settled "{}" "{''k1''}" "[]"] by (simp add: transaction_def demo_crypto_settle)
  moreover have "?step (demo_crypto_settled, [], [Enqueueing ''o1'']) (t, q', [])"
    using checkout_step.enqueue [OF _ e, of "[Enqueueing ''o1'']" "{}" "{''k1''}"] by simp
  ultimately have run: "checkout_reaches {} {''k1''} (demo_catalog, [], []) (t, q', [])" by (meson checkout_reaches.go)
  have start: "orders demo_catalog = []" "payments demo_catalog = []" "order_events demo_catalog = []" "receipts_unique demo_catalog"
    by (simp_all add: demo_catalog_def empty_shop_def receipts_unique_def)
  note th = purchases_are_paid [OF run start]
  from th have "settled_by {} {''k1''} (demo_crypto_payment\<lparr>pt_status := TxPaid, pt_paidAt := Some 20\<rparr>) t"
    by (simp add: pay)
  then have "\<exists>r \<in> set (receipts t). rc_code r = ''k1'' \<and> rc_provider r = USDT_TRC20"
    by (simp add: settled_by_def wallet_paid_def isReceiptBackedCryptoProvider_def isDirectOnchainProvider_def)
  moreover from th have "paid_order ''o1'' t" by (simp add: q')
  ultimately show ?thesis using run by (intro exI [of _ t]) (simp add: q' pay)
qed

lemma count_modify_none: "(\<And>r. p r \<Longrightarrow> \<not> q (f r)) \<Longrightarrow> (\<And>r. q r \<Longrightarrow> p r) \<Longrightarrow> count_rows q (modify_rows p f rs) = 0"
  by (induction rs) auto

lemma cancel_write_unpaid:
  "count_rows (\<lambda>r. od_id r = oid \<and> od_status r = Paid) (orders (cancelPendingOrder_write oid s)) = 0"
  unfolding cancelPendingOrder_write_def update_order_orders by (rule count_modify_none) simp_all

text \<open>
  C32. A payment that is confirmed between the two calls of a customer's cancellation is lost: the
  payment is complete, the order is failed, the hand-over to the purchase queue finds nothing to
  claim, and no later confirmation of the same payment changes anything.
\<close>

theorem cancel_race_loses_paid_order:
  assumes "rows_ok vouched s" and "cancelPendingOrder_read shop uid oid s = Some r"
    and "markPaymentCompleted_read code opts s = Inr (Some (pt, r))"
    and "markPaymentCompleted_tx code opts now oid s = Inr (True, s1)"
  shows "let s2 = cancelPendingOrder_write oid s1
    in paid_order oid s2 \<and> map_option od_status (order_at oid s2) = Some Failed
       \<and> enqueuePaidOrder_api up oid (s2, q) = (Inr (), s2, q)
       \<and> markPaymentCompleted code opts' now' up' (s2, q) = (Inr (), s2, q)"
proof -
  define s2 where "s2 = cancelPendingOrder_write oid s1"
  have oid: "od_id r = oid" using find_SomeD [OF assms(2) [unfolded cancelPendingOrder_read_def]] by simp
  from assms(3) have p: "payment_with code s = Some pt" "order_at (pt_order pt) s = Some r" "pt_status pt \<noteq> TxPaid"
    by (auto simp: markPaymentCompleted_read_def split: option.splits if_splits sum.splits)
  have pt: "pt \<in> set (payments s)" "pt_code pt = code" using find_SomeD [OF p(1)] by auto
  have po: "pt_order pt = oid" using find_SomeD [OF p(2)] oid by simp
  have pend: "pt_status pt = TxPending"
  proof -
    obtain r' where "(r', pt) \<in> set (zip (orders s) (payments s))"
      using assms(1) pt(1) by (metis in_set_impl_in_set_zip2 list_all2_lengthD rows_ok_def)
    with assms(1) p(3) show ?thesis by (auto simp: rows_ok_def list_all2_iff row_ok_def)
  qed
  obtain h where s1: "s1 = add_event oid ''payment_completed''
      (update_order oid (\<lambda>r. r\<lparr>od_payment := PayPaid, od_status := Paid, od_paidAt := Some now, od_failureReason := None\<rparr>)
      (update_payments (\<lambda>q. pt_code q = code \<and> pt_status q = TxPending)
        (\<lambda>q. q\<lparr>pt_status := TxPaid, pt_paidAt := Some now, pt_txHash := h q\<rparr>) s))"
    using assms(4) by (rule confirm_tx_cases) auto
  have pay: "payment_with code s2 = Some (pt\<lparr>pt_status := TxPaid, pt_paidAt := Some now, pt_txHash := h pt\<rparr>)"
    by (simp add: s2_def cancelPendingOrder_write_def s1 find_modify_rows p(1) pt pend)
  have ord: "\<exists>r'. order_at oid s2 = Some r' \<and> od_status r' = Failed"
    using p(2) by (simp add: s2_def cancelPendingOrder_write_def s1 po)
  have none: "count_rows (\<lambda>r. od_id r = oid \<and> od_status r = Paid) (orders s2) = 0"
    by (simp add: s2_def cancel_write_unpaid)
  have enq: "enqueuePaidOrder_api up oid (s2, q) = (Inr (), s2, q)" for up
    by (simp add: enqueuePaidOrder_api_def none)
  have paid: "paid_order oid s2"
    unfolding paid_order_def by (rule bexI [OF _ find_SomeD [OF pay, THEN conjunct1]]) (simp add: po)
  have "markPaymentCompleted_read code opts' s2 = Inr None"
    using ord by (auto simp: markPaymentCompleted_read_def pay po)
  then have "markPaymentCompleted code opts' now' up' (s2, q) = (Inr (), s2, q)"
    by (simp add: markPaymentCompleted_def pay po enq)
  with paid ord enq show ?thesis by (auto simp: s2_def Let_def)
qed

theorem cancel_race_loses_paid_order_witness:
  "\<exists>s. paid_order ''o1'' s \<and> map_option od_status (order_at ''o1'' s) = Some Failed
     \<and> markPaymentCompleted ''k1'' wire_opts 30 (\<lambda>_. True) (s, []) = (Inr (), s, [])"
proof -
  have "checkout_inv {} (demo_unpaid_shop, [], [])"
    by (rule checkout_inv_reaches [OF checkout_reaches.go [OF checkout_reaches.stop checkout_step.create [OF demo_created]]
          checkout_inv_start])
       (simp_all add: demo_catalog_def empty_shop_def receipts_unique_def)
  then have ok: "rows_ok {} demo_unpaid_shop" by (simp add: checkout_inv_def)
  have c: "cancelPendingOrder_read ''s1'' ''u1'' ''o1'' demo_unpaid_shop = Some demo_unpaid"
    by (simp add: cancelPendingOrder_read_def)
  from cancel_race_loses_paid_order [OF ok c demo_read demo_settle, of "\<lambda>_. True" "[]" wire_opts 30 "\<lambda>_. True"]
  show ?thesis unfolding Let_def by blast
qed

end
