(* ===== verification/OrderDesk.thy ===== *)
theory OrderDesk
  imports Checkout SellerWallet
begin

text \<open>
  What sellers and customers do with placed orders: \<open>apps/api/src/orders/orders.service.ts\<close> from
  the delivery mark to the failure mark (manual completion and cancellation, the cancellation of
  pre-orders with its refund), the API's own debit of a connection's wallet, and the commission of
  a referring customer (\<open>apps/api/src/affiliate/affiliate.service.ts\<close>). Messages and warranty
  snapshots are left out. The shop of the calling seller is an argument, like the exchange rates.
\<close>

section \<open>The commission of a referring customer\<close>

definition commission_entry :: "customer_ledger_type \<Rightarrow> ident \<Rightarrow> ident \<Rightarrow> rat \<Rightarrow> customer_wallet \<Rightarrow> customer_wallet \<Rightarrow> customer_entry" where
  "commission_entry ty cid orderId amount w w' =
     \<lparr>cl_customer = cid, cl_type = ty, cl_currency = VND, cl_amount = toDecimal amount,
      cl_before = toDecimal (cw_balance w), cl_after = toDecimal (cw_balance w),
      cl_commissionBefore = Some (toDecimal (cw_commission w)), cl_commissionAfter = Some (cw_commission w'),
      cl_refType = ''order'', cl_refId = orderId\<rparr>"

definition creditCommission :: "ident \<Rightarrow> ident \<Rightarrow> rat \<Rightarrow> shop_db \<Rightarrow> shop_db" where
  "creditCommission orderId affiliateCustomerId amount s0 =
     (let s = upsert_customer_wallet affiliateCustomerId (update_order orderId
            (\<lambda>r. r\<lparr>od_affiliateCustomer := Some affiliateCustomerId, od_affiliateCommission := Some (toDecimal amount)\<rparr>) s0);
          w = wallet_or_new s affiliateCustomerId;
          w' = w\<lparr>cw_commission := toDecimal (cw_commission w + amount)\<rparr>
      in write_wallet affiliateCustomerId w' [commission_entry CAffiliateCommission affiliateCustomerId orderId amount w w'] s)"

text \<open>The amount to take back: at most what is left of the commission, to the cent.\<close>

definition revoke_amount :: "rat \<Rightarrow> jsnum option \<Rightarrow> rat" where
  "revoke_amount currentCommission requested =
     to_fixed 2 (min currentCommission (case requested of
        None \<Rightarrow> currentCommission
      | Some x \<Rightarrow> if is_finite x \<and> js_less (Fin 0) x then num_val x else currentCommission))"

definition revokeCommission :: "ident \<Rightarrow> jsnum option \<Rightarrow> shop_db \<Rightarrow> shop_db" where
  "revokeCommission orderId requestedAmount s0 =
     (case order_at orderId s0 of None \<Rightarrow> s0 | Some r \<Rightarrow>
      (case od_affiliateCustomer r of None \<Rightarrow> s0 | Some cid \<Rightarrow>
       (let currentCommission = (case od_affiliateCommission r of None \<Rightarrow> 0 | Some x \<Rightarrow> x);
            amount = revoke_amount currentCommission requestedAmount
        in if amount \<le> 0 then s0
           else
             (let s = upsert_customer_wallet cid (update_order orderId
                    (\<lambda>r. r\<lparr>od_affiliateCommission := Some (toDecimal (currentCommission - amount))\<rparr>) s0);
                  w = wallet_or_new s cid;
                  w' = w\<lparr>cw_commission := toDecimal (cw_commission w - amount)\<rparr>
              in write_wallet cid w' [commission_entry CRefundOrder cid orderId (- amount) w w'] s))))"

definition credited_commission :: "ident \<Rightarrow> ident \<Rightarrow> shop_db \<Rightarrow> rat option" where
  "credited_commission cid orderId s =
     (case filter (is_order_row CAffiliateCommission cid orderId) (customer_ledger s) of
        [] \<Rightarrow> None | es \<Rightarrow> Some (sum_list (map cl_amount es)))"

definition revokeCommissionForRefund :: "ident \<Rightarrow> jsnum \<Rightarrow> shop_db \<Rightarrow> shop_db" where
  "revokeCommissionForRefund orderId refundTotal s =
     (if \<not> is_finite refundTotal \<or> js_le refundTotal (Fin 0) then s
      else
        (case order_at orderId s of None \<Rightarrow> s | Some r \<Rightarrow>
         (case od_affiliateCustomer r of None \<Rightarrow> s | Some cid \<Rightarrow>
          (if od_totalSale r \<le> 0 then s
           else
             (let remaining = (case od_affiliateCommission r of None \<Rightarrow> 0 | Some x \<Rightarrow> x);
                  originalCommission = (case credited_commission cid orderId s of Some x \<Rightarrow> x | None \<Rightarrow> remaining)
              in if originalCommission \<le> 0 then s
                 else revokeCommission orderId (Some (Fin (resolveAffiliateCommissionRefund (Fin originalCommission)
                        (Fin remaining) (Fin (od_totalSale r)) refundTotal))) s)))))"

text \<open>The API credits the commission to the cent, where the worker rounds it to whole dong.\<close>

definition creditAffiliateCommission_api :: "(ident \<Rightarrow> affiliate_config option) \<Rightarrow> ident \<Rightarrow> shop_db \<Rightarrow> shop_db" where
  "creditAffiliateCommission_api cfg orderId s =
     (case order_at orderId s of None \<Rightarrow> s | Some ord \<Rightarrow>
      (case customer_at (od_customer ord) s of None \<Rightarrow> s | Some c \<Rightarrow>
       (case cu_referredBy c of None \<Rightarrow> s | Some referredById \<Rightarrow>
        if (case od_affiliateCommission ord of None \<Rightarrow> False | Some a \<Rightarrow> 0 < a) then s
        else
          (case cfg (od_shop ord) of None \<Rightarrow> s | Some conf \<Rightarrow>
           if \<not> ac_enabled conf then s
           else
             (let commission = resolveSellerSafeAffiliateCommission (Fin (od_totalSale ord))
                    (Fin (od_totalSource ord)) (Fin (ac_commissionPct conf))
              in if commission \<le> 0 then s else creditCommission orderId referredById commission s)))))"

section \<open>Delivery by hand\<close>

definition markOrderDelivered ::
  "(ident \<Rightarrow> affiliate_config option) \<Rightarrow> ident \<Rightarrow> string \<Rightarrow> timestamp \<Rightarrow> shop_db \<Rightarrow> unit result \<times> shop_db" where
  "markOrderDelivered cfg orderId deliveredAccountText now s =
     (case order_at orderId s of
        None \<Rightarrow> (Inl (NotFound ''Record to update not found.''), s)
      | Some _ \<Rightarrow> (Inr (), creditAffiliateCommission_api cfg orderId
          (add_event orderId ''order_delivered'' (update_order orderId
             (\<lambda>r. r\<lparr>od_status := Delivered, od_deliveredText := Some deliveredAccountText, od_deliveredAt := Some now\<rparr>) s))))"

definition api_source_row :: "ident \<Rightarrow> ident \<Rightarrow> rat \<Rightarrow> rat \<Rightarrow> rat \<Rightarrow> source_entry" where
  "api_source_row connectionId orderId amount before after =
     \<lparr>il_connection = connectionId, il_type = SDebitOrder, il_amount = toDecimal (- amount),
      il_before = toDecimal before, il_after = toDecimal after, il_refType = ''order'', il_refId = orderId\<rparr>"

text \<open>
  The API's debit. Unlike the worker's it takes any earlier debit of the order as done, also one
  that has been given back.
\<close>

definition debitConnectionBalanceTx_api ::
  "ident \<Rightarrow> rat \<Rightarrow> ident \<Rightarrow> rat \<Rightarrow> timestamp \<Rightarrow> shop_db \<Rightarrow> shop_db result" where
  "debitConnectionBalanceTx_api connectionId amount orderId usdtVndRate now s =
     (if amount \<le> 0 then Inl (BadRequest ''Invalid internal source debit amount.'')
      else
        (case linked_customer connectionId s of
           Inl e \<Rightarrow> Inl (BadRequest (case e of ConnectionBalanceError m \<Rightarrow> m | _ \<Rightarrow> []))
         | Inr (cid, w) \<Rightarrow>
           if order_rows CSpendOrder cid orderId s \<noteq> [] then Inr s
           else
             (let availableBalance = cw_balance w + cw_commission w
              in if availableBalance < amount then Inl (BadRequest ''Insufficient source balance.'')
                 else
                   (let split = splitWalletDebit (cw_commission w) (cw_balance w) amount;
                        w' = spent_wallet usdtVndRate amount w
                    in Inr (add_source_row (api_source_row connectionId orderId amount availableBalance
                           (splitBalanceAfter split + commissionAfter split))
                         (touch_connection connectionId now
                         (write_wallet cid w' [spend_entry cid orderId amount w w'] s)))))))"

text \<open>The connection an order of the internal kind is bought through; \<open>shopConn\<close> is the shop's own.\<close>

definition internal_connection :: "ident option \<Rightarrow> order \<Rightarrow> product option \<Rightarrow> ident option" where
  "internal_connection shopConn ord p =
     (if od_internal ord then (case p of None \<Rightarrow> shopConn
        | Some p \<Rightarrow> (case pr_connection p of None \<Rightarrow> shopConn | Some n \<Rightarrow> Some n)) else None)"

definition complete_manual_tx ::
  "order \<Rightarrow> product option \<Rightarrow> (ident \<times> rat) option \<Rightarrow> timestamp \<Rightarrow> shop_db \<Rightarrow> (unit \<times> shop_db) result" where
  "complete_manual_tx ord p conn now s =
     (if map_option od_status (order_at (od_id ord) s) \<noteq> Some PaidWaitingStock
      then Inl (BadRequest ''Only pending manual orders can be completed here.'')
      else
        (case (case conn of
                 None \<Rightarrow> Inr s
               | Some (connectionId, rate) \<Rightarrow>
                 if 0 < od_totalSource ord then debitConnectionBalanceTx_api connectionId (od_totalSource ord) (od_id ord) rate now s
                 else Inr s) of
           Inl e \<Rightarrow> Inl e
         | Inr s1 \<Rightarrow>
           (let s2 = add_event (od_id ord) ''seller_marked_completed'' (update_order (od_id ord)
                  (\<lambda>r. r\<lparr>od_status := Delivered, od_deliveredAt := Some now, od_failureReason := None\<rparr>) s1);
                s3 = (if od_product ord = [] then s2
                      else if (case p of None \<Rightarrow> False | Some p \<Rightarrow> pr_addMail p)
                      then update_product (od_product ord) (\<lambda>x. x\<lparr>pr_soldCount := pr_soldCount x + int (od_quantity ord)\<rparr>) s2
                      else incrementSoldAndClampAvailable (od_product ord) (int (od_quantity ord)) s2)
            in Inr ((), case (conn, p) of
                 (Some _, Some p) \<Rightarrow>
                   if pr_external p = [] then s3 else incrementSoldAndClampAvailable (pr_external p) (int (od_quantity ord)) s3
               | _ \<Rightarrow> s3))))"

definition completePendingManualOrder ::
  "(ident \<Rightarrow> affiliate_config option) \<Rightarrow> (ident \<Rightarrow> jsnum) \<Rightarrow> rat \<Rightarrow> ident option \<Rightarrow> ident \<Rightarrow> ident \<Rightarrow> timestamp
   \<Rightarrow> shop_db \<Rightarrow> unit result \<times> shop_db" where
  "completePendingManualOrder cfg override fallback shopConn shop orderId now s =
     (case List.find (\<lambda>r. od_id r = orderId \<and> od_shop r = shop) (orders s) of
        None \<Rightarrow> (Inl (NotFound ''Order not found.''), s)
      | Some ord \<Rightarrow>
        if od_status ord \<noteq> PaidWaitingStock
        then (Inl (BadRequest ''Only pending manual orders can be completed here.''), s)
        else if od_isPreorder ord
        then (Inl (BadRequest ''Paid pre-orders are fulfilled automatically in FIFO order when stock arrives.''), s)
        else
          (let p = product_at (od_product ord) s;
               conn = internal_connection shopConn ord p;
               external = (case p of None \<Rightarrow> [] | Some p \<Rightarrow> pr_external p);
               upstreamCost = (case product_at external s of None \<Rightarrow> 0 | Some u \<Rightarrow> pr_sourcePrice u) * of_nat (od_quantity ord)
           in if conn \<noteq> None \<and> external \<noteq> [] \<and> \<not> isOrderPriceSafe (Fin (od_totalSource ord)) (Fin upstreamCost)
              then (Inl (BadRequest ''Current upstream cost is higher than this order's wholesale amount.''), s)
              else
                (case (case conn of None \<Rightarrow> Inr None
                       | Some n \<Rightarrow> (case connection_at n s of
                           None \<Rightarrow> Inl (BadRequest ''Internal source connection not found.'')
                         | Some c \<Rightarrow> Inr (Some (n, resolveUsdtVndRate (override (cn_upstreamShop c)) fallback)))) of
                   Inl e \<Rightarrow> (Inl e, s)
                 | Inr connRate \<Rightarrow>
                   (case transaction (complete_manual_tx ord p connRate now) s of
                      (Inl e, t) \<Rightarrow> (Inl e, t)
                    | (Inr _, t) \<Rightarrow> (Inr (), creditAffiliateCommission_api cfg (od_id ord) t)))))"

section \<open>Cancellation by the seller\<close>

text \<open>The check and the write are two calls; the write does not look at the order again.\<close>

definition cancelPendingManualOrder_read :: "ident \<Rightarrow> ident \<Rightarrow> shop_db \<Rightarrow> order result" where
  "cancelPendingManualOrder_read shop orderId s =
     (case List.find (\<lambda>r. od_id r = orderId \<and> od_shop r = shop) (orders s) of
        None \<Rightarrow> Inl (NotFound ''Order not found.'')
      | Some ord \<Rightarrow>
        if od_status ord \<noteq> PaidWaitingStock
        then Inl (BadRequest ''Only pending manual orders can be canceled here.'')
        else if od_isPreorder ord then Inl (BadRequest ''Use the pre-order cancellation workflow for this order.'')
        else Inr ord)"

definition cancelPendingManualOrder_write :: "order \<Rightarrow> product option \<Rightarrow> shop_db \<Rightarrow> shop_db" where
  "cancelPendingManualOrder_write ord p s =
     (let s1 = add_event (od_id ord) ''seller_marked_canceled'' (update_order (od_id ord)
            (\<lambda>r. r\<lparr>od_status := Failed, od_failureReason := Some ''Seller da huy xu ly don hang nay.''\<rparr>) s)
      in case p of
           None \<Rightarrow> s1
         | Some p \<Rightarrow>
           if od_product ord \<noteq> [] \<and> pr_addMail p \<and> pr_available p \<noteq> None
           then update_product (od_product ord)
                  (\<lambda>x. x\<lparr>pr_available := map_option (\<lambda>a. a + int (od_quantity ord)) (pr_available x)\<rparr>) s1
           else s1)"

definition cancelPendingManualOrder :: "ident \<Rightarrow> ident \<Rightarrow> shop_db \<Rightarrow> unit result \<times> shop_db" where
  "cancelPendingManualOrder shop orderId s =
     (case cancelPendingManualOrder_read shop orderId s of
        Inl e \<Rightarrow> (Inl e, s)
      | Inr ord \<Rightarrow> (Inr (), cancelPendingManualOrder_write ord (product_at (od_product ord) s) s))"

text \<open>The refund goes to the seller's wallet, in the seller side of the database.\<close>

definition markOrderFailed ::
  "ident \<Rightarrow> string \<Rightarrow> bool \<Rightarrow> bool \<Rightarrow> timestamp \<Rightarrow> platform_db \<times> shop_db \<Rightarrow> unit result \<times> platform_db \<times> shop_db" where
  "markOrderFailed orderId reason refundWallet outOfStock now st =
     (let (pl, s) = st
      in case order_at orderId s of
           None \<Rightarrow> (Inl (NotFound ''Order not found.''), pl, s)
         | Some ord \<Rightarrow>
           (case (if refundWallet then refundForOrder (od_seller ord) (od_totalSource ord) (od_id ord) now pl else (Inr (), pl)) of
              (Inl e, pl') \<Rightarrow> (Inl e, pl', s)
            | (Inr _, pl') \<Rightarrow>
              (Inr (), pl', add_event (od_id ord) (if outOfStock then ''purchase_out_of_stock'' else ''purchase_failed'')
                 (update_order (od_id ord) (\<lambda>r. r\<lparr>od_status := (if outOfStock then PaidWaitingStock else Failed),
                    od_failureReason := Some reason\<rparr>) s))))"

end
