(* ===== verification/WalletOrders.thy ===== *)
theory WalletOrders
  imports CheckoutRuns OrderDesk
begin

text \<open>
  What the wallet operations of an order do to the books: paying from the wallet, the completion by
  hand that charges a reseller's linked wallet, and the claw-back of a referral commission.
\<close>

section \<open>Spending from a wallet\<close>

lemma spent_wallet_simps:
  assumes "wallet_fine w" and "cents a"
  shows "cw_balance (spent_wallet rate a w) = cw_balance w - (a - min (cw_commission w) a)"
    and "cw_commission (spent_wallet rate a w) = cw_commission w - min (cw_commission w) a"
  using assms by (simp_all add: spent_wallet_def splitWalletDebit_def Let_def toDecimal_cents wallet_fineD on_grid_diff on_grid_min)

lemma wallet_fine_spent:
  assumes "wallet_fine w" and "cents a" and "0 \<le> a" and "a \<le> cw_balance w + cw_commission w"
  shows "wallet_fine (spent_wallet rate a w)"
  using assms unfolding wallet_fine_def spent_wallet_simps [OF assms(1,2)] by (auto simp: min_def)

lemma spend_entry_simps:
  assumes "wallet_fine w"
  shows "main_delta (spend_entry cid oid a w w') = cw_balance w' - cw_balance w"
    and "commission_delta (spend_entry cid oid a w w') = cw_commission w' - cw_commission w"
    and "row_main (spend_entry cid oid a w w') = cw_balance w - cw_balance w'"
    and "row_commission (spend_entry cid oid a w w') = cw_commission w - cw_commission w'"
    and "cl_customer (spend_entry cid oid a w w') = cid"
    and "is_order_row ty cid' oid' (spend_entry cid oid a w w') \<longleftrightarrow> ty = CSpendOrder \<and> cid' = cid \<and> oid' = oid"
  using assms by (auto simp: spend_entry_def main_delta_def commission_delta_def row_main_def row_commission_def
      decimalToNumber_def is_order_row_def toDecimal_cents wallet_fineD)

lemma spend_write:
  assumes inv: "connection_inv s" and w: "customer_wallets s cid = Some w"
    and a: "cents a" "0 \<le> a" "a \<le> cw_balance w + cw_commission w"
    and open': "order_rows CSpendOrder cid oid s = []" and w': "w' = spent_wallet rate a w"
  shows "connection_inv (write_wallet cid w' [spend_entry cid oid a w w'] s)"
    and "wallet_fine w" and "wallet_fine w'"
    and "cw_balance w' + cw_commission w' = cw_balance w + cw_commission w - a"
    and "cw_commission w' = max 0 (cw_commission w - a)"
proof -
  show fine: "wallet_fine w" using inv w by (auto simp: connection_inv_def dest: shop_inv_wallet)
  show fine': "wallet_fine w'" unfolding w' by (rule wallet_fine_spent [OF fine a])
  note sw = spent_wallet_simps [OF fine a(1), of rate, folded w']
  show "cw_balance w' + cw_commission w' = cw_balance w + cw_commission w - a"
    "cw_commission w' = max 0 (cw_commission w - a)" using fine a by (auto simp: sw wallet_fine_def min_def max_def)
  let ?t = "write_wallet cid w' [spend_entry cid oid a w w'] s"
  have "shop_inv ?t"
    by (rule shop_inv_write)
       (use inv fine fine' wallet_at_new [OF w] in \<open>auto simp: connection_inv_def spend_entry_simps\<close>)
  moreover have "spend_fine (spend_entry cid oid a w w')"
    unfolding spend_fine_def spend_entry_simps(3,4) [OF fine] sw
    using fine a by (auto simp: min_def wallet_fine_def)
  moreover have "outstanding_ok ?t"
  proof -
    have "outstanding_ok s" using inv by (simp add: connection_inv_def)
    then have "order_rows CRefundOrder cid oid s = []" using outstandingD(1) [of s cid oid] open' by simp
    with \<open>outstanding_ok s\<close> open' show ?thesis by (auto simp: outstanding_ok_def spend_entry_simps(6) [OF fine])
  qed
  ultimately show "connection_inv ?t" using inv by (simp add: connection_inv_def)
qed

lemma connection_inv_insert [simp]: "connection_inv (insert_order r q s) = connection_inv s"
  by (rule connection_inv_cong) simp_all

lemma order_rows_frame: "customer_ledger t = customer_ledger s \<Longrightarrow> order_rows ty cid oid t = order_rows ty cid oid s"
  by (simp add: order_rows_def)

lemma find_filter_hd: "List.find p xs = (case filter p xs of [] \<Rightarrow> None | x # _ \<Rightarrow> Some x)"
  by (induction xs) auto

lemma original_commission_rows:
  "original_commission ord s = (case order_rows CSpendOrder (od_customer ord) (od_id ord) s of
     [] \<Rightarrow> 0 | e # _ \<Rightarrow> max 0 (row_commission e))"
  by (simp add: original_commission_def original_spend_def order_rows_def find_filter_hd split: list.split)

lemma balances_by_wallet:
  "main_balance s = (\<lambda>j. if j \<in> dom (customer_wallets s) then Some (cw_balance (wallet_or_new s j)) else None)"
  "commission_balance s = (\<lambda>j. if j \<in> dom (customer_wallets s) then Some (cw_commission (wallet_or_new s j)) else None)"
  by (auto simp: main_balance_def commission_balance_def wallet_or_new_def fun_eq_iff dom_def split: option.split)

text \<open>
  C4. An order paid from the wallet takes exactly its total from its customer, the commission
  balance first, and touches no other wallet; the order and its payment are stored as paid. When the
  goods are gone after all, the refund puts both balances back to what they were.
\<close>

theorem wallet_payment_roundtrip:
  assumes "connection_inv s" and "wallet_order_tx ids shop pd rate now s = Inr (r, t)"
    and "0 \<le> pd_totalSale pd" and "cents (pd_totalSale pd)"
    and "\<forall>e \<in> set (customer_ledger s). cl_refId e \<noteq> oc_order ids"
  shows "let cid = pd_customer pd; w = wallet_or_new s cid; w' = wallet_or_new t cid
    in cw_balance w' + cw_commission w' = cw_balance w + cw_commission w - pd_totalSale pd
       \<and> cw_commission w' = max 0 (cw_commission w - pd_totalSale pd)
       \<and> (\<forall>j. j = cid \<or> wallet_or_new t j = wallet_or_new s j) \<and> connection_inv t
       \<and> order_at (oc_order ids) t = Some r \<and> od_status r = Paid \<and> od_totalSale r = pd_totalSale pd
       \<and> paid_order (oc_order ids) t
       \<and> (\<forall>ov fb oos reason told u. \<not> pd_isPreorder pd
            \<and> refundOutOfStockOrderToCustomerWallet ov fb oos reason (oc_order ids) t = (told, u) \<longrightarrow>
            told \<and> main_balance u = main_balance s \<and> commission_balance u = commission_balance s
            \<and> map_option od_status (order_at (oc_order ids) u) = Some Refunded)"
  using assms(2)
proof (cases rule: wallet_order_tx_cases)
  case (1 q w w')
  let ?cid = "pd_customer pd" and ?oid = "oc_order ids" and ?a = "pd_totalSale pd"
  let ?i = "insert_order r q s"
  have none: "order_rows ty cid ?oid s = []" for ty cid
    using assms(5) by (auto simp: order_rows_def is_order_row_def filter_empty_conv)
  have i: "connection_inv ?i" "customer_wallets ?i ?cid = Some w" "order_rows ty cid ?oid ?i = []" for ty cid
    using assms(1) 1(7) none by (simp_all add: order_rows_frame [of ?i s])
  note S = spend_write [OF i(1,2) assms(4,3) 1(8) i(3) 1(9)]
  have wn: "wallet_or_new s ?cid = w" using 1(7) by (simp add: wallet_or_new_def)
  have wt: "wallet_or_new t = (wallet_or_new s)(?cid := w')"
    by (auto simp: 1(10) wallet_or_new_def fun_eq_iff)
  have inv: "connection_inv t" using S(1) by (simp add: 1(10))
  have ord: "order_at ?oid t = Some r"
  proof -
    have "List.find (\<lambda>x. od_id x = ?oid) (orders s) = None"
      using 1(1) by (auto simp: ids_taken_def list_ex_iff find_None_iff')
    then show ?thesis using 1(3) by (simp add: 1(10) find_append)
  qed
  have tot: "od_totalSale r = ?a" "od_customer r = ?cid" "od_id r = ?oid"
    using 1(3,13,14) assms(4) by (simp_all add: toDecimal_cents)
  have pre: "od_isPreorder r = pd_isPreorder pd"
    using assms(2) by (auto simp: wallet_order_tx_def Let_def new_order_def split: sum.splits option.splits if_splits)
  have paid: "paid_order ?oid t"
    using 1(2,3,5) by (auto simp: paid_order_def 1(10) row_ok_def)
  have led: "customer_ledger t = customer_ledger s @ [spend_entry ?cid ?oid ?a w w']" by (simp add: 1(10))
  have nr: "\<not> has_refund r t"
    using assms(5) tot(3) by (auto simp: has_refund_def led list_ex_iff spend_entry_def)
  have oc: "original_commission r t = cw_commission w - cw_commission w'"
  proof -
    have "order_rows CSpendOrder ?cid ?oid t = [spend_entry ?cid ?oid ?a w w']"
      using none by (simp add: order_rows_def led spend_entry_simps [OF S(2)])
    moreover have "0 \<le> cw_commission w - cw_commission w'" using S(2,5) assms(3) by (auto simp: wallet_fine_def max_def)
    ultimately show ?thesis by (simp add: original_commission_rows tot spend_entry_simps [OF S(2)])
  qed
  have restored: "told \<and> main_balance u = main_balance s \<and> commission_balance u = commission_balance s
      \<and> map_option od_status (order_at ?oid u) = Some Refunded"
    if "\<not> pd_isPreorder pd" "refundOutOfStockOrderToCustomerWallet ov fb oos reason ?oid t = (told, u)" for ov fb oos reason told u
  proof -
    have u: "told" "u = refund_out_of_stock_tx ov fb oos (refund_reason oos reason) r t"
      using that ord 1(11) pre by (auto simp: refundOutOfStockOrderToCustomerWallet_def)
    let ?c = "min ?a (cw_commission w - cw_commission w')"
    have sh: "refund_shares r t = (?a - ?c, ?c)" by (simp add: refund_shares_def Let_def oc tot)
    have st: "od_status r \<noteq> Refunded" "od_status r \<noteq> Delivered" using 1(11) by simp_all
    note R = refund_tx_open [OF inv _ _ _ st nr u(2) sh, unfolded tot, OF assms(3,4) ord]
    have c: "?c = cw_commission w - cw_commission w'" using S(2,5) assms(3) by (auto simp: wallet_fine_def min_def max_def)
    have "cw_balance (wallet_or_new u ?cid) = cw_balance w" "cw_commission (wallet_or_new u ?cid) = cw_commission w"
      using R(2,3) S(4) unfolding wt c by auto
    moreover have "wallet_or_new u j = wallet_or_new s j" if "j \<noteq> ?cid" for j using R(4) [OF that] that by (simp add: wt)
    ultimately have "cw_balance (wallet_or_new u j) = cw_balance (wallet_or_new s j)
        \<and> cw_commission (wallet_or_new u j) = cw_commission (wallet_or_new s j)" for j
      using wn by (cases "j = ?cid") simp_all
    moreover have "dom (customer_wallets u) = dom (customer_wallets s)"
    proof -
      have "dom (customer_wallets u) = insert ?cid (dom (customer_wallets t))"
        using st nr ord tot by (simp add: u(2) refund_out_of_stock_tx_def Let_def upsert_customer_wallet_def insert_absorb domIff split: option.split)
      then show ?thesis using 1(7) by (auto simp: 1(10))
    qed
    ultimately have "main_balance u = main_balance s" "commission_balance u = commission_balance s"
      by (simp_all add: balances_by_wallet cong: if_cong)
    then show ?thesis using u(1) R(5) by simp
  qed
  show ?thesis
    unfolding Let_def wt wn
  proof (intro conjI allI)
    show "\<not> pd_isPreorder pd \<and> refundOutOfStockOrderToCustomerWallet ov fb oos reason ?oid t = (told, u) \<longrightarrow>
        told \<and> main_balance u = main_balance s \<and> commission_balance u = commission_balance s
        \<and> map_option od_status (order_at ?oid u) = Some Refunded" for ov fb oos reason told u
      using restored by blast
  qed (use S(4,5) inv ord 1(11) tot(1) paid in auto)
qed

definition demo_purse_shop :: shop_db where
  "demo_purse_shop = demo_paid_shop\<lparr>products := [demo_goods]\<rparr>"

definition demo_spending :: prepared where
  "demo_spending = demo_prepared\<lparr>pd_quantity := 2, pd_totalSale := 100000, pd_totalSource := 40000, pd_isPreorder := False,
     pd_preorderFee := 0\<rparr>"

theorem wallet_payment_roundtrip_witness:
  "\<exists>r t u. wallet_order_tx demo_ids ''s1'' demo_spending 25000 50 demo_purse_shop = Inr (r, t)
     \<and> cw_balance (wallet_or_new t ''c1'') = 10000
     \<and> refundOutOfStockOrderToCustomerWallet (\<lambda>_. NaN) 25000 True None ''o1'' t = (True, u)
     \<and> main_balance u = main_balance demo_purse_shop"
proof -
  have f: "pd_customer demo_spending = ''c1''" "pd_totalSale demo_spending = 100000" "pd_product demo_spending = ''p1''"
    "pd_quantity demo_spending = 2" "pd_isPreorder demo_spending = False" "oc_order demo_ids = ''o1''"
    by (simp_all add: demo_spending_def demo_prepared_def demo_ids_def)
  have s: "products demo_purse_shop = [demo_goods]" "orders demo_purse_shop = []" "payments demo_purse_shop = []"
    "customer_wallets demo_purse_shop ''c1'' = Some \<lparr>cw_balance = 110000, cw_commission = 0, cw_usdt = 44 / 10\<rparr>"
    by (simp_all add: demo_purse_shop_def demo_paid_shop_def demo_topup_shop_eq empty_shop_def)
  have inv: "connection_inv demo_purse_shop"
    using connection_inv_cong [of demo_purse_shop demo_paid_shop] demo_paid_connection_inv by (simp add: demo_purse_shop_def)
  have "customer_ledger demo_purse_shop = customer_ledger demo_shop" by (simp add: demo_purse_shop_def demo_shop_def)
  then have l: "\<forall>e \<in> set (customer_ledger demo_purse_shop). cl_refId e \<noteq> oc_order demo_ids"
    by (auto simp: demo_shop_ledger paid_entries_def topup_entry_def Let_def f demo_topup_def)
  obtain r t where tx: "wallet_order_tx demo_ids ''s1'' demo_spending 25000 50 demo_purse_shop = Inr (r, t)"
    by (simp add: wallet_order_tx_def assertPhysicalStockAvailable_def assertCurrentOrderPriceSafe_def f s isOrderPriceSafe_def
        ids_taken_def Let_def)
  obtain told u where u: "refundOutOfStockOrderToCustomerWallet (\<lambda>_. NaN) 25000 True None ''o1'' t = (told, u)" by (metis surj_pair)
  have w: "wallet_or_new demo_purse_shop ''c1'' = \<lparr>cw_balance = 110000, cw_commission = 0, cw_usdt = 44 / 10\<rparr>"
    using s(4) by (simp add: wallet_or_new_def)
  have c: "0 \<le> pd_totalSale demo_spending" "cents (pd_totalSale demo_spending)" by (simp_all add: f)
  from wallet_payment_roundtrip [OF inv tx c l, unfolded Let_def f w] have
    b: "cw_balance (wallet_or_new t ''c1'') + cw_commission (wallet_or_new t ''c1'') = 10000"
      "cw_commission (wallet_or_new t ''c1'') = 0"
    and r: "told \<and> main_balance u = main_balance demo_purse_shop" using u by simp_all blast+
  then have "cw_balance (wallet_or_new t ''c1'') = 10000" by simp
  moreover have "refundOutOfStockOrderToCustomerWallet (\<lambda>_. NaN) 25000 True None ''o1'' t = (True, u)" using u r by simp
  ultimately show ?thesis using tx r by blast
qed

section \<open>Completion by hand charges a reseller once\<close>

lemma linked_touch:
  "linked_customer n s = Inr (cid, w) \<Longrightarrow> customer_wallets s cid = Some w"
  by (rule linked_wallet)

lemma debit_api_cases:
  assumes "debitConnectionBalanceTx_api n amount oid rate now s = Inr t" and "linked_customer n s = Inr (cid, w)"
  obtains "order_rows CSpendOrder cid oid s \<noteq> []" and "t = s"
  | w' e where "order_rows CSpendOrder cid oid s = []" and "amount \<le> cw_balance w + cw_commission w"
    and "w' = spent_wallet rate amount w"
    and "t = add_source_row e (touch_connection n now (write_wallet cid w' [spend_entry cid oid amount w w'] s))"
proof (cases "order_rows CSpendOrder cid oid s = []")
  case True
  show thesis
    by (rule that(2) [OF True _ refl]) (use assms True in \<open>auto simp: debitConnectionBalanceTx_api_def Let_def split: if_splits\<close>)
next
  case False
  show thesis
    by (rule that(1) [OF False]) (use assms False in \<open>auto simp: debitConnectionBalanceTx_api_def split: if_splits\<close>)
qed

lemma incrementSold_frames [simp]:
  "customer_wallets (incrementSoldAndClampAvailable pid q s) = customer_wallets s"
  "customer_ledger (incrementSoldAndClampAvailable pid q s) = customer_ledger s"
  "orders (incrementSoldAndClampAvailable pid q s) = orders s"
  by (simp_all add: incrementSoldAndClampAvailable_def Let_def)

lemma complete_tx_frame:
  assumes "complete_manual_tx ord p conn now s = Inr (u, t)"
  obtains s1 where "map_option od_status (order_at (od_id ord) s) = Some PaidWaitingStock"
    and "(case conn of None \<Rightarrow> Inr s | Some (n, rate) \<Rightarrow>
            if 0 < od_totalSource ord then debitConnectionBalanceTx_api n (od_totalSource ord) (od_id ord) rate now s else Inr s) = Inr s1"
    and "customer_wallets t = customer_wallets s1" and "customer_ledger t = customer_ledger s1"
    and "orders t = modify_rows (\<lambda>r. od_id r = od_id ord)
           (\<lambda>r. r\<lparr>od_status := Delivered, od_deliveredAt := Some now, od_failureReason := None\<rparr>) (orders s1)"
proof -
  let ?d = "case conn of None \<Rightarrow> Inr s | Some (n, rate) \<Rightarrow>
      if 0 < od_totalSource ord then debitConnectionBalanceTx_api n (od_totalSource ord) (od_id ord) rate now s else Inr s"
  have st: "map_option od_status (order_at (od_id ord) s) = Some PaidWaitingStock"
    using assms by (simp add: complete_manual_tx_def split: if_splits)
  with assms obtain s1 where d: "?d = Inr s1" by (cases ?d) (simp_all add: complete_manual_tx_def)
  show thesis
    by (rule that [OF st d])
       (use assms st d in \<open>auto simp: complete_manual_tx_def Let_def update_order_orders split: option.splits if_splits\<close>)
qed

lemma complete_tx_delivered:
  assumes "complete_manual_tx ord p conn now s = Inr (u, t)"
  shows "map_option od_status (order_at (od_id ord) t) = Some Delivered"
    and "complete_manual_tx ord p' conn' now' t = Inl (BadRequest ''Only pending manual orders can be completed here.'')"
proof -
  obtain s1 where st: "map_option od_status (order_at (od_id ord) s) = Some PaidWaitingStock"
    and d: "(case conn of None \<Rightarrow> Inr s | Some (n, rate) \<Rightarrow>
            if 0 < od_totalSource ord then debitConnectionBalanceTx_api n (od_totalSource ord) (od_id ord) rate now s else Inr s) = Inr s1"
    and t: "orders t = modify_rows (\<lambda>r. od_id r = od_id ord)
           (\<lambda>r. r\<lparr>od_status := Delivered, od_deliveredAt := Some now, od_failureReason := None\<rparr>) (orders s1)"
    by (rule complete_tx_frame [OF assms])
  have "orders s1 = orders s"
    using d by (auto simp: debitConnectionBalanceTx_api_def Let_def split: option.splits if_splits prod.splits sum.splits)
  with st show del: "map_option od_status (order_at (od_id ord) t) = Some Delivered"
    by (auto simp: t find_modify_key [where key = od_id])
  then obtain r where "order_at (od_id ord) t = Some r" "od_status r = Delivered" by auto
  then show "complete_manual_tx ord p' conn' now' t = Inl (BadRequest ''Only pending manual orders can be completed here.'')"
    by (simp add: complete_manual_tx_def)
qed

text \<open>
  C15. Completing an order of an upstream shop's goods by hand takes the wholesale amount from the
  reseller's linked wallet, unless the ledger has a debit of that order already: then nothing is
  taken, even when that debit was refunded in the meantime, and the goods are delivered for free.
  Either way the order is delivered, nobody else pays, and a second completion is refused.
\<close>

theorem completion_charges_unless_ever_debited:
  assumes "connection_inv s" and "linked_customer n s = Inr (cid, w)"
    and "0 < od_totalSource ord" and "cents (od_totalSource ord)"
    and "complete_manual_tx ord p (Some (n, rate)) now s = Inr ((), t)"
  shows "(let w' = wallet_or_new t cid in
       if order_rows CSpendOrder cid (od_id ord) s = []
       then cw_balance w' + cw_commission w' = cw_balance w + cw_commission w - od_totalSource ord
         \<and> cw_commission w' = max 0 (cw_commission w - od_totalSource ord)
         \<and> length (order_rows CSpendOrder cid (od_id ord) t) = 1
       else w' = w \<and> customer_ledger t = customer_ledger s)
    \<and> (\<forall>j. j = cid \<or> wallet_or_new t j = wallet_or_new s j) \<and> connection_inv t
    \<and> map_option od_status (order_at (od_id ord) t) = Some Delivered
    \<and> (\<forall>p' conn' now'. \<exists>e. complete_manual_tx ord p' conn' now' t = Inl e)"
proof -
  let ?a = "od_totalSource ord"
  obtain s1 where "debitConnectionBalanceTx_api n ?a (od_id ord) rate now s = Inr s1"
    and t: "customer_wallets t = customer_wallets s1" "customer_ledger t = customer_ledger s1"
    using assms(3) by (rule_tac complete_tx_frame [OF assms(5)]) simp
  then have d: "debitConnectionBalanceTx_api n ?a (od_id ord) rate now s = Inr s1" by simp
  have w: "customer_wallets s cid = Some w" "wallet_or_new s cid = w"
    using linked_wallet [OF assms(2)] by (simp_all add: wallet_at_new)
  have wt: "wallet_or_new t = wallet_or_new s1" by (simp add: wallet_or_new_def t fun_eq_iff)
  have inv: "connection_inv t = connection_inv s1" by (rule connection_inv_cong) (simp_all add: t)
  have rest: "map_option od_status (order_at (od_id ord) t) = Some Delivered
      \<and> (\<forall>p' conn' now'. \<exists>e. complete_manual_tx ord p' conn' now' t = Inl e)"
    using complete_tx_delivered [OF assms(5)] by blast
  from d assms(2) show ?thesis
  proof (cases rule: debit_api_cases)
    case 1
    then show ?thesis using rest assms(1) inv w by (simp add: wt t(2) wallet_or_new_def)
  next
    case (2 w' e)
    note S = spend_write [OF assms(1) w(1) assms(4) less_imp_le [OF assms(3)] 2(2,1,3)]
    have s1: "connection_inv s1" using S(1) by (simp add: 2(4))
    have "wallet_or_new s1 = (wallet_or_new s)(cid := w')" by (auto simp: 2(4) wallet_or_new_def fun_eq_iff)
    moreover have "order_rows CSpendOrder cid (od_id ord) t = [spend_entry cid (od_id ord) ?a w w']"
      using 2(1) by (simp add: order_rows_def t(2) 2(4) spend_entry_simps [OF S(2)])
    ultimately show ?thesis using rest S(4,5) s1 2(1) unfolding inv wt by (simp add: Let_def)
  qed
qed

definition demo_manual :: order where
  "demo_manual = demo_order\<lparr>od_status := PaidWaitingStock, od_totalSource := 60000\<rparr>"

definition demo_manual_shop :: shop_db where
  "demo_manual_shop = demo_paid_shop\<lparr>orders := [demo_manual]\<rparr>"

lemma demo_manual_simps [simp]:
  "od_id demo_manual = ''o1''" "od_status demo_manual = PaidWaitingStock" "od_totalSource demo_manual = 60000"
  "order_at ''o1'' demo_manual_shop = Some demo_manual"
  by (simp_all add: demo_manual_def demo_order_def demo_manual_shop_def)

lemma demo_manual_shop:
  "connection_inv demo_manual_shop"
  "linked_customer ''n1'' demo_manual_shop = Inr (''c1'', \<lparr>cw_balance = 110000, cw_commission = 0, cw_usdt = 44 / 10\<rparr>)"
  "order_rows ty cid ''o1'' demo_manual_shop = []"
proof -
  have "connection_inv demo_manual_shop = connection_inv demo_paid_shop"
    by (rule connection_inv_cong) (simp_all add: demo_manual_shop_def)
  then show "connection_inv demo_manual_shop" using demo_paid_connection_inv by simp
  show "linked_customer ''n1'' demo_manual_shop = Inr (''c1'', \<lparr>cw_balance = 110000, cw_commission = 0, cw_usdt = 44 / 10\<rparr>)"
    by (simp add: linked_customer_def demo_manual_shop_def demo_paid_shop_def demo_topup_shop_eq demo_connection_def)
  show "order_rows ty cid ''o1'' demo_manual_shop = []"
    using demo_no_order_rows order_rows_frame [of demo_manual_shop demo_paid_shop] by (simp add: demo_manual_shop_def)
qed

theorem completion_charges_unless_ever_debited_witness:
  "\<exists>t. complete_manual_tx demo_manual None (Some (''n1'', 25000)) 40 demo_manual_shop = Inr ((), t)
     \<and> cw_balance (wallet_or_new t ''c1'') + cw_commission (wallet_or_new t ''c1'') = 50000
     \<and> length (order_rows CSpendOrder ''c1'' ''o1'' t) = 1"
proof -
  have "\<exists>t. debitConnectionBalanceTx_api ''n1'' 60000 ''o1'' 25000 40 demo_manual_shop = Inr t"
    by (simp add: debitConnectionBalanceTx_api_def demo_manual_shop Let_def)
  then have "\<exists>t. complete_manual_tx demo_manual None (Some (''n1'', 25000)) 40 demo_manual_shop = Inr ((), t)"
    by (auto simp: complete_manual_tx_def Let_def)
  then obtain t where t: "complete_manual_tx demo_manual None (Some (''n1'', 25000)) 40 demo_manual_shop = Inr ((), t)" ..
  have a: "0 < od_totalSource demo_manual" "cents (od_totalSource demo_manual)" by simp_all
  show ?thesis
    using completion_charges_unless_ever_debited [OF demo_manual_shop(1,2) a t] t
    by (intro exI [of _ t]) (simp add: Let_def demo_manual_shop(3))
qed

section \<open>Claw-back of a referral commission\<close>

text \<open>The order's referrer, what is left of the commission, and wallets in whole cents.\<close>

definition commission_left :: "ident \<Rightarrow> ident \<Rightarrow> rat \<Rightarrow> shop_db \<Rightarrow> bool" where
  "commission_left oid cid c s \<longleftrightarrow> (\<exists>r. order_at oid s = Some r \<and> od_affiliateCustomer r = Some cid
     \<and> od_affiliateCommission r = Some c) \<and> 0 \<le> c \<and> cents c
     \<and> cents (cw_commission (wallet_or_new s cid)) \<and> cents (cw_balance (wallet_or_new s cid)) \<and> shop_money_ok s"

text \<open>A state after taking back from \<open>c\<close> down to \<open>c'\<close>.\<close>

definition clawed_back :: "ident \<Rightarrow> rat \<Rightarrow> rat \<Rightarrow> shop_db \<Rightarrow> shop_db \<Rightarrow> bool" where
  "clawed_back cid c c' s t \<longleftrightarrow>
     wallet_or_new t cid = (wallet_or_new s cid)\<lparr>cw_commission := cw_commission (wallet_or_new s cid) - (c - c')\<rparr>
     \<and> (\<forall>j. j = cid \<or> wallet_or_new t j = wallet_or_new s j)"

lemma clawed_back_trans: "clawed_back cid c c' s t \<Longrightarrow> clawed_back cid c' c'' t u \<Longrightarrow> clawed_back cid c c'' s u"
  unfolding clawed_back_def by (elim conjE, intro conjI) (simp, metis)

lemma clawed_back_refl: "clawed_back cid c c s s"
  by (simp add: clawed_back_def)

lemma revoke_amount_bounds:
  assumes "0 \<le> c" and "cents c"
  shows "0 \<le> revoke_amount c req" and "revoke_amount c req \<le> c" and "cents (revoke_amount c req)"
    and "c \<le> x \<Longrightarrow> 0 < x \<Longrightarrow> revoke_amount c (Some (Fin x)) = c"
proof -
  have cc: "to_fixed 2 c = c" using assms(2) by (rule to_fixed_grid)
  obtain x where x: "revoke_amount c req = to_fixed 2 (min c x)" "0 \<le> min c x"
  proof (cases req)
    case None
    show thesis by (rule that [of c]) (use None assms in \<open>simp_all add: revoke_amount_def\<close>)
  next
    case (Some v)
    show thesis
    proof (cases "is_finite v \<and> js_less (Fin 0) v")
      case True
      then obtain y where "v = Fin y" "0 < y" by (cases v) auto
      with Some show thesis by (intro that [of y]) (use assms in \<open>simp_all add: revoke_amount_def\<close>)
    next
      case False
      show thesis by (rule that [of c]) (use Some False assms in \<open>auto simp: revoke_amount_def\<close>)
    qed
  qed
  show "0 \<le> revoke_amount c req" unfolding x(1) by (rule to_fixed_nonneg [OF x(2)])
  show "revoke_amount c req \<le> c" unfolding x(1) using to_fixed_mono [where d = 2, OF min.cobounded1 x(2)] by (metis cc)
  show "cents (revoke_amount c req)" unfolding x(1) by simp
  show "c \<le> x \<Longrightarrow> 0 < x \<Longrightarrow> revoke_amount c (Some (Fin x)) = c" for x
    by (simp add: revoke_amount_def cc min_def)
qed

lemma revokeCommission_step:
  assumes "commission_left oid cid c s"
  shows "commission_left oid cid (c - revoke_amount c req) (revokeCommission oid req s)"
    and "clawed_back cid c (c - revoke_amount c req) s (revokeCommission oid req s)"
proof -
  obtain r where r: "order_at oid s = Some r" "od_affiliateCustomer r = Some cid" "od_affiliateCommission r = Some c"
    and c: "0 \<le> c" "cents c" and w: "cents (cw_commission (wallet_or_new s cid))" "cents (cw_balance (wallet_or_new s cid))"
    and m: "shop_money_ok s" using assms by (auto simp: commission_left_def)
  let ?a = "revoke_amount c req"
  note b = revoke_amount_bounds(1-3) [OF c, where req = req]
  let ?t = "revokeCommission oid req s"
  have "commission_left oid cid (c - ?a) ?t \<and> clawed_back cid c (c - ?a) s ?t"
  proof (cases "?a \<le> 0")
    case True
    with b have "?a = 0" by simp
    then show ?thesis using assms r by (simp add: revokeCommission_def clawed_back_refl)
  next
    case False
    let ?o = "update_order oid (\<lambda>r. r\<lparr>od_affiliateCommission := Some (toDecimal (c - ?a))\<rparr>) s"
    let ?u = "upsert_customer_wallet cid ?o" and ?w = "wallet_or_new s cid"
    let ?w' = "?w\<lparr>cw_commission := toDecimal (cw_commission ?w - ?a)\<rparr>"
    let ?e = "commission_entry CRefundOrder cid oid (- ?a) ?w ?w'"
    have same: "wallet_or_new ?o = wallet_or_new s" by (simp add: wallet_or_new_def fun_eq_iff)
    have t: "?t = write_wallet cid ?w' [?e] ?u"
      using r False by (simp add: revokeCommission_def Let_def same)
    have d: "toDecimal (c - ?a) = c - ?a" "toDecimal (cw_commission ?w - ?a) = cw_commission ?w - ?a"
      using b(3) c(2) w(1) by (auto intro!: toDecimal_cents on_grid_diff)
    have "shop_money_ok ?t" unfolding t
      by (rule shop_money_write)
         (use w m in \<open>auto simp: commission_entry_def main_delta_def commission_delta_def same toDecimal_cents shop_money_upsert\<close>)
    moreover have "order_at oid ?t = Some (r\<lparr>od_affiliateCommission := Some (c - ?a)\<rparr>)"
      using r(1) by (simp add: t d)
    moreover have "wallet_or_new ?t = (wallet_or_new s)(cid := ?w')" by (auto simp: t same fun_eq_iff)
    ultimately show ?thesis
      using r(2) b c w by (auto simp: commission_left_def clawed_back_def d on_grid_diff)
  qed
  then show "commission_left oid cid (c - ?a) ?t" "clawed_back cid c (c - ?a) s ?t" by blast+
qed

lemma guarded_branches:
  "(if a then s else case oa of None \<Rightarrow> s | Some r \<Rightarrow> case f r of None \<Rightarrow> s | Some i \<Rightarrow>
      if g r then s else if h r i then s else R (k r i)) = s
   \<or> (\<exists>y. (if a then s else case oa of None \<Rightarrow> s | Some r \<Rightarrow> case f r of None \<Rightarrow> s | Some i \<Rightarrow>
      if g r then s else if h r i then s else R (k r i)) = R y)"
  by (auto split: option.split)

lemma revokeForRefund_cases:
  obtains "revokeCommissionForRefund oid x s = s"
  | y where "revokeCommissionForRefund oid x s = revokeCommission oid (Some (Fin y)) s"
proof -
  have "revokeCommissionForRefund oid x s = s
      \<or> (\<exists>y. revokeCommissionForRefund oid x s = revokeCommission oid (Some (Fin y)) s)"
    unfolding revokeCommissionForRefund_def Let_def by (rule guarded_branches)
  then show thesis using that by blast
qed

lemma revokeForRefund_step:
  assumes "commission_left oid cid c s"
  obtains c' where "0 \<le> c'" and "c' \<le> c" and "commission_left oid cid c' (revokeCommissionForRefund oid x s)"
    and "clawed_back cid c c' s (revokeCommissionForRefund oid x s)"
proof (cases rule: revokeForRefund_cases [of oid x s])
  case 1
  show thesis by (rule that [of c]) (use 1 assms in \<open>auto simp: clawed_back_refl commission_left_def\<close>)
next
  case (2 y)
  have c: "0 \<le> c" "cents c" using assms by (simp_all add: commission_left_def)
  note b = revoke_amount_bounds(1-3) [OF c, where req = "Some (Fin y)"]
  show thesis
    by (rule that [of "c - revoke_amount c (Some (Fin y))"])
       (use b 2 revokeCommission_step [OF assms, of "Some (Fin y)"] in simp_all)
qed

text \<open>
  C16. However often and for whatever amounts the commission of an order is taken back, what is taken
  from the referrer's commission balance is exactly what the order's commission went down by, never
  more than it was; nobody else's wallet and no main balance moves and the books stay reconciled.
  (The balance itself is not looked at: it can become negative.)
\<close>

theorem clawback_bounded_by_commission:
  assumes "commission_left oid cid c s" and "t = fold (revokeCommissionForRefund oid) xs s"
  shows "\<exists>c'. 0 \<le> c' \<and> c' \<le> c \<and> (\<exists>r. order_at oid t = Some r \<and> od_affiliateCommission r = Some c')
    \<and> wallet_or_new t cid = (wallet_or_new s cid)\<lparr>cw_commission := cw_commission (wallet_or_new s cid) - (c - c')\<rparr>
    \<and> (\<forall>j. j = cid \<or> wallet_or_new t j = wallet_or_new s j) \<and> shop_money_ok t"
proof -
  have "\<exists>c'. 0 \<le> c' \<and> c' \<le> c \<and> commission_left oid cid c' (fold (revokeCommissionForRefund oid) xs s)
      \<and> clawed_back cid c c' s (fold (revokeCommissionForRefund oid) xs s)"
    using assms(1)
  proof (induction xs arbitrary: c s)
    case Nil
    then show ?case by (auto simp: commission_left_def clawed_back_refl)
  next
    case (Cons x xs)
    obtain c1 where c1: "0 \<le> c1" "c1 \<le> c" "commission_left oid cid c1 (revokeCommissionForRefund oid x s)"
      "clawed_back cid c c1 s (revokeCommissionForRefund oid x s)" by (rule revokeForRefund_step [OF Cons.prems])
    from Cons.IH [OF c1(3)] obtain c2 where "0 \<le> c2" "c2 \<le> c1"
      "commission_left oid cid c2 (fold (revokeCommissionForRefund oid) xs (revokeCommissionForRefund oid x s))"
      "clawed_back cid c1 c2 (revokeCommissionForRefund oid x s) (fold (revokeCommissionForRefund oid) xs (revokeCommissionForRefund oid x s))"
      by blast
    then show ?case using c1(2) clawed_back_trans [OF c1(4)] by (intro exI [of _ c2]) auto
  qed
  then show ?thesis by (auto simp: assms(2) commission_left_def clawed_back_def)
qed

definition demo_clawback_shop :: shop_db where
  "demo_clawback_shop = demo_paid_shop\<lparr>orders := [demo_order\<lparr>od_affiliateCustomer := Some ''c1'',
     od_affiliateCommission := Some 10000\<rparr>]\<rparr>"

lemma demo_clawback: "commission_left ''o1'' ''c1'' 10000 demo_clawback_shop"
proof -
  have "shop_inv demo_clawback_shop = shop_inv demo_paid_shop"
    by (rule shop_inv_cong) (simp_all add: demo_clawback_shop_def)
  then have "shop_money_ok demo_clawback_shop" using demo_paid_connection_inv by (simp add: connection_inv_def shop_inv_def)
  moreover have "wallet_or_new demo_clawback_shop ''c1'' = \<lparr>cw_balance = 110000, cw_commission = 0, cw_usdt = 44 / 10\<rparr>"
    by (simp add: wallet_or_new_def demo_clawback_shop_def demo_paid_shop_def)
  moreover have "order_at ''o1'' demo_clawback_shop = Some (demo_order\<lparr>od_affiliateCustomer := Some ''c1'',
      od_affiliateCommission := Some 10000\<rparr>)"
    by (simp add: demo_clawback_shop_def demo_order_def)
  ultimately show ?thesis by (simp add: commission_left_def)
qed

theorem clawback_bounded_by_commission_witness:
  "\<exists>c'. 0 \<le> c' \<and> c' \<le> 10000 \<and> cw_commission (wallet_or_new (fold (revokeCommissionForRefund ''o1'')
       [Fin 40000, Fin 90000] demo_clawback_shop) ''c1'') = c' - 10000"
proof -
  have "wallet_or_new demo_clawback_shop ''c1'' = \<lparr>cw_balance = 110000, cw_commission = 0, cw_usdt = 44 / 10\<rparr>"
    by (simp add: wallet_or_new_def demo_clawback_shop_def demo_paid_shop_def)
  with clawback_bounded_by_commission [OF demo_clawback refl, of "[Fin 40000, Fin 90000]"] show ?thesis by auto
qed

end
