(* ===== verification/PreorderCancellation.thy ===== *)
theory PreorderCancellation
  imports Checkout
begin

text \<open>
  The cancellation of paid pre-orders: \<open>apps/api/src/orders/orders.service.ts\<close>, from the customer's
  request in the Telegram bot to the seller's decision and the refund. The transactions run under
  the lock of the order row, so each is one step. Messages are left out.
\<close>

section \<open>Requests and refusals\<close>

text \<open>\<open>True\<close>: a new request was filed.\<close>

definition requestPreorderCancellationFromTelegram ::
  "ident \<Rightarrow> string \<Rightarrow> ident \<Rightarrow> shop_db \<Rightarrow> bool result \<times> shop_db" where
  "requestPreorderCancellationFromTelegram shop telegramUserId orderId s =
     (case List.find (\<lambda>r. od_id r = orderId \<and> od_shop r = shop
            \<and> (case customer_at (od_customer r) s of None \<Rightarrow> False | Some c \<Rightarrow> cu_telegramUserId c = telegramUserId)) (orders s) of
        None \<Rightarrow> (Inl (NotFound ''Order not found.''), s)
      | Some ord \<Rightarrow>
        if \<not> od_isPreorder ord then (Inl (BadRequest ''Only pre-orders can request cancellation.''), s)
        else if od_payment ord \<noteq> PayPaid \<or> od_status ord \<noteq> PaidWaitingStock
        then (Inl (BadRequest ''This pre-order is no longer waiting for stock and cannot be canceled.''), s)
        else if od_cancellation ord = PcRequested then (Inr False, s)
        else if od_cancellation ord = PcApproved \<or> od_cancellation ord = PcSellerCanceled
        then (Inl (BadRequest ''This pre-order has already been canceled.''), s)
        else (Inr True, add_event (od_id ord) ''preorder_cancellation_requested''
               (update_order (od_id ord) (\<lambda>r. r\<lparr>od_cancellation := PcRequested\<rparr>) s)))"

definition rejectPreorderCancellation :: "ident \<Rightarrow> ident \<Rightarrow> shop_db \<Rightarrow> unit result \<times> shop_db" where
  "rejectPreorderCancellation shop orderId s =
     (case List.find (\<lambda>r. od_id r = orderId \<and> od_shop r = shop) (orders s) of
        None \<Rightarrow> (Inl (NotFound ''Order not found.''), s)
      | Some ord \<Rightarrow>
        if od_cancellation ord \<noteq> PcRequested
        then (Inl (BadRequest ''This order has no pending cancellation request.''), s)
        else if od_status ord \<noteq> PaidWaitingStock \<or> od_payment ord \<noteq> PayPaid
        then (Inl (BadRequest ''This cancellation request can no longer be rejected.''), s)
        else (Inr (), add_event (od_id ord) ''preorder_cancellation_rejected''
               (update_order (od_id ord) (\<lambda>r. r\<lparr>od_cancellation := PcRejected,
                  od_failureReason := Some ''Yeu cau huy da bi seller tu choi. Don tiep tuc cho hang.''\<rparr>) s)))"

section \<open>The refund\<close>

datatype cancel_action = ApproveCustomerRequest | SellerCancel

definition refund_ref :: "cancel_action \<Rightarrow> string" where
  "refund_ref a = (case a of SellerCancel \<Rightarrow> ''preorder_seller_cancel_refund''
     | ApproveCustomerRequest \<Rightarrow> ''preorder_customer_cancel_refund'')"

definition is_refund_row :: "string \<Rightarrow> order \<Rightarrow> customer_entry \<Rightarrow> bool" where
  "is_refund_row ref ord e \<longleftrightarrow> cl_customer e = od_customer ord \<and> cl_type e = CRefundOrder
     \<and> cl_refType e = ref \<and> cl_refId e = od_id ord"

text \<open>What goes back to the commission balance: the share the original payment took from it.\<close>

definition commission_refund :: "order \<Rightarrow> rat \<Rightarrow> shop_db \<Rightarrow> rat" where
  "commission_refund ord amount s =
     (let orderTotal = max 0 (od_totalSale ord);
          refundRatio = (if orderTotal > 0 then min 1 (amount / orderTotal) else 0)
      in min amount (to_fixed 2 (original_commission ord s * refundRatio)))"

definition preorder_refund_entry :: "string \<Rightarrow> order \<Rightarrow> rat \<Rightarrow> customer_wallet \<Rightarrow> customer_wallet \<Rightarrow> customer_entry" where
  "preorder_refund_entry ref ord amount w w' =
     \<lparr>cl_customer = od_customer ord, cl_type = CRefundOrder, cl_currency = VND, cl_amount = toDecimal amount,
      cl_before = toDecimal (cw_balance w), cl_after = cw_balance w',
      cl_commissionBefore = Some (toDecimal (cw_commission w)), cl_commissionAfter = Some (cw_commission w'),
      cl_refType = ref, cl_refId = od_id ord\<rparr>"

definition credited_wallet :: "rat \<Rightarrow> rat \<Rightarrow> rat \<Rightarrow> customer_wallet \<Rightarrow> customer_wallet" where
  "credited_wallet rate mainRefund commissionRefund w =
     \<lparr>cw_balance = toDecimal (cw_balance w + mainRefund),
      cw_commission = toDecimal (cw_commission w + commissionRefund),
      cw_usdt = toDecimal (usdt_synced rate (cw_balance w + mainRefund))\<rparr>"

definition creditPreorderRefund :: "order \<Rightarrow> rat \<Rightarrow> string \<Rightarrow> rat \<Rightarrow> shop_db \<Rightarrow> shop_db result" where
  "creditPreorderRefund ord amount ref usdtVndRate s0 =
     (if list_ex (is_refund_row ref ord) (customer_ledger s0)
      then Inl (BadRequest ''This pre-order has already been refunded.'')
      else
        (let cid = od_customer ord; s = upsert_customer_wallet cid s0; w = wallet_or_new s cid;
             c = commission_refund ord amount s;
             w' = credited_wallet usdtVndRate (max 0 (amount - c)) c w
         in Inr (write_wallet cid w' [preorder_refund_entry ref ord amount w w'] s)))"

definition resolve_preorder_tx :: "rat \<Rightarrow> ident \<Rightarrow> cancel_action \<Rightarrow> ident \<Rightarrow> shop_db \<Rightarrow> (unit \<times> shop_db) result" where
  "resolve_preorder_tx usdtVndRate shop action orderId s =
     (case List.find (\<lambda>r. od_id r = orderId \<and> od_shop r = shop) (orders s) of
        None \<Rightarrow> Inl (NotFound ''Order not found.'')
      | Some ord \<Rightarrow>
        if \<not> od_isPreorder ord \<or> od_status ord \<noteq> PaidWaitingStock \<or> od_payment ord \<noteq> PayPaid
        then Inl (BadRequest ''Only a paid pre-order waiting for stock can be canceled.'')
        else if action = ApproveCustomerRequest \<and> od_cancellation ord \<noteq> PcRequested
        then Inl (BadRequest ''This order has no pending customer cancellation request.'')
        else if od_cancellation ord = PcApproved \<or> od_cancellation ord = PcSellerCanceled
        then Inl (BadRequest ''This pre-order has already been canceled and refunded.'')
        else
          (let refund = calculatePreorderCancellationRefund (od_totalSale ord) (od_preorderFee ord) (action = SellerCancel)
           in case creditPreorderRefund ord (refundAmount refund) (refund_ref action) usdtVndRate s of
                Inl e \<Rightarrow> Inl e
              | Inr s1 \<Rightarrow>
                Inr ((), add_event (od_id ord)
                  (if action = SellerCancel then ''preorder_canceled_by_seller'' else ''preorder_cancellation_approved'')
                  (update_order (od_id ord) (\<lambda>r. r\<lparr>od_status := Refunded, od_payment := PayRefunded,
                     od_failureReason := Some (if action = SellerCancel
                       then ''Shop da huy don dat truoc va hoan toan bo tien vao vi khach.''
                       else ''Yeu cau huy da duoc duyet. Tien hang da hoan vao vi; phi dat truoc khong hoan.''),
                     od_cancellation := (if action = SellerCancel then PcSellerCanceled else PcApproved),
                     od_cancelRefund := toDecimal (refundAmount refund),
                     od_cancelFeeRefund := toDecimal (feeRefundAmount refund)\<rparr>) s1))))"

definition resolvePreorderCancellation ::
  "jsnum \<Rightarrow> rat \<Rightarrow> ident \<Rightarrow> cancel_action \<Rightarrow> ident \<Rightarrow> shop_db \<Rightarrow> unit result \<times> shop_db" where
  "resolvePreorderCancellation override fallback shop action orderId s =
     transaction (resolve_preorder_tx (resolveUsdtVndRate override fallback) shop action orderId) s"

section \<open>The refund keeps the books\<close>

lemma preorder_entry_simps:
  "wallet_fine w \<Longrightarrow> main_delta (preorder_refund_entry ref ord a w w') = cw_balance w' - cw_balance w"
  "wallet_fine w \<Longrightarrow> commission_delta (preorder_refund_entry ref ord a w w') = cw_commission w' - cw_commission w"
  "cl_customer (preorder_refund_entry ref ord a w w') = od_customer ord"
  "spend_fine (preorder_refund_entry ref ord a w w')"
  "is_refund_row ref ord (preorder_refund_entry ref ord a w w')"
  "ref \<noteq> ''order'' \<Longrightarrow> is_order_row ty cid oid (preorder_refund_entry ref ord a w w') = False"
  by (auto simp: preorder_refund_entry_def main_delta_def commission_delta_def spend_fine_def is_refund_row_def
      is_order_row_def toDecimal_cents wallet_fineD)

lemma refund_ref_not_order: "refund_ref a \<noteq> ''order''"
  by (cases a) (simp_all add: refund_ref_def)

lemma connection_inv_wallet_row:
  assumes "connection_inv s" and "wallet_fine w'" and "cl_customer e = cid" and "spend_fine e"
    and "\<And>ty cid oid. \<not> is_order_row ty cid oid e"
    and "main_delta e = cw_balance w' - cw_balance (wallet_or_new s cid)"
    and "commission_delta e = cw_commission w' - cw_commission (wallet_or_new s cid)"
  shows "connection_inv (write_wallet cid w' [e] s)"
proof -
  have "shop_inv (write_wallet cid w' [e] s)"
    by (rule shop_inv_write) (use assms in \<open>auto simp: connection_inv_def\<close>)
  moreover have "outstanding_ok (write_wallet cid w' [e] s) = outstanding_ok s"
    using assms(5) by (simp add: outstanding_ok_def)
  ultimately show ?thesis using assms(1,4) by (simp add: connection_inv_def)
qed

lemma commission_refund_fine:
  assumes inv: "connection_inv s" and amount: "0 \<le> amount" "cents amount"
  shows "0 \<le> commission_refund ord amount s" and "commission_refund ord amount s \<le> amount"
    and "cents (commission_refund ord amount s)" and "commission_refund ord amount s \<le> original_commission ord s"
proof -
  note oc = original_commission_fine [OF inv, of ord]
  let ?r = "if max 0 (od_totalSale ord) > 0 then min 1 (amount / max 0 (od_totalSale ord)) else 0"
  have r: "0 \<le> ?r" "?r \<le> 1" using amount by auto
  have p: "0 \<le> original_commission ord s * ?r" using oc r by simp
  show "0 \<le> commission_refund ord amount s" "commission_refund ord amount s \<le> amount"
    using to_fixed_nonneg [OF p, of 2] amount(1) by (auto simp: commission_refund_def Let_def)
  show "cents (commission_refund ord amount s)" using amount(2) by (auto simp: commission_refund_def Let_def)
  have "original_commission ord s * ?r \<le> original_commission ord s"
    using oc(1) r by (simp add: mult_left_le)
  with p have "to_fixed 2 (original_commission ord s * ?r) \<le> to_fixed 2 (original_commission ord s)"
    by (intro to_fixed_mono)
  then show "commission_refund ord amount s \<le> original_commission ord s"
    using oc(2) by (auto simp: commission_refund_def Let_def to_fixed_grid min_def)
qed

lemma credit_preorder_cases:
  assumes inv: "connection_inv s" and amount: "0 \<le> amount" "cents amount" and ref: "ref \<noteq> ''order''"
    and c: "creditPreorderRefund ord amount ref rate s = Inr t"
  shows "connection_inv t" and "cw_balance (wallet_or_new t (od_customer ord))
        = cw_balance (wallet_or_new s (od_customer ord)) + (amount - commission_refund ord amount s)"
    and "cw_commission (wallet_or_new t (od_customer ord))
        = cw_commission (wallet_or_new s (od_customer ord)) + commission_refund ord amount s"
    and "\<And>j. j \<noteq> od_customer ord \<Longrightarrow> wallet_or_new t j = wallet_or_new s j"
    and "orders t = orders s" and "list_ex (is_refund_row ref ord) (customer_ledger t)"
proof -
  let ?cid = "od_customer ord" and ?s = "upsert_customer_wallet (od_customer ord) s"
  let ?w = "wallet_or_new s ?cid"
  have cr: "commission_refund ord amount ?s = commission_refund ord amount s" by (simp add: commission_refund_def)
  let ?c = "commission_refund ord amount s"
  let ?w' = "credited_wallet rate (amount - ?c) ?c ?w"
  have fine: "wallet_fine ?w" using inv by (simp add: connection_inv_def wallet_fine_new)
  note cf = commission_refund_fine [OF inv amount, of ord]
  have t: "t = write_wallet ?cid ?w' [preorder_refund_entry ref ord amount ?w ?w'] ?s"
    using c cf(2) by (simp add: creditPreorderRefund_def Let_def cr max_def split: if_splits)
  have bal: "cw_balance ?w' = cw_balance ?w + (amount - ?c)" "cw_commission ?w' = cw_commission ?w + ?c"
    using fine cf amount by (simp_all add: credited_wallet_def toDecimal_cents wallet_fineD on_grid_add on_grid_diff)
  have "wallet_fine ?w'" using fine bal cf amount by (auto simp: wallet_fine_def)
  then show "connection_inv t" unfolding t
    using connection_inv_upsert [OF inv] ref bal
    by (intro connection_inv_wallet_row) (auto simp: preorder_entry_simps fine)
  show "cw_balance (wallet_or_new t ?cid) = cw_balance ?w + (amount - ?c)"
    "cw_commission (wallet_or_new t ?cid) = cw_commission ?w + ?c" using bal by (simp_all add: t)
  show "wallet_or_new t j = wallet_or_new s j" if "j \<noteq> ?cid" for j using that by (simp add: t)
  show "orders t = orders s" "list_ex (is_refund_row ref ord) (customer_ledger t)"
    by (simp_all add: t preorder_entry_simps)
qed

lemma resolve_cases:
  assumes "resolvePreorderCancellation ov fb shop action oid s = (Inr u, t)"
  obtains ord s1 where "ord \<in> set (orders s)" and "od_id ord = oid" and "od_isPreorder ord"
    and "od_status ord = PaidWaitingStock" and "od_payment ord = PayPaid"
    and "action = ApproveCustomerRequest \<Longrightarrow> od_cancellation ord = PcRequested"
    and "creditPreorderRefund ord (refundAmount (calculatePreorderCancellationRefund (od_totalSale ord) (od_preorderFee ord)
           (action = SellerCancel))) (refund_ref action) (resolveUsdtVndRate ov fb) s = Inr s1"
    and "\<exists>reason ev. t = add_event oid ev (update_order oid (\<lambda>r. r\<lparr>od_status := Refunded, od_payment := PayRefunded,
           od_failureReason := reason,
           od_cancellation := (if action = SellerCancel then PcSellerCanceled else PcApproved),
           od_cancelRefund := toDecimal (refundAmount (calculatePreorderCancellationRefund (od_totalSale ord) (od_preorderFee ord)
             (action = SellerCancel))),
           od_cancelFeeRefund := toDecimal (feeRefundAmount (calculatePreorderCancellationRefund (od_totalSale ord)
             (od_preorderFee ord) (action = SellerCancel)))\<rparr>) s1)"
proof -
  have tx: "resolve_preorder_tx (resolveUsdtVndRate ov fb) shop action oid s = Inr (u, t)"
    using assms by (auto simp: resolvePreorderCancellation_def transaction_def split: sum.splits)
  then obtain ord where ord: "List.find (\<lambda>r. od_id r = oid \<and> od_shop r = shop) (orders s) = Some ord"
    by (auto simp: resolve_preorder_tx_def split: option.splits)
  have id: "od_id ord = oid" "ord \<in> set (orders s)" using find_SomeD [OF ord] by auto
  let ?a = "refundAmount (calculatePreorderCancellationRefund (od_totalSale ord) (od_preorderFee ord) (action = SellerCancel))"
  obtain s1 where s1: "creditPreorderRefund ord ?a (refund_ref action) (resolveUsdtVndRate ov fb) s = Inr s1"
    using tx by (auto simp: resolve_preorder_tx_def ord Let_def split: if_splits sum.splits)
  show thesis
  proof (rule that [OF id(2,1) _ _ _ _ s1])
    show "od_isPreorder ord" "od_status ord = PaidWaitingStock" "od_payment ord = PayPaid"
      "action = ApproveCustomerRequest \<Longrightarrow> od_cancellation ord = PcRequested"
      using tx by (auto simp: resolve_preorder_tx_def ord split: if_splits)
  qed (use tx s1 id in \<open>auto simp: resolve_preorder_tx_def ord Let_def split: if_splits\<close>)
qed

lemma update_order_hit:
  assumes "r \<in> set (orders (update_order i f s))" and "od_id r = i" and "\<And>r. od_id (f r) = od_id r"
  shows "\<exists>r0. r = f r0"
proof -
  have "r \<in> (\<lambda>r. if od_id r = i then f r else r) ` set (orders s)"
    using assms(1) by (simp add: update_order_def modify_rows_def)
  then obtain r0 where "r = (if od_id r0 = i then f r0 else r0)" by blast
  with assms(2,3) show ?thesis by (cases "od_id r0 = i") auto
qed

lemma resolve_refunded:
  assumes "\<And>r. r \<in> set (orders s) \<Longrightarrow> od_id r = oid \<Longrightarrow> od_status r = Refunded"
  shows "\<exists>e. resolvePreorderCancellation ov fb shop action oid s = (Inl e, s)"
proof (cases "List.find (\<lambda>r. od_id r = oid \<and> od_shop r = shop) (orders s)")
  case None
  then show ?thesis by (simp add: resolvePreorderCancellation_def resolve_preorder_tx_def transaction_def)
next
  case (Some r)
  with assms find_SomeD [OF Some] have "od_status r = Refunded" by auto
  with Some show ?thesis by (simp add: resolvePreorderCancellation_def resolve_preorder_tx_def transaction_def)
qed

lemma commission_refund_share:
  assumes "0 \<le> od_preorderFee ord" and "od_preorderFee ord \<le> od_totalSale ord"
    and "amount = (if full then od_totalSale ord else od_totalSale ord - od_preorderFee ord)"
  shows "commission_refund ord amount s = (if 0 < od_totalSale ord
    then min amount (to_fixed 2 (original_commission ord s * (amount / od_totalSale ord))) else 0)"
proof (cases "0 < od_totalSale ord")
  case True
  then have "amount / od_totalSale ord \<le> 1" using assms by simp
  then have "min 1 (amount / od_totalSale ord) = amount / od_totalSale ord" by (rule min_absorb2)
  with True show ?thesis by (simp add: commission_refund_def Let_def)
next
  case False
  with assms(1,2) have z: "od_totalSale ord = 0" by linarith
  with assms have "amount = 0" by simp
  with z show ?thesis by (simp add: commission_refund_def to_fixed_def)
qed

lemma commission_refund_full:
  assumes "connection_inv s" and "0 \<le> od_totalSale ord"
  shows "commission_refund ord (od_totalSale ord) s = min (od_totalSale ord) (original_commission ord s)"
  using assms(2) original_commission_fine [OF assms(1), of ord]
  by (auto simp: commission_refund_def Let_def to_fixed_grid max_def min_def)

text \<open>
  C5. Cancelling a paid pre-order gives the customer exactly the order's total when the seller
  cancels, and the total less the pre-order fee when the seller approves the customer's request.
  The refund goes to the two balances the order was paid from, split exactly: the commission
  balance gets the refunded part of what the original payment took from it, that payment times
  refund over total, rounded to hundredths and at most the refund, and the main balance gets the
  rest; when the seller cancels, all that was taken from the commission balance goes back there.
  No other wallet moves, the books stay reconciled, and whatever is asked for afterwards is
  refused and changes nothing.
\<close>

theorem preorder_cancellation_refunds_once:
  assumes "connection_inv s" and "distinct (map od_id (orders s))" and "order_at oid s = Some ord"
    and "cents (od_totalSale ord)" and "cents (od_preorderFee ord)" and "0 \<le> od_preorderFee ord"
    and "od_preorderFee ord \<le> od_totalSale ord"
    and "resolvePreorderCancellation ov fb shop action oid s = (Inr (), t)"
  shows "let w = wallet_or_new s (od_customer ord); w' = wallet_or_new t (od_customer ord);
      amount = (if action = SellerCancel then od_totalSale ord else od_totalSale ord - od_preorderFee ord);
      share = (if 0 < od_totalSale ord
        then min amount (to_fixed 2 (original_commission ord s * (amount / od_totalSale ord))) else 0)
    in cw_commission w' = cw_commission w + share
       \<and> cw_balance w' = cw_balance w + (amount - share)
       \<and> cw_balance w' + cw_commission w' = cw_balance w + cw_commission w + amount
       \<and> cw_balance w \<le> cw_balance w' \<and> cw_commission w \<le> cw_commission w'
       \<and> cw_commission w' \<le> cw_commission w + original_commission ord s
       \<and> (action = SellerCancel \<longrightarrow> cw_commission w' = cw_commission w + min (od_totalSale ord) (original_commission ord s))
       \<and> (\<forall>j. j = od_customer ord \<or> wallet_or_new t j = wallet_or_new s j) \<and> connection_inv t
       \<and> map_option (\<lambda>r. (od_status r, od_payment r, od_cancelRefund r)) (order_at oid t) = Some (Refunded, PayRefunded, amount)
       \<and> (\<forall>ov' fb' shop' action'. \<exists>e. resolvePreorderCancellation ov' fb' shop' action' oid t = (Inl e, t))"
proof -
  let ?amount = "if action = SellerCancel then od_totalSale ord else od_totalSale ord - od_preorderFee ord"
  have total: "0 \<le> od_totalSale ord" using assms(6,7) by linarith
  have amt: "refundAmount (calculatePreorderCancellationRefund (od_totalSale ord) (od_preorderFee ord) (action = SellerCancel)) = ?amount"
    using assms(6,7) total by (simp add: calculatePreorderCancellationRefund_def Let_def min_def)
  have fine: "0 \<le> ?amount" "cents ?amount" using assms(4-7) total by (auto intro: on_grid_diff)
  from assms(8) obtain o' s1 reason ev feeBack where o': "o' \<in> set (orders s)" "od_id o' = oid"
    and c: "creditPreorderRefund o' (refundAmount (calculatePreorderCancellationRefund (od_totalSale o') (od_preorderFee o')
           (action = SellerCancel))) (refund_ref action) (resolveUsdtVndRate ov fb) s = Inr s1"
    and t: "t = add_event oid ev (update_order oid (\<lambda>r. r\<lparr>od_status := Refunded, od_payment := PayRefunded,
           od_failureReason := reason, od_cancellation := (if action = SellerCancel then PcSellerCanceled else PcApproved),
           od_cancelRefund := toDecimal (refundAmount (calculatePreorderCancellationRefund (od_totalSale o') (od_preorderFee o')
             (action = SellerCancel))), od_cancelFeeRefund := feeBack\<rparr>) s1)"
    by (rule resolve_cases) blast
  have same: "o' = ord"
    using distinct_key_find [OF assms(2) o'(1)] assms(3) o'(2) by simp
  note R = credit_preorder_cases [OF assms(1) fine refund_ref_not_order c [unfolded same amt]]
  have w: "wallet_or_new t = wallet_or_new s1" by (simp add: t wallet_or_new_def fun_eq_iff)
  note cf = commission_refund_fine [OF assms(1) fine, of ord]
  let ?share = "if 0 < od_totalSale ord
    then min ?amount (to_fixed 2 (original_commission ord s * (?amount / od_totalSale ord))) else 0"
  have share: "commission_refund ord ?amount s = ?share"
    by (rule commission_refund_share [OF assms(6,7) refl])
  have full: "commission_refund ord ?amount s = min (od_totalSale ord) (original_commission ord s)" if "action = SellerCancel"
    using that commission_refund_full [OF assms(1) total] by simp
  have st: "map_option (\<lambda>r. (od_status r, od_payment r, od_cancelRefund r)) (order_at oid t) = Some (Refunded, PayRefunded, ?amount)"
    using assms(3) fine(2) by (simp add: t R(5) same amt toDecimal_cents)
  have "od_status r = Refunded" if "r \<in> set (orders t)" "od_id r = oid" for r
    using update_order_hit [of r] that unfolding t by fastforce
  note again = resolve_refunded [OF this]
  have inv: "connection_inv t" using R(1) by (simp add: t)
  show ?thesis
    unfolding Let_def w
  proof (intro conjI impI allI)
    show "cw_commission (wallet_or_new s1 (od_customer ord)) = cw_commission (wallet_or_new s (od_customer ord)) + ?share"
      using R(3) unfolding share .
    show "cw_balance (wallet_or_new s1 (od_customer ord)) = cw_balance (wallet_or_new s (od_customer ord)) + (?amount - ?share)"
      using R(2) unfolding share .
    show "cw_balance (wallet_or_new s1 (od_customer ord)) + cw_commission (wallet_or_new s1 (od_customer ord))
        = cw_balance (wallet_or_new s (od_customer ord)) + cw_commission (wallet_or_new s (od_customer ord)) + ?amount"
      using R(2,3) by linarith
    show "cw_balance (wallet_or_new s (od_customer ord)) \<le> cw_balance (wallet_or_new s1 (od_customer ord))"
      using R(2) cf(2) by linarith
    show "cw_commission (wallet_or_new s (od_customer ord)) \<le> cw_commission (wallet_or_new s1 (od_customer ord))"
      using R(3) cf(1) by linarith
    show "cw_commission (wallet_or_new s1 (od_customer ord)) \<le> cw_commission (wallet_or_new s (od_customer ord)) + original_commission ord s"
      using R(3) cf(4) by linarith
    show "cw_commission (wallet_or_new s1 (od_customer ord))
        = cw_commission (wallet_or_new s (od_customer ord)) + min (od_totalSale ord) (original_commission ord s)"
      if "action = SellerCancel" using R(3) full [OF that] by simp
    show "j = od_customer ord \<or> wallet_or_new s1 j = wallet_or_new s j" for j using R(4) by blast
  qed (rule inv st again)+
qed

definition demo_waiting :: order where
  "demo_waiting = (demo_sale ''o1'' 2 True 5)\<lparr>od_status := PaidWaitingStock, od_preorderFee := 6000, od_cancellation := PcRequested\<rparr>"

text \<open>
  The customer of the demo shop earned a commission of 20,000 and then paid the pre-order of
  60,000 from the wallet, the 20,000 from the commission balance first.
\<close>

definition demo_purse :: customer_wallet where
  "demo_purse = \<lparr>cw_balance = 110000, cw_commission = 20000, cw_usdt = 44 / 10\<rparr>"

definition demo_spent_purse :: customer_wallet where
  "demo_spent_purse = spent_wallet 25000 60000 demo_purse"

definition demo_earning :: customer_entry where
  "demo_earning = \<lparr>cl_customer = ''c1'', cl_type = CAffiliateCommission, cl_currency = VND, cl_amount = 20000,
     cl_before = 110000, cl_after = 110000, cl_commissionBefore = Some 0, cl_commissionAfter = Some 20000,
     cl_refType = ''order'', cl_refId = ''o0''\<rparr>"

definition demo_waiting_shop :: shop_db where
  "demo_waiting_shop = (write_wallet ''c1'' demo_spent_purse
     [demo_earning, spend_entry ''c1'' ''o1'' 60000 demo_purse demo_spent_purse] demo_paid_shop)\<lparr>orders := [demo_waiting]\<rparr>"

lemma demo_spent_purse_eq: "cw_balance demo_spent_purse = 70000" "cw_commission demo_spent_purse = 0"
  by (simp_all add: demo_spent_purse_def spent_wallet_def demo_purse_def splitWalletDebit_def toDecimal_cents Let_def)

lemma demo_purse_defs:
  "toDecimal (cw_balance demo_purse) = 110000" "toDecimal (cw_commission demo_purse) = 20000"
  by (simp_all add: demo_purse_def toDecimal_cents)

lemma demo_waiting_ledger:
  "customer_ledger demo_waiting_shop = paid_entries demo_topup new_wallet (44 / 10)
     @ [demo_earning, spend_entry ''c1'' ''o1'' 60000 demo_purse demo_spent_purse]"
  using demo_shop_ledger by (simp add: demo_waiting_shop_def demo_shop_def)

lemma demo_waiting_inv: "connection_inv demo_waiting_shop"
proof -
  have w: "wallet_or_new demo_paid_shop ''c1'' = \<lparr>cw_balance = 110000, cw_commission = 0, cw_usdt = 44 / 10\<rparr>"
    by (simp add: wallet_or_new_def demo_paid_shop_def)
  have "shop_inv (write_wallet ''c1'' demo_spent_purse
     [demo_earning, spend_entry ''c1'' ''o1'' 60000 demo_purse demo_spent_purse] demo_paid_shop)"
  proof (rule shop_inv_write)
    show "shop_inv demo_paid_shop" using demo_paid_connection_inv by (simp add: connection_inv_def)
    show "wallet_fine demo_spent_purse" by (simp add: wallet_fine_def demo_spent_purse_eq)
  qed (auto simp: demo_earning_def spend_entry_def main_delta_def commission_delta_def w demo_spent_purse_eq demo_purse_defs)
  then have "shop_inv demo_waiting_shop" by (simp add: demo_waiting_shop_def)
  moreover have "list_all spend_fine (customer_ledger demo_waiting_shop)"
    by (simp add: demo_waiting_ledger paid_entries_def topup_entry_def demo_earning_def spend_entry_def spend_fine_def
        row_main_def row_commission_def decimalToNumber_def demo_spent_purse_eq demo_purse_defs Let_def)
  moreover have "outstanding_ok demo_waiting_shop"
    by (simp add: outstanding_ok_def order_rows_def demo_waiting_ledger paid_entries_def topup_entry_def is_order_row_def
        demo_earning_def spend_entry_def Let_def)
  ultimately show ?thesis by (simp add: connection_inv_def)
qed

text \<open>
  The customer's request is approved: of 60,000 the fee of 6,000 is kept; nine tenths of the
  20,000 go back to the commission balance and 36,000 to the main balance.
\<close>

theorem preorder_cancellation_refunds_once_witness:
  "\<exists>t. resolvePreorderCancellation (Fin 25000) 26000 ''s1'' ApproveCustomerRequest ''o1'' demo_waiting_shop = (Inr (), t)
     \<and> cw_commission (wallet_or_new t ''c1'') = 18000 \<and> cw_balance (wallet_or_new t ''c1'') = 106000"
proof -
  have o: "order_at ''o1'' demo_waiting_shop = Some demo_waiting" by (simp add: demo_waiting_shop_def demo_waiting_def)
  have f: "od_shop demo_waiting = ''s1''" "od_id demo_waiting = ''o1''" "od_isPreorder demo_waiting = True"
    "od_status demo_waiting = PaidWaitingStock" "od_payment demo_waiting = PayPaid" "od_cancellation demo_waiting = PcRequested"
    "od_customer demo_waiting = ''c1''" "od_totalSale demo_waiting = 60000" "od_preorderFee demo_waiting = 6000"
    by (simp_all add: demo_waiting_def demo_sale_def)
  have nr: "\<not> list_ex (is_refund_row ref demo_waiting) (customer_ledger demo_waiting_shop)" for ref
    by (auto simp: demo_waiting_ledger paid_entries_def topup_entry_def is_refund_row_def demo_earning_def spend_entry_def Let_def)
  have oc: "original_commission demo_waiting demo_waiting_shop = 20000"
    by (simp add: original_commission_def original_spend_def demo_waiting_ledger paid_entries_def topup_entry_def
        is_order_row_def demo_earning_def spend_entry_def row_commission_def decimalToNumber_def f demo_spent_purse_eq demo_purse_defs Let_def)
  obtain s1 where s1: "creditPreorderRefund demo_waiting (refundAmount (calculatePreorderCancellationRefund 60000 6000 False))
      (refund_ref ApproveCustomerRequest) (resolveUsdtVndRate (Fin 25000) 26000) demo_waiting_shop = Inr s1"
    using nr by (simp add: creditPreorderRefund_def Let_def)
  have os: "orders demo_waiting_shop = [demo_waiting]" by (simp add: demo_waiting_shop_def)
  obtain t where t: "resolvePreorderCancellation (Fin 25000) 26000 ''s1'' ApproveCustomerRequest ''o1'' demo_waiting_shop = (Inr (), t)"
    using s1 by (simp add: resolvePreorderCancellation_def resolve_preorder_tx_def transaction_def os f Let_def)
  have w: "cw_balance (wallet_or_new demo_waiting_shop ''c1'') = 70000" "cw_commission (wallet_or_new demo_waiting_shop ''c1'') = 0"
    by (simp_all add: wallet_or_new_def demo_waiting_shop_def demo_spent_purse_eq)
  have share: "to_fixed 2 (20000 * (54000 / 60000)) = 18000"
    using to_fixed_grid [of 2 18000] by simp
  have d: "distinct (map od_id (orders demo_waiting_shop))" by (simp add: os)
  from preorder_cancellation_refunds_once [OF demo_waiting_inv d o _ _ _ _ t] share t show ?thesis
    by (auto simp: f w oc Let_def)
qed

end
